(* ===== verification/Prelude.thy ===== *)
theory Prelude
  imports Main "HOL-Library.Sublist" "HOL-Library.Word"
begin

text \<open>
  Shared vocabulary of the development: the outcome type of Go calls, the collections of
  simplification rules the component theories fill and use, generic lemmas on lists, and the
  interface that every state machine of the development implements.

  A Go call of the program either returns a value, returns an error, or panics (a failed index
  or a nil map write); \<open>result\<close> has one constructor for each, so that no branch of the source
  is lost in an unspecified HOL value.
\<close>

named_theorems go_simps "equations of the modelled Go standard library"
named_theorems api_simps "equations of the API types, the environment and the store"
named_theorems step_defs "definitions unfolded when a handler is executed symbolically"

section \<open>Outcomes of Go calls\<close>

datatype ('e, 'a) result = Ok 'a | Err 'e | Panic

fun bind_result :: "('e, 'a) result \<Rightarrow> ('a \<Rightarrow> ('e, 'b) result) \<Rightarrow> ('e, 'b) result" where
  "bind_result (Ok x) f = f x"
| "bind_result (Err e) f = Err e"
| "bind_result Panic f = Panic"

lemma pair_of_fst: "fst p = a \<Longrightarrow> p = (a, snd p)"
  by auto

lemma bind_result_Ok_iff:
  "bind_result r f = Ok y \<longleftrightarrow> (\<exists>x. r = Ok x \<and> f x = Ok y)"
  by (cases r) auto

lemma bind_result_assoc:
  "bind_result (bind_result r f) g = bind_result r (\<lambda>x. bind_result (f x) g)"
  by (cases r) auto

section \<open>Lists\<close>

lemma takeWhile_append_stop:
  "\<forall>x\<in>set xs. P x \<Longrightarrow> \<not> P y \<Longrightarrow> takeWhile P (xs @ y # ys) = xs"
  by (induction xs) auto

lemma dropWhile_append_stop:
  "\<forall>x\<in>set xs. P x \<Longrightarrow> \<not> P y \<Longrightarrow> dropWhile P (xs @ y # ys) = y # ys"
  by (induction xs) auto

lemma prefix_Cons_notin:
  "c \<notin> set xs \<Longrightarrow> xs \<noteq> [] \<Longrightarrow> \<not> prefix (c # p) (xs @ ys)"
  by (cases xs) auto

lemma prefix_drop_append [simp]: "prefix p s \<Longrightarrow> p @ drop (length p) s = s"
  by (auto simp: prefix_def)

lemma take_length_diff: "s = a @ b \<Longrightarrow> take (length s - length b) s = a"
  by simp

section \<open>State machines\<close>

text \<open>
  The interface of a state machine: an initial-state predicate and a step relation, and a
  state predicate that holds initially and that every step keeps. The only lemma a client needs
  is that the predicate then holds in every reachable state.
\<close>

inductive reach :: "('s \<Rightarrow> bool) \<Rightarrow> ('s \<Rightarrow> 's \<Rightarrow> bool) \<Rightarrow> 's \<Rightarrow> bool"
  for init step where
  reach_init: "init s \<Longrightarrow> reach init step s"
| reach_step: "reach init step s \<Longrightarrow> step s t \<Longrightarrow> reach init step t"

locale invariant_machine =
  fixes init :: "'s \<Rightarrow> bool"
    and step :: "'s \<Rightarrow> 's \<Rightarrow> bool"
    and inv :: "'s \<Rightarrow> bool"
  assumes inv_init: "init s \<Longrightarrow> inv s"
    and inv_step: "inv s \<Longrightarrow> step s t \<Longrightarrow> inv t"
begin

lemma inv_reachable: "reach init step s \<Longrightarrow> inv s"
  by (induction rule: reach.induct) (auto intro: inv_init inv_step)

end

end
