(* ===== verification/Go_Strings.thy ===== *)
theory Go_Strings
  imports Prelude
begin

text \<open>
  The parts of Go's \<^verbatim>\<open>strings\<close>, \<^verbatim>\<open>strconv\<close>, \<^verbatim>\<open>fmt\<close> and \<^verbatim>\<open>path/filepath\<close> packages the
  program uses. A Go string is a byte string, so \<open>string\<close> (a list of bytes) is exact for every
  operation here that compares or moves bytes. \<open>ToLower\<close>, \<open>Fields\<close> and \<open>TrimSpace\<close> treat
  the ASCII letters and the ASCII white space only; the bytes of a multi-byte character are
  left as they are. \<open>ReplaceAll\<close> and \<open>Split\<close> are stated for a non-empty pattern, which is
  the only way the program calls them.
\<close>

section \<open>strings\<close>

definition HasPrefix :: "string \<Rightarrow> string \<Rightarrow> bool" where
  "HasPrefix s p = prefix p s"

definition HasSuffix :: "string \<Rightarrow> string \<Rightarrow> bool" where
  "HasSuffix s p = suffix p s"

definition TrimPrefix :: "string \<Rightarrow> string \<Rightarrow> string" where
  "TrimPrefix s p = (if prefix p s then drop (length p) s else s)"

text \<open>\<^verbatim>\<open>strings.Index\<close>: the first occurrence; the result -1 of Go is \<open>None\<close>.\<close>

fun str_index :: "string \<Rightarrow> string \<Rightarrow> nat option" where
  "str_index [] sub = (if sub = [] then Some 0 else None)"
| "str_index (c # cs) sub =
     (if prefix sub (c # cs) then Some 0 else map_option Suc (str_index cs sub))"

definition Contains :: "string \<Rightarrow> string \<Rightarrow> bool" where
  "Contains s sub = (str_index s sub \<noteq> None)"

function ReplaceAll :: "string \<Rightarrow> string \<Rightarrow> string \<Rightarrow> string" where
  "ReplaceAll s old new =
     (if old = [] then s
      else case s of [] \<Rightarrow> []
        | c # cs \<Rightarrow>
            (if prefix old s then new @ ReplaceAll (drop (length old) s) old new
             else c # ReplaceAll cs old new))"
  by pat_completeness auto
termination
  by (relation "measure (\<lambda>(s, old, new). length s)") auto

declare ReplaceAll.simps [simp del]

text \<open>\<^verbatim>\<open>strings.Replace(s, old, new, 1)\<close>.\<close>

definition ReplaceFirst :: "string \<Rightarrow> string \<Rightarrow> string \<Rightarrow> string" where
  "ReplaceFirst s old new =
     (case str_index s old of None \<Rightarrow> s
      | Some i \<Rightarrow> take i s @ new @ drop (i + length old) s)"

function Split :: "string \<Rightarrow> string \<Rightarrow> string list" where
  "Split s sep =
     (if sep = [] then [s]
      else case str_index s sep of None \<Rightarrow> [s]
        | Some i \<Rightarrow> take i s # Split (drop (i + length sep) s) sep)"
  by pat_completeness auto

fun Join :: "string list \<Rightarrow> string \<Rightarrow> string" where
  "Join [] sep = []"
| "Join [x] sep = x"
| "Join (x # y # ys) sep = x @ sep @ Join (y # ys) sep"

definition lower_char :: "char \<Rightarrow> char" where
  "lower_char c = (let n = of_char c :: nat in
     if 65 \<le> n \<and> n \<le> 90 then char_of (n + 32) else c)"

definition ToLower :: "string \<Rightarrow> string" where
  "ToLower s = map lower_char s"

definition is_space :: "char \<Rightarrow> bool" where
  "is_space c = (c \<in> set [CHR '' '', CHR 0x09, CHR 0x0A, CHR 0x0B, CHR 0x0C, CHR 0x0D])"

function Fields :: "string \<Rightarrow> string list" where
  "Fields s =
     (case dropWhile is_space s of [] \<Rightarrow> []
      | c # cs \<Rightarrow> takeWhile (\<lambda>x. \<not> is_space x) (c # cs)
                  # Fields (dropWhile (\<lambda>x. \<not> is_space x) (c # cs)))"
  by pat_completeness auto

definition TrimSpace :: "string \<Rightarrow> string" where
  "TrimSpace s = rev (dropWhile is_space (rev (dropWhile is_space s)))"

section \<open>Reading lines\<close>

definition nl :: string where "nl = [CHR 0x0A]"

text \<open>
  \<^verbatim>\<open>ReadString('\n')\<close> of \<^verbatim>\<open>bytes.Buffer\<close> and \<^verbatim>\<open>bufio.Reader\<close>: the next line with its newline and
  the rest of the input, or \<open>None\<close> for \<^verbatim>\<open>io.EOF\<close> when no newline is left.
\<close>

definition ReadString :: "string \<Rightarrow> (string \<times> string) option" where
  "ReadString buf =
     (if CHR 0x0A \<in> set buf
      then Some (takeWhile (\<lambda>c. c \<noteq> CHR 0x0A) buf @ nl, tl (dropWhile (\<lambda>c. c \<noteq> CHR 0x0A) buf))
      else None)"

section \<open>strconv and fmt\<close>

definition is_digit :: "char \<Rightarrow> bool" where
  "is_digit c = (let n = of_char c :: nat in 48 \<le> n \<and> n \<le> 57)"

definition digit_val :: "char \<Rightarrow> nat" where
  "digit_val c = (of_char c :: nat) - 48"

fun digits_val :: "nat \<Rightarrow> string \<Rightarrow> nat" where
  "digits_val acc [] = acc"
| "digits_val acc (c # cs) = digits_val (10 * acc + digit_val c) cs"

datatype num_error = ErrSyntax | ErrRange

text \<open>
  \<^verbatim>\<open>strconv.Atoi\<close> on a 64-bit platform: an optional sign, at least one digit, digits only,
  and a value that fits \<^verbatim>\<open>int64\<close>.
\<close>

definition parse_digits :: "string \<Rightarrow> nat option" where
  "parse_digits s = (if s \<noteq> [] \<and> (\<forall>c\<in>set s. is_digit c) then Some (digits_val 0 s) else None)"

definition Atoi :: "string \<Rightarrow> num_error + int" where
  "Atoi s =
     (let neg = prefix ''-'' s;
          body = (if neg \<or> prefix ''+'' s then tl s else s)
      in case parse_digits body of
           None \<Rightarrow> Inl ErrSyntax
         | Some n \<Rightarrow>
             (let v = (if neg then - int n else int n)
              in if - (2 ^ 63) \<le> v \<and> v < 2 ^ 63 then Inr v else Inl ErrRange))"

fun show_nat :: "nat \<Rightarrow> string" where
  "show_nat n =
     (if n < 10 then [char_of (48 + n)]
      else show_nat (n div 10) @ [char_of (48 + n mod 10)])"

declare show_nat.simps [simp del]

text \<open>\<^verbatim>\<open>fmt.Sprintf("%d", i)\<close>.\<close>

definition show_int :: "int \<Rightarrow> string" where
  "show_int i = (if i < 0 then ''-'' @ show_nat (nat (- i)) else show_nat (nat i))"

section \<open>path/filepath\<close>

text \<open>
  \<^verbatim>\<open>filepath.Clean\<close>: the path elements are processed from left to right; empty elements and
  \<^verbatim>\<open>.\<close> are dropped, \<^verbatim>\<open>..\<close> removes the element before it when there is one that is not
  itself \<^verbatim>\<open>..\<close>, is dropped at the root, and is kept at the start of a relative path. The stack
  \<open>st\<close> holds the kept elements, last first.
\<close>

fun clean_elems :: "bool \<Rightarrow> string list \<Rightarrow> string list \<Rightarrow> string list" where
  "clean_elems rooted st [] = rev st"
| "clean_elems rooted st (e # es) =
     (if e = [] \<or> e = ''.'' then clean_elems rooted st es
      else if e = ''..'' then
        (case st of
           [] \<Rightarrow> (if rooted then clean_elems rooted [] es else clean_elems rooted [e] es)
         | t # ts \<Rightarrow> (if t = ''..'' then clean_elems rooted (e # st) es
                      else clean_elems rooted ts es))
      else clean_elems rooted (e # st) es)"

definition IsAbs :: "string \<Rightarrow> bool" where
  "IsAbs p = prefix ''/'' p"

definition Clean :: "string \<Rightarrow> string" where
  "Clean p =
     (let rooted = IsAbs p;
          body = Join (clean_elems rooted [] (Split p ''/'')) ''/''
      in if rooted then ''/'' @ body else if body = [] then ''.'' else body)"

text \<open>\<open>dir_part\<close> is the path up to and including its last slash.\<close>

definition dir_part :: "string \<Rightarrow> string" where
  "dir_part p = rev (dropWhile (\<lambda>c. c \<noteq> CHR ''/'') (rev p))"

definition Dir :: "string \<Rightarrow> string" where
  "Dir p = Clean (dir_part p)"

definition Base :: "string \<Rightarrow> string" where
  "Base p =
     (if p = [] then ''.''
      else let q = rev (dropWhile (\<lambda>c. c = CHR ''/'') (rev p));
               b = rev (takeWhile (\<lambda>c. c \<noteq> CHR ''/'') (rev q))
           in if b = [] then ''/'' else b)"

definition PathJoin :: "string list \<Rightarrow> string" where
  "PathJoin es =
     (case dropWhile (\<lambda>e. e = []) es of [] \<Rightarrow> [] | fs \<Rightarrow> Clean (Join fs ''/''))"

section \<open>Laws of the string operations\<close>

lemma str_index_Some:
  "str_index s sub = Some i \<Longrightarrow> i + length sub \<le> length s \<and> prefix sub (drop i s)"
  by (induction s arbitrary: i) (auto split: if_splits dest: prefix_length_le)

lemma str_index_split:
  "str_index s sub = Some i \<Longrightarrow> s = take i s @ sub @ drop (i + length sub) s"
  using str_index_Some[of s sub i]
  by (metis add.commute append_take_drop_id drop_drop prefix_drop_append)

lemma str_index_None: "str_index s sub = None \<Longrightarrow> \<not> prefix sub (drop k s)"
proof (induction s arbitrary: k)
  case Nil
  then show ?case by (auto split: if_splits)
next
  case (Cons c cs)
  then show ?case by (cases k) (auto split: if_splits)
qed

lemma str_index_first: "str_index s sub = Some i \<Longrightarrow> j < i \<Longrightarrow> \<not> prefix sub (drop j s)"
proof (induction s arbitrary: i j)
  case Nil
  then show ?case by (auto split: if_splits)
next
  case (Cons c cs)
  then show ?case by (cases j) (auto split: if_splits)
qed

termination Split
proof (relation "measure (\<lambda>(s, sep). length s)", goal_cases)
  case (2 s sep i)
  then show ?case using str_index_Some[of s sep i] by (cases sep) auto
qed simp

declare Split.simps [simp del]

termination Fields
proof (relation "measure length", goal_cases)
  case (2 s c cs)
  have "\<not> is_space c" using 2 by (metis dropWhile_eq_Cons_conv)
  moreover have "length (c # cs) \<le> length s" using 2 by (metis length_dropWhile_le)
  moreover have "length (dropWhile (\<lambda>x. \<not> is_space x) cs) \<le> length cs"
    by (rule length_dropWhile_le)
  ultimately show ?case by simp
qed simp

declare Fields.simps [simp del]

lemma Contains_iff: "Contains s sub \<longleftrightarrow> (\<exists>a b. s = a @ sub @ b)"
proof
  assume "Contains s sub"
  then obtain i where "str_index s sub = Some i" by (auto simp: Contains_def)
  then have "s = take i s @ sub @ drop (i + length sub) s" by (rule str_index_split)
  then show "\<exists>a b. s = a @ sub @ b" by blast
next
  assume "\<exists>a b. s = a @ sub @ b"
  then obtain a b where s: "s = a @ sub @ b" by blast
  then have "prefix sub (drop (length a) s)" by simp
  then show "Contains s sub" using str_index_None[of s sub "length a"] by (auto simp: Contains_def)
qed

lemma str_index_take: "str_index s sub = Some i \<Longrightarrow> take (i + length sub) s = take i s @ sub"
  using str_index_Some[of s sub i] by (auto simp: take_add prefix_def)

text \<open>The text before the first occurrence, and its overlap with the occurrence, holds no other one.\<close>

lemma str_index_least:
  assumes "str_index s sub = Some i" and "sub = p @ [c]"
  shows "\<not> Contains (take i s @ p) sub"
proof
  assume "Contains (take i s @ p) sub"
  then obtain a b where ab: "take i s @ p = a @ sub @ b" unfolding Contains_iff by blast
  have len: "length (take i s) = i" using str_index_Some[OF assms(1)] by simp
  have "length a < i" using arg_cong[OF ab, of length] len assms(2) by simp
  moreover have "s = (take i s @ p) @ c # drop (i + length sub) s"
    using str_index_split[OF assms(1)] assms(2) by simp
  then have "s = a @ sub @ b @ c # drop (i + length sub) s" unfolding ab by simp
  then have "prefix sub (drop (length a) s)" by (metis append_eq_conv_conj prefixI)
  ultimately show False using str_index_first[OF assms(1)] by blast
qed

lemma str_index_append_notin:
  assumes "c \<notin> set a"
  shows "str_index (a @ s) (c # p) = map_option (\<lambda>n. length a + n) (str_index s (c # p))"
  using assms by (cases "str_index s (c # p)"; induction a) auto

lemma ReadString_shorter: "ReadString buf = Some (line, rest) \<Longrightarrow> length rest < length buf"
  using length_dropWhile_le[of "\<lambda>c. c \<noteq> CHR 0x0A" buf]
  by (cases "dropWhile (\<lambda>c. c \<noteq> CHR 0x0A) buf") (auto simp: ReadString_def split: if_splits)

lemma nl_notin [simp]: "c \<notin> set nl \<longleftrightarrow> c \<noteq> CHR 0x0A"
  by (simp add: nl_def)

subsection \<open>ReplaceAll\<close>

lemma ReplaceAll_Nil [simp]: "old \<noteq> [] \<Longrightarrow> ReplaceAll [] old new = []"
  by (subst ReplaceAll.simps) simp

lemma ReplaceAll_hit:
  "old \<noteq> [] \<Longrightarrow> ReplaceAll (old @ s) old new = new @ ReplaceAll s old new"
  by (cases old) (simp_all add: ReplaceAll.simps[of "_ # _"])

lemma ReplaceAll_miss:
  "old \<noteq> [] \<Longrightarrow> \<not> prefix old (c # s) \<Longrightarrow>
   ReplaceAll (c # s) old new = c # ReplaceAll s old new"
  by (subst ReplaceAll.simps) simp

lemma ReplaceAll_skip:
  assumes "c \<notin> set a"
  shows "ReplaceAll (a @ s) (c # p) new = a @ ReplaceAll s (c # p) new"
  using assms by (induction a) (auto simp: ReplaceAll_miss)

lemma ReplaceAll_notin:
  assumes "c \<notin> set s"
  shows "ReplaceAll s (c # p) new = s"
  using ReplaceAll_skip[of c s "[]" p new] assms by simp

lemma ReplaceAll_no_occurrence:
  "\<not> Contains s old \<Longrightarrow> ReplaceAll s old new = s"
proof (induction s old new rule: ReplaceAll.induct)
  case (1 s old new)
  show ?case
  proof (cases s)
    case Nil
    then show ?thesis by (subst ReplaceAll.simps) simp
  next
    case (Cons c cs)
    with "1.prems" have old: "old \<noteq> []" and np: "\<not> prefix old s" and nc: "\<not> Contains cs old"
      by (auto simp: Contains_def split: if_splits)
    have "ReplaceAll cs old new = cs" using "1.IH"(2)[OF old Cons np nc] .
    then show ?thesis using Cons old np by (simp add: ReplaceAll_miss)
  qed
qed

subsection \<open>Split and Join\<close>

lemma Split_neq_Nil [simp]: "Split s sep \<noteq> []"
  by (subst Split.simps) (simp split: option.split)

lemma Join_Cons: "ys \<noteq> [] \<Longrightarrow> Join (x # ys) sep = x @ sep @ Join ys sep"
  by (cases ys) auto

text \<open>Splitting a string and joining the parts with the same separator gives it back.\<close>

lemma Join_Split [simp]: "sep \<noteq> [] \<Longrightarrow> Join (Split s sep) sep = s"
proof (induction s sep rule: Split.induct)
  case (1 s sep)
  show ?case
  proof (cases "str_index s sep")
    case None
    then show ?thesis by (subst Split.simps) simp
  next
    case (Some i)
    then have "Join (Split s sep) sep = take i s @ sep @ Join (Split (drop (i + length sep) s) sep) sep"
      using "1.prems" by (subst Split.simps) (simp add: Join_Cons)
    also have "\<dots> = take i s @ sep @ drop (i + length sep) s"
      using "1.IH"[OF "1.prems" Some] "1.prems" by simp
    also have "\<dots> = s" using str_index_split[OF Some] by simp
    finally show ?thesis .
  qed
qed

lemma Split_notin: "c \<notin> set s \<Longrightarrow> Split s [c] = [s]"
  using str_index_append_notin[of c s "[]" "[]"]
  by (subst Split.simps) simp

lemma Split_step: "c \<notin> set x \<Longrightarrow> Split (x @ c # s) [c] = x # Split s [c]"
  using str_index_append_notin[of c x "c # s" "[]"]
  by (subst Split.simps) simp

text \<open>The parts of a split at one byte do not contain it, and joining then splitting is exact.\<close>

lemma Split_parts_notin: "x \<in> set (Split s [c]) \<Longrightarrow> c \<notin> set x"
proof (induction s "[c]" rule: Split.induct)
  case (1 s)
  show ?case
  proof (cases "str_index s [c]")
    case None
    then have "c \<notin> set s" using Contains_iff[of s "[c]"] by (auto simp: Contains_def in_set_conv_decomp)
    then show ?thesis using "1.prems" by (simp add: Split_notin)
  next
    case (Some i)
    have "c \<notin> set (take i s)"
    proof
      assume "c \<in> set (take i s)"
      then obtain j where j: "j < i" "j < length s" "s ! j = c"
        by (auto simp: in_set_conv_nth)
      then have "prefix [c] (drop j s)" by (metis Cons_nth_drop_Suc Cons_prefix_Cons Nil_prefix)
      then show False using str_index_first[OF Some j(1)] by simp
    qed
    moreover have "Split s [c] = take i s # Split (drop (i + length [c]) s) [c]"
      using Some by (subst Split.simps) simp
    ultimately show ?thesis using "1.hyps"[OF _ Some] "1.prems" by auto
  qed
qed

lemma Split_Join:
  "xs \<noteq> [] \<Longrightarrow> \<forall>x\<in>set xs. c \<notin> set x \<Longrightarrow> Split (Join xs [c]) [c] = xs"
  by (induction xs "[c]" rule: Join.induct) (auto simp: Split_notin Split_step)

subsection \<open>Decimal numbers\<close>

lemma is_digit_char_of [simp]: "n < 10 \<Longrightarrow> is_digit (char_of (48 + n :: nat))"
  by (simp add: is_digit_def Let_def)

lemma digit_val_char_of [simp]: "n < 10 \<Longrightarrow> digit_val (char_of (48 + n :: nat)) = n"
  by (simp add: digit_val_def)

lemma digits_val_append: "digits_val acc (xs @ ys) = digits_val (digits_val acc xs) ys"
  by (induction xs arbitrary: acc) auto

lemma digit_val_less: "is_digit c \<Longrightarrow> digit_val c < 10"
  by (auto simp: is_digit_def digit_val_def Let_def)

lemma digits_val_less:
  "\<forall>c\<in>set s. is_digit c \<Longrightarrow> digits_val acc s < (acc + 1) * 10 ^ length s"
proof (induction s arbitrary: acc)
  case Nil
  then show ?case by simp
next
  case (Cons c s)
  then have "digit_val c < 10" by (simp add: digit_val_less)
  then have "(10 * acc + digit_val c + 1) \<le> (acc + 1) * 10" by simp
  then have le: "(10 * acc + digit_val c + 1) * 10 ^ length s \<le> (acc + 1) * 10 * 10 ^ length s"
    by (rule mult_right_mono) simp
  have "digits_val acc (c # s) < (10 * acc + digit_val c + 1) * 10 ^ length s"
    using Cons by simp
  also note le
  finally show ?case by (simp only: length_Cons power_Suc mult.assoc)
qed

lemma show_nat_digits: "\<forall>c\<in>set (show_nat n). is_digit c"
proof (induction n rule: show_nat.induct)
  case (1 n)
  then show ?case by (subst show_nat.simps) auto
qed

lemma show_nat_neq_Nil [simp]: "show_nat n \<noteq> []"
  by (subst show_nat.simps) simp

lemma digits_val_show_nat: "digits_val 0 (show_nat n) = n"
proof (induction n rule: show_nat.induct)
  case (1 n)
  then show ?case by (subst show_nat.simps) (simp add: digits_val_append)
qed

lemma parse_digits_show_nat [simp]: "parse_digits (show_nat n) = Some n"
  by (simp add: parse_digits_def show_nat_digits digits_val_show_nat)

lemma show_nat_inject [simp]: "show_nat m = show_nat n \<longleftrightarrow> m = n"
  using digits_val_show_nat by metis

lemma not_digit_minus [simp]: "\<not> is_digit CHR ''-''" "\<not> is_digit CHR ''+''" "\<not> is_digit CHR 0x0A"
  by (simp_all add: is_digit_def)

lemma Atoi_digits:
  assumes "s \<noteq> []" and "\<forall>c\<in>set s. is_digit c"
  shows "Atoi s = (if digits_val 0 s < 2 ^ 63 then Inr (int (digits_val 0 s)) else Inl ErrRange)"
proof -
  have "\<not> prefix ''-'' s" "\<not> prefix ''+'' s" using assms by (cases s; auto)+
  then show ?thesis using assms by (auto simp: Atoi_def parse_digits_def Let_def)
qed

text \<open>Printing an \<^verbatim>\<open>int64\<close> and parsing it with \<^verbatim>\<open>Atoi\<close> is the identity.\<close>

lemma Atoi_show_int:
  assumes "- (2 ^ 63) \<le> i" and "i < 2 ^ 63"
  shows "Atoi (show_int i) = Inr i"
proof (cases "i < 0")
  case True
  then show ?thesis using assms by (simp add: Atoi_def show_int_def Let_def)
next
  case False
  have "Atoi (show_nat (nat i)) = Inr i"
    using assms False by (subst Atoi_digits) (auto simp: show_nat_digits digits_val_show_nat)
  then show ?thesis using False by (simp add: show_int_def)
qed

end
