(* ===== verification/Go_Regexp.thy ===== *)
theory Go_Regexp
  imports Go_Strings
begin

text \<open>
  The fragment of Go's \<^verbatim>\<open>regexp\<close> package the program uses: literals, greedy repetitions of a
  character class with bounds, end of text, concatenation, alternation and capture groups.
  \<open>rmatch r s\<close> lists all ways \<open>r\<close> can match a prefix of \<open>s\<close>, in the order of preference of the
  leftmost-first semantics (a greedy repetition tries the longest run first, an alternation its
  left branch first); each entry holds the captured groups and the rest of the input.
  \<open>FindStringSubmatch\<close> takes the first entry at the leftmost position that has one.
\<close>

datatype re =
    Lit string
  | Rep "char \<Rightarrow> bool" nat "nat option"
  | Eot
  | Cat re re
  | Alt re re
  | Cap re

definition rep_max :: "nat option \<Rightarrow> nat \<Rightarrow> nat" where
  "rep_max hi n = (case hi of None \<Rightarrow> n | Some h \<Rightarrow> min n h)"

fun rmatch :: "re \<Rightarrow> string \<Rightarrow> (string list \<times> string) list" where
  "rmatch (Lit l) s = (if prefix l s then [([], drop (length l) s)] else [])"
| "rmatch (Rep p lo hi) s =
     map (\<lambda>k. ([], drop k s)) (rev [lo..<Suc (rep_max hi (length (takeWhile p s)))])"
| "rmatch Eot s = (if s = [] then [([], [])] else [])"
| "rmatch (Cat a b) s =
     concat (map (\<lambda>(c, t). map (\<lambda>(c', u). (c @ c', u)) (rmatch b t)) (rmatch a s))"
| "rmatch (Alt a b) s = rmatch a s @ rmatch b s"
| "rmatch (Cap r) s = map (\<lambda>(c, t). (take (length s - length t) s # c, t)) (rmatch r s)"

fun FindStringSubmatch :: "re \<Rightarrow> string \<Rightarrow> string list option" where
  "FindStringSubmatch r [] =
     (case rmatch r [] of [] \<Rightarrow> None | (c, t) # _ \<Rightarrow> Some ([] # c))"
| "FindStringSubmatch r (x # s) =
     (case rmatch r (x # s) of
        (c, t) # _ \<Rightarrow> Some (take (length (x # s) - length t) (x # s) # c)
      | [] \<Rightarrow> FindStringSubmatch r s)"

definition MatchString :: "re \<Rightarrow> string \<Rightarrow> bool" where
  "MatchString r s = (FindStringSubmatch r s \<noteq> None)"

text \<open>The character classes: \<^verbatim>\<open>.\<close> is any character but a newline.\<close>

definition dot :: "char \<Rightarrow> bool" where
  "dot c = (c \<noteq> CHR 0x0A)"

section \<open>What the matches are\<close>

lemma in_rmatch_Lit:
  "(c, t) \<in> set (rmatch (Lit l) s) \<longleftrightarrow> c = [] \<and> s = l @ t"
  by (auto simp: prefix_def)

lemma in_rmatch_Rep:
  "(c, t) \<in> set (rmatch (Rep p lo hi) s) \<longleftrightarrow>
   c = [] \<and> (\<exists>u. s = u @ t \<and> (\<forall>x\<in>set u. p x) \<and> lo \<le> length u \<and> length u \<le> rep_max hi (length u))"
  (is "?L \<longleftrightarrow> ?R")
proof
  assume ?L
  then obtain k where k: "lo \<le> k" "k \<le> rep_max hi (length (takeWhile p s))" "t = drop k s" "c = []"
    by auto
  then have kt: "k \<le> length (takeWhile p s)" "k \<le> rep_max hi k"
    by (auto simp: rep_max_def split: option.splits)
  have "take k s = take k (takeWhile p s)"
    using kt(1) by (metis append_eq_conv_conj takeWhile_eq_take min_absorb1 take_take)
  then have "\<forall>x\<in>set (take k s). p x" by (auto dest: in_set_takeD set_takeWhileD)
  moreover have "length (take k s) = k"
    using kt(1) length_takeWhile_le[of p s] by simp
  ultimately show ?R using k kt by (metis append_take_drop_id)
next
  assume ?R
  then obtain u where u: "c = []" "s = u @ t" "\<forall>x\<in>set u. p x" "lo \<le> length u"
      "length u \<le> rep_max hi (length u)" by blast
  have "length u \<le> length (takeWhile p s)"
    using u(2,3) by (simp add: takeWhile_append2)
  then have "length u \<le> rep_max hi (length (takeWhile p s))"
    using u(5) by (auto simp: rep_max_def split: option.splits)
  then have "length u \<in> set (rev [lo..<Suc (rep_max hi (length (takeWhile p s)))])"
    using u(4) by (auto simp only: set_rev set_upt atLeastLessThan_iff less_Suc_eq_le)
  moreover have "(c, t) = ([], drop (length u) s)" using u by simp
  ultimately show ?L unfolding rmatch.simps by (metis (no_types, lifting) image_eqI list.set_map)
qed

lemma in_rmatch_Eot: "(c, t) \<in> set (rmatch Eot s) \<longleftrightarrow> c = [] \<and> s = [] \<and> t = []"
  by auto

lemma in_rmatch_Cat:
  "(c, u) \<in> set (rmatch (Cat a b) s) \<longleftrightarrow>
   (\<exists>c1 c2 t. c = c1 @ c2 \<and> (c1, t) \<in> set (rmatch a s) \<and> (c2, u) \<in> set (rmatch b t))"
  unfolding rmatch.simps set_concat set_map UN_iff image_iff by (fastforce split: prod.splits)

lemma in_rmatch_Alt:
  "(c, t) \<in> set (rmatch (Alt a b) s) \<longleftrightarrow>
   (c, t) \<in> set (rmatch a s) \<or> (c, t) \<in> set (rmatch b s)"
  by simp

lemma rmatch_rest: "(c, t) \<in> set (rmatch r s) \<Longrightarrow> \<exists>u. s = u @ t"
proof (induction r arbitrary: s c t)
  case (Rep p lo hi)
  then show ?case unfolding in_rmatch_Rep by blast
next
  case (Cat a b)
  then obtain c1 c2 t' where "(c1, t') \<in> set (rmatch a s)" "(c2, t) \<in> set (rmatch b t')"
    by (auto simp: in_rmatch_Cat simp del: rmatch.simps)
  with Cat.IH obtain u v where "s = u @ t'" "t' = v @ t" by blast
  then show ?case by simp
qed (auto simp: prefix_def)

lemma in_rmatch_Cap:
  "(c, t) \<in> set (rmatch (Cap r) s) \<longleftrightarrow>
   (\<exists>u c'. c = u # c' \<and> s = u @ t \<and> (c', t) \<in> set (rmatch r s))"
  (is "?L \<longleftrightarrow> ?R")
proof
  assume ?L
  then obtain c' where c': "c = take (length s - length t) s # c'" "(c', t) \<in> set (rmatch r s)" by auto
  moreover obtain u where "s = u @ t" using rmatch_rest[OF c'(2)] by blast
  ultimately show ?R by auto
next
  assume ?R
  then show ?L by (force simp: image_iff)
qed

lemmas in_rmatch = in_rmatch_Lit in_rmatch_Rep in_rmatch_Eot in_rmatch_Cat in_rmatch_Alt in_rmatch_Cap

section \<open>Searching\<close>

lemma FindStringSubmatch_Some:
  "FindStringSubmatch r s = Some m \<Longrightarrow>
   \<exists>pre u t c. s = pre @ u @ t \<and> (c, t) \<in> set (rmatch r (u @ t)) \<and> m = u # c"
proof (induction s)
  case Nil
  then obtain c t rest where ms: "rmatch r [] = (c, t) # rest" and m: "m = [] # c"
    by (auto split: list.splits)
  then have "(c, t) \<in> set (rmatch r [])" by simp
  then have "t = []" and "(c, []) \<in> set (rmatch r [])" using rmatch_rest by fastforce+
  then show ?case using m by auto
next
  case (Cons x s)
  show ?case
  proof (cases "rmatch r (x # s)")
    case Nil
    with Cons obtain pre u t c where "s = pre @ u @ t" "(c, t) \<in> set (rmatch r (u @ t))" "m = u # c"
      by auto
    then have "x # s = (x # pre) @ u @ t \<and> (c, t) \<in> set (rmatch r (u @ t)) \<and> m = u # c" by simp
    then show ?thesis by blast
  next
    case ms: (Cons ct cts)
    obtain c t where ct: "ct = (c, t)" by (cases ct)
    then have mem: "(c, t) \<in> set (rmatch r (x # s))" using ms by simp
    then obtain u where u: "x # s = u @ t" using rmatch_rest by blast
    have "take (length (x # s) - length t) (x # s) = u" by (rule take_length_diff[OF u])
    then have "m = u # c" using Cons.prems ms ct by (simp del: rmatch.simps take_Cons')
    then have "x # s = [] @ u @ t \<and> (c, t) \<in> set (rmatch r (u @ t)) \<and> m = u # c"
      using u mem by simp
    then show ?thesis by blast
  qed
qed

lemma FindStringSubmatch_None_iff:
  "FindStringSubmatch r s = None \<longleftrightarrow> (\<forall>pre t. s = pre @ t \<longrightarrow> rmatch r t = [])"
proof (induction s)
  case Nil
  then show ?case by (auto split: list.splits)
next
  case (Cons x s)
  show ?case
  proof (cases "rmatch r (x # s)")
    case Nil
    then show ?thesis using Cons by (auto simp: Cons_eq_append_conv)
  next
    case (Cons ct cts)
    then show ?thesis by (force split: prod.splits)
  qed
qed

lemma MatchString_iff: "MatchString r s \<longleftrightarrow> (\<exists>pre t. s = pre @ t \<and> rmatch r t \<noteq> [])"
  by (auto simp: MatchString_def FindStringSubmatch_None_iff)

lemma rmatch_Lit_Cat: "rmatch (Cat (Lit l) r) s = (if prefix l s then rmatch r (drop (length l) s) else [])"
  by (auto simp: map_idI)

text \<open>A pattern that starts with a literal does not match where the literal's first byte is missing.\<close>

lemma FindStringSubmatch_Lit_notin:
  "x \<notin> set s \<Longrightarrow> FindStringSubmatch (Cat (Lit (x # l)) r) s = None"
  by (auto simp: FindStringSubmatch_None_iff rmatch_Lit_Cat prefix_def simp del: rmatch.simps)

lemma FindStringSubmatch_skip:
  "x \<notin> set a \<Longrightarrow>
   FindStringSubmatch (Cat (Lit (x # l)) r) (a @ s) = FindStringSubmatch (Cat (Lit (x # l)) r) s"
  by (induction a) (auto simp: rmatch_Lit_Cat simp del: rmatch.simps)

text \<open>A greedy repetition at the end of a pattern captures the whole run of its class.\<close>

lemma rmatch_Cap_Rep_greedy:
  assumes "lo \<le> length (takeWhile p s)"
  shows "\<exists>rest. rmatch (Cap (Rep p lo None)) s = ([takeWhile p s], dropWhile p s) # rest"
proof -
  let ?n = "length (takeWhile p s)"
  have "rev [lo..<Suc ?n] = ?n # rev [lo..<?n]" using assms by simp
  moreover have "drop ?n s = dropWhile p s" by (metis dropWhile_eq_drop)
  moreover have "take (length s - length (dropWhile p s)) s = takeWhile p s"
    by (metis take_length_diff takeWhile_dropWhile_id)
  ultimately show ?thesis by (simp add: rep_max_def)
qed

lemma FindStringSubmatch_Lit_run:
  assumes "x \<notin> set a" and "lo \<le> length (takeWhile p s)"
  shows "FindStringSubmatch (Cat (Lit (x # l)) (Cap (Rep p lo None))) (a @ (x # l) @ s) =
         Some [(x # l) @ takeWhile p s, takeWhile p s]"
proof -
  obtain rest where "rmatch (Cap (Rep p lo None)) s = ([takeWhile p s], dropWhile p s) # rest"
    using rmatch_Cap_Rep_greedy[OF assms(2)] by blast
  then have "rmatch (Cat (Lit (x # l)) (Cap (Rep p lo None))) (x # l @ s) =
             ([takeWhile p s], dropWhile p s) # rest"
    by (simp add: rmatch_Lit_Cat del: rmatch.simps)
  moreover have "take (length (x # l @ s) - length (dropWhile p s)) (x # l @ s) = x # l @ takeWhile p s"
    by (rule take_length_diff) simp
  ultimately show ?thesis
    unfolding FindStringSubmatch_skip[OF assms(1)] by (simp del: rmatch.simps take_Cons')
qed

end
