(* ===== verification/Dm_Types.thy ===== *)
theory Dm_Types
  imports Go_Strings
begin

text \<open>
  The API objects the program reads and writes (the fields it touches of \<^verbatim>\<open>NnfDataMovement\<close>,
  \<^verbatim>\<open>NnfDataMovementProfile\<close>, \<^verbatim>\<open>NnfStorage\<close>, \<^verbatim>\<open>NnfNodeStorage\<close> and \<^verbatim>\<open>Pod\<close>), the error values it
  passes around (Kubernetes API errors, plain and wrapped errors, and the \<^verbatim>\<open>ResourceErrorInfo\<close> of
  the DWS API), and \<open>env\<close>: everything a call reaches outside the process.

  \<open>env\<close> is the parameter of the model for the code that is not under \<^verbatim>\<open>src/\<close>: the API server behind
  the client, the shell and the commands it runs, the file system, the clock and the process
  environment. \<open>'w\<close> is the state of that outside world; a read depends on it, a write or a command
  returns a new one. \<^verbatim>\<open>spec.source\<close> and \<^verbatim>\<open>spec.destination\<close> are pointers in the API type that the
  program dereferences without a check; the model holds objects for which both are set.
\<close>

section \<open>Errors\<close>

datatype api_reason = NotFound | Conflict | NoMatch | OtherReason

datatype ResourceErrorSeverity = SeverityMinor | SeverityMajor | SeverityFatal

datatype ResourceErrorType = TypeInternal | TypeWLM | TypeUser

record ResourceErrorInfo =
  UserMessage :: string
  DebugMessage :: string
  ErrType :: ResourceErrorType
  Severity :: ResourceErrorSeverity

datatype goerr =
    ApiErr api_reason string
  | PlainErr string
  | InvalidErr string
  | WrapErr string goerr string
  | ResErr ResourceErrorInfo

type_synonym 'a res = "(goerr, 'a) result"

fun type_string :: "ResourceErrorType \<Rightarrow> string" where
  "type_string TypeInternal = ''Internal''"
| "type_string TypeWLM = ''WLM''"
| "type_string TypeUser = ''User''"

definition ResourceErrorInfo_Error :: "ResourceErrorInfo \<Rightarrow> string" where
  "ResourceErrorInfo_Error e =
     (let message = (if DebugMessage e = [] then UserMessage e else DebugMessage e)
      in ToLower (type_string (ErrType e)) @ '' error: '' @ message)"

text \<open>
  \<open>WrapErr a e b\<close> is \<^verbatim>\<open>fmt.Errorf\<close> with a \<^verbatim>\<open>%w\<close> verb: the texts before and after it and the
  wrapped error. The Kubernetes predicates see through it, as \<^verbatim>\<open>errors.As\<close> does.
\<close>

fun Error :: "goerr \<Rightarrow> string" where
  "Error (ApiErr r m) = m"
| "Error (PlainErr m) = m"
| "Error (InvalidErr m) = m"
| "Error (WrapErr a e b) = a @ Error e @ b"
| "Error (ResErr i) = ResourceErrorInfo_Error i"

fun has_reason :: "api_reason \<Rightarrow> goerr \<Rightarrow> bool" where
  "has_reason r (ApiErr q m) = (q = r)"
| "has_reason r (WrapErr a e b) = has_reason r e"
| "has_reason r (PlainErr m) = False"
| "has_reason r (InvalidErr m) = False"
| "has_reason r (ResErr i) = False"

abbreviation IsNotFound :: "goerr \<Rightarrow> bool" where
  "IsNotFound \<equiv> has_reason NotFound"

abbreviation IsConflict :: "goerr \<Rightarrow> bool" where
  "IsConflict \<equiv> has_reason Conflict"

abbreviation IsNoMatchError :: "goerr \<Rightarrow> bool" where
  "IsNoMatchError \<equiv> has_reason NoMatch"

text \<open>\<^verbatim>\<open>client.IgnoreNotFound\<close>.\<close>

definition IgnoreNotFound :: "goerr \<Rightarrow> goerr option" where
  "IgnoreNotFound e = (if IsNotFound e then None else Some e)"

subsection \<open>Resource errors of the DWS API\<close>

definition NewResourceError :: "string \<Rightarrow> ResourceErrorInfo" where
  "NewResourceError msg =
     \<lparr>UserMessage = [], DebugMessage = msg, ErrType = TypeInternal, Severity = SeverityMinor\<rparr>"

definition WithUserMessage :: "string \<Rightarrow> ResourceErrorInfo \<Rightarrow> ResourceErrorInfo" where
  "WithUserMessage msg e = (if UserMessage e = [] then e\<lparr>UserMessage := msg\<rparr> else e)"

definition WithError :: "goerr \<Rightarrow> ResourceErrorInfo \<Rightarrow> ResourceErrorInfo" where
  "WithError err e =
     (let msgs = (if DebugMessage e = [] then [] else [DebugMessage e])
      in case err of
           ResErr child \<Rightarrow>
             e\<lparr>Severity := Severity child, UserMessage := UserMessage child, ErrType := ErrType child,
               DebugMessage := Join (msgs @ [if DebugMessage child = [] then UserMessage child
                                             else DebugMessage child]) '': ''\<rparr>
         | _ \<Rightarrow> e\<lparr>DebugMessage := Join (msgs @ [Error err]) '': ''\<rparr>)"

definition WithFatal :: "ResourceErrorInfo \<Rightarrow> ResourceErrorInfo" where
  "WithFatal e = e\<lparr>Severity := SeverityFatal\<rparr>"

definition WithMajor :: "ResourceErrorInfo \<Rightarrow> ResourceErrorInfo" where
  "WithMajor e = (if Severity e \<noteq> SeverityFatal then e\<lparr>Severity := SeverityMajor\<rparr> else e)"

text \<open>The \<^verbatim>\<open>Error\<close> field \<^verbatim>\<open>SetResourceErrorAndLog\<close> stores for an error that is not nil.\<close>

definition SetResourceError :: "goerr \<Rightarrow> ResourceErrorInfo option" where
  "SetResourceError err = Some (WithError err (NewResourceError []))"

section \<open>API objects\<close>

type_synonym time = int

record ObjectReference =
  ref_Kind :: string
  ref_Name :: string
  ref_Namespace :: string

record NnfDataMovementSpecSourceDestination =
  Path :: string
  StorageReference :: ObjectReference

record NnfDataMovementConfig =
  Dryrun :: bool
  MpirunOptions :: string
  DcpOptions :: string
  LogStdout :: bool
  StoreStdout :: bool
  Slots :: "int option"
  MaxSlots :: "int option"

record NnfDataMovementSpec =
  Source :: NnfDataMovementSpecSourceDestination
  Destination :: NnfDataMovementSpecSourceDestination
  UserId :: "32 word"
  GroupId :: "32 word"
  Cancel :: bool
  ProfileReference :: ObjectReference
  UserConfig :: "NnfDataMovementConfig option"

record NnfDataMovementCommandStatus =
  Command :: string
  ElapsedTime :: int
  ProgressPercentage :: "32 word option"
  LastMessage :: string
  LastMessageTime :: "time option"
  Seconds :: string
  Items :: "32 word option"
  Directories :: "32 word option"
  Files :: "32 word option"
  Links :: "32 word option"
  Data :: string
  Rate :: string

definition empty_CommandStatus :: NnfDataMovementCommandStatus where
  "empty_CommandStatus =
     \<lparr>Command = [], ElapsedTime = 0, ProgressPercentage = None, LastMessage = [],
      LastMessageTime = None, Seconds = [], Items = None, Directories = None, Files = None,
      Links = None, Data = [], Rate = []\<rparr>"

record NnfDataMovementStatus =
  State :: string
  Status :: string
  Message :: string
  StartTime :: "time option"
  EndTime :: "time option"
  Restarts :: int
  CommandStatus :: "NnfDataMovementCommandStatus option"
  ErrorInfo :: "ResourceErrorInfo option"

record NnfDataMovement =
  dm_Name :: string
  dm_Namespace :: string
  dm_Labels :: "(string \<times> string) list"
  dm_Finalizers :: "string list"
  dm_DeletionTimestamp :: "time option"
  dm_ResourceVersion :: nat
  dm_Spec :: NnfDataMovementSpec
  dm_Status :: NnfDataMovementStatus

definition TypeStarting :: string where "TypeStarting = ''Starting''"
definition TypeRunning :: string where "TypeRunning = ''Running''"
definition TypeFinished :: string where "TypeFinished = ''Finished''"

definition ReasonSuccess :: string where "ReasonSuccess = ''Success''"
definition ReasonFailed :: string where "ReasonFailed = ''Failed''"
definition ReasonInvalid :: string where "ReasonInvalid = ''Invalid''"
definition ReasonCancelled :: string where "ReasonCancelled = ''Cancelled''"

lemmas condition_defs [api_simps] =
  TypeStarting_def TypeRunning_def TypeFinished_def
  ReasonSuccess_def ReasonFailed_def ReasonInvalid_def ReasonCancelled_def

definition DataMovementNamespace :: string where
  "DataMovementNamespace = ''nnf-dm-system''"

definition DataMovementWorkerLabel :: string where
  "DataMovementWorkerLabel = ''dm.cray.hpe.com/worker''"

record NnfDataMovementProfileData =
  Default :: bool
  prof_Slots :: int
  prof_MaxSlots :: int
  prof_Command :: string
  prof_LogStdout :: bool
  prof_StoreStdout :: bool
  ProgressIntervalSeconds :: int
  CreateDestDir :: bool
  StatCommand :: string
  MkdirCommand :: string
  SetprivCommand :: string

record NnfDataMovementProfile =
  prof_Name :: string
  prof_Namespace :: string
  prof_Data :: NnfDataMovementProfileData

record AllocationSet =
  TargetType :: string
  Nodes :: "string list"

record NnfStorage =
  FileSystemType :: string
  AllocationSets :: "AllocationSet list"

record NnfNodeStorage =
  node_FileSystemType :: string

record Pod =
  pod_Name :: string
  pod_NodeName :: string
  pod_PodIP :: string

text \<open>The kinds, as \<^verbatim>\<open>reflect.TypeFor[...]().Name()\<close> gives them.\<close>

definition KindNnfStorage :: string where "KindNnfStorage = ''NnfStorage''"
definition KindNnfNodeStorage :: string where "KindNnfNodeStorage = ''NnfNodeStorage''"
definition KindNnfDataMovementProfile :: string where
  "KindNnfDataMovementProfile = ''NnfDataMovementProfile''"

lemmas kind_defs [api_simps] =
  KindNnfStorage_def KindNnfNodeStorage_def KindNnfDataMovementProfile_def

section \<open>Finalizers\<close>

definition ContainsFinalizer :: "string list \<Rightarrow> string \<Rightarrow> bool" where
  "ContainsFinalizer fs f = (f \<in> set fs)"

definition AddFinalizer :: "string list \<Rightarrow> string \<Rightarrow> string list" where
  "AddFinalizer fs f = (if f \<in> set fs then fs else fs @ [f])"

definition RemoveFinalizer :: "string list \<Rightarrow> string \<Rightarrow> string list" where
  "RemoveFinalizer fs f = filter (\<lambda>e. e \<noteq> f) fs"

lemma ContainsFinalizer_Add [simp]: "ContainsFinalizer (AddFinalizer fs f) f"
  by (simp add: ContainsFinalizer_def AddFinalizer_def)

lemma ContainsFinalizer_Remove [simp]: "\<not> ContainsFinalizer (RemoveFinalizer fs f) f"
  by (simp add: ContainsFinalizer_def RemoveFinalizer_def)

lemma RemoveFinalizer_Add: "\<not> ContainsFinalizer fs f \<Longrightarrow> RemoveFinalizer (AddFinalizer fs f) f = fs"
  by (auto simp: ContainsFinalizer_def RemoveFinalizer_def AddFinalizer_def filter_id_conv)

section \<open>The outside world\<close>

text \<open>The options of \<^verbatim>\<open>client.List\<close> on pods: a namespace, labels and a \<^verbatim>\<open>spec.nodeName\<close> field.\<close>

record PodQuery =
  q_Namespace :: string
  q_Labels :: "(string \<times> string) list"
  q_NodeName :: "string option"

record 'w env =
  e_LookupEnv :: "string \<Rightarrow> string option"
  e_Getuid :: nat
  e_Now :: "'w \<Rightarrow> time"
  e_GetDm :: "string \<Rightarrow> string \<Rightarrow> 'w \<Rightarrow> NnfDataMovement res"
  e_UpdateDm :: "NnfDataMovement \<Rightarrow> 'w \<Rightarrow> NnfDataMovement res \<times> 'w"
  e_UpdateDmStatus :: "NnfDataMovement \<Rightarrow> 'w \<Rightarrow> NnfDataMovement res \<times> 'w"
  e_GetProfile :: "string \<Rightarrow> string \<Rightarrow> 'w \<Rightarrow> NnfDataMovementProfile res"
  e_GetStorage :: "string \<Rightarrow> string \<Rightarrow> 'w \<Rightarrow> NnfStorage res"
  e_GetNodeStorage :: "string \<Rightarrow> string \<Rightarrow> 'w \<Rightarrow> NnfNodeStorage res"
  e_ListPods :: "PodQuery \<Rightarrow> 'w \<Rightarrow> Pod list res"
  e_Bash :: "string \<Rightarrow> int \<Rightarrow> 'w \<Rightarrow> (string \<times> string \<times> goerr option) \<times> 'w"
  e_StatIsDir :: "string \<Rightarrow> 'w \<Rightarrow> bool res"
  e_MkdirTemp :: "string \<Rightarrow> string \<Rightarrow> 'w \<Rightarrow> string res \<times> 'w"
  e_MkdirAll :: "string \<Rightarrow> 'w \<Rightarrow> goerr option \<times> 'w"
  e_Create :: "string \<Rightarrow> 'w \<Rightarrow> goerr option \<times> 'w"
  e_WriteString :: "string \<Rightarrow> string \<Rightarrow> 'w \<Rightarrow> goerr option \<times> 'w"
  e_ReadFile :: "string \<Rightarrow> 'w \<Rightarrow> string res"
  e_RemoveAll :: "string \<Rightarrow> 'w \<Rightarrow> 'w"

definition Getenv :: "('w, 'z) env_scheme \<Rightarrow> string \<Rightarrow> string" where
  "Getenv E k = (case e_LookupEnv E k of None \<Rightarrow> [] | Some v \<Rightarrow> v)"

text \<open>
  \<^verbatim>\<open>command.Run\<close> of nnf-sos: the timeout in seconds comes from the process environment (0: none)
  and is handed to the shell; a failing command's error holds the command, both outputs and the
  cause.
\<close>

definition run_bash ::
  "('w, 'z) env_scheme \<Rightarrow> string \<Rightarrow> int \<Rightarrow> 'w \<Rightarrow> (string \<times> goerr option) \<times> 'w" where
  "run_bash E args timeout w =
     (case e_Bash E args timeout w of
        ((out, errout, err), w') \<Rightarrow>
          (case err of
             None \<Rightarrow> ((out, None), w')
           | Some e \<Rightarrow>
               ((out, Some (WrapErr (''command: '' @ args @ '' - stderr: '' @ errout @
                                     '' - stdout: '' @ out @ '' - error: '') e [])), w')))"

fun num_error_text :: "string \<Rightarrow> num_error \<Rightarrow> string" where
  "num_error_text s ErrSyntax = ''strconv.Atoi: parsing '' @ [CHR 0x22] @ s @ [CHR 0x22] @ '': invalid syntax''"
| "num_error_text s ErrRange = ''strconv.Atoi: parsing '' @ [CHR 0x22] @ s @ [CHR 0x22] @ '': value out of range''"

definition Run :: "('w, 'z) env_scheme \<Rightarrow> string \<Rightarrow> 'w \<Rightarrow> (string \<times> goerr option) \<times> 'w" where
  "Run E args w =
     (case e_LookupEnv E ''NNF_COMMAND_TIMEOUT_SECONDS'' of
        None \<Rightarrow> run_bash E args 0 w
      | Some ts \<Rightarrow>
          (case Atoi ts of
             Inr t \<Rightarrow> run_bash E args t w
           | Inl ne \<Rightarrow> (([], Some (PlainErr (num_error_text ts ne))), w)))"

section \<open>Laws of the error values\<close>

lemma Severity_WithMajor [simp]: "Severity (WithMajor e) \<noteq> SeverityMinor"
  by (simp add: WithMajor_def)

lemma Severity_WithFatal [simp]: "Severity (WithFatal e) = SeverityFatal"
  by (simp add: WithFatal_def)

lemma Severity_NewResourceError [simp]: "Severity (NewResourceError m) = SeverityMinor"
  by (simp add: NewResourceError_def)

lemma Severity_WithUserMessage [simp]: "Severity (WithUserMessage m e) = Severity e"
  by (simp add: WithUserMessage_def)

lemma Severity_WithError:
  "Severity (WithError err e) = (case err of ResErr c \<Rightarrow> Severity c | _ \<Rightarrow> Severity e)"
  by (simp add: WithError_def Let_def split: goerr.split)

text \<open>The severity a resource error already has is never lowered by a parent that wraps it.\<close>

lemma fatal_child_stays_fatal:
  "Severity c = SeverityFatal \<Longrightarrow> Severity (WithMajor (WithError (ResErr c) e)) = SeverityFatal"
  by (simp add: WithMajor_def Severity_WithError)

section \<open>Sample objects\<close>

text \<open>A request and a profile with the defaults of the API types, for concrete evaluations.\<close>

definition sample_ref :: "string \<Rightarrow> ObjectReference" where
  "sample_ref kind = \<lparr>ref_Kind = kind, ref_Name = ''obj'', ref_Namespace = ''nnf-system''\<rparr>"

definition sample_config :: NnfDataMovementConfig where
  "sample_config = \<lparr>Dryrun = False, MpirunOptions = ''-v'', DcpOptions = ''-p'', LogStdout = False,
                    StoreStdout = False, Slots = Some 4, MaxSlots = None\<rparr>"

definition sample_spec :: NnfDataMovementSpec where
  "sample_spec =
     \<lparr>Source = \<lparr>Path = ''/mnt/nnf/a'', StorageReference = sample_ref KindNnfStorage\<rparr>,
      Destination = \<lparr>Path = ''/lus/b'', StorageReference = sample_ref ''LustreFileSystem''\<rparr>,
      UserId = 1000, GroupId = 100, Cancel = False,
      ProfileReference = sample_ref KindNnfDataMovementProfile, UserConfig = Some sample_config\<rparr>"

definition empty_status :: NnfDataMovementStatus where
  "empty_status = \<lparr>State = [], Status = [], Message = [], StartTime = None, EndTime = None,
                   Restarts = 0, CommandStatus = None, ErrorInfo = None\<rparr>"

definition sample_dm :: NnfDataMovement where
  "sample_dm =
     \<lparr>dm_Name = ''dm0'', dm_Namespace = DataMovementNamespace, dm_Labels = [], dm_Finalizers = [],
      dm_DeletionTimestamp = None, dm_ResourceVersion = 1, dm_Spec = sample_spec,
      dm_Status = empty_status\<rparr>"

definition sample_profile :: "string \<Rightarrow> NnfDataMovementProfile" where
  "sample_profile cmd =
     \<lparr>prof_Name = ''obj'', prof_Namespace = ''nnf-system'',
      prof_Data = \<lparr>Default = True, prof_Slots = 8, prof_MaxSlots = 0, prof_Command = cmd,
        prof_LogStdout = False, prof_StoreStdout = False, ProgressIntervalSeconds = 5,
        CreateDestDir = False, StatCommand = [], MkdirCommand = [], SetprivCommand = []\<rparr>\<rparr>"

lemmas sample_defs =
  sample_ref_def sample_config_def sample_spec_def empty_status_def sample_dm_def sample_profile_def

end
