(* ===== verification/Dcp_Output.thy ===== *)
theory Dcp_Output
  imports Go_Regexp Dm_Types
begin

text \<open>
  Scraping the output of \<^verbatim>\<open>dcp\<close> (\<^verbatim>\<open>internal/controller/helpers/datamovement_helpers.go\<close>): the
  progress and statistics regular expressions, \<open>ParseDcpProgress\<close>, \<open>ParseDcpStats\<close>,
  \<open>TrimDcpProgressFromOutput\<close>, and the loop of the progress goroutine that reads the command's
  output line by line into the command status.
\<close>

section \<open>Regular expressions\<close>

definition progressRe :: re where
  "progressRe =
     Cat (Lit ''Copied'') (Cat (Rep dot 1 None) (Cat (Lit ''('')
       (Cat (Cap (Rep is_digit 1 (Some 3))) (Lit ''%)''))))"

definition digits_or_dot :: "char \<Rightarrow> bool" where
  "digits_or_dot c = (is_digit c \<or> c = CHR ''.'')"

definition dcpStatsRegexes :: "(string \<times> re) list" where
  "dcpStatsRegexes =
     [(''seconds'', Cat (Lit ''Seconds: '') (Cap (Rep digits_or_dot 1 None))),
      (''items'', Cat (Lit ''Items: '') (Cap (Rep is_digit 1 None))),
      (''dirs'', Cat (Lit ''Directories: '') (Cap (Rep is_digit 1 None))),
      (''files'', Cat (Lit ''Files: '') (Cap (Rep is_digit 1 None))),
      (''links'', Cat (Lit ''Files: '') (Cap (Rep is_digit 1 None))),
      (''data'', Cat (Lit ''Data: '') (Cap (Rep dot 0 None))),
      (''rate'', Cat (Lit ''Rate: '') (Cap (Rep dot 0 None)))]"

section \<open>ParseDcpProgress\<close>

definition ParseDcpProgress ::
  "string \<Rightarrow> NnfDataMovementCommandStatus \<Rightarrow> goerr option \<times> NnfDataMovementCommandStatus" where
  "ParseDcpProgress line cmdStatus =
     (case FindStringSubmatch progressRe line of
        None \<Rightarrow> (None, cmdStatus)
      | Some match \<Rightarrow>
          (case Atoi (match ! 1) of
             Inl err \<Rightarrow>
               (Some (WrapErr ''failed to parse progress output: ''
                        (PlainErr (num_error_text (match ! 1) err)) []), cmdStatus)
           | Inr progress \<Rightarrow>
               (None, cmdStatus\<lparr>ProgressPercentage := Some (word_of_int progress)\<rparr>)))"

section \<open>TrimDcpProgressFromOutput\<close>

fun scan_progress :: "int \<Rightarrow> string list \<Rightarrow> bool \<times> int \<times> int \<Rightarrow> bool \<times> int \<times> int" where
  "scan_progress i [] acc = acc"
| "scan_progress i (line # lines) (progressFound, firstProgressLine, lastProgressLine) =
     (if MatchString progressRe line then
        scan_progress (i + 1) lines (True, if progressFound then firstProgressLine else i, i)
      else scan_progress (i + 1) lines (progressFound, firstProgressLine, lastProgressLine))"

definition snip :: "string list" where
  "snip = [''...'', ''<snipped dcp progress output>'', ''...'']"

fun snip_loop :: "int \<Rightarrow> int \<Rightarrow> int \<Rightarrow> string list \<Rightarrow> bool \<Rightarrow> string list" where
  "snip_loop firstLine lastLine i [] insertedSnip = []"
| "snip_loop firstLine lastLine i (line # lines) insertedSnip =
     (if i = firstLine \<or> i = lastLine then line # snip_loop firstLine lastLine (i + 1) lines insertedSnip
      else if i > firstLine \<and> i < lastLine then
        (if \<not> insertedSnip then snip @ snip_loop firstLine lastLine (i + 1) lines True
         else snip_loop firstLine lastLine (i + 1) lines insertedSnip)
      else line # snip_loop firstLine lastLine (i + 1) lines insertedSnip)"

definition TrimDcpProgressFromOutput :: "string \<Rightarrow> string" where
  "TrimDcpProgressFromOutput output =
     (let threshold = 2;
          lines = Split output nl;
          (progressFound, firstProgressLine, lastProgressLine) = scan_progress 0 lines (False, -1, -1)
      in if \<not> progressFound \<or> firstProgressLine = -1 \<or> lastProgressLine = -1
            \<or> lastProgressLine - firstProgressLine \<le> threshold - 1
         then output
         else Join (snip_loop firstProgressLine lastProgressLine 0 lines False) nl)"

section \<open>ParseDcpStats\<close>

text \<open>The \<^verbatim>\<open>strconv.Atoi\<close> of one counter: the parsed value cut to 32 bits, or the error.\<close>

definition parse_counter :: "string \<Rightarrow> string \<Rightarrow> goerr + 32 word" where
  "parse_counter what g =
     (case Atoi g of
        Inl err \<Rightarrow> Inl (WrapErr (''failed to parse '' @ what @ '' output: '')
                                 (PlainErr (num_error_text g err)) [])
      | Inr n \<Rightarrow> Inr (word_of_int n))"

fun stats_loop ::
  "(string \<times> re) list \<Rightarrow> string \<Rightarrow> NnfDataMovementCommandStatus \<Rightarrow>
   goerr option \<times> NnfDataMovementCommandStatus" where
  "stats_loop [] line cmdStatus = (None, cmdStatus)"
| "stats_loop ((name, regex) # rs) line cmdStatus =
     (case FindStringSubmatch regex line of
        None \<Rightarrow> stats_loop rs line cmdStatus
      | Some match \<Rightarrow>
          if name = ''seconds'' then (None, cmdStatus\<lparr>Seconds := match ! 1\<rparr>)
          else if name = ''items'' then
            (case parse_counter ''Items'' (match ! 1) of
               Inl err \<Rightarrow> (Some err, cmdStatus)
             | Inr i32 \<Rightarrow> (None, cmdStatus\<lparr>Items := Some i32\<rparr>))
          else if name = ''dirs'' then
            (case parse_counter ''Directories'' (match ! 1) of
               Inl err \<Rightarrow> (Some err, cmdStatus)
             | Inr i32 \<Rightarrow> (None, cmdStatus\<lparr>Directories := Some i32\<rparr>))
          else if name = ''files'' then
            (case parse_counter ''Directories'' (match ! 1) of
               Inl err \<Rightarrow> (Some err, cmdStatus)
             | Inr i32 \<Rightarrow> (None, cmdStatus\<lparr>Files := Some i32\<rparr>))
          else if name = ''links'' then
            (case parse_counter ''Links'' (match ! 1) of
               Inl err \<Rightarrow> (Some err, cmdStatus)
             | Inr i32 \<Rightarrow> (None, cmdStatus\<lparr>Links := Some i32\<rparr>))
          else if name = ''data'' then (None, cmdStatus\<lparr>Data := match ! 1\<rparr>)
          else if name = ''rate'' then (None, cmdStatus\<lparr>Rate := match ! 1\<rparr>)
          else stats_loop rs line cmdStatus)"

definition ParseDcpStats ::
  "string \<Rightarrow> NnfDataMovementCommandStatus \<Rightarrow> goerr option \<times> NnfDataMovementCommandStatus" where
  "ParseDcpStats line cmdStatus = stats_loop dcpStatsRegexes line cmdStatus"

section \<open>Reading the command output\<close>

text \<open>
  The body of \<^verbatim>\<open>parseAndUpdateProgress\<close> up to its API call. At \<^verbatim>\<open>io.EOF\<close> the loop discards what
  \<open>ReadString\<close> read without a newline. The first component of the result
  tells whether the loop ran to the end of the buffer (a parse error makes the closure return
  before the API update).
\<close>

definition progress_line ::
  "time \<Rightarrow> time \<Rightarrow> string \<Rightarrow> NnfDataMovementCommandStatus \<Rightarrow> goerr option \<times> NnfDataMovementCommandStatus"
where
  "progress_line progressStart progressNow line cmdStatus =
     (case ParseDcpProgress line cmdStatus of
        (Some err, st) \<Rightarrow> (Some err, st)
      | (None, st) \<Rightarrow>
          (case (if \<exists>p. ProgressPercentage st = Some p \<and> 100 \<le> sint p
                 then ParseDcpStats line st else (None, st)) of
             (Some err, st') \<Rightarrow> (Some err, st')
           | (None, st') \<Rightarrow>
               (None, st'\<lparr>LastMessage := line, LastMessageTime := Some progressNow,
                          ElapsedTime := progressNow - progressStart\<rparr>)))"

function read_progress ::
  "time \<Rightarrow> time \<Rightarrow> string \<Rightarrow> NnfDataMovementCommandStatus \<Rightarrow>
   bool \<times> string \<times> NnfDataMovementCommandStatus" where
  "read_progress progressStart progressNow buf cmdStatus =
     (case ReadString buf of
        None \<Rightarrow> (True, [], cmdStatus)
      | Some (line, rest) \<Rightarrow>
          (case progress_line progressStart progressNow line cmdStatus of
             (Some err, st) \<Rightarrow> (False, rest, st)
           | (None, st) \<Rightarrow> read_progress progressStart progressNow rest st))"
  by pat_completeness auto

termination
  by (relation "measure (\<lambda>(_, _, buf, _). length buf)") (auto dest: ReadString_shorter)

declare read_progress.simps [simp del]

section \<open>Progress lines\<close>

abbreviation progress :: "string \<Rightarrow> bool" where
  "progress \<equiv> MatchString progressRe"

lemma in_progressRe:
  "(c, t) \<in> set (rmatch progressRe s) \<longleftrightarrow>
   (\<exists>mid ds. c = [ds] \<and> s = ''Copied'' @ mid @ ''('' @ ds @ ''%)'' @ t \<and>
             mid \<noteq> [] \<and> (\<forall>x\<in>set mid. dot x) \<and>
             ds \<noteq> [] \<and> length ds \<le> 3 \<and> (\<forall>x\<in>set ds. is_digit x))"
  unfolding progressRe_def in_rmatch rep_max_def
  by (fastforce simp: Suc_le_eq)

text \<open>A line is a progress line iff it holds \<^verbatim>\<open>Copied\<close>, some text, and a percentage of one to three digits.\<close>

lemma MatchString_progressRe:
  "MatchString progressRe s \<longleftrightarrow>
   (\<exists>pre mid ds t. s = pre @ ''Copied'' @ mid @ ''('' @ ds @ ''%)'' @ t \<and>
             mid \<noteq> [] \<and> (\<forall>x\<in>set mid. dot x) \<and>
             ds \<noteq> [] \<and> length ds \<le> 3 \<and> (\<forall>x\<in>set ds. is_digit x))"
  (is "?L \<longleftrightarrow> ?R")
proof
  assume ?L
  then obtain pre t c u where "s = pre @ t" "(c, u) \<in> set (rmatch progressRe t)"
    unfolding MatchString_iff by (metis list.set_intros(1) neq_Nil_conv surj_pair)
  then show ?R unfolding in_progressRe by blast
next
  assume ?R
  then obtain pre mid ds t where s: "s = pre @ ''Copied'' @ mid @ ''('' @ ds @ ''%)'' @ t"
    and "mid \<noteq> []" "\<forall>x\<in>set mid. dot x" "ds \<noteq> []" "length ds \<le> 3" "\<forall>x\<in>set ds. is_digit x"
    by blast
  then have "([ds], t) \<in> set (rmatch progressRe (''Copied'' @ mid @ ''('' @ ds @ ''%)'' @ t))"
    unfolding in_progressRe by blast
  then show ?L using s unfolding MatchString_iff by (metis list.set_cases list.distinct(1))
qed

lemma progressRe_groups:
  assumes "FindStringSubmatch progressRe s = Some m"
  shows "\<exists>ds. m ! 1 = ds \<and> ds \<noteq> [] \<and> length ds \<le> 3 \<and> (\<forall>x\<in>set ds. is_digit x)"
proof -
  obtain pre u t c where "(c, t) \<in> set (rmatch progressRe (u @ t))" "m = u # c"
    using FindStringSubmatch_Some[OF assms] by blast
  then show ?thesis unfolding in_progressRe by auto
qed

lemma three_digits_small:
  assumes "length ds \<le> 3" and "\<forall>x\<in>set ds. is_digit x"
  shows "digits_val 0 ds \<le> 999"
proof -
  have "digits_val 0 ds < 10 ^ length ds" using digits_val_less[OF assms(2), of 0] by simp
  also have "(10::nat) ^ length ds \<le> 10 ^ 3" using assms(1) by (intro power_increasing) auto
  finally show ?thesis by simp
qed

text \<open>What one call does: nothing on other lines, and a value below 1000, never an error, on a progress line.\<close>

lemma ParseDcpProgress_cases:
  "ParseDcpProgress line st =
   (case FindStringSubmatch progressRe line of
      None \<Rightarrow> (None, st)
    | Some m \<Rightarrow> (None, st\<lparr>ProgressPercentage := Some (word_of_nat (digits_val 0 (m ! 1)))\<rparr>))"
proof (cases "FindStringSubmatch progressRe line")
  case None
  then show ?thesis by (simp add: ParseDcpProgress_def)
next
  case (Some m)
  obtain ds where ds: "m ! 1 = ds" "ds \<noteq> []" "length ds \<le> 3" "\<forall>x\<in>set ds. is_digit x"
    using progressRe_groups[OF Some] by blast
  have "Atoi ds = Inr (int (digits_val 0 ds))"
    using ds three_digits_small[OF ds(3,4)] by (subst Atoi_digits) auto
  then show ?thesis using Some ds(1) by (simp add: ParseDcpProgress_def)
qed

text \<open>
  \<open>ParseDcpProgress\<close> never fails. On a line that holds a \<^verbatim>\<open>dcp\<close> percentage it stores the captured
  number, which is at most 999 and so unchanged by the conversion to \<^verbatim>\<open>int32\<close>; on every other line it
  leaves the command status alone.
\<close>

lemma ParseDcpProgress_total:
  "\<exists>st'. ParseDcpProgress line st = (None, st') \<and>
     (if MatchString progressRe line
      then \<exists>n\<le>999. ProgressPercentage st' = Some (word_of_nat n) \<and> sint (word_of_nat n :: 32 word) = int n \<and>
           (\<exists>pre ds post. line = pre @ ''('' @ ds @ ''%)'' @ post \<and> ds \<noteq> [] \<and>
                          list_all is_digit ds \<and> n = digits_val 0 ds) \<and>
           st' = st\<lparr>ProgressPercentage := ProgressPercentage st'\<rparr>
      else st' = st)"
proof (cases "FindStringSubmatch progressRe line")
  case None
  then show ?thesis by (simp add: ParseDcpProgress_cases MatchString_def)
next
  case (Some m)
  obtain pre u t c where m: "line = pre @ u @ t" "(c, t) \<in> set (rmatch progressRe (u @ t))" "m = u # c"
    using FindStringSubmatch_Some[OF Some] by blast
  from m(2) obtain mid ds where ds: "c = [ds]" "u @ t = ''Copied'' @ mid @ ''('' @ ds @ ''%)'' @ t"
      "ds \<noteq> []" "length ds \<le> 3" "\<forall>x\<in>set ds. is_digit x"
    unfolding in_progressRe by blast
  let ?n = "digits_val 0 ds"
  have n: "?n \<le> 999" using ds by (simp add: three_digits_small)
  then have "sint (word_of_nat ?n :: 32 word) = int ?n"
    by (simp add: signed_of_nat signed_take_bit_int_eq_self)
  moreover have "line = (pre @ ''Copied'' @ mid) @ ''('' @ ds @ ''%)'' @ t" using m(1) ds(2) by simp
  then have "\<exists>pre ds' post. line = pre @ ''('' @ ds' @ ''%)'' @ post \<and> ds' \<noteq> [] \<and>
               list_all is_digit ds' \<and> ?n = digits_val 0 ds'"
    using ds(3,5) unfolding list_all_iff by blast
  moreover have "ParseDcpProgress line st = (None, st\<lparr>ProgressPercentage := Some (word_of_nat ?n)\<rparr>)"
    using Some m(3) ds(1) by (simp add: ParseDcpProgress_cases)
  moreover have "progress line" using Some by (simp add: MatchString_def)
  ultimately show ?thesis using n
    by (intro exI[of _ "st\<lparr>ProgressPercentage := Some (word_of_nat ?n)\<rparr>"])
       (simp only: if_True, intro conjI exI[of _ ?n], auto)
qed

section \<open>Trimming the output\<close>

lemma scan_progress_skip:
  "\<forall>x\<in>set a. \<not> progress x \<Longrightarrow> scan_progress i (a @ rest) acc = scan_progress (i + int (length a)) rest acc"
  by (induction a arbitrary: i; cases acc) (auto simp: algebra_simps)

lemma scan_progress_none: "\<forall>x\<in>set a. \<not> progress x \<Longrightarrow> scan_progress i a acc = acc"
  using scan_progress_skip[of a i "[]" acc] by simp

lemma scan_progress_last:
  "progress p \<Longrightarrow> \<forall>x\<in>set b. \<not> progress x \<Longrightarrow>
   scan_progress i (m @ p # b) (True, f, l) = (True, f, i + int (length m))"
  by (induction m arbitrary: i l) (auto simp: scan_progress_none)

lemma snip_loop_before:
  "i + int (length a) \<le> f \<Longrightarrow> f \<le> l \<Longrightarrow>
   snip_loop f l i (a @ rest) ins = a @ snip_loop f l (i + int (length a)) rest ins"
  by (induction a arbitrary: i) (auto simp: algebra_simps)

lemma snip_loop_after: "l < i \<Longrightarrow> f \<le> l \<Longrightarrow> snip_loop f l i b ins = b"
  by (induction b arbitrary: i) auto

lemma snip_loop_inside:
  "f < i \<Longrightarrow> i + int (length m) \<le> l \<Longrightarrow>
   snip_loop f l i (m @ rest) True = snip_loop f l (i + int (length m)) rest True"
  by (induction m arbitrary: i) (auto simp: algebra_simps)

lemma trim_middle:
  assumes "Split output nl = a @ p1 # m @ p2 # b"
    and "progress p1" and "progress p2"
    and "\<forall>x\<in>set a. \<not> progress x" and "\<forall>x\<in>set b. \<not> progress x" and "m \<noteq> []"
  shows "TrimDcpProgressFromOutput output = Join (a @ p1 # snip @ p2 # b) nl"
proof -
  let ?f = "int (length a)" and ?l = "int (length a) + 1 + int (length m)"
  obtain y ys where m: "m = y # ys" using assms(6) by (cases m) auto
  have scan: "scan_progress 0 (Split output nl) (False, -1, -1) = (True, ?f, ?l)"
    using assms by (simp add: scan_progress_skip scan_progress_last)
  have "snip_loop ?f ?l 0 (Split output nl) False = a @ snip_loop ?f ?l ?f (p1 # m @ p2 # b) False"
    using assms(1) snip_loop_before[of 0 a ?f ?l] by simp
  also have "\<dots> = a @ p1 # snip @ snip_loop ?f ?l (?f + 2) (ys @ p2 # b) True"
    using m by (simp add: add.commute add.left_commute)
  also have "\<dots> = a @ p1 # snip @ p2 # b"
    using m snip_loop_inside[of ?f "?f + 2" ys ?l] by (simp add: snip_loop_after algebra_simps)
  finally show ?thesis using scan m by (simp add: TrimDcpProgressFromOutput_def)
qed

text \<open>
  C35. When the first and the last progress line of an output have anything between them,
  \<open>TrimDcpProgressFromOutput\<close> keeps these two and every line outside them, and puts the three snip
  lines in place of all the lines between, whether they report progress or not.
\<close>

theorem Trim_replaces_middle:
  assumes "Split output nl = a @ p1 # m @ p2 # b"
    and "progress p1" and "progress p2"
    and "\<forall>x\<in>set a. \<not> progress x" and "\<forall>x\<in>set b. \<not> progress x" and "m \<noteq> []"
  shows "TrimDcpProgressFromOutput output = Join (a @ p1 # snip @ p2 # b) nl"
  using assms by (rule trim_middle)

theorem Trim_replaces_middle_witness:
  "TrimDcpProgressFromOutput
     (''start'' @ nl @ ''Copied 1 B (10%)'' @ nl @ ''warning'' @ nl @ ''Copied 9 B (90%)'' @ nl @ ''end'') =
   Join ([''start''] @ ''Copied 1 B (10%)'' # snip @ ''Copied 9 B (90%)'' # [''end'']) nl"
  by (rule Trim_replaces_middle[where m = "[''warning'']"]) code_simp+

lemma not_progress_snip: "\<forall>x\<in>set snip. \<not> progress x"
  by (simp add: snip_def progressRe_def MatchString_def FindStringSubmatch_Lit_notin)

lemma snip_no_newline: "\<forall>x\<in>set snip. CHR 0x0A \<notin> set x"
  by (simp add: snip_def)

lemma Trim_few_progress:
  assumes "Split output nl = a @ ps @ b" and "length ps \<le> 2"
    and "\<forall>x\<in>set a. \<not> progress x" and "\<forall>x\<in>set b. \<not> progress x" and "\<forall>x\<in>set ps. progress x"
  shows "TrimDcpProgressFromOutput output = output"
proof -
  consider "ps = []" | p where "ps = [p]" | p q where "ps = [p, q]"
    using assms(2) by (auto simp: le_Suc_eq numeral_2_eq_2 length_Suc_conv)
  then show ?thesis
    using assms by cases (auto simp: TrimDcpProgressFromOutput_def scan_progress_skip scan_progress_none)
qed

text \<open>Every list of lines has no progress line, one, or a first and a last one.\<close>

lemma progress_lines_cases:
  obtains (few) a ps b where "ls = a @ ps @ b" "length ps \<le> 2" "\<forall>x\<in>set a. \<not> progress x"
      "\<forall>x\<in>set b. \<not> progress x" "\<forall>x\<in>set ps. progress x"
  | (many) a p1 m p2 b where "ls = a @ p1 # m @ p2 # b" "progress p1" "progress p2"
      "\<forall>x\<in>set a. \<not> progress x" "\<forall>x\<in>set b. \<not> progress x" "m \<noteq> []"
proof (cases "\<exists>x\<in>set ls. progress x")
  case False
  then show ?thesis using few[of ls "[]" "[]"] by simp
next
  case True
  then obtain a p1 r where a: "ls = a @ p1 # r" "progress p1" "\<forall>x\<in>set a. \<not> progress x"
    by (rule split_list_first_propE) blast
  show ?thesis
  proof (cases "\<exists>x\<in>set r. progress x")
    case False
    then show ?thesis using a few[of a "[p1]" r] by simp
  next
    case True
    then obtain m p2 b where r: "r = m @ p2 # b" "progress p2" "\<forall>x\<in>set b. \<not> progress x"
      by (rule split_list_last_propE) blast
    show ?thesis
    proof (cases "m = []")
      case True
      then show ?thesis using a r few[of a "[p1, p2]" b] by simp
    next
      case False
      then show ?thesis using a r many by simp
    qed
  qed
qed

text \<open>
  Trimming is idempotent, and a trimmed output is either the output itself or holds exactly two
  progress lines.
\<close>

lemma Trim_idempotent:
  "TrimDcpProgressFromOutput (TrimDcpProgressFromOutput output) = TrimDcpProgressFromOutput output \<and>
   (TrimDcpProgressFromOutput output = output \<or>
    length (filter progress (Split (TrimDcpProgressFromOutput output) nl)) = 2)"
proof (cases "Split output nl" rule: progress_lines_cases)
  case (few a ps b)
  then show ?thesis using Trim_few_progress[OF few] by simp
next
  case (many a p1 m p2 b)
  let ?t = "a @ p1 # snip @ p2 # b"
  have t: "TrimDcpProgressFromOutput output = Join ?t nl" using trim_middle[OF many] .
  have "\<forall>x\<in>set (Split output nl). CHR 0x0A \<notin> set x" by (auto simp: nl_def dest: Split_parts_notin)
  then have "\<forall>x\<in>set ?t. CHR 0x0A \<notin> set x" using many(1) snip_no_newline by auto
  then have split: "Split (Join ?t nl) nl = ?t" unfolding nl_def by (intro Split_Join) auto
  have "TrimDcpProgressFromOutput (Join ?t nl) = Join ?t nl"
    by (rule trim_middle[OF split many(2-5)]) (simp add: snip_def)
  moreover have "filter progress ?t = [p1, p2]"
    using many(2-5) not_progress_snip by (auto simp: filter_empty_conv)
  ultimately show ?thesis using t split by simp
qed

section \<open>Statistics\<close>

lemma parse_counter_nat:
  "parse_counter what (show_nat n) =
   (if n < 2 ^ 63 then Inr (word_of_nat n)
    else Inl (WrapErr (''failed to parse '' @ what @ '' output: '')
                      (PlainErr (num_error_text (show_nat n) ErrRange)) []))"
  by (simp add: parse_counter_def Atoi_digits show_nat_digits digits_val_show_nat)

lemma takeWhile_show_nat [simp]: "takeWhile is_digit (show_nat n @ nl) = show_nat n"
  unfolding nl_def by (rule takeWhile_append_stop) (auto simp: show_nat_digits[rule_format])

lemma digit_chars: "\<forall>c\<in>set (show_nat n). c \<notin> set ''SIDFR''"
proof -
  have "\<forall>c. is_digit c \<longrightarrow> c \<notin> set ''SIDFR''" by (auto simp: is_digit_def)
  then show ?thesis using show_nat_digits by blast
qed

lemma FindStringSubmatch_counter:
  assumes "x \<notin> set a"
  shows "FindStringSubmatch (Cat (Lit (x # l)) (Cap (Rep is_digit 1 None))) (a @ (x # l) @ show_nat n @ nl) =
         Some [(x # l) @ show_nat n, show_nat n]"
  using FindStringSubmatch_Lit_run[OF assms, of 1 is_digit "show_nat n @ nl" l]
  by (simp add: Suc_le_eq)

lemma show_nat_notin [simp]:
  "CHR ''S'' \<notin> set (show_nat n)" "CHR ''I'' \<notin> set (show_nat n)" "CHR ''D'' \<notin> set (show_nat n)"
  "CHR ''F'' \<notin> set (show_nat n)" "CHR ''R'' \<notin> set (show_nat n)"
  using digit_chars[of n] by auto

lemma ParseDcpStats_Items:
  "ParseDcpStats (''Items: '' @ show_nat n @ nl) st =
   (case parse_counter ''Items'' (show_nat n) of
      Inl err \<Rightarrow> (Some err, st) | Inr i32 \<Rightarrow> (None, st\<lparr>Items := Some i32\<rparr>))"
proof -
  let ?line = "''Items: '' @ show_nat n @ nl"
  have 1: "FindStringSubmatch (Cat (Lit ''Seconds: '') r) ?line = None" for r
    by (rule FindStringSubmatch_Lit_notin) simp
  have 2: "FindStringSubmatch (Cat (Lit ''Items: '') (Cap (Rep is_digit 1 None))) ?line =
           Some [''Items: '' @ show_nat n, show_nat n]"
    using FindStringSubmatch_counter[of "CHR ''I''" "[]" "''tems: ''" n] by simp
  show ?thesis
    by (simp only: ParseDcpStats_def dcpStatsRegexes_def stats_loop.simps 1 2) simp
qed

lemma ParseDcpStats_Directories:
  "ParseDcpStats (''  Directories: '' @ show_nat n @ nl) st =
   (case parse_counter ''Directories'' (show_nat n) of
      Inl err \<Rightarrow> (Some err, st) | Inr i32 \<Rightarrow> (None, st\<lparr>Directories := Some i32\<rparr>))"
proof -
  let ?line = "''  Directories: '' @ show_nat n @ nl"
  have 1: "FindStringSubmatch (Cat (Lit ''Seconds: '') r) ?line = None"
    and 2: "FindStringSubmatch (Cat (Lit ''Items: '') r) ?line = None" for r
    by (rule FindStringSubmatch_Lit_notin, simp)+
  have 3: "FindStringSubmatch (Cat (Lit ''Directories: '') (Cap (Rep is_digit 1 None))) ?line =
           Some [''Directories: '' @ show_nat n, show_nat n]"
    using FindStringSubmatch_counter[of "CHR ''D''" "''  ''" "''irectories: ''" n] by simp
  show ?thesis
    by (simp only: ParseDcpStats_def dcpStatsRegexes_def stats_loop.simps 1 2 3) simp
qed

lemma ParseDcpStats_Files:
  "ParseDcpStats (''  Files: '' @ show_nat n @ nl) st =
   (case parse_counter ''Directories'' (show_nat n) of
      Inl err \<Rightarrow> (Some err, st) | Inr i32 \<Rightarrow> (None, st\<lparr>Files := Some i32\<rparr>))"
proof -
  let ?line = "''  Files: '' @ show_nat n @ nl"
  have 1: "FindStringSubmatch (Cat (Lit ''Seconds: '') r) ?line = None"
    and 2: "FindStringSubmatch (Cat (Lit ''Items: '') r) ?line = None"
    and 3: "FindStringSubmatch (Cat (Lit ''Directories: '') r) ?line = None" for r
    by (rule FindStringSubmatch_Lit_notin, simp)+
  have 4: "FindStringSubmatch (Cat (Lit ''Files: '') (Cap (Rep is_digit 1 None))) ?line =
           Some [''Files: '' @ show_nat n, show_nat n]"
    using FindStringSubmatch_counter[of "CHR ''F''" "''  ''" "''iles: ''" n] by simp
  show ?thesis
    by (simp only: ParseDcpStats_def dcpStatsRegexes_def stats_loop.simps 1 2 3 4) simp
qed

lemma sint_word_of_nat_small: "n < 2 ^ 31 \<Longrightarrow> sint (word_of_nat n :: 32 word) = int n"
  by (simp add: signed_of_nat signed_take_bit_int_eq_self)

text \<open>
  The number of copied links is never recorded: its entry in the table carries the regular
  expression of the files entry that precedes it, so no line of output changes \<^verbatim>\<open>Links\<close>.
\<close>

lemma ParseDcpStats_never_sets_Links: "Links (snd (ParseDcpStats line st)) = Links st"
  by (simp add: ParseDcpStats_def dcpStatsRegexes_def split: option.split sum.split)

text \<open>The other lines of the summary. A plain text has no newline and none of the first letters of the labels.\<close>

definition plain :: "char \<Rightarrow> bool" where
  "plain c \<longleftrightarrow> c \<noteq> CHR 0x0A \<and> c \<notin> set ''SIDFR''"

lemma plain_notin:
  assumes "list_all plain t"
  shows "CHR ''S'' \<notin> set t" "CHR ''I'' \<notin> set t" "CHR ''D'' \<notin> set t" "CHR ''F'' \<notin> set t" "CHR ''R'' \<notin> set t"
  using assms by (auto simp: list_all_iff plain_def)

lemma takeWhile_line:
  assumes "\<forall>c\<in>set t. p c" and "\<not> p (CHR 0x0A)"
  shows "takeWhile p (t @ nl) = t"
  unfolding nl_def by (rule takeWhile_append_stop) (use assms in auto)

lemma ParseDcpStats_Seconds:
  assumes "secs \<noteq> []" and "list_all digits_or_dot secs"
  shows "ParseDcpStats (''Seconds: '' @ secs @ nl) st = (None, st\<lparr>Seconds := secs\<rparr>)"
proof -
  have run: "takeWhile digits_or_dot (secs @ nl) = secs"
    by (rule takeWhile_line) (use assms in \<open>auto simp: list_all_iff digits_or_dot_def is_digit_def\<close>)
  have "FindStringSubmatch (Cat (Lit ''Seconds: '') (Cap (Rep digits_or_dot 1 None))) (''Seconds: '' @ secs @ nl) =
      Some [''Seconds: '' @ secs, secs]"
    using FindStringSubmatch_Lit_run[of "CHR ''S''" "[]" 1 digits_or_dot "secs @ nl" "''econds: ''"] assms(1) run
    by (simp add: Suc_le_eq)
  then show ?thesis by (simp only: ParseDcpStats_def dcpStatsRegexes_def stats_loop.simps) simp
qed

lemma ParseDcpStats_Links_line: "ParseDcpStats (''  Links: '' @ show_nat n @ nl) st = (None, st)"
proof -
  let ?line = "''  Links: '' @ show_nat n @ nl"
  have 1: "FindStringSubmatch (Cat (Lit ''Seconds: '') r) ?line = None"
    and 2: "FindStringSubmatch (Cat (Lit ''Items: '') r) ?line = None"
    and 3: "FindStringSubmatch (Cat (Lit ''Directories: '') r) ?line = None"
    and 4: "FindStringSubmatch (Cat (Lit ''Files: '') r) ?line = None"
    and 5: "FindStringSubmatch (Cat (Lit ''Data: '') r) ?line = None"
    and 6: "FindStringSubmatch (Cat (Lit ''Rate: '') r) ?line = None" for r
    by (rule FindStringSubmatch_Lit_notin, simp)+
  show ?thesis by (simp only: ParseDcpStats_def dcpStatsRegexes_def stats_loop.simps 1 2 3 4 5 6) simp
qed

lemma ParseDcpStats_Data:
  assumes "list_all plain t"
  shows "ParseDcpStats (''Data: '' @ t @ nl) st = (None, st\<lparr>Data := t\<rparr>)"
proof -
  let ?line = "''Data: '' @ t @ nl"
  have 1: "FindStringSubmatch (Cat (Lit ''Seconds: '') r) ?line = None"
    and 2: "FindStringSubmatch (Cat (Lit ''Items: '') r) ?line = None"
    and 4: "FindStringSubmatch (Cat (Lit ''Files: '') r) ?line = None" for r
    by (rule FindStringSubmatch_Lit_notin, use plain_notin[OF assms] in simp)+
  have "FindStringSubmatch (Cat (Lit ''Directories: '') r) (''ata: '' @ t @ nl) = None" for r
    by (rule FindStringSubmatch_Lit_notin) (use plain_notin[OF assms] in simp)
  then have 3: "FindStringSubmatch (Cat (Lit ''Directories: '') r) ?line = None" for r
    by (simp add: rmatch_Lit_Cat del: rmatch.simps)
  have run: "takeWhile dot (t @ nl) = t"
    by (rule takeWhile_line) (use assms in \<open>auto simp: list_all_iff plain_def dot_def\<close>)
  have 5: "FindStringSubmatch (Cat (Lit ''Data: '') (Cap (Rep dot 0 None))) ?line = Some [''Data: '' @ t, t]"
    using FindStringSubmatch_Lit_run[of "CHR ''D''" "[]" 0 dot "t @ nl" "''ata: ''"] run by simp
  show ?thesis by (simp only: ParseDcpStats_def dcpStatsRegexes_def stats_loop.simps 1 2 3 4 5) simp
qed

lemma ParseDcpStats_Rate:
  assumes "list_all plain t"
  shows "ParseDcpStats (''Rate: '' @ t @ nl) st = (None, st\<lparr>Rate := t\<rparr>)"
proof -
  let ?line = "''Rate: '' @ t @ nl"
  have 1: "FindStringSubmatch (Cat (Lit ''Seconds: '') r) ?line = None"
    and 2: "FindStringSubmatch (Cat (Lit ''Items: '') r) ?line = None"
    and 3: "FindStringSubmatch (Cat (Lit ''Directories: '') r) ?line = None"
    and 4: "FindStringSubmatch (Cat (Lit ''Files: '') r) ?line = None"
    and 5: "FindStringSubmatch (Cat (Lit ''Data: '') r) ?line = None" for r
    by (rule FindStringSubmatch_Lit_notin, use plain_notin[OF assms] in simp)+
  have run: "takeWhile dot (t @ nl) = t"
    by (rule takeWhile_line) (use assms in \<open>auto simp: list_all_iff plain_def dot_def\<close>)
  have 6: "FindStringSubmatch (Cat (Lit ''Rate: '') (Cap (Rep dot 0 None))) ?line = Some [''Rate: '' @ t, t]"
    using FindStringSubmatch_Lit_run[of "CHR ''R''" "[]" 0 dot "t @ nl" "''ate: ''"] run by simp
  show ?thesis by (simp only: ParseDcpStats_def dcpStatsRegexes_def stats_loop.simps 1 2 3 4 5 6) simp
qed

text \<open>The summary at the end of the output of \<^verbatim>\<open>dcp\<close>, and its lines given to \<open>ParseDcpStats\<close> one after the other.\<close>

definition dcp_summary :: "string \<Rightarrow> nat \<Rightarrow> nat \<Rightarrow> nat \<Rightarrow> nat \<Rightarrow> string \<Rightarrow> string \<Rightarrow> string list" where
  "dcp_summary secs items dirs files links data rate =
     [''Seconds: '' @ secs @ nl, ''Items: '' @ show_nat items @ nl, ''  Directories: '' @ show_nat dirs @ nl,
      ''  Files: '' @ show_nat files @ nl, ''  Links: '' @ show_nat links @ nl, ''Data: '' @ data @ nl,
      ''Rate: '' @ rate @ nl]"

fun parse_lines :: "string list \<Rightarrow> NnfDataMovementCommandStatus \<Rightarrow> goerr option \<times> NnfDataMovementCommandStatus" where
  "parse_lines [] st = (None, st)"
| "parse_lines (line # lines) st =
     (case ParseDcpStats line st of (None, st') \<Rightarrow> parse_lines lines st' | (Some err, st') \<Rightarrow> (Some err, st'))"

lemmas ParseDcpStats_lines = ParseDcpStats_Seconds ParseDcpStats_Items ParseDcpStats_Directories ParseDcpStats_Files
  ParseDcpStats_Links_line ParseDcpStats_Data ParseDcpStats_Rate parse_counter_nat

text \<open>
  C38. From the summary that \<^verbatim>\<open>dcp\<close> prints, the seconds, the data and the rate are stored as they are printed, and the
  numbers of items, directories and files as 32-bit values: exact below \<open>2 ^ 31\<close>, cut to 32 bits up to \<open>2 ^ 63\<close>. From
  there on the line is an error that leaves the status as it was. The number of links is not stored: its line has no
  effect, and no line of any form changes the field.
\<close>

theorem ParseDcpStats_counters:
  assumes "secs \<noteq> []" and "list_all digits_or_dot secs" and "list_all plain data" and "list_all plain rate"
  shows "(items < 2 ^ 63 \<and> dirs < 2 ^ 63 \<and> files < 2 ^ 63 \<longrightarrow>
      parse_lines (dcp_summary secs items dirs files links data rate) st =
        (None, st\<lparr>Seconds := secs, Items := Some (word_of_nat items), Directories := Some (word_of_nat dirs),
                  Files := Some (word_of_nat files), Data := data, Rate := rate\<rparr>)) \<and>
    (n < 2 ^ 31 \<longrightarrow> sint (word_of_nat n :: 32 word) = int n) \<and>
    (2 ^ 63 \<le> n \<longrightarrow> (\<forall>label\<in>{''Items: '', ''  Directories: '', ''  Files: ''}.
       \<exists>err. ParseDcpStats (label @ show_nat n @ nl) st = (Some err, st))) \<and>
    ParseDcpStats (''  Links: '' @ show_nat links @ nl) st = (None, st) \<and>
    (\<forall>line. Links (snd (ParseDcpStats line st)) = Links st)"
proof (intro conjI allI)
  show "items < 2 ^ 63 \<and> dirs < 2 ^ 63 \<and> files < 2 ^ 63 \<longrightarrow>
      parse_lines (dcp_summary secs items dirs files links data rate) st =
        (None, st\<lparr>Seconds := secs, Items := Some (word_of_nat items), Directories := Some (word_of_nat dirs),
                  Files := Some (word_of_nat files), Data := data, Rate := rate\<rparr>)"
    unfolding dcp_summary_def parse_lines.simps ParseDcpStats_lines(1)[OF assms(1,2)] ParseDcpStats_lines(6)[OF assms(3)]
      ParseDcpStats_lines(7)[OF assms(4)] ParseDcpStats_lines(2-5,8)
    by simp
  show "2 ^ 63 \<le> n \<longrightarrow> (\<forall>label\<in>{''Items: '', ''  Directories: '', ''  Files: ''}.
      \<exists>err. ParseDcpStats (label @ show_nat n @ nl) st = (Some err, st))"
    by (simp only: ball_simps ParseDcpStats_lines(2-4,8)) simp
  show "ParseDcpStats (''  Links: '' @ show_nat links @ nl) st = (None, st)" by (rule ParseDcpStats_Links_line)
qed (simp_all add: sint_word_of_nat_small ParseDcpStats_never_sets_Links)

text \<open>The summary of the comment in the source.\<close>

theorem ParseDcpStats_counters_witness:
  "parse_lines (dcp_summary ''171.458'' 2 1 1 0 ''18.626 GiB (20000000000 bytes)''
       ''111.243 MiB/s (20000000000 bytes in 171.458 seconds)'') empty_CommandStatus =
     (None, empty_CommandStatus\<lparr>Seconds := ''171.458'', Items := Some 2, Directories := Some 1, Files := Some 1,
        Data := ''18.626 GiB (20000000000 bytes)'', Rate := ''111.243 MiB/s (20000000000 bytes in 171.458 seconds)''\<rparr>)"
proof -
  have "''171.458'' \<noteq> []" "list_all digits_or_dot ''171.458''" "list_all plain ''18.626 GiB (20000000000 bytes)''"
    "list_all plain ''111.243 MiB/s (20000000000 bytes in 171.458 seconds)''" by code_simp+
  from ParseDcpStats_counters[OF this, of 2 1 1 0 empty_CommandStatus] show ?thesis by simp
qed

text \<open>
  A count of \<open>2 ^ 32\<close> items passes \<^verbatim>\<open>strconv.Atoi\<close> without an error and is then cut to 32 bits:
  the status says that no item was copied.
\<close>

lemma ParseDcpStats_counter_wraps:
  "ParseDcpStats (''Items: '' @ show_nat (2 ^ 32) @ nl) st = (None, st\<lparr>Items := Some 0\<rparr>)"
  unfolding ParseDcpStats_Items parse_counter_nat by simp

lemma stats_loop_error: "fst (stats_loop rs line st) = None \<or> snd (stats_loop rs line st) = st"
proof -
  define G where "G p \<longleftrightarrow> fst p = None \<or> snd p = st" for p :: "goerr option \<times> NnfDataMovementCommandStatus"
  have G [simp]: "G (None, x)" "G (e, st)" for x e by (simp_all add: G_def)
  have "G (stats_loop rs line st)"
  proof (induction rs)
    case (Cons r rs)
    then show ?case by (cases r) (simp split: option.split sum.split)
  qed simp
  then show ?thesis by (simp add: G_def)
qed

text \<open>
  A statistics line that cannot be stored (a counter that does not fit \<^verbatim>\<open>int64\<close>) is reported as an
  error and leaves the command status as it was.
\<close>

lemma ParseDcpStats_error:
  "(fst (ParseDcpStats line st) \<noteq> None \<longrightarrow> snd (ParseDcpStats line st) = st) \<and>
   (2 ^ 63 \<le> n \<longrightarrow> fst (ParseDcpStats (''Items: '' @ show_nat n @ nl) st) \<noteq> None)"
  unfolding ParseDcpStats_Items parse_counter_nat
  using stats_loop_error[of dcpStatsRegexes line st] by (auto simp: ParseDcpStats_def)

lemma ParseDcpStats_error_witness:
  "fst (ParseDcpStats (''Items: '' @ show_nat (2 ^ 63) @ nl) empty_CommandStatus) \<noteq> None \<and>
   snd (ParseDcpStats (''Items: '' @ show_nat (2 ^ 63) @ nl) empty_CommandStatus) = empty_CommandStatus"
  using ParseDcpStats_error[of "''Items: '' @ show_nat (2 ^ 63) @ nl" empty_CommandStatus "2 ^ 63"]
  by (simp only: order_refl simp_thms)

section \<open>The progress loop\<close>

text \<open>The newline-terminated lines of a buffer, and the percentage a line reports.\<close>

definition complete_lines :: "string \<Rightarrow> string list" where
  "complete_lines buf = map (\<lambda>l. l @ nl) (butlast (Split buf nl))"

definition line_progress :: "string \<Rightarrow> 32 word option" where
  "line_progress line =
     map_option (\<lambda>m. word_of_nat (digits_val 0 (m ! 1))) (FindStringSubmatch progressRe line)"

definition latest_progress :: "32 word option \<Rightarrow> string list \<Rightarrow> 32 word option" where
  "latest_progress old ls =
     foldl (\<lambda>acc l. case line_progress l of None \<Rightarrow> acc | Some v \<Rightarrow> Some v) old ls"

lemma ReadString_None: "ReadString buf = None \<Longrightarrow> complete_lines buf = []"
  by (auto simp: ReadString_def complete_lines_def nl_def Split_notin split: if_splits)

lemma ReadString_Some:
  assumes "ReadString buf = Some (line, rest)"
  shows "complete_lines buf = line # complete_lines rest"
proof -
  let ?P = "\<lambda>c. c \<noteq> CHR 0x0A"
  have nlin: "CHR 0x0A \<in> set buf" and line: "line = takeWhile ?P buf @ nl"
    and rest: "rest = tl (dropWhile ?P buf)"
    using assms by (auto simp: ReadString_def split: if_splits)
  obtain c cs where d: "dropWhile ?P buf = c # cs" using nlin by (cases "dropWhile ?P buf") auto
  then have "c = CHR 0x0A" using hd_dropWhile[of ?P buf] by simp
  then have "buf = takeWhile ?P buf @ CHR 0x0A # rest" using d rest by (metis list.sel(3) takeWhile_dropWhile_id)
  moreover have "CHR 0x0A \<notin> set (takeWhile ?P buf)" by (auto dest: set_takeWhileD)
  ultimately have "Split buf nl = takeWhile ?P buf # Split rest nl"
    unfolding nl_def by (metis Split_step)
  then show ?thesis using line by (simp add: complete_lines_def)
qed

lemma ParseDcpStats_frame:
  "ProgressPercentage (snd (ParseDcpStats line st)) = ProgressPercentage st"
  "LastMessage (snd (ParseDcpStats line st)) = LastMessage st"
  by (simp_all add: ParseDcpStats_def dcpStatsRegexes_def split: option.split sum.split)

lemma progress_line_cases:
  "case progress_line t0 t1 line st of
     (None, st') \<Rightarrow> ProgressPercentage st' = latest_progress (ProgressPercentage st) [line] \<and> LastMessage st' = line
   | (Some e, st') \<Rightarrow> \<exists>s. fst (ParseDcpStats line s) \<noteq> None"
proof -
  obtain st1 where st1: "ParseDcpProgress line st = (None, st1)"
      "ProgressPercentage st1 = latest_progress (ProgressPercentage st) [line]"
    by (cases "FindStringSubmatch progressRe line")
       (auto simp: ParseDcpProgress_cases latest_progress_def line_progress_def)
  obtain e st2 where st2: "ParseDcpStats line st1 = (e, st2)" by force
  then have "ProgressPercentage st2 = ProgressPercentage st1"
    using ParseDcpStats_frame(1)[of line st1] by simp
  then show ?thesis
    using st1 st2 by (auto simp: progress_line_def split: option.split intro: exI[of _ st1])
qed

text \<open>
  One run of the progress loop takes in every complete line of the command's output: the
  percentage is then the one of the last line that reports any (or the old one), the last message is
  the last line, and the buffer is empty. It stops before the end only at a statistics line that
  \<open>ParseDcpStats\<close> rejects.
\<close>

lemma read_progress_latest:
  "case read_progress t0 t1 buf st of (completed, rest, st') \<Rightarrow>
     (if completed
      then rest = [] \<and>
           ProgressPercentage st' = latest_progress (ProgressPercentage st) (complete_lines buf) \<and>
           LastMessage st' = (if complete_lines buf = [] then LastMessage st else last (complete_lines buf))
      else \<exists>line s. line \<in> set (complete_lines buf) \<and> fst (ParseDcpStats line s) \<noteq> None)"
proof (induction t0 t1 buf st rule: read_progress.induct)
  case (1 t0 t1 buf st)
  show ?case
  proof (cases "ReadString buf")
    case None
    then show ?thesis
      by (subst read_progress.simps) (simp add: ReadString_None latest_progress_def)
  next
    case (Some lr)
    obtain line rest where lr: "lr = (line, rest)" by (cases lr)
    obtain e st1 where pl: "progress_line t0 t1 line st = (e, st1)" by force
    have cl: "complete_lines buf = line # complete_lines rest" using Some lr by (simp add: ReadString_Some)
    show ?thesis
    proof (cases e)
      case None
      then have st1: "ProgressPercentage st1 = latest_progress (ProgressPercentage st) [line]"
          "LastMessage st1 = line"
        using progress_line_cases[where ?t0.0 = t0 and ?t1.0 = t1 and line = line and st = st] pl by auto
      have eq: "read_progress t0 t1 buf st = read_progress t0 t1 rest st1"
        using Some lr pl None by (subst read_progress.simps) simp
      have lp: "latest_progress (ProgressPercentage st) (line # ls) = latest_progress (ProgressPercentage st1) ls"
        for ls using st1(1) by (simp add: latest_progress_def)
      obtain ok rest' st' where r: "read_progress t0 t1 rest st1 = (ok, rest', st')" by (metis prod_cases3)
      show ?thesis
        using "1"[OF Some lr[symmetric] pl[symmetric] None] st1(2) lp unfolding eq cl r by (cases ok) auto
    next
      case (Some err)
      then have "\<exists>s. fst (ParseDcpStats line s) \<noteq> None"
        using progress_line_cases[where ?t0.0 = t0 and ?t1.0 = t1 and line = line and st = st] pl by auto
      moreover have "read_progress t0 t1 buf st = (False, rest, st1)"
        using \<open>ReadString buf = Some lr\<close> lr pl Some by (subst read_progress.simps) simp
      ultimately show ?thesis unfolding cl by auto
    qed
  qed
qed

text \<open>
  A line that is only partly in the buffer when the loop runs is lost: its first part is read at
  the end of the buffer and thrown away, so when the rest arrives the percentage is not recognised,
  although the whole line in one buffer is.
\<close>

lemma read_progress_loses_split_line:
  "read_progress t0 t1 ''Copied 1.0 GiB (5'' empty_CommandStatus = (True, [], empty_CommandStatus) \<and>
   ProgressPercentage (snd (snd (read_progress t0 t1 (''0%) in 1.0 secs'' @ nl) empty_CommandStatus))) = None \<and>
   ProgressPercentage (snd (snd (read_progress t0 t1
     (''Copied 1.0 GiB (5'' @ ''0%) in 1.0 secs'' @ nl) empty_CommandStatus))) = Some 50"
proof -
  let ?a = "''Copied 1.0 GiB (5''" and ?b = "''0%) in 1.0 secs'' @ nl"
  have "ReadString ?a = None" "ReadString ?b = Some (?b, [])" "ReadString (?a @ ?b) = Some (?a @ ?b, [])"
    by code_simp+
  note rd = this
  have "ReadString [] = None" by (simp add: ReadString_def)
  then have nil: "read_progress t0 t1 [] st = (True, [], st)" for st
    by (subst read_progress.simps) simp
  have f: "FindStringSubmatch progressRe ?b = None"
    "FindStringSubmatch progressRe (?a @ ?b) = Some [''Copied 1.0 GiB (50%)'', ''50'']"
    by code_simp+
  have "digits_val 0 ''50'' = 50" by code_simp
  then have p: "progress_line t0 t1 ?b empty_CommandStatus =
             (None, empty_CommandStatus\<lparr>LastMessage := ?b, LastMessageTime := Some t1, ElapsedTime := t1 - t0\<rparr>)"
    "progress_line t0 t1 (?a @ ?b) empty_CommandStatus =
             (None, empty_CommandStatus\<lparr>ProgressPercentage := Some 50, LastMessage := ?a @ ?b,
                      LastMessageTime := Some t1, ElapsedTime := t1 - t0\<rparr>)"
    unfolding progress_line_def ParseDcpProgress_cases f by (simp_all add: empty_CommandStatus_def)
  show ?thesis
    unfolding read_progress.simps[of t0 t1 ?a] read_progress.simps[of t0 t1 ?b]
      read_progress.simps[of t0 t1 "?a @ ?b"] rd
    by (simp only: option.case prod.case p nil) (simp add: empty_CommandStatus_def)
qed

end
