(* ===== verification/Dm_Command.thy ===== *)
theory Dm_Command
  imports Dm_Types
begin

text \<open>
  Building the shell commands (\<^verbatim>\<open>internal/controller/helpers/datamovement_helpers.go\<close>): the data
  movement command from a profile's template (\<open>BuildDMCommand\<close>), the stat and mkdir commands
  (\<open>buildStatOrMkdirCommand\<close>), the session directory injected into every \<^verbatim>\<open>mpirun\<close>
  (\<open>InjectOrteTmpdirBase\<close>), and the retrieval of the profile (\<open>GetDMProfile\<close>).
  \<open>BuildDMCommand\<close> returns its \<^verbatim>\<open>error\<close> result too, although no branch of the source sets it.
\<close>

definition GetDMProfile ::
  "('w, 'z) env_scheme \<Rightarrow> NnfDataMovement \<Rightarrow> 'w \<Rightarrow> NnfDataMovementProfile res" where
  "GetDMProfile E dm w =
     (let ref = ProfileReference (dm_Spec dm)
      in if ref_Kind ref \<noteq> KindNnfDataMovementProfile
         then Err (PlainErr (''invalid NnfDataMovementProfile kind '' @ ref_Kind ref))
         else e_GetProfile E (ref_Namespace ref) (ref_Name ref) w)"

definition InjectOrteTmpdirBase :: "string \<Rightarrow> string \<Rightarrow> string" where
  "InjectOrteTmpdirBase cmd hostfile =
     (case str_index cmd ''mpirun'' of
        None \<Rightarrow> cmd
      | Some i \<Rightarrow>
          (let tmpdirBase = Dir hostfile; idx = i + length ''mpirun''
           in take idx cmd @ '' --mca orte_tmpdir_base '' @ tmpdirBase @ drop idx cmd))"

text \<open>The two places where user options are inserted after a word of the command.\<close>

definition insert_after :: "string \<Rightarrow> string \<Rightarrow> string \<Rightarrow> string" where
  "insert_after word opts cmd =
     (case str_index cmd word of
        None \<Rightarrow> cmd
      | Some i \<Rightarrow> (let idx = i + length word in take idx cmd @ '' '' @ opts @ drop idx cmd))"

definition BuildDMCommand ::
  "NnfDataMovementProfile \<Rightarrow> string \<Rightarrow> bool \<Rightarrow> NnfDataMovement \<Rightarrow> string list res" where
  "BuildDMCommand profile hostfile usePermissions dm =
     (if (case UserConfig (dm_Spec dm) of None \<Rightarrow> False | Some cfg \<Rightarrow> Dryrun cfg)
      then Ok [''true'']
      else
        (let cmd = prof_Command (prof_Data profile);
             cmd = (if usePermissions then cmd
                    else ReplaceAll (ReplaceAll cmd ''--uid $UID'' []) ''--gid $GID'' []);
             cmd = ReplaceAll cmd ''$HOSTFILE'' hostfile;
             cmd = ReplaceAll cmd ''$UID'' (show_nat (unat (UserId (dm_Spec dm))));
             cmd = ReplaceAll cmd ''$GID'' (show_nat (unat (GroupId (dm_Spec dm))));
             cmd = ReplaceAll cmd ''$SRC'' (Path (Source (dm_Spec dm)));
             cmd = ReplaceAll cmd ''$DEST'' (Path (Destination (dm_Spec dm)));
             cmd = (case UserConfig (dm_Spec dm) of
                      None \<Rightarrow> cmd
                    | Some cfg \<Rightarrow>
                        (let cmd = (if MpirunOptions cfg \<noteq> [] then insert_after ''mpirun'' (MpirunOptions cfg) cmd
                                    else cmd)
                         in if DcpOptions cfg \<noteq> [] then insert_after ''dcp'' (DcpOptions cfg) cmd
                            else cmd));
             cmd = InjectOrteTmpdirBase cmd hostfile
         in Ok (Split cmd '' '')))"

definition buildStatOrMkdirCommand ::
  "('w, 'z) env_scheme \<Rightarrow> 32 word \<Rightarrow> 32 word \<Rightarrow> string \<Rightarrow> string \<Rightarrow> string \<Rightarrow> string \<Rightarrow> string" where
  "buildStatOrMkdirCommand E uid gid cmd setprivCmd hostfile path =
     (let setprivCmd = (if e_Getuid E \<noteq> 0 then [] else setprivCmd);
          cmd = ReplaceAll cmd ''$SETPRIV'' setprivCmd;
          cmd = ReplaceAll cmd ''$HOSTFILE'' hostfile;
          cmd = ReplaceAll cmd ''$UID'' (show_nat (unat uid));
          cmd = ReplaceAll cmd ''$GID'' (show_nat (unat gid));
          cmd = ReplaceAll cmd ''$PATH'' path
      in InjectOrteTmpdirBase cmd hostfile)"

section \<open>Replacing the variables of a template\<close>

lemma ReplaceAll_here:
  "old \<noteq> [] \<Longrightarrow> prefix old s \<Longrightarrow> ReplaceAll s old new = new @ ReplaceAll (drop (length old) s) old new"
  by (metis ReplaceAll_hit prefix_drop_append)

lemma show_nat_no_dollar [simp]: "CHR ''$'' \<notin> set (show_nat n)" "CHR ''-'' \<notin> set (show_nat n)"
  using show_nat_digits[of n] by (auto simp: is_digit_def Let_def)

lemmas replace_simps = ReplaceAll_here ReplaceAll_miss ReplaceAll_skip ReplaceAll_notin

lemma str_index_sep:
  assumes "c \<notin> set sub" and "sub \<noteq> []" and "\<not> Contains x sub"
  shows "str_index (x @ c # y) sub = map_option (\<lambda>n. length x + 1 + n) (str_index y sub)"
  using assms(3)
proof (induction x)
  case Nil
  then show ?case using assms(1,2) by (cases sub) (auto simp: option.map_comp comp_def)
next
  case (Cons a x)
  then have nc: "\<not> Contains x sub" and np: "\<not> prefix sub (a # x)"
    by (auto simp: Contains_def split: if_splits)
  have "\<not> prefix sub (a # x @ c # y)"
  proof
    assume "prefix sub (a # x @ c # y)"
    then have "prefix sub ((a # x) @ c # y)" by simp
    then have "prefix sub (a # x) \<or> (\<exists>zs. sub = (a # x) @ zs \<and> prefix zs (c # y))"
      by (simp only: prefix_append)
    with np obtain zs where "sub = (a # x) @ zs" "prefix zs (c # y)" by blast
    with np assms(1) show False by (cases zs) auto
  qed
  then show ?case using Cons.IH[OF nc] by (simp add: option.map_comp comp_def)
qed

section \<open>Injection and insertion\<close>

text \<open>
  The session directory goes right after the first \<^verbatim>\<open>mpirun\<close> of a command and nothing else of the
  command changes; a command without \<^verbatim>\<open>mpirun\<close> is left alone.
\<close>

lemma InjectOrteTmpdirBase_spec:
  "if Contains cmd ''mpirun''
   then \<exists>pre post. cmd = pre @ ''mpirun'' @ post \<and> \<not> Contains (pre @ ''mpiru'') ''mpirun'' \<and>
          InjectOrteTmpdirBase cmd hostfile =
            pre @ ''mpirun --mca orte_tmpdir_base '' @ Dir hostfile @ post
   else InjectOrteTmpdirBase cmd hostfile = cmd"
proof (cases "str_index cmd ''mpirun''")
  case None
  then show ?thesis by (simp add: Contains_def InjectOrteTmpdirBase_def)
next
  case (Some i)
  then have "cmd = take i cmd @ ''mpirun'' @ drop (i + length ''mpirun'') cmd"
      "\<not> Contains (take i cmd @ ''mpiru'') ''mpirun''"
    by (rule str_index_split, simp add: str_index_least)
  moreover have "InjectOrteTmpdirBase cmd hostfile =
      take i cmd @ ''mpirun --mca orte_tmpdir_base '' @ Dir hostfile @ drop (i + length ''mpirun'') cmd"
    using Some str_index_take[OF Some] by (simp add: InjectOrteTmpdirBase_def)
  moreover have "Contains cmd ''mpirun''" using Some by (simp add: Contains_def)
  ultimately show ?thesis by (simp only: if_True) blast
qed

section \<open>The command of the default profile\<close>

definition default_command :: string where
  "default_command =
     ''ulimit -n 2048 && mpirun --allow-run-as-root --hostfile $HOSTFILE dcp --progress 1 --uid $UID --gid $GID $SRC $DEST''"

definition replace_vars :: "string \<Rightarrow> string \<Rightarrow> string \<Rightarrow> string \<Rightarrow> string \<Rightarrow> string \<Rightarrow> string" where
  "replace_vars hostfile uid gid src dest cmd =
     ReplaceAll (ReplaceAll (ReplaceAll (ReplaceAll (ReplaceAll cmd ''$HOSTFILE'' hostfile) ''$UID'' uid)
       ''$GID'' gid) ''$SRC'' src) ''$DEST'' dest"

lemma replace_vars_default:
  assumes "CHR ''$'' \<notin> set hostfile" "CHR ''$'' \<notin> set uid" "CHR ''$'' \<notin> set gid" "CHR ''$'' \<notin> set src"
  shows "replace_vars hostfile uid gid src dest default_command =
    ''ulimit -n 2048 && mpirun --allow-run-as-root --hostfile '' @ hostfile @ '' dcp --progress 1 --uid '' @ uid @
    '' --gid '' @ gid @ '' '' @ src @ '' '' @ dest"
  using assms unfolding replace_vars_def default_command_def
  by (simp add: replace_simps)

lemma drop_permissions_default:
  "ReplaceAll (ReplaceAll default_command ''--uid $UID'' []) ''--gid $GID'' [] =
   ''ulimit -n 2048 && mpirun --allow-run-as-root --hostfile $HOSTFILE dcp --progress 1   $SRC $DEST''"
  by code_simp

lemma replace_vars_unprivileged:
  assumes "CHR ''$'' \<notin> set hostfile" "CHR ''$'' \<notin> set src"
  shows "replace_vars hostfile uid gid src dest
      ''ulimit -n 2048 && mpirun --allow-run-as-root --hostfile $HOSTFILE dcp --progress 1   $SRC $DEST'' =
    ''ulimit -n 2048 && mpirun --allow-run-as-root --hostfile '' @ hostfile @ '' dcp --progress 1   '' @ src @ '' '' @ dest"
  using assms unfolding replace_vars_def
  by (simp add: replace_simps)

lemma Contains_sep:
  assumes "c \<notin> set sub" and "sub \<noteq> []"
  shows "Contains (x @ c # y) sub \<longleftrightarrow> Contains x sub \<or> Contains y sub"
proof (cases "Contains x sub")
  case True
  then obtain a b where "x = a @ sub @ b" unfolding Contains_iff by blast
  then have "x @ c # y = a @ sub @ (b @ c # y)" by simp
  then show ?thesis using True unfolding Contains_iff by blast
next
  case False
  then show ?thesis using str_index_sep[OF assms False, of y] by (simp add: Contains_def)
qed

lemma insert_after_word:
  assumes "\<not> Contains a word" and "CHR '' '' \<notin> set word" and "word \<noteq> []"
  shows "insert_after word opts (a @ '' '' @ word @ rest) = a @ '' '' @ word @ '' '' @ opts @ rest"
proof -
  have "str_index (word @ rest) word = Some 0" using assms(3) by (cases word) auto
  then have "str_index (a @ CHR '' '' # word @ rest) word = Some (length a + 1)"
    using str_index_sep[OF assms(2,3,1), of "word @ rest"] by simp
  then show ?thesis by (simp add: insert_after_def)
qed

lemma insert_mpirun:
  "insert_after ''mpirun'' opts (''ulimit -n 2048 && mpirun'' @ rest) =
   ''ulimit -n 2048 && mpirun '' @ opts @ rest"
  using insert_after_word[of "''ulimit -n 2048 &&''" "''mpirun''" opts rest] by (simp add: Contains_def)

lemma inject_mpirun:
  "InjectOrteTmpdirBase (''ulimit -n 2048 && mpirun'' @ rest) hostfile =
   ''ulimit -n 2048 && mpirun --mca orte_tmpdir_base '' @ Dir hostfile @ rest"
proof -
  have "str_index (''ulimit -n 2048 && mpirun'' @ rest) ''mpirun'' = Some (length ''ulimit -n 2048 && '')" by simp
  then show ?thesis by (simp add: InjectOrteTmpdirBase_def)
qed

definition with_opts :: "string \<Rightarrow> string" where
  "with_opts opts = (if opts = [] then [] else '' '' @ opts)"

definition insert_options :: "string \<Rightarrow> string \<Rightarrow> string \<Rightarrow> string" where
  "insert_options mo opts cmd =
     (let cmd = (if mo \<noteq> [] then insert_after ''mpirun'' mo cmd else cmd)
      in if opts \<noteq> [] then insert_after ''dcp'' opts cmd else cmd)"

definition drop_permissions :: "bool \<Rightarrow> string \<Rightarrow> string" where
  "drop_permissions usePermissions cmd =
     (if usePermissions then cmd else ReplaceAll (ReplaceAll cmd ''--uid $UID'' []) ''--gid $GID'' [])"

lemma insert_user_options:
  assumes "\<not> Contains hostfile ''dcp''" and "\<not> Contains mo ''dcp''"
  shows "insert_options mo opts
      (''ulimit -n 2048 && mpirun --allow-run-as-root --hostfile '' @ hostfile @ '' dcp'' @ rest) =
    ''ulimit -n 2048 && mpirun'' @ with_opts mo @ '' --allow-run-as-root --hostfile '' @ hostfile @ '' dcp'' @
    with_opts opts @ rest"
proof -
  let ?a = "''ulimit -n 2048 && mpirun'' @ with_opts mo @ '' --allow-run-as-root --hostfile '' @ hostfile"
  have 1: "insert_after ''mpirun'' mo
      (''ulimit -n 2048 && mpirun --allow-run-as-root --hostfile '' @ hostfile @ '' dcp'' @ rest) =
      ''ulimit -n 2048 && mpirun '' @ mo @ '' --allow-run-as-root --hostfile '' @ hostfile @ '' dcp'' @ rest"
    using insert_mpirun[of mo "'' --allow-run-as-root --hostfile '' @ hostfile @ '' dcp'' @ rest"] by simp
  have l: "\<not> Contains ''ulimit -n 2048 && mpirun'' ''dcp''" "\<not> Contains ''--allow-run-as-root --hostfile'' ''dcp''"
    by code_simp+
  have c: "Contains (x @ '' '' @ y) ''dcp'' \<longleftrightarrow> Contains x ''dcp'' \<or> Contains y ''dcp''" for x y
    using Contains_sep[of "CHR '' ''" "''dcp''" x y] by simp
  have eq: "?a = ''ulimit -n 2048 && mpirun'' @ '' '' @ (if mo = [] then [] else mo @ '' '') @
             ''--allow-run-as-root --hostfile'' @ '' '' @ hostfile"
    by (simp add: with_opts_def)
  have nc: "\<not> Contains (''ulimit -n 2048 && mpirun'' @ '' '' @ (if mo = [] then [] else mo @ '' '') @
             ''--allow-run-as-root --hostfile'' @ '' '' @ hostfile) ''dcp''"
    using assms l unfolding c by (cases "mo = []") (simp_all only: if_True if_False append.assoc append_Nil c simp_thms)
  have "\<not> Contains ?a ''dcp''" by (subst eq) (rule nc)
  then have ins: "insert_after ''dcp'' opts (?a @ '' '' @ ''dcp'' @ rest) = ?a @ '' '' @ ''dcp'' @ '' '' @ opts @ rest"
    by (rule insert_after_word) auto
  have cmd: "(if mo \<noteq> [] then insert_after ''mpirun'' mo
           (''ulimit -n 2048 && mpirun --allow-run-as-root --hostfile '' @ hostfile @ '' dcp'' @ rest)
         else ''ulimit -n 2048 && mpirun --allow-run-as-root --hostfile '' @ hostfile @ '' dcp'' @ rest) =
        ?a @ '' '' @ ''dcp'' @ rest"
    unfolding 1 by (simp add: with_opts_def)
  show ?thesis unfolding insert_options_def Let_def cmd ins by (simp add: with_opts_def)
qed

definition user_opts :: "(NnfDataMovementConfig \<Rightarrow> string) \<Rightarrow> NnfDataMovement \<Rightarrow> string" where
  "user_opts f dm = (case UserConfig (dm_Spec dm) of None \<Rightarrow> [] | Some cfg \<Rightarrow> f cfg)"

definition dry_run :: "NnfDataMovement \<Rightarrow> bool" where
  "dry_run dm = (case UserConfig (dm_Spec dm) of None \<Rightarrow> False | Some cfg \<Rightarrow> Dryrun cfg)"

lemma BuildDMCommand_alt:
  "BuildDMCommand profile hostfile usePermissions dm =
   (if dry_run dm then Ok [''true'']
    else Ok (Split (InjectOrteTmpdirBase
           (insert_options (user_opts MpirunOptions dm) (user_opts DcpOptions dm)
             (replace_vars hostfile (show_nat (unat (UserId (dm_Spec dm)))) (show_nat (unat (GroupId (dm_Spec dm))))
               (Path (Source (dm_Spec dm))) (Path (Destination (dm_Spec dm)))
               (drop_permissions usePermissions (prof_Command (prof_Data profile))))) hostfile) '' ''))"
  by (simp add: BuildDMCommand_def replace_vars_def user_opts_def dry_run_def insert_options_def
        drop_permissions_def Let_def split: option.split)

text \<open>
  C34. From the default profile \<open>BuildDMCommand\<close> builds, for a request that is no dry run, exactly this
  command line (the one \<^verbatim>\<open>bash -c\<close> gets, its arguments joined by blanks): the session directory and
  the user's \<^verbatim>\<open>mpirun\<close> options after \<^verbatim>\<open>mpirun\<close>, the hostfile, the user's \<^verbatim>\<open>dcp\<close> options after \<^verbatim>\<open>dcp\<close>, the
  request's user and group when permissions are used and neither of them when they are not, and the
  two paths. Variables inside the hostfile name or the source path, and a \<^verbatim>\<open>dcp\<close> inside the hostfile
  name or the \<^verbatim>\<open>mpirun\<close> options, are excluded: there the replacement would start over in inserted text.
\<close>

theorem BuildDMCommand_default:
  assumes "prof_Command (prof_Data profile) = default_command" and "\<not> dry_run dm"
    and "CHR ''$'' \<notin> set hostfile" and "CHR ''$'' \<notin> set (Path (Source (dm_Spec dm)))"
    and "\<not> Contains hostfile ''dcp''" and "\<not> Contains (user_opts MpirunOptions dm) ''dcp''"
  shows "\<exists>args. BuildDMCommand profile hostfile usePermissions dm = Ok args \<and>
    Join args '' '' =
      ''ulimit -n 2048 && mpirun --mca orte_tmpdir_base '' @ Dir hostfile @
      with_opts (user_opts MpirunOptions dm) @
      '' --allow-run-as-root --hostfile '' @ hostfile @ '' dcp'' @ with_opts (user_opts DcpOptions dm) @
      '' --progress 1 '' @
      (if usePermissions
       then ''--uid '' @ show_nat (unat (UserId (dm_Spec dm))) @
            '' --gid '' @ show_nat (unat (GroupId (dm_Spec dm)))
       else '' '') @
      '' '' @ Path (Source (dm_Spec dm)) @ '' '' @ Path (Destination (dm_Spec dm))"
proof -
  let ?uid = "show_nat (unat (UserId (dm_Spec dm)))" and ?gid = "show_nat (unat (GroupId (dm_Spec dm)))"
  let ?rest = "'' --progress 1 '' @
      (if usePermissions then ''--uid '' @ ?uid @ '' --gid '' @ ?gid else '' '') @
      '' '' @ Path (Source (dm_Spec dm)) @ '' '' @ Path (Destination (dm_Spec dm))"
  have "replace_vars hostfile ?uid ?gid (Path (Source (dm_Spec dm))) (Path (Destination (dm_Spec dm)))
          (drop_permissions usePermissions default_command) =
        ''ulimit -n 2048 && mpirun --allow-run-as-root --hostfile '' @ hostfile @ '' dcp'' @ ?rest"
    using replace_vars_default[OF assms(3) show_nat_no_dollar(1) show_nat_no_dollar(1) assms(4)]
      replace_vars_unprivileged[OF assms(3,4)]
    unfolding drop_permissions_def drop_permissions_default by (cases usePermissions) simp_all
  note expanded = this
  show ?thesis
    unfolding BuildDMCommand_alt assms(1) expanded insert_user_options[OF assms(5,6), of _ ?rest] inject_mpirun
    using assms(2) by simp
qed

theorem BuildDMCommand_default_witness:
  "\<exists>args. BuildDMCommand (sample_profile default_command) ''/tmp/dm0/hostfile'' True sample_dm = Ok args \<and>
    Join args '' '' =
      ''ulimit -n 2048 && mpirun --mca orte_tmpdir_base /tmp/dm0 -v --allow-run-as-root '' @
      ''--hostfile /tmp/dm0/hostfile dcp -p --progress 1 --uid 1000 --gid 100 /mnt/nnf/a /lus/b''"
proof -
  have d: "Dir ''/tmp/dm0/hostfile'' = ''/tmp/dm0''" "show_nat 1000 = ''1000''" "show_nat 100 = ''100''"
    by code_simp+
  have h: "\<not> Contains ''/tmp/dm0/hostfile'' ''dcp''" "\<not> Contains ''-v'' ''dcp''" by code_simp+
  show ?thesis
    using BuildDMCommand_default[of "sample_profile default_command" sample_dm "''/tmp/dm0/hostfile''" True] d h
    by (simp add: sample_defs user_opts_def dry_run_def with_opts_def)
qed

section \<open>The stat and mkdir commands\<close>

definition default_stat :: string where
  "default_stat = ''mpirun --allow-run-as-root -np 1 --hostfile $HOSTFILE -- $SETPRIV stat --cached never -c '' @
     [CHR 0x27] @ ''%F'' @ [CHR 0x27] @ '' $PATH''"

definition default_mkdir :: string where
  "default_mkdir = ''mpirun --allow-run-as-root -np 1 --hostfile $HOSTFILE -- $SETPRIV mkdir -p $PATH''"

definition default_setpriv :: string where
  "default_setpriv = ''setpriv --euid $UID --egid $GID --clear-groups''"

text \<open>
  The default \<^verbatim>\<open>mkdir\<close> command runs as the request's user and group through \<^verbatim>\<open>setpriv\<close> when the
  process is root, without \<^verbatim>\<open>setpriv\<close> when it is not, on the path as given, and with a session
  directory of its own; the default \<^verbatim>\<open>stat\<close> command likewise.
\<close>

lemma buildStatOrMkdirCommand_default:
  assumes "CHR ''$'' \<notin> set hostfile"
  shows "buildStatOrMkdirCommand E uid gid default_mkdir default_setpriv hostfile path =
     ''mpirun --mca orte_tmpdir_base '' @ Dir hostfile @ '' --allow-run-as-root -np 1 --hostfile '' @ hostfile @
     '' -- '' @ (if e_Getuid E = 0 then ''setpriv --euid '' @ show_nat (unat uid) @ '' --egid '' @
                    show_nat (unat gid) @ '' --clear-groups'' else []) @ '' mkdir -p '' @ path \<and>
   buildStatOrMkdirCommand E uid gid default_stat default_setpriv hostfile path =
     ''mpirun --mca orte_tmpdir_base '' @ Dir hostfile @ '' --allow-run-as-root -np 1 --hostfile '' @ hostfile @
     '' -- '' @ (if e_Getuid E = 0 then ''setpriv --euid '' @ show_nat (unat uid) @ '' --egid '' @
                    show_nat (unat gid) @ '' --clear-groups'' else []) @ '' stat --cached never -c '' @
     [CHR 0x27] @ ''%F'' @ [CHR 0x27] @ '' '' @ path"
proof -
  have inj: "InjectOrteTmpdirBase (''mpirun'' @ rest) hostfile =
             ''mpirun --mca orte_tmpdir_base '' @ Dir hostfile @ rest" for rest
    by (simp add: InjectOrteTmpdirBase_def)
  let ?mid = "'' --allow-run-as-root -np 1 --hostfile '' @ hostfile @
     '' -- '' @ (if e_Getuid E = 0 then ''setpriv --euid '' @ show_nat (unat uid) @ '' --egid '' @
                    show_nat (unat gid) @ '' --clear-groups'' else [])"
  have "buildStatOrMkdirCommand E uid gid default_mkdir default_setpriv hostfile path =
        InjectOrteTmpdirBase (''mpirun'' @ ?mid @ '' mkdir -p '' @ path) hostfile"
    using assms unfolding buildStatOrMkdirCommand_def default_mkdir_def default_setpriv_def Let_def
    by (cases "e_Getuid E = 0") (simp_all add: replace_simps)
  moreover have "buildStatOrMkdirCommand E uid gid default_stat default_setpriv hostfile path =
        InjectOrteTmpdirBase (''mpirun'' @ ?mid @ '' stat --cached never -c '' @
          [CHR 0x27] @ ''%F'' @ [CHR 0x27] @ '' '' @ path) hostfile"
  proof (cases "e_Getuid E = 0")
    case True
    with assms show ?thesis
      unfolding buildStatOrMkdirCommand_def default_stat_def default_setpriv_def Let_def by (simp add: replace_simps)
  next
    case False
    with assms show ?thesis
      unfolding buildStatOrMkdirCommand_def default_stat_def default_setpriv_def Let_def by (simp add: replace_simps)
  qed
  ultimately show ?thesis unfolding inj by simp
qed

lemma buildStatOrMkdirCommand_default_witness:
  "\<forall>(E :: unit env) path.
     buildStatOrMkdirCommand E 1000 100 default_mkdir default_setpriv ''/tmp/h/f'' path =
     ''mpirun --mca orte_tmpdir_base /tmp/h --allow-run-as-root -np 1 --hostfile /tmp/h/f -- '' @
     (if e_Getuid E = 0 then ''setpriv --euid 1000 --egid 100 --clear-groups'' else []) @ '' mkdir -p '' @ path"
proof (intro allI)
  fix E :: "unit env" and path
  have d: "Dir ''/tmp/h/f'' = ''/tmp/h''" "show_nat 1000 = ''1000''" "show_nat 100 = ''100''" by code_simp+
  have "CHR ''$'' \<notin> set ''/tmp/h/f''" by simp
  from buildStatOrMkdirCommand_default[OF this, of E 1000 100 path, THEN conjunct1] d
  show "buildStatOrMkdirCommand E 1000 100 default_mkdir default_setpriv ''/tmp/h/f'' path =
     ''mpirun --mca orte_tmpdir_base /tmp/h --allow-run-as-root -np 1 --hostfile /tmp/h/f -- '' @
     (if e_Getuid E = 0 then ''setpriv --euid 1000 --egid 100 --clear-groups'' else []) @ '' mkdir -p '' @ path"
    by simp
qed

end
