(* ===== verification/Cluster.thy ===== *)
theory Cluster
  imports Dm_Types
begin

text \<open>
  The surroundings the program runs in, as one concrete state: the API server with optimistic
  concurrency, the client's cache (which may be behind the server), the other objects the program
  reads, the files it writes, the shell and the clock. \<open>cluster_env\<close> makes an environment of it.

  The contracts the program relies on are the locales \<open>file_system\<close> (what a file holds after it is
  created and written), \<open>shell_view\<close> (what commands and files leave alone) and \<open>dm_server\<close> (reads come
  from the cache; a write is accepted only if it is based on the stored version, and even an accepted
  write may be reported as failed). They are interpreted on the cluster here, and the component theories prove their lemmas from them.
\<close>

section \<open>The contracts\<close>

locale file_system =
  fixes E :: "('w, 'z) env_scheme"
  assumes read_create: "e_Create E p w = (None, w') \<Longrightarrow> e_ReadFile E p w' = Ok []"
    and read_write: "e_ReadFile E p w = Ok s \<Longrightarrow> e_WriteString E p t w = (None, w') \<Longrightarrow>
                     e_ReadFile E p w' = Ok (s @ t)"

text \<open>
  What the server and the client hold of the data movement resources: the stored objects and their
  last revision, and the client's cache.
\<close>

record api_state =
  a_stored :: "string \<times> string \<Rightarrow> NnfDataMovement option"
  a_cache :: "string \<times> string \<Rightarrow> NnfDataMovement option"
  a_rev :: nat

definition dm_key :: "NnfDataMovement \<Rightarrow> string \<times> string" where
  "dm_key dm = (dm_Namespace dm, dm_Name dm)"

text \<open>
  An accepted write: the stored object, still in the version the write is based on, is changed and
  gets a new revision; an object that is being deleted disappears with its last finalizer. A refused
  write changes nothing. The caller sees the new object only if the write was accepted, but an
  error does not tell whether it was (the answer may have been lost).
\<close>

definition api_accept ::
  "(NnfDataMovement \<Rightarrow> NnfDataMovement) \<Rightarrow> NnfDataMovement \<Rightarrow> NnfDataMovement \<Rightarrow> api_state \<Rightarrow> api_state \<Rightarrow> bool" where
  "api_accept change dm new a a' \<longleftrightarrow>
     (\<exists>cur v. a_stored a (dm_key dm) = Some cur \<and> dm_ResourceVersion cur = dm_ResourceVersion dm \<and>
        a_rev a < v \<and> new = (change cur)\<lparr>dm_ResourceVersion := v\<rparr> \<and>
        a' = a\<lparr>a_rev := v,
               a_stored := (a_stored a)(dm_key dm :=
                 if dm_DeletionTimestamp cur \<noteq> None \<and> dm_Finalizers new = [] then None else Some new)\<rparr>)"

definition api_write ::
  "(NnfDataMovement \<Rightarrow> NnfDataMovement) \<Rightarrow> NnfDataMovement \<Rightarrow> NnfDataMovement res \<Rightarrow> api_state \<Rightarrow> api_state \<Rightarrow> bool" where
  "api_write change dm r a a' \<longleftrightarrow>
     (case r of
        Ok new \<Rightarrow> api_accept change dm new a a'
      | Err e \<Rightarrow> a' = a \<or> (\<exists>new. api_accept change dm new a a')
      | Panic \<Rightarrow> False)"

abbreviation put_object :: "NnfDataMovement \<Rightarrow> NnfDataMovement \<Rightarrow> NnfDataMovement" where
  "put_object dm cur \<equiv> cur\<lparr>dm_Labels := dm_Labels dm, dm_Finalizers := dm_Finalizers dm, dm_Spec := dm_Spec dm\<rparr>"

abbreviation put_status :: "NnfDataMovement \<Rightarrow> NnfDataMovement \<Rightarrow> NnfDataMovement" where
  "put_status dm cur \<equiv> cur\<lparr>dm_Status := dm_Status dm\<rparr>"

text \<open>
  Shell commands and file operations do not change what the client and the API server hold; \<open>view\<close> is any
  part of the world for which this holds.
\<close>

locale shell_view =
  fixes E :: "('w, 'z) env_scheme"
    and view :: "'w \<Rightarrow> 'v"
  assumes bash_keeps: "e_Bash E cmd timeout w = (r1, w') \<Longrightarrow> view w' = view w"
    and mkdirTemp_keeps: "e_MkdirTemp E d p w = (r2, w') \<Longrightarrow> view w' = view w"
    and mkdirAll_keeps: "e_MkdirAll E d w = (r3, w') \<Longrightarrow> view w' = view w"
    and create_keeps: "e_Create E p w = (r3, w') \<Longrightarrow> view w' = view w"
    and writeString_keeps: "e_WriteString E p t w = (r3, w') \<Longrightarrow> view w' = view w"
    and removeAll_keeps: "view (e_RemoveAll E d w) = view w"
begin

lemma Run_keeps: "Run E args w = (r, w') \<Longrightarrow> view w' = view w"
  by (auto simp: Run_def run_bash_def dest: bash_keeps split: option.splits sum.splits prod.splits)

end

locale dm_server = shell_view E api
  for E :: "('w, 'z) env_scheme" and api :: "'w \<Rightarrow> api_state" +
  assumes get_cached: "e_GetDm E ns n w = Ok dm \<Longrightarrow> a_cache (api w) (ns, n) = Some dm"
    and get_no_panic: "e_GetDm E ns n w \<noteq> Panic"
    and update: "e_UpdateDm E dm w = (r, w') \<Longrightarrow> api_write (put_object dm) dm r (api w) (api w')"
    and update_status: "e_UpdateDmStatus E dm w = (r, w') \<Longrightarrow> api_write (put_status dm) dm r (api w) (api w')"
begin

text \<open>A status write that was computed from an old version of the object is refused.\<close>

lemma stale_status_update:
  assumes "a_stored (api w) (dm_key dm) = Some cur" and "dm_ResourceVersion cur \<noteq> dm_ResourceVersion dm"
    and "e_UpdateDmStatus E dm w = (r, w')"
  shows "(\<exists>e. r = Err e) \<and> api w' = api w"
  using assms update_status[OF assms(3)]
  by (auto simp: api_write_def api_accept_def split: result.splits)

end

section \<open>The cluster\<close>

record cluster =
  c_revision :: nat
  c_dms :: "string \<times> string \<Rightarrow> NnfDataMovement option"
  c_cache :: "string \<times> string \<Rightarrow> NnfDataMovement option"
  c_faults :: "(api_reason \<times> bool) option list"
  c_profiles :: "string \<times> string \<Rightarrow> NnfDataMovementProfile option"
  c_storages :: "string \<times> string \<Rightarrow> NnfStorage option"
  c_nodeStorages :: "string \<times> string \<Rightarrow> NnfNodeStorage option"
  c_pods :: "(PodQuery \<times> Pod) list"
  c_files :: "string \<Rightarrow> string option"
  c_dirs :: "string set"
  c_shell :: "string \<Rightarrow> string \<times> string \<times> goerr option"
  c_clock :: time

definition cluster_api :: "cluster \<Rightarrow> api_state" where
  "cluster_api c = \<lparr>a_stored = c_dms c, a_cache = c_cache c, a_rev = c_revision c\<rparr>"

definition lookup_res :: "('k \<Rightarrow> 'v option) \<Rightarrow> 'k \<Rightarrow> 'v res" where
  "lookup_res m k = (case m k of None \<Rightarrow> Err (ApiErr NotFound ''not found'') | Some v \<Rightarrow> Ok v)"

text \<open>
  A write takes the next entry of the fault plan: \<open>Some (reason, lost)\<close> makes it fail with that
  reason, after the server has applied it when \<open>lost\<close>, and before otherwise. \<^verbatim>\<open>os.RemoveAll\<close> refuses a path
  that ends in a dot.
\<close>

definition srv_apply ::
  "(NnfDataMovement \<Rightarrow> NnfDataMovement) \<Rightarrow> NnfDataMovement \<Rightarrow> cluster \<Rightarrow> NnfDataMovement res \<times> cluster" where
  "srv_apply change dm c =
     (case c_dms c (dm_key dm) of
        None \<Rightarrow> (Err (ApiErr NotFound ''not found''), c)
      | Some cur \<Rightarrow>
          if dm_ResourceVersion cur \<noteq> dm_ResourceVersion dm then (Err (ApiErr Conflict ''conflict''), c)
          else
            (let new = (change cur)\<lparr>dm_ResourceVersion := Suc (c_revision c)\<rparr>;
                 gone = (dm_DeletionTimestamp cur \<noteq> None \<and> dm_Finalizers new = [])
             in (Ok new, c\<lparr>c_revision := Suc (c_revision c),
                           c_dms := (c_dms c)(dm_key dm := if gone then None else Some new)\<rparr>)))"

definition srv_write ::
  "(NnfDataMovement \<Rightarrow> NnfDataMovement) \<Rightarrow> NnfDataMovement \<Rightarrow> cluster \<Rightarrow> NnfDataMovement res \<times> cluster" where
  "srv_write change dm c =
     (let c' = c\<lparr>c_faults := tl (c_faults c)\<rparr>
      in case (if c_faults c = [] then None else hd (c_faults c)) of
           None \<Rightarrow> srv_apply change dm c'
         | Some (reason, lost) \<Rightarrow>
             (Err (ApiErr reason ''injected''), if lost then snd (srv_apply change dm c') else c'))"

definition cluster_env :: "(string \<Rightarrow> string option) \<Rightarrow> nat \<Rightarrow> cluster env" where
  "cluster_env vars uid =
     \<lparr>e_LookupEnv = vars, e_Getuid = uid, e_Now = c_clock,
      e_GetDm = (\<lambda>ns n c. lookup_res (c_cache c) (ns, n)),
      e_UpdateDm = (\<lambda>dm. srv_write (put_object dm) dm),
      e_UpdateDmStatus = (\<lambda>dm. srv_write (put_status dm) dm),
      e_GetProfile = (\<lambda>ns n c. lookup_res (c_profiles c) (ns, n)),
      e_GetStorage = (\<lambda>ns n c. lookup_res (c_storages c) (ns, n)),
      e_GetNodeStorage = (\<lambda>ns n c. lookup_res (c_nodeStorages c) (ns, n)),
      e_ListPods = (\<lambda>q c. Ok (map snd (filter (\<lambda>(l, p). l = q) (c_pods c)))),
      e_Bash = (\<lambda>cmd timeout c. (c_shell c cmd, c)),
      e_StatIsDir = (\<lambda>p c. if p \<in> c_dirs c then Ok True
                           else if c_files c p \<noteq> None then Ok False
                           else Err (PlainErr ''no such file or directory'')),
      e_MkdirTemp = (\<lambda>d pre c. (Ok (d @ ''/'' @ pre @ ''0''), c)),
      e_MkdirAll = (\<lambda>d c. (None, c\<lparr>c_dirs := insert d (c_dirs c)\<rparr>)),
      e_Create = (\<lambda>p c. (None, c\<lparr>c_files := (c_files c)(p := Some [])\<rparr>)),
      e_WriteString = (\<lambda>p t c. (case c_files c p of
                         None \<Rightarrow> (Some (PlainErr ''no such file or directory''), c)
                       | Some s \<Rightarrow> (None, c\<lparr>c_files := (c_files c)(p := Some (s @ t))\<rparr>))),
      e_ReadFile = (\<lambda>p c. (case c_files c p of
                         None \<Rightarrow> Err (PlainErr ''no such file or directory'') | Some s \<Rightarrow> Ok s)),
      e_RemoveAll = (\<lambda>d c. if d = ''.'' \<or> HasSuffix d ''/.'' then c
                       else c\<lparr>c_files := (\<lambda>p. if prefix (d @ ''/'') p then None else c_files c p),
                             c_dirs := {p \<in> c_dirs c. p \<noteq> d \<and> \<not> prefix (d @ ''/'') p}\<rparr>)\<rparr>"

lemma cluster_env_sel [simp]:
  "e_LookupEnv (cluster_env vars uid) = vars"
  "e_Getuid (cluster_env vars uid) = uid"
  "e_Now (cluster_env vars uid) = c_clock"
  "e_GetDm (cluster_env vars uid) ns n c = lookup_res (c_cache c) (ns, n)"
  "e_UpdateDm (cluster_env vars uid) dm c = srv_write (put_object dm) dm c"
  "e_UpdateDmStatus (cluster_env vars uid) dm c = srv_write (put_status dm) dm c"
  "e_GetProfile (cluster_env vars uid) ns n c = lookup_res (c_profiles c) (ns, n)"
  "e_GetStorage (cluster_env vars uid) ns n c = lookup_res (c_storages c) (ns, n)"
  "e_GetNodeStorage (cluster_env vars uid) ns n c = lookup_res (c_nodeStorages c) (ns, n)"
  "e_ListPods (cluster_env vars uid) q c = Ok (map snd (filter (\<lambda>(l, p). l = q) (c_pods c)))"
  "e_Bash (cluster_env vars uid) cmd timeout c = (c_shell c cmd, c)"
  "e_MkdirTemp (cluster_env vars uid) d pre c = (Ok (d @ ''/'' @ pre @ ''0''), c)"
  "e_MkdirAll (cluster_env vars uid) d c = (None, c\<lparr>c_dirs := insert d (c_dirs c)\<rparr>)"
  "e_Create (cluster_env vars uid) p c = (None, c\<lparr>c_files := (c_files c)(p := Some [])\<rparr>)"
  "e_WriteString (cluster_env vars uid) p t c =
     (case c_files c p of
        None \<Rightarrow> (Some (PlainErr ''no such file or directory''), c)
      | Some s \<Rightarrow> (None, c\<lparr>c_files := (c_files c)(p := Some (s @ t))\<rparr>))"
  "e_ReadFile (cluster_env vars uid) p c =
     (case c_files c p of None \<Rightarrow> Err (PlainErr ''no such file or directory'') | Some s \<Rightarrow> Ok s)"
  by (simp_all add: cluster_env_def)

definition empty_cluster :: cluster where
  "empty_cluster =
     \<lparr>c_revision = 0, c_dms = Map.empty, c_cache = Map.empty, c_faults = [], c_profiles = Map.empty,
      c_storages = Map.empty, c_nodeStorages = Map.empty, c_pods = [], c_files = Map.empty,
      c_dirs = {}, c_shell = (\<lambda>cmd. ([], [], None)), c_clock = 0\<rparr>"

section \<open>The cluster keeps the contracts\<close>

interpretation cluster_fs: file_system "cluster_env vars uid"
  by unfold_locales (auto split: option.splits)

lemma cluster_api_keeps [simp]:
  "cluster_api (c\<lparr>c_files := f\<rparr>) = cluster_api c"
  "cluster_api (c\<lparr>c_dirs := d\<rparr>) = cluster_api c"
  "cluster_api (c\<lparr>c_faults := q\<rparr>) = cluster_api c"
  by (simp_all add: cluster_api_def)

lemma srv_apply_write:
  "srv_apply change dm c = (r, c') \<Longrightarrow> api_write change dm r (cluster_api c) (cluster_api c')"
  by (auto simp: srv_apply_def api_write_def api_accept_def cluster_api_def Let_def
      split: option.splits if_splits)

lemma srv_write_write:
  assumes "srv_write change dm c = (r, c')"
  shows "api_write change dm r (cluster_api c) (cluster_api c')"
proof -
  let ?c = "c\<lparr>c_faults := tl (c_faults c)\<rparr>"
  show ?thesis
  proof (cases "if c_faults c = [] then None else hd (c_faults c)")
    case None
    then show ?thesis using assms srv_apply_write[of change dm ?c r c'] by (simp add: srv_write_def)
  next
    case (Some f)
    then obtain reason lost where f: "f = (reason, lost)" by fastforce
    obtain r' c1 where ap: "srv_apply change dm ?c = (r', c1)" by fastforce
    have "api_write change dm r' (cluster_api c) (cluster_api c1)" using srv_apply_write[OF ap] by simp
    then have "cluster_api c1 = cluster_api c \<or> (\<exists>new. api_accept change dm new (cluster_api c) (cluster_api c1))"
      by (auto simp: api_write_def split: result.splits)
    then show ?thesis
      using assms Some f ap by (auto simp: srv_write_def api_write_def Let_def split: if_splits)
  qed
qed

interpretation cluster_server: dm_server "cluster_env vars uid" cluster_api
  by unfold_locales
     (auto simp: lookup_res_def cluster_env_def cluster_api_def srv_write_write[unfolded cluster_api_def]
           split: option.splits)

end
