(* ===== verification/Mpi_Hosts.thy ===== *)
theory Mpi_Hosts
  imports Cluster
begin

text \<open>
  The MPI hostfile and the hosts that go into it (\<^verbatim>\<open>internal/controller/helpers/datamovement_helpers.go\<close>):
  \<open>CreateMpiHostfile\<close>, \<open>WriteMpiHostfile\<close>, \<open>PeekMpiHostfile\<close>, the choice of storage nodes
  (\<open>GetStorageNodeNames\<close>) and the worker names for the controller (\<open>GetWorkerHostnames\<close>) and for copy
  offload (\<open>GetCopyOffloadWorkerHostnames\<close>). Reading \<^verbatim>\<open>nodes[0]\<close> of an empty slice is a panic.
\<close>

section \<open>Writing the hostfile\<close>

text \<open>Successive \<^verbatim>\<open>f.WriteString\<close> calls; the first error ends the function.\<close>

fun write_all :: "('w, 'z) env_scheme \<Rightarrow> string \<Rightarrow> string list \<Rightarrow> 'w \<Rightarrow> goerr option \<times> 'w" where
  "write_all E path [] w = (None, w)"
| "write_all E path (t # ts) w =
     (case e_WriteString E path t w of
        (Some err, w') \<Rightarrow> (Some err, w')
      | (None, w') \<Rightarrow> write_all E path ts w')"

definition host_entry :: "int \<Rightarrow> int \<Rightarrow> string \<Rightarrow> string list" where
  "host_entry slots maxSlots host =
     [host] @
     (if slots > 0 then ['' slots='' @ show_int slots] else []) @
     (if maxSlots > 0 then ['' max_slots='' @ show_int maxSlots] else []) @
     [nl]"

fun write_hosts ::
  "('w, 'z) env_scheme \<Rightarrow> string \<Rightarrow> int \<Rightarrow> int \<Rightarrow> string list \<Rightarrow> string list \<Rightarrow> 'w \<Rightarrow> goerr option \<times> 'w" where
  "write_hosts E path slots maxSlots unique_hosts [] w = (None, w)"
| "write_hosts E path slots maxSlots unique_hosts (host # hosts) w =
     (if host \<in> set unique_hosts then write_hosts E path slots maxSlots unique_hosts hosts w
      else
        (case write_all E path (host_entry slots maxSlots host) w of
           (Some err, w') \<Rightarrow> (Some err, w')
         | (None, w') \<Rightarrow> write_hosts E path slots maxSlots (host # unique_hosts) hosts w'))"

definition WriteMpiHostfile ::
  "('w, 'z) env_scheme \<Rightarrow> string \<Rightarrow> string list \<Rightarrow> int \<Rightarrow> int \<Rightarrow> 'w \<Rightarrow> string res \<times> 'w" where
  "WriteMpiHostfile E dmName hosts slots maxSlots w =
     (case (if dmName = [] then e_MkdirTemp E ''/tmp'' ''dm-'' w
            else (let tmpdir = PathJoin [''/tmp'', dmName]
                  in case e_MkdirAll E tmpdir w of
                       (None, w') \<Rightarrow> (Ok tmpdir, w') | (Some err, w') \<Rightarrow> (Err err, w'))) of
        (Err err, w1) \<Rightarrow> (Err (WrapErr ''failed to create directory for MPI hostfile: '' err []), w1)
      | (Panic, w1) \<Rightarrow> (Panic, w1)
      | (Ok tmpdir, w1) \<Rightarrow>
          (let hostfilePath = PathJoin [tmpdir, ''hostfile'']
           in case e_Create E hostfilePath w1 of
                (Some err, w2) \<Rightarrow> (Err err, w2)
              | (None, w2) \<Rightarrow>
                  (case write_hosts E hostfilePath slots maxSlots [] hosts w2 of
                     (Some err, w3) \<Rightarrow> (Err err, w3)
                   | (None, w3) \<Rightarrow> (Ok hostfilePath, w3))))"

definition CreateMpiHostfile ::
  "('w, 'z) env_scheme \<Rightarrow> NnfDataMovementProfile \<Rightarrow> string list \<Rightarrow> NnfDataMovement \<Rightarrow> 'w \<Rightarrow> string res \<times> 'w" where
  "CreateMpiHostfile E profile hosts dm w =
     (let override = (\<lambda>f default. case UserConfig (dm_Spec dm) of
                        None \<Rightarrow> default
                      | Some cfg \<Rightarrow> (case f cfg of
                                       None \<Rightarrow> default
                                     | Some n \<Rightarrow> if n \<ge> 0 then n else default));
          slots = override Slots (prof_Slots (prof_Data profile));
          maxSlots = override MaxSlots (prof_MaxSlots (prof_Data profile))
      in WriteMpiHostfile E (dm_Name dm) hosts slots maxSlots w)"

definition PeekMpiHostfile :: "('w, 'z) env_scheme \<Rightarrow> string \<Rightarrow> 'w \<Rightarrow> string" where
  "PeekMpiHostfile E hostfile w =
     (case e_ReadFile E hostfile w of
        Ok s \<Rightarrow> (case ReadString s of Some (line, rest) \<Rightarrow> line | None \<Rightarrow> [])
      | _ \<Rightarrow> [])"

section \<open>Choosing the hosts\<close>

definition isTestEnv :: "('w, 'z) env_scheme \<Rightarrow> bool" where
  "isTestEnv E = (e_LookupEnv E ''NNF_TEST_ENVIRONMENT'' \<noteq> None)"

text \<open>The loop over the allocation sets keeps the last index whose target type is \<^verbatim>\<open>ost\<close>.\<close>

fun last_ost :: "AllocationSet list \<Rightarrow> AllocationSet option \<Rightarrow> AllocationSet option" where
  "last_ost [] target = target"
| "last_ost (a # as) target = last_ost as (if TargetType a = ''ost'' then Some a else target)"

definition GetStorageNodeNames ::
  "('w, 'z) env_scheme \<Rightarrow> NnfDataMovement \<Rightarrow> 'w \<Rightarrow> string list res" where
  "GetStorageNodeNames E dm w =
     (let src = StorageReference (Source (dm_Spec dm)); dst = StorageReference (Destination (dm_Spec dm))
      in if dm_Namespace dm = Getenv E ''NNF_NODE_NAME'' \<or> isTestEnv E \<or> ref_Kind src = KindNnfNodeStorage
         then Ok [''localhost'']
         else
           (case (if ref_Kind src = KindNnfStorage then Some src
                  else if ref_Kind dst = KindNnfStorage then Some dst else None) of
              None \<Rightarrow> Err (InvalidErr ''Neither source or destination is of NNF Storage type'')
            | Some storageRef \<Rightarrow>
                (case e_GetStorage E (ref_Namespace storageRef) (ref_Name storageRef) w of
                   Panic \<Rightarrow> Panic
                 | Err err \<Rightarrow>
                     (if IsNotFound err then Err (InvalidErr (''NNF Storage not found: '' @ Error err)) else Err err)
                 | Ok storage \<Rightarrow>
                     if FileSystemType storage \<noteq> ''lustre''
                     then Err (InvalidErr (''Unsupported storage type '' @ FileSystemType storage))
                     else
                       (case last_ost (AllocationSets storage) None of
                          None \<Rightarrow> Err (InvalidErr ''ost allocation set not found'')
                        | Some a \<Rightarrow> Ok (Nodes a)))))"

definition worker_fqdn :: "Pod \<Rightarrow> string" where
  "worker_fqdn pod =
     ReplaceAll (pod_PodIP pod) ''.'' ''-'' @ ''.dm.'' @ DataMovementNamespace @ ''.svc.cluster.local''"

fun hostname_map :: "Pod list \<Rightarrow> (string \<Rightarrow> string option) \<Rightarrow> (string \<Rightarrow> string option)" where
  "hostname_map [] m = m"
| "hostname_map (pod # pods) m = hostname_map pods (m(pod_NodeName pod \<mapsto> worker_fqdn pod))"

fun map_nodes :: "(string \<Rightarrow> string option) \<Rightarrow> string list \<Rightarrow> string list res" where
  "map_nodes m [] = Ok []"
| "map_nodes m (node # nodes) =
     (case m node of
        None \<Rightarrow> Err (InvalidErr (''Hostname invalid for node '' @ node))
      | Some hostname \<Rightarrow> bind_result (map_nodes m nodes) (\<lambda>hs. Ok (hostname # hs)))"

definition GetWorkerHostnames :: "('w, 'z) env_scheme \<Rightarrow> string list \<Rightarrow> 'w \<Rightarrow> string list res" where
  "GetWorkerHostnames E nodes w =
     (case nodes of
        [] \<Rightarrow> Panic
      | n # _ \<Rightarrow>
          if n = ''localhost'' then Ok nodes
          else
            (case e_ListPods E \<lparr>q_Namespace = DataMovementNamespace,
                                q_Labels = [(DataMovementWorkerLabel, ''true'')], q_NodeName = None\<rparr> w of
               Ok pods \<Rightarrow> map_nodes (hostname_map pods Map.empty) nodes
             | Err err \<Rightarrow> Err err
             | Panic \<Rightarrow> Panic))"

text \<open>
  The hostnames of a prebuilt hostfile: the first field of every line that has one. A line of 64 KiB
  or more does not fit the scanner's buffer.
\<close>

definition scan_lines :: "string \<Rightarrow> string list res" where
  "scan_lines s =
     (let ls = Split s nl; ls = (if last ls = [] then butlast ls else ls)
      in if \<exists>l\<in>set ls. 65536 \<le> length l then Err (PlainErr ''bufio.Scanner: token too long'') else Ok ls)"

fun first_fields :: "string list \<Rightarrow> string list" where
  "first_fields [] = []"
| "first_fields (l # ls) = (case Fields l of [] \<Rightarrow> first_fields ls | f # _ \<Rightarrow> f # first_fields ls)"

text \<open>The path is a parameter here; the only call, below, has the one that the source writes out.\<close>

definition getPreBuiltHosts :: "('w, 'z) env_scheme \<Rightarrow> string \<Rightarrow> 'w \<Rightarrow> string list res" where
  "getPreBuiltHosts E path w =
     bind_result (e_ReadFile E path w) (\<lambda>s. bind_result (scan_lines s) (\<lambda>ls. Ok (first_fields ls)))"

definition GetCopyOffloadWorkerHostnames ::
  "('w, 'z) env_scheme \<Rightarrow> string list \<Rightarrow> string \<Rightarrow> string \<Rightarrow> NnfDataMovement \<Rightarrow> 'w \<Rightarrow> string list res" where
  "GetCopyOffloadWorkerHostnames E nodes workflow namespace dm w =
     (case nodes of
        [] \<Rightarrow> Panic
      | n # rest \<Rightarrow>
          if n = ''localhost'' then
            (let src = StorageReference (Source (dm_Spec dm))
             in if ref_Kind src \<noteq> KindNnfNodeStorage
                then Err (InvalidErr ''copy offload source storage reference is not of type NnfNodeStorage'')
                else
                  (case e_ListPods E \<lparr>q_Namespace = namespace,
                          q_Labels = [(''training.kubeflow.org/job-name'', workflow),
                                      (''training.kubeflow.org/job-role'', ''worker'')],
                          q_NodeName = Some (ref_Namespace src)\<rparr> w of
                     Panic \<Rightarrow> Panic
                   | Err err \<Rightarrow> Err err
                   | Ok [] \<Rightarrow> Err (InvalidErr (''could not find any worker pods for node '' @ ref_Namespace src))
                   | Ok [pod] \<Rightarrow>
                       Ok ((pod_Name pod @ ''.'' @ workflow @ ''.'' @ namespace @ ''.svc.cluster.local'') # rest)
                   | Ok (_ # _ # _) \<Rightarrow>
                       Err (InvalidErr (''found more than one worker pod for node '' @ ref_Namespace src @
                                        '' - there should only be one''))))
          else
            (case getPreBuiltHosts E ''/etc/mpi/hostfile'' w of
               Ok hosts \<Rightarrow> Ok hosts
             | Err err \<Rightarrow>
                 Err (InvalidErr (''could not get pull hosts from mpi-operator created hostfile: '' @ Error err))
             | Panic \<Rightarrow> Panic))"

section \<open>What the hostfile holds\<close>

text \<open>The hosts without repetitions, in the order of their first occurrence.\<close>

fun nub_from :: "'a list \<Rightarrow> 'a list \<Rightarrow> 'a list" where
  "nub_from seen [] = []"
| "nub_from seen (x # xs) = (if x \<in> set seen then nub_from seen xs else x # nub_from (x # seen) xs)"

abbreviation nub :: "'a list \<Rightarrow> 'a list" where
  "nub \<equiv> nub_from []"

lemma set_nub_from: "set (nub_from seen xs) = set xs - set seen"
  by (induction xs arbitrary: seen) auto

lemma distinct_nub_from: "distinct (nub_from seen xs)"
  by (induction xs arbitrary: seen) (auto simp: set_nub_from)

lemma nub_from_distinct_id: "distinct xs \<Longrightarrow> set xs \<inter> set seen = {} \<Longrightarrow> nub_from seen xs = xs"
  by (induction xs arbitrary: seen) auto

lemma subseq_nub_from: "subseq (nub_from seen xs) xs"
  by (induction xs arbitrary: seen) auto

definition hostfile_text :: "int \<Rightarrow> int \<Rightarrow> string list \<Rightarrow> string" where
  "hostfile_text slots maxSlots hosts = concat (map (\<lambda>h. concat (host_entry slots maxSlots h)) hosts)"

context file_system
begin

lemma read_write_all:
  "e_ReadFile E p w = Ok s \<Longrightarrow> write_all E p ts w = (None, w') \<Longrightarrow> e_ReadFile E p w' = Ok (s @ concat ts)"
proof (induction ts arbitrary: w s)
  case Nil
  then show ?case by simp
next
  case (Cons t ts)
  then obtain w1 where "e_WriteString E p t w = (None, w1)" "write_all E p ts w1 = (None, w')"
    by (auto split: prod.splits option.splits)
  then show ?case using Cons.IH[of w1 "s @ t"] read_write[OF Cons.prems(1)] by simp
qed

lemma read_write_hosts:
  "e_ReadFile E p w = Ok s \<Longrightarrow> write_hosts E p slots maxSlots seen hosts w = (None, w') \<Longrightarrow>
   e_ReadFile E p w' = Ok (s @ hostfile_text slots maxSlots (nub_from seen hosts))"
proof (induction hosts arbitrary: w s seen)
  case Nil
  then show ?case by (simp add: hostfile_text_def)
next
  case (Cons h hs)
  show ?case
  proof (cases "h \<in> set seen")
    case True
    then show ?thesis using Cons by simp
  next
    case False
    with Cons.prems(2) obtain w1 where w1: "write_all E p (host_entry slots maxSlots h) w = (None, w1)"
        "write_hosts E p slots maxSlots (h # seen) hs w1 = (None, w')"
      by (auto split: prod.splits option.splits)
    then have "e_ReadFile E p w1 = Ok (s @ concat (host_entry slots maxSlots h))"
      using read_write_all[OF Cons.prems(1)] by simp
    then show ?thesis using Cons.IH[OF _ w1(2)] False by (simp add: hostfile_text_def)
  qed
qed

lemma read_WriteMpiHostfile:
  assumes "WriteMpiHostfile E dmName hosts slots maxSlots w = (Ok path, w')"
  shows "e_ReadFile E path w' = Ok (hostfile_text slots maxSlots (nub hosts))"
proof -
  obtain w1 w2 where "e_Create E path w1 = (None, w2)" "write_hosts E path slots maxSlots [] hosts w2 = (None, w')"
    using assms unfolding WriteMpiHostfile_def Let_def
    by (auto split: prod.splits option.splits result.splits if_splits)
  then show ?thesis using read_create read_write_hosts[of path w2 "[]"] by simp
qed

end


section \<open>The hosts come back from the file\<close>

lemma Split_lines:
  "\<forall>l\<in>set ls. CHR 0x0A \<notin> set l \<Longrightarrow> Split (concat (map (\<lambda>l. l @ nl) ls)) nl = ls @ [[]]"
proof (induction ls)
  case Nil
  show ?case by (simp add: nl_def Split_notin)
next
  case (Cons l ls)
  then show ?case
    using Split_step[of "CHR 0x0A" l "concat (map (\<lambda>l. l @ nl) ls)"] by (simp add: nl_def)
qed

lemma scan_lines_concat:
  assumes "\<forall>l\<in>set ls. CHR 0x0A \<notin> set l \<and> length l < 65536"
  shows "scan_lines (concat (map (\<lambda>l. l @ nl) ls)) = Ok ls"
proof -
  have "\<not> (\<exists>l\<in>set ls. 65536 \<le> length l)" using assms by force
  then show ?thesis using assms Split_lines[of ls] by (simp add: scan_lines_def)
qed

lemma Fields_first:
  assumes "h \<noteq> []" and "\<forall>c\<in>set h. \<not> is_space c"
  shows "\<exists>fs. Fields (h @ (if t = [] then [] else CHR '' '' # t)) = h # fs"
proof -
  obtain c cs where h: "h = c # cs" using assms(1) by (cases h) auto
  have sp: "is_space CHR '' ''" by (simp add: is_space_def)
  let ?s = "h @ (if t = [] then [] else CHR '' '' # t)"
  have d: "dropWhile is_space ?s = ?s" using assms(2) h by simp
  have t: "takeWhile (\<lambda>x. \<not> is_space x) ?s = h"
    using assms(2) sp by (cases "t = []") (auto simp: takeWhile_append_stop takeWhile_eq_all_conv)
  show ?thesis using t unfolding Fields.simps[of ?s] d by (cases ?s) (auto simp: h)
qed

text \<open>One line of the hostfile without its newline.\<close>

definition host_options :: "int \<Rightarrow> int \<Rightarrow> string" where
  "host_options slots maxSlots =
     (if slots > 0 then ''slots='' @ show_int slots @ (if maxSlots > 0 then '' '' else []) else []) @
     (if maxSlots > 0 then ''max_slots='' @ show_int maxSlots else [])"

definition host_line :: "int \<Rightarrow> int \<Rightarrow> string \<Rightarrow> string" where
  "host_line slots maxSlots host =
     host @ (if host_options slots maxSlots = [] then [] else CHR '' '' # host_options slots maxSlots)"

lemma host_entry_line: "concat (host_entry slots maxSlots h) = host_line slots maxSlots h @ nl"
  by (simp add: host_entry_def host_line_def host_options_def)

lemma hostfile_text_lines:
  "hostfile_text slots maxSlots hs = concat (map (\<lambda>l. l @ nl) (map (host_line slots maxSlots) hs))"
  unfolding hostfile_text_def host_entry_line by (simp add: comp_def)

lemma show_int_no_newline: "CHR 0x0A \<notin> set (show_int n)"
  using show_nat_digits[of "nat (- n)"] show_nat_digits[of "nat n"]
  by (auto simp: show_int_def dest!: bspec)

lemma host_line_no_newline: "CHR 0x0A \<notin> set h \<Longrightarrow> CHR 0x0A \<notin> set (host_line slots maxSlots h)"
  using show_int_no_newline by (auto simp: host_line_def host_options_def)

lemma first_fields_lines:
  "\<forall>h\<in>set hs. h \<noteq> [] \<and> (\<forall>c\<in>set h. \<not> is_space c) \<Longrightarrow>
   first_fields (map (host_line slots maxSlots) hs) = hs"
proof (induction hs)
  case Nil
  then show ?case by simp
next
  case (Cons h hs)
  then show ?case
    using Fields_first[of h "host_options slots maxSlots"] by (auto simp: host_line_def)
qed

context file_system
begin

lemma hosts_come_back:
  assumes "WriteMpiHostfile E dmName hosts slots maxSlots w = (Ok path, w')"
    and "\<forall>h\<in>set hosts. h \<noteq> [] \<and> (\<forall>c\<in>set h. \<not> is_space c) \<and>
           length (host_line slots maxSlots h) < 65536"
  shows "getPreBuiltHosts E path w' = Ok (nub hosts)"
proof -
  have nubs: "set (nub hosts) = set hosts" by (simp add: set_nub_from)
  have "\<not> is_space c \<Longrightarrow> c \<noteq> CHR 0x0A" for c by (auto simp: is_space_def)
  then have "\<forall>h\<in>set hosts. CHR 0x0A \<notin> set h" using assms(2) by blast
  then have "scan_lines (hostfile_text slots maxSlots (nub hosts)) = Ok (map (host_line slots maxSlots) (nub hosts))"
    unfolding hostfile_text_lines using assms(2) nubs
    by (intro scan_lines_concat) (auto simp: host_line_no_newline)
  moreover have "first_fields (map (host_line slots maxSlots) (nub hosts)) = nub hosts"
    using assms(2) nubs by (intro first_fields_lines) blast
  ultimately show ?thesis
    using read_WriteMpiHostfile[OF assms(1)] by (simp add: getPreBuiltHosts_def)
qed

end

text \<open>
  C32. What is written into an MPI hostfile is what a reader of hostfiles gets out of it: if
  \<open>WriteMpiHostfile\<close> succeeds, the hosts read back from the path it returns are the given hosts, each
  exactly once, in the order of their first occurrence, whatever the slot options are. The hosts are
  non-empty names without white space whose lines fit the reader's 64 KiB buffer.
\<close>

theorem hostfile_roundtrip:
  assumes "WriteMpiHostfile (cluster_env vars uid) dmName hosts slots maxSlots c = (Ok path, c')"
    and "\<forall>h\<in>set hosts. h \<noteq> [] \<and> (\<forall>c\<in>set h. \<not> is_space c) \<and>
           length (host_line slots maxSlots h) < 65536"
  shows "\<exists>hs. getPreBuiltHosts (cluster_env vars uid) path c' = Ok hs \<and> distinct hs \<and>
           set hs = set hosts \<and> subseq hs hosts"
  using cluster_fs.hosts_come_back[OF assms] set_nub_from[of "[]" hosts] distinct_nub_from[of "[]" hosts]
    subseq_nub_from[of "[]" hosts] by auto

lemma cluster_write_all_Ok:
  "c_files c p \<noteq> None \<Longrightarrow>
   \<exists>f. write_all (cluster_env vars uid) p ts c = (None, c\<lparr>c_files := f\<rparr>) \<and> f p \<noteq> None"
proof (induction ts arbitrary: c)
  case Nil
  then show ?case by (auto intro!: exI[of _ "c_files c"])
next
  case (Cons t ts)
  then obtain s where s: "c_files c p = Some s" by blast
  obtain f where "write_all (cluster_env vars uid) p ts (c\<lparr>c_files := (c_files c)(p \<mapsto> s @ t)\<rparr>) =
                  (None, c\<lparr>c_files := f\<rparr>)" "f p \<noteq> None"
    using Cons.IH[of "c\<lparr>c_files := (c_files c)(p \<mapsto> s @ t)\<rparr>"] by auto
  then show ?case using s by auto
qed

lemma cluster_write_hosts_Ok:
  "c_files c p \<noteq> None \<Longrightarrow>
   \<exists>f. write_hosts (cluster_env vars uid) p slots maxSlots seen hosts c = (None, c\<lparr>c_files := f\<rparr>)"
proof (induction hosts arbitrary: c seen)
  case Nil
  then show ?case by (auto intro!: exI[of _ "c_files c"])
next
  case (Cons h hs)
  obtain f where f: "write_all (cluster_env vars uid) p (host_entry slots maxSlots h) c = (None, c\<lparr>c_files := f\<rparr>)"
      "f p \<noteq> None"
    using cluster_write_all_Ok[OF Cons.prems] by blast
  then obtain g where "write_hosts (cluster_env vars uid) p slots maxSlots (h # seen) hs (c\<lparr>c_files := f\<rparr>) =
                       (None, c\<lparr>c_files := g\<rparr>)"
    using Cons.IH[of "c\<lparr>c_files := f\<rparr>" "h # seen"] by auto
  then show ?case using f Cons.IH[OF Cons.prems, of seen] by auto
qed

lemma cluster_hostfile_Ok:
  assumes "dmName \<noteq> []"
  shows "\<exists>f d. WriteMpiHostfile (cluster_env vars uid) dmName hosts slots maxSlots c =
     (Ok (PathJoin [PathJoin [''/tmp'', dmName], ''hostfile'']), c\<lparr>c_dirs := d, c_files := f\<rparr>)"
proof -
  define d where "d = PathJoin [''/tmp'', dmName]"
  define p where "p = PathJoin [d, ''hostfile'']"
  obtain f where "write_hosts (cluster_env vars uid) p slots maxSlots [] hosts
                    (c\<lparr>c_dirs := insert d (c_dirs c), c_files := (c_files c)(p \<mapsto> [])\<rparr>) =
                  (None, c\<lparr>c_dirs := insert d (c_dirs c), c_files := f\<rparr>)"
    using cluster_write_hosts_Ok[of "c\<lparr>c_dirs := insert d (c_dirs c), c_files := (c_files c)(p \<mapsto> [])\<rparr>" p
        vars uid slots maxSlots "[]" hosts] by auto
  then show ?thesis
    using assms unfolding WriteMpiHostfile_def Let_def d_def[symmetric] p_def[symmetric]
    by (auto simp: p_def[symmetric])
qed

theorem hostfile_roundtrip_witness:
  "\<exists>path c' hs.
     WriteMpiHostfile (cluster_env Map.empty 0) ''dm0'' [''a'', ''b'', ''a''] 4 8 empty_cluster = (Ok path, c') \<and>
     getPreBuiltHosts (cluster_env Map.empty 0) path c' = Ok hs \<and> distinct hs \<and> set hs = {''a'', ''b''}"
proof -
  let ?r = "WriteMpiHostfile (cluster_env Map.empty 0) ''dm0'' [''a'', ''b'', ''a''] 4 8 empty_cluster"
  obtain path c' where r: "?r = (Ok path, c')"
    using cluster_hostfile_Ok[of "''dm0''" Map.empty 0 "[''a'', ''b'', ''a'']" 4 8 empty_cluster] by auto
  have "show_int 4 = ''4''" "show_int 8 = ''8''" by code_simp+
  then have "length (host_line 4 8 ''a'') < 65536" "length (host_line 4 8 ''b'') < 65536"
    by (simp_all add: host_line_def host_options_def)
  then have "\<forall>h\<in>set [''a'', ''b'', ''a'']. h \<noteq> [] \<and> (\<forall>c\<in>set h. \<not> is_space c) \<and> length (host_line 4 8 h) < 65536"
    by (simp add: is_space_def)
  from hostfile_roundtrip[OF r this] r show ?thesis by auto
qed

section \<open>The chosen hosts\<close>

lemma hostname_map_lookup:
  "hostname_map pods m node =
   (case filter (\<lambda>p. pod_NodeName p = node) pods of [] \<Rightarrow> m node | ps \<Rightarrow> Some (worker_fqdn (last ps)))"
  by (induction pods arbitrary: m) (auto split: list.splits)

lemma map_nodes_Ok_iff: "map_nodes m nodes = Ok hs \<longleftrightarrow> map m nodes = map Some hs"
proof (induction nodes arbitrary: hs)
  case (Cons n ns)
  then show ?case
    by (cases hs; cases "map_nodes m ns") (auto split: option.splits simp: bind_result_Ok_iff)
qed auto

lemma map_nodes_no_panic: "map_nodes m nodes \<noteq> Panic"
  by (induction nodes) (auto split: option.splits elim: bind_result.elims)

lemma map_nodes_missing:
  "n \<in> set nodes \<Longrightarrow> m n = None \<Longrightarrow> \<exists>msg. map_nodes m nodes = Err (InvalidErr msg)"
  by (induction nodes) (auto split: option.splits)

text \<open>
  \<open>GetWorkerHostnames\<close> on remote nodes: it succeeds exactly when every node has a worker pod, and
  then it returns one name per node, in the nodes' order, each the cluster name of the IP of the last
  listed worker pod on that node. A node without a worker makes the whole call an error, never a
  shorter list.
\<close>

lemma GetWorkerHostnames_spec:
  assumes "hd nodes \<noteq> ''localhost''" and "nodes \<noteq> []"
    and "e_ListPods E \<lparr>q_Namespace = DataMovementNamespace, q_Labels = [(DataMovementWorkerLabel, ''true'')],
                       q_NodeName = None\<rparr> w = Ok pods"
  shows "(if \<forall>n\<in>set nodes. \<exists>p\<in>set pods. pod_NodeName p = n
          then GetWorkerHostnames E nodes w =
                 Ok (map (\<lambda>n. worker_fqdn (last (filter (\<lambda>p. pod_NodeName p = n) pods))) nodes)
          else \<exists>msg. GetWorkerHostnames E nodes w = Err (InvalidErr msg))"
proof -
  let ?m = "hostname_map pods Map.empty"
  have m: "?m n = (if \<exists>p\<in>set pods. pod_NodeName p = n
                   then Some (worker_fqdn (last (filter (\<lambda>p. pod_NodeName p = n) pods))) else None)" for n
    by (auto simp: hostname_map_lookup filter_empty_conv split: list.splits)
  have G: "GetWorkerHostnames E nodes w = map_nodes ?m nodes"
    using assms by (cases nodes) (auto simp: GetWorkerHostnames_def)
  show ?thesis
  proof (cases "\<forall>n\<in>set nodes. \<exists>p\<in>set pods. pod_NodeName p = n")
    case True
    then show ?thesis unfolding G map_nodes_Ok_iff by (auto simp: m)
  next
    case False
    then have "\<exists>n\<in>set nodes. ?m n = None" by (auto simp: m)
    then show ?thesis using False unfolding G by (auto dest: map_nodes_missing)
  qed
qed

lemma GetWorkerHostnames_spec_witness:
  "\<exists>c. GetWorkerHostnames (cluster_env Map.empty 0) [''n1'', ''n2''] c =
     Ok [''10-0-0-1.dm.nnf-dm-system.svc.cluster.local'', ''10-0-0-2.dm.nnf-dm-system.svc.cluster.local'']"
proof -
  let ?q = "\<lparr>q_Namespace = DataMovementNamespace, q_Labels = [(DataMovementWorkerLabel, ''true'')], q_NodeName = None\<rparr>"
  let ?p2 = "\<lparr>pod_Name = ''w2'', pod_NodeName = ''n2'', pod_PodIP = ''10.0.0.2''\<rparr>"
  let ?p1 = "\<lparr>pod_Name = ''w1'', pod_NodeName = ''n1'', pod_PodIP = ''10.0.0.1''\<rparr>"
  let ?c = "empty_cluster\<lparr>c_pods := [(?q, ?p2), (?q, ?p1)]\<rparr>"
  have l: "e_ListPods (cluster_env Map.empty 0) ?q ?c = Ok [?p2, ?p1]" by simp
  have f: "worker_fqdn ?p1 = ''10-0-0-1.dm.nnf-dm-system.svc.cluster.local''"
          "worker_fqdn ?p2 = ''10-0-0-2.dm.nnf-dm-system.svc.cluster.local''" by code_simp+
  have "GetWorkerHostnames (cluster_env Map.empty 0) [''n1'', ''n2''] ?c = Ok [worker_fqdn ?p1, worker_fqdn ?p2]"
    using GetWorkerHostnames_spec[OF _ _ l, of "[''n1'', ''n2'']"] by simp
  then show ?thesis unfolding f by blast
qed

text \<open>
  A Lustre storage whose \<^verbatim>\<open>ost\<close> allocation set lists no node is accepted by \<open>GetStorageNodeNames\<close>,
  and the empty list it returns makes both functions that turn nodes into hosts panic on their first
  element instead of returning an error.
\<close>

lemma empty_ost_panics:
  "\<exists>c dm. GetStorageNodeNames (cluster_env Map.empty 0) dm c = Ok [] \<and>
     bind_result (GetStorageNodeNames (cluster_env Map.empty 0) dm c)
       (\<lambda>nodes. GetWorkerHostnames (cluster_env Map.empty 0) nodes c) = Panic \<and>
     (\<forall>workflow ns. bind_result (GetStorageNodeNames (cluster_env Map.empty 0) dm c)
        (\<lambda>nodes. GetCopyOffloadWorkerHostnames (cluster_env Map.empty 0) nodes workflow ns dm c) = Panic)"
proof -
  let ?s = "\<lparr>FileSystemType = ''lustre'', AllocationSets = [\<lparr>TargetType = ''ost'', Nodes = []\<rparr>]\<rparr>"
  let ?c = "empty_cluster\<lparr>c_storages := (\<lambda>k. Some ?s)\<rparr>"
  have "GetStorageNodeNames (cluster_env Map.empty 0) sample_dm ?c = Ok []"
    by (simp add: GetStorageNodeNames_def sample_defs Getenv_def isTestEnv_def lookup_res_def
          DataMovementNamespace_def api_simps)
  then show ?thesis
    by (intro exI[of _ ?c] exI[of _ sample_dm])
       (simp add: GetWorkerHostnames_def GetCopyOffloadWorkerHostnames_def)
qed

end
