(* ===== verification/Dm_Destination.thy ===== *)
theory Dm_Destination
  imports Dm_Command Mpi_Hosts Go_Regexp
begin

text \<open>
  Preparing the destination of a data movement (\<^verbatim>\<open>internal/controller/helpers/datamovement_helpers.go\<close>):
  the remote \<^verbatim>\<open>stat\<close> and \<^verbatim>\<open>mkdir\<close> (\<open>mpiStat\<close>, \<open>mpiIsDir\<close>, \<open>createDestinationDir\<close>), the directory to
  create (\<open>GetDestinationDir\<close>), the index mount directory that keeps the compute nodes' files apart when
  they are copied to one place (\<open>ExtractIndexMountDir\<close>, \<open>checkIndexMountDir\<close>, \<open>HandleIndexMountDir\<close>), and
  \<open>PrepareDestination\<close>, which composes them.

  A command may change the world, so every function that runs one returns the new world. The
  namespace enters the pattern of \<open>ExtractIndexMountDir\<close> as a literal: namespaces hold lower case
  letters, digits and dashes only.
\<close>

section \<open>Remote stat\<close>

definition mpiStat ::
  "('w, 'z) env_scheme \<Rightarrow> NnfDataMovementProfile \<Rightarrow> string \<Rightarrow> 32 word \<Rightarrow> 32 word \<Rightarrow> string \<Rightarrow> 'w \<Rightarrow>
   (string \<times> goerr option) \<times> 'w" where
  "mpiStat E profile path uid gid mpiHostfile w =
     (let cmd = buildStatOrMkdirCommand E uid gid (StatCommand (prof_Data profile))
                  (SetprivCommand (prof_Data profile)) mpiHostfile path
      in case Run E cmd w of
           ((output, Some err), w') \<Rightarrow>
             ((output, Some (WrapErr (''could not stat path ('' @ [CHR 0x27] @ path @ [CHR 0x27] @ ''): '') err [])), w')
         | ((output, None), w') \<Rightarrow> ((output, None), w'))"

definition mpiIsDir ::
  "('w, 'z) env_scheme \<Rightarrow> NnfDataMovementProfile \<Rightarrow> string \<Rightarrow> 32 word \<Rightarrow> 32 word \<Rightarrow> string \<Rightarrow> 'w \<Rightarrow>
   bool res \<times> 'w" where
  "mpiIsDir E profile path uid gid mpiHostfile w =
     (case mpiStat E profile path uid gid mpiHostfile w of
        ((output, Some err), w') \<Rightarrow> (Err err, w')
      | ((output, None), w') \<Rightarrow>
          (if Contains (ToLower output) ''directory'' then Ok True
           else if Contains (ToLower output) ''file'' then Ok False
           else if Getenv E ''ENVIRONMENT'' = ''kind'' \<and> output = ''symbolic link'' @ nl then Ok True
           else Err (PlainErr (''could not determine file type of path ('' @ [CHR 0x27] @ path @ [CHR 0x27] @
                               ''): '' @ output)), w'))"

definition isSourceAFile ::
  "('w, 'z) env_scheme \<Rightarrow> NnfDataMovementProfile \<Rightarrow> NnfDataMovement \<Rightarrow> string \<Rightarrow> 'w \<Rightarrow> bool res \<times> 'w" where
  "isSourceAFile E profile dm mpiHostfile w =
     (if isTestEnv E then
        (case e_StatIsDir E (Path (Source (dm_Spec dm))) w of
           Ok isDir \<Rightarrow> (Ok (\<not> isDir), w)
         | Err err \<Rightarrow> (Err (WrapErr ''source file does not exist: '' err []), w)
         | Panic \<Rightarrow> (Panic, w))
      else
        (case mpiIsDir E profile (Path (Source (dm_Spec dm))) (UserId (dm_Spec dm)) (GroupId (dm_Spec dm)) mpiHostfile w of
           (Ok isDir, w') \<Rightarrow> (Ok (\<not> isDir), w')
         | (Err err, w') \<Rightarrow> (Err err, w')
         | (Panic, w') \<Rightarrow> (Panic, w')))"

definition isDestAFile ::
  "('w, 'z) env_scheme \<Rightarrow> NnfDataMovementProfile \<Rightarrow> NnfDataMovement \<Rightarrow> string \<Rightarrow> 'w \<Rightarrow> bool \<times> 'w" where
  "isDestAFile E profile dm mpiHostfile w =
     (let dest = Path (Destination (dm_Spec dm));
          (isDir, w') = (if isTestEnv E then (e_StatIsDir E dest w, w)
                         else mpiIsDir E profile dest (UserId (dm_Spec dm)) (GroupId (dm_Spec dm)) mpiHostfile w)
      in case isDir of
           Ok d \<Rightarrow> (\<not> d, w')
         | _ \<Rightarrow> (\<not> HasSuffix dest ''/'', w'))"

section \<open>The directory to create\<close>

definition GetDestinationDir ::
  "('w, 'z) env_scheme \<Rightarrow> NnfDataMovementProfile \<Rightarrow> NnfDataMovement \<Rightarrow> string \<Rightarrow> 'w \<Rightarrow> string res \<times> 'w" where
  "GetDestinationDir E profile dm mpiHostfile w =
     (let dest = Path (Destination (dm_Spec dm))
      in case isSourceAFile E profile dm mpiHostfile w of
           (Err err, w1) \<Rightarrow> (Err err, w1)
         | (Panic, w1) \<Rightarrow> (Panic, w1)
         | (Ok False, w1) \<Rightarrow> (Ok (Clean dest), w1)
         | (Ok True, w1) \<Rightarrow>
             (case isDestAFile E profile dm mpiHostfile w1 of
                (True, w2) \<Rightarrow> (Ok (Clean (Dir dest)), w2)
              | (False, w2) \<Rightarrow> (Ok (Clean dest), w2)))"

definition createDestinationDir ::
  "('w, 'z) env_scheme \<Rightarrow> NnfDataMovementProfile \<Rightarrow> NnfDataMovement \<Rightarrow> string \<Rightarrow> string \<Rightarrow> 'w \<Rightarrow>
   goerr option \<times> 'w" where
  "createDestinationDir E profile dm dest mpiHostfile w =
     (let mkdir = (\<lambda>w1.
            let cmd = buildStatOrMkdirCommand E (UserId (dm_Spec dm)) (GroupId (dm_Spec dm))
                        (MkdirCommand (prof_Data profile)) (SetprivCommand (prof_Data profile)) mpiHostfile dest
            in case Run E cmd w1 of
                 ((output, Some err), w2) \<Rightarrow>
                   (Some (WrapErr (''data movement mkdir failed ('' @ [CHR 0x27] @ cmd @ [CHR 0x27] @ ''): '') err
                            ('' output: '' @ output)), w2)
               | ((output, None), w2) \<Rightarrow> (None, w2))
      in case mpiStat E profile dest (UserId (dm_Spec dm)) (GroupId (dm_Spec dm)) mpiHostfile w of
           ((output, None), w1) \<Rightarrow> (None, w1)
         | ((output, Some err), w1) \<Rightarrow>
             (if Contains (ToLower (Error err)) ''no such file or directory'' then mkdir w1
              else (Some err, w1)))"

section \<open>Index mount directories\<close>

text \<open>The pattern \<^verbatim>\<open>(namespace-\d+)(/|$)\<close>.\<close>

definition indexMountRe :: "string \<Rightarrow> re" where
  "indexMountRe namespace =
     Cat (Cap (Cat (Lit (namespace @ ''-'')) (Rep is_digit 1 None))) (Cap (Alt (Lit ''/'') Eot))"

definition ExtractIndexMountDir :: "string \<Rightarrow> string \<Rightarrow> string res" where
  "ExtractIndexMountDir path namespace =
     (case FindStringSubmatch (indexMountRe namespace) path of
        None \<Rightarrow>
          Err (PlainErr (''could not extract index mount directory from source path: '' @ path @
                         ''. Looking for pattern '' @ [CHR 0x27] @ ''('' @ namespace @ ''-'' @ [CHR 0x5C] @ ''d+)(/|$)'' @
                         [CHR 0x27]))
      | Some match \<Rightarrow> if HasSuffix path (match ! 1) then Ok [] else Ok (match ! 1))"

text \<open>The file system type of the source storage that was retrieved.\<close>

definition source_fs_type :: "string \<Rightarrow> ('a \<Rightarrow> string) \<Rightarrow> 'a res \<Rightarrow> string res" where
  "source_fs_type kind fsType got =
     (case got of
        Ok s \<Rightarrow> Ok (fsType s)
      | Err err \<Rightarrow>
          (if IsNotFound err
           then Err (InvalidErr (''could not retrieve '' @ kind @ '' for checking index mounts: '' @ Error err))
           else Err err)
      | Panic \<Rightarrow> Panic)"

definition checkIndexMountDir :: "('w, 'z) env_scheme \<Rightarrow> NnfDataMovement \<Rightarrow> 'w \<Rightarrow> string res" where
  "checkIndexMountDir E dm w =
     (let ref = StorageReference (Source (dm_Spec dm));
          extract = (\<lambda>t. if t = ''gfs2'' \<or> t = ''xfs''
                         then ExtractIndexMountDir (Path (Source (dm_Spec dm))) (dm_Namespace dm) else Ok [])
      in if ref_Kind ref = KindNnfStorage
         then bind_result (source_fs_type ''NnfStorage'' FileSystemType
                             (e_GetStorage E (ref_Namespace ref) (ref_Name ref) w)) extract
         else if ref_Kind ref = KindNnfNodeStorage
         then bind_result (source_fs_type ''NnfNodeStorage'' node_FileSystemType
                             (e_GetNodeStorage E (ref_Namespace ref) (ref_Name ref) w)) extract
         else Ok [])"

definition set_destination :: "string \<Rightarrow> NnfDataMovement \<Rightarrow> NnfDataMovement" where
  "set_destination p dm = dm\<lparr>dm_Spec := (dm_Spec dm)\<lparr>Destination := (Destination (dm_Spec dm))\<lparr>Path := p\<rparr>\<rparr>\<rparr>"

text \<open>The function changes the destination path of \<^verbatim>\<open>dm\<close>, so the object is returned with the directory.\<close>

definition HandleIndexMountDir ::
  "('w, 'z) env_scheme \<Rightarrow> NnfDataMovementProfile \<Rightarrow> NnfDataMovement \<Rightarrow> string \<Rightarrow> string \<Rightarrow> string \<Rightarrow> 'w \<Rightarrow>
   (string \<times> NnfDataMovement) res \<times> 'w" where
  "HandleIndexMountDir E profile dm destDir indexMount mpiHostfile w =
     (if HasSuffix (Path (Source (dm_Spec dm))) indexMount then (Ok (destDir, dm), w)
      else
        (let idxMntDir = PathJoin [destDir, indexMount];
             dest = Path (Destination (dm_Spec dm))
         in case isSourceAFile E profile dm mpiHostfile w of
              (Err err, w1) \<Rightarrow> (Err err, w1)
            | (Panic, w1) \<Rightarrow> (Panic, w1)
            | (Ok srcIsFile, w1) \<Rightarrow>
                (case isDestAFile E profile dm mpiHostfile w1 of
                   (destIsFile, w2) \<Rightarrow>
                     (let dmDest = (if srcIsFile \<and> destIsFile then PathJoin [idxMntDir, Base dest] else idxMntDir);
                          dmDest = (if HasSuffix dest ''/'' then dmDest @ ''/'' else dmDest)
                      in (Ok (idxMntDir, set_destination dmDest dm), w2)))))"

section \<open>Preparing the destination\<close>

definition fatal_error :: "string \<Rightarrow> goerr \<Rightarrow> goerr" where
  "fatal_error msg err = ResErr (WithFatal (WithError err (NewResourceError msg)))"

text \<open>The outcome and the object, whose destination path may have been changed even when there is an error.\<close>

definition PrepareDestination ::
  "('w, 'z) env_scheme \<Rightarrow> NnfDataMovementProfile \<Rightarrow> NnfDataMovement \<Rightarrow> string \<Rightarrow> 'w \<Rightarrow>
   (unit res \<times> NnfDataMovement) \<times> 'w" where
  "PrepareDestination E profile dm mpiHostfile w =
     (if isTestEnv E \<or> \<not> CreateDestDir (prof_Data profile) then ((Ok (), dm), w)
      else
        (let create = (\<lambda>destDir dm' w'.
               case createDestinationDir E profile dm' destDir mpiHostfile w' of
                 (Some err, w'') \<Rightarrow> ((Err (fatal_error ''could not create destination directory'' err), dm'), w'')
               | (None, w'') \<Rightarrow> ((Ok (), dm'), w''))
         in case GetDestinationDir E profile dm mpiHostfile w of
              (Panic, w1) \<Rightarrow> ((Panic, dm), w1)
            | (Err err, w1) \<Rightarrow> ((Err (fatal_error ''could not determine source type'' err), dm), w1)
            | (Ok destDir, w1) \<Rightarrow>
                (case checkIndexMountDir E dm w1 of
                   Panic \<Rightarrow> ((Panic, dm), w1)
                 | Err err \<Rightarrow> ((Err (fatal_error ''could not determine index mount directory'' err), dm), w1)
                 | Ok indexMount \<Rightarrow>
                     if indexMount = [] then create destDir dm w1
                     else
                       (case HandleIndexMountDir E profile dm destDir indexMount mpiHostfile w1 of
                          (Panic, w2) \<Rightarrow> ((Panic, dm), w2)
                        | (Err err, w2) \<Rightarrow> ((Err (fatal_error ''could not handle index mount directory'' err), dm), w2)
                        | (Ok (d, dm'), w2) \<Rightarrow> create d dm' w2))))"

section \<open>Which index mount is found\<close>

abbreviation index_mount :: "string \<Rightarrow> string \<Rightarrow> string" where
  "index_mount namespace ds \<equiv> namespace @ ''-'' @ ds"

definition mount_at :: "string \<Rightarrow> string \<Rightarrow> string \<Rightarrow> string \<Rightarrow> string \<Rightarrow> bool" where
  "mount_at namespace path pre ds post \<longleftrightarrow>
     path = pre @ index_mount namespace ds @ post \<and> ds \<noteq> [] \<and> list_all is_digit ds \<and>
     (post = [] \<or> hd post = CHR ''/'')"

lemma in_rmatch_indexMount:
  "(c, t) \<in> set (rmatch (indexMountRe namespace) s) \<longleftrightarrow>
   (\<exists>ds q. s = index_mount namespace ds @ q @ t \<and> ds \<noteq> [] \<and> list_all is_digit ds \<and>
          (q = ''/'' \<or> q = [] \<and> t = []) \<and> c = [index_mount namespace ds, q])"
  (is "?L \<longleftrightarrow> ?R")
proof
  assume ?L
  then show ?R
    unfolding indexMountRe_def in_rmatch by (fastforce simp: list_all_iff rep_max_def Suc_le_eq)
next
  assume ?R
  then obtain ds q where s: "s = index_mount namespace ds @ q @ t" "ds \<noteq> []" "\<forall>x\<in>set ds. is_digit x"
      "q = ''/'' \<or> q = [] \<and> t = []" "c = [index_mount namespace ds, q]"
    by (auto simp: list_all_iff)
  have "([index_mount namespace ds], q @ t) \<in>
        set (rmatch (Cap (Cat (Lit (namespace @ ''-'')) (Rep is_digit 1 None))) s)"
    unfolding in_rmatch using s(1,2,3) by (auto simp: rep_max_def Suc_le_eq)
  moreover have "([q], t) \<in> set (rmatch (Cap (Alt (Lit ''/'') Eot)) (q @ t))"
    unfolding in_rmatch using s(4) by auto
  ultimately show ?L
    unfolding indexMountRe_def in_rmatch_Cat s(5) by (metis append_Cons append_Nil)
qed

lemma FindStringSubmatch_indexMount:
  "FindStringSubmatch (indexMountRe namespace) path = Some m \<Longrightarrow>
   \<exists>pre ds post. mount_at namespace path pre ds post \<and> m ! 1 = index_mount namespace ds"
proof -
  assume "FindStringSubmatch (indexMountRe namespace) path = Some m"
  from FindStringSubmatch_Some[OF this] obtain pre u t c ds q
    where p: "path = pre @ u @ t" "u @ t = index_mount namespace ds @ q @ t" "ds \<noteq> []" "list_all is_digit ds"
      "q = ''/'' \<or> q = [] \<and> t = []" "m = u # [index_mount namespace ds, q]"
    unfolding in_rmatch_indexMount by blast
  have "mount_at namespace path pre ds (q @ t)"
    unfolding mount_at_def using p by (auto simp: p(2))
  then show ?thesis using p(6) by auto
qed

lemma FindStringSubmatch_no_indexMount:
  assumes "FindStringSubmatch (indexMountRe namespace) path = None"
  shows "\<not> mount_at namespace path pre ds post"
proof
  assume m: "mount_at namespace path pre ds post"
  obtain q t where qt: "post = q @ t" "q = ''/'' \<or> q = [] \<and> t = []"
    using m that[of "take 1 post" "drop 1 post"] unfolding mount_at_def by (cases post) auto
  have "([index_mount namespace ds, q], t) \<in> set (rmatch (indexMountRe namespace) (index_mount namespace ds @ post))"
    unfolding in_rmatch_indexMount using m qt by (auto simp: mount_at_def)
  then show False using assms m unfolding FindStringSubmatch_None_iff mount_at_def by fastforce
qed

text \<open>
  \<open>ExtractIndexMountDir\<close> fails exactly on the paths in which no \<^verbatim>\<open>namespace-number\<close> stands before a
  slash or the end. On the others it returns such a name of the path, or nothing when the whole path
  ends in it (then \<^verbatim>\<open>dcp\<close> copies the mount directory itself and no directory must be added).
\<close>

lemma ExtractIndexMountDir_spec:
  "(case ExtractIndexMountDir path namespace of
      Ok m \<Rightarrow> \<exists>pre ds post. mount_at namespace path pre ds post \<and>
                m = (if HasSuffix path (index_mount namespace ds) then [] else index_mount namespace ds)
    | Err err \<Rightarrow> \<nexists>pre ds post. mount_at namespace path pre ds post
    | Panic \<Rightarrow> False)"
  using FindStringSubmatch_indexMount[of namespace path] FindStringSubmatch_no_indexMount[of namespace path]
  by (auto simp: ExtractIndexMountDir_def split: option.splits) fastforce+

section \<open>The directories of different mounts are different\<close>

text \<open>A path element that \<^verbatim>\<open>filepath.Clean\<close> keeps as it is.\<close>

definition plain_elem :: "string \<Rightarrow> bool" where
  "plain_elem e \<longleftrightarrow> e \<noteq> [] \<and> e \<noteq> ''.'' \<and> e \<noteq> ''..'' \<and> CHR ''/'' \<notin> set e"

lemma clean_elems_plain:
  "plain_elem e \<Longrightarrow> clean_elems rooted st (es @ [e]) = clean_elems rooted st es @ [e]"
  by (induction rooted st es rule: clean_elems.induct) (auto simp: plain_elem_def split: list.splits)

lemma Split_snoc: "CHR ''/'' \<notin> set e \<Longrightarrow> Split (d @ ''/'' @ e) ''/'' = Split d ''/'' @ [e]"
proof (induction d rule: length_induct)
  case (1 d)
  show ?case
  proof (cases "CHR ''/'' \<in> set d")
    case True
    then obtain a b where d: "d = a @ CHR ''/'' # b" "CHR ''/'' \<notin> set a" using split_list_first by metis
    then show ?thesis
      using 1 Split_step[of "CHR ''/''" a b] Split_step[of "CHR ''/''" a "b @ CHR ''/'' # e"] by simp
  next
    case False
    then show ?thesis using Split_step[of "CHR ''/''" d e] Split_notin[of "CHR ''/''"] 1 by simp
  qed
qed

lemma Join_snoc: "Join (es @ [e]) ''/'' = (if es = [] then e else Join es ''/'' @ ''/'' @ e)"
proof (induction es)
  case (Cons x es)
  then show ?case by (cases es) auto
qed simp

lemma PathJoin_plain:
  assumes "plain_elem e"
  shows "\<exists>q. PathJoin [d, e] = q @ e \<and> (q = [] \<or> last q = CHR ''/'')"
proof (cases "d = []")
  case True
  have "Split e ''/'' = [e]" using assms by (simp add: plain_elem_def Split_notin)
  moreover have "\<not> IsAbs e" using assms by (cases e) (auto simp: plain_elem_def IsAbs_def HasPrefix_def)
  ultimately have "PathJoin [d, e] = e"
    using True assms by (simp add: PathJoin_def Clean_def plain_elem_def)
  then show ?thesis by simp
next
  case False
  let ?es = "clean_elems (IsAbs (d @ ''/'' @ e)) [] (Split d ''/'')"
  have "PathJoin [d, e] = (if IsAbs (d @ ''/'' @ e) then ''/'' else []) @ Join (?es @ [e]) ''/''"
    using False assms Split_snoc[of e d] clean_elems_plain[OF assms]
    by (simp add: PathJoin_def Clean_def Let_def plain_elem_def Join_snoc)
  then show ?thesis by (auto simp: Join_snoc)
qed

lemma last_elem_unique:
  assumes "q @ e = q' @ e'" and "CHR ''/'' \<notin> set e" and "CHR ''/'' \<notin> set e'"
    and "q = [] \<or> last q = CHR ''/''" and "q' = [] \<or> last q' = CHR ''/''"
  shows "e = e'"
proof -
  have tw: "takeWhile (\<lambda>c. c \<noteq> CHR ''/'') (rev (q @ e)) = rev e"
    if "CHR ''/'' \<notin> set e" "q = [] \<or> last q = CHR ''/''" for q e :: string
  proof (cases q rule: rev_cases)
    case Nil
    then show ?thesis using that by (auto simp: takeWhile_eq_all_conv)
  next
    case (snoc q0 c)
    have "\<forall>x\<in>set (rev e). x \<noteq> CHR ''/''" using that(1) by auto
    then show ?thesis using that(2) snoc by (simp add: takeWhile_append_stop)
  qed
  have "rev e = rev e'" using tw[OF assms(2,4)] tw[OF assms(3,5)] assms(1) by metis
  then show ?thesis by simp
qed

lemma PathJoin_plain_inj:
  assumes "plain_elem e" and "plain_elem e'" and "PathJoin [d, e] = PathJoin [d', e']"
  shows "e = e'"
  using PathJoin_plain[OF assms(1), of d] PathJoin_plain[OF assms(2), of d'] assms
  by (metis last_elem_unique plain_elem_def)

lemma index_mount_plain:
  assumes "CHR ''/'' \<notin> set namespace" and "ds \<noteq> []" and "list_all is_digit ds"
  shows "plain_elem (index_mount namespace ds)"
proof -
  have "\<not> is_digit CHR ''/''" by (simp add: is_digit_def)
  then have "CHR ''/'' \<notin> set ds" using assms(3) by (auto simp: list_all_iff)
  moreover have "CHR ''-'' \<in> set (index_mount namespace ds)" by simp
  then have "index_mount namespace ds \<noteq> ''.''" "index_mount namespace ds \<noteq> ''..''" by (auto simp del: set_append)
  ultimately show ?thesis using assms(1) by (simp add: plain_elem_def)
qed

lemma ExtractIndexMountDir_plain:
  assumes "ExtractIndexMountDir path namespace = Ok m" and "m \<noteq> []" and "CHR ''/'' \<notin> set namespace"
  shows "plain_elem m \<and> \<not> HasSuffix path m"
proof -
  obtain match where f: "FindStringSubmatch (indexMountRe namespace) path = Some match"
      "m = match ! 1" "\<not> HasSuffix path m"
    using assms(1,2) by (auto simp: ExtractIndexMountDir_def split: option.splits if_splits)
  then show ?thesis
    using FindStringSubmatch_indexMount[OF f(1)] assms(3) index_mount_plain[of namespace]
    by (auto simp: mount_at_def)
qed

text \<open>The destination path of \<open>dm\<close> was moved to the directory \<open>d\<close>, or to a file of its old name in it.\<close>

definition moved_into :: "string \<Rightarrow> NnfDataMovement \<Rightarrow> NnfDataMovement \<Rightarrow> bool" where
  "moved_into d dm dm' =
     (let dest = Path (Destination (dm_Spec dm)); slash = (if HasSuffix dest ''/'' then ''/'' else [])
      in dm' = set_destination (d @ slash) dm \<or> dm' = set_destination (PathJoin [d, Base dest] @ slash) dm)"

lemma HandleIndexMountDir_Ok:
  assumes "HandleIndexMountDir E profile dm destDir indexMount hostfile w = (Ok (d, dm'), w')"
    and "\<not> HasSuffix (Path (Source (dm_Spec dm))) indexMount"
  shows "d = PathJoin [destDir, indexMount] \<and> moved_into d dm dm'"
  using assms
  by (auto simp: HandleIndexMountDir_def moved_into_def Let_def split: result.splits prod.splits if_splits)

text \<open>
  C33. Fan-in does not collide. When the files of several compute nodes are copied to one destination
  directory, each source path holds the index mount of its node; two movements whose index mounts
  differ get different directories below the destination, and each movement's destination path becomes
  its own directory or a file in it.
\<close>

theorem fan_in_directories_differ:
  assumes "ExtractIndexMountDir (Path (Source (dm_Spec dm1))) ns = Ok m1" and "m1 \<noteq> []"
    and "ExtractIndexMountDir (Path (Source (dm_Spec dm2))) ns = Ok m2" and "m2 \<noteq> []"
    and "m1 \<noteq> m2" and "CHR ''/'' \<notin> set ns"
    and "HandleIndexMountDir E profile dm1 destDir m1 hostfile1 w1 = (Ok (d1, dm1'), w1')"
    and "HandleIndexMountDir E profile dm2 destDir m2 hostfile2 w2 = (Ok (d2, dm2'), w2')"
  shows "d1 \<noteq> d2 \<and> moved_into d1 dm1 dm1' \<and> moved_into d2 dm2 dm2'"
proof -
  note p1 = ExtractIndexMountDir_plain[OF assms(1,2,6)] and p2 = ExtractIndexMountDir_plain[OF assms(3,4,6)]
  note h1 = HandleIndexMountDir_Ok[OF assms(7)] and h2 = HandleIndexMountDir_Ok[OF assms(8)]
  show ?thesis using p1 p2 h1 h2 assms(5) PathJoin_plain_inj[of m1 m2 destDir destDir] by blast
qed

definition node_dm :: "string \<Rightarrow> NnfDataMovement" where
  "node_dm path = sample_dm\<lparr>dm_Spec := sample_spec\<lparr>Source := (Source sample_spec)\<lparr>Path := path\<rparr>\<rparr>\<rparr>"

theorem fan_in_directories_differ_witness:
  "\<exists>d1 d2 dm1 dm2.
     fst (HandleIndexMountDir (cluster_env [''NNF_TEST_ENVIRONMENT'' \<mapsto> ''true''] 0) (sample_profile [])
       (node_dm ''/mnt/nnf/ns-0/x'') ''/lus/b'' ''ns-0'' [] (empty_cluster\<lparr>c_dirs := {''/mnt/nnf/ns-0/x''}\<rparr>)) = Ok (d1, dm1) \<and>
     fst (HandleIndexMountDir (cluster_env [''NNF_TEST_ENVIRONMENT'' \<mapsto> ''true''] 0) (sample_profile [])
       (node_dm ''/mnt/nnf/ns-1/x'') ''/lus/b'' ''ns-1'' [] (empty_cluster\<lparr>c_dirs := {''/mnt/nnf/ns-1/x''}\<rparr>)) = Ok (d2, dm2) \<and>
     d1 \<noteq> d2"
proof -
  let ?E = "cluster_env [''NNF_TEST_ENVIRONMENT'' \<mapsto> ''true''] 0"
  let ?w = "\<lambda>p. empty_cluster\<lparr>c_dirs := {p}\<rparr>"
  have h: "\<exists>d dm'. HandleIndexMountDir ?E (sample_profile []) (node_dm p) ''/lus/b'' m [] (?w p) = (Ok (d, dm'), ?w p)"
    if "\<not> HasSuffix p m" for p m
    using that by (simp add: HandleIndexMountDir_def isSourceAFile_def isDestAFile_def isTestEnv_def Let_def
        cluster_env_def node_dm_def split: if_splits)
  have n: "\<not> HasSuffix ''/mnt/nnf/ns-0/x'' ''ns-0''" "\<not> HasSuffix ''/mnt/nnf/ns-1/x'' ''ns-1''"
    "ExtractIndexMountDir ''/mnt/nnf/ns-0/x'' ''ns'' = Ok ''ns-0''"
    "ExtractIndexMountDir ''/mnt/nnf/ns-1/x'' ''ns'' = Ok ''ns-1''" by code_simp+
  obtain d1 dm1 where 1: "HandleIndexMountDir ?E (sample_profile []) (node_dm ''/mnt/nnf/ns-0/x'') ''/lus/b'' ''ns-0'' []
      (?w ''/mnt/nnf/ns-0/x'') = (Ok (d1, dm1), ?w ''/mnt/nnf/ns-0/x'')" using h[OF n(1)] by blast
  obtain d2 dm2 where 2: "HandleIndexMountDir ?E (sample_profile []) (node_dm ''/mnt/nnf/ns-1/x'') ''/lus/b'' ''ns-1'' []
      (?w ''/mnt/nnf/ns-1/x'') = (Ok (d2, dm2), ?w ''/mnt/nnf/ns-1/x'')" using h[OF n(2)] by blast
  have "d1 \<noteq> d2"
    by (rule fan_in_directories_differ[THEN conjunct1, OF _ _ _ _ _ _ 1 2, of "''ns''"])
       (simp_all add: n node_dm_def)
  then show ?thesis using 1 2 by auto
qed

section \<open>Errors are fatal, and the resources are not touched\<close>

lemma PrepareDestination_object:
  "\<exists>p. snd (fst (PrepareDestination E profile dm hostfile w)) = set_destination p dm"
proof -
  have same: "\<exists>p. dm = set_destination p dm"
    by (intro exI[of _ "Path (Destination (dm_Spec dm))"]) (simp add: set_destination_def)
  have handled: "\<exists>p. dm' = set_destination p dm"
    if "HandleIndexMountDir E profile dm dd m hostfile v = (Ok (d, dm'), v')" for dd m v d dm' v'
    using that same by (auto simp: HandleIndexMountDir_def Let_def split: result.splits prod.splits if_splits)
  show ?thesis
    using same unfolding PrepareDestination_def Let_def
    by (auto split: result.splits prod.splits option.splits dest: handled)
qed

text \<open>
  Whatever goes wrong while the destination is prepared, the error that comes back is a fatal
  resource error, so the request ends; and nothing of the request but its destination path changes.
\<close>

lemma PrepareDestination_errors_fatal:
  "(case PrepareDestination E profile dm hostfile w of
      ((r, dm'), w') \<Rightarrow>
        (case r of Err err \<Rightarrow> \<exists>i. err = ResErr i \<and> Severity i = SeverityFatal | _ \<Rightarrow> True) \<and>
        (\<exists>p. dm' = set_destination p dm))"
proof -
  have "case fst (fst (PrepareDestination E profile dm hostfile w)) of
          Err err \<Rightarrow> \<exists>i. err = ResErr i \<and> Severity i = SeverityFatal | _ \<Rightarrow> True"
    unfolding PrepareDestination_def Let_def fatal_error_def
    by (auto split: result.splits prod.splits option.splits)
  then show ?thesis using PrepareDestination_object[of E profile dm hostfile w] by (auto split: prod.splits)
qed

context shell_view
begin

lemma mpiStat_keeps: "mpiStat E profile path uid gid hostfile w = (r, w') \<Longrightarrow> view w' = view w"
  by (auto simp: mpiStat_def Let_def dest: Run_keeps split: prod.splits option.splits)

lemma mpiIsDir_keeps: "mpiIsDir E profile path uid gid hostfile w = (r, w') \<Longrightarrow> view w' = view w"
  by (auto simp: mpiIsDir_def dest: mpiStat_keeps split: prod.splits option.splits)

lemma isSourceAFile_keeps: "isSourceAFile E profile dm hostfile w = (r, w') \<Longrightarrow> view w' = view w"
  by (auto simp: isSourceAFile_def dest: mpiIsDir_keeps split: prod.splits result.splits if_splits)

lemma isDestAFile_keeps: "isDestAFile E profile dm hostfile w = (r, w') \<Longrightarrow> view w' = view w"
  by (auto simp: isDestAFile_def Let_def dest: mpiIsDir_keeps split: prod.splits result.splits if_splits)

lemma GetDestinationDir_keeps: "GetDestinationDir E profile dm hostfile w = (r, w') \<Longrightarrow> view w' = view w"
  by (auto simp: GetDestinationDir_def Let_def dest!: isSourceAFile_keeps isDestAFile_keeps
      split: prod.splits result.splits bool.splits)

lemma HandleIndexMountDir_keeps: "HandleIndexMountDir E profile dm d m hostfile w = (r, w') \<Longrightarrow> view w' = view w"
  by (auto simp: HandleIndexMountDir_def Let_def dest!: isSourceAFile_keeps isDestAFile_keeps
      split: prod.splits result.splits if_splits)

lemma createDestinationDir_keeps: "createDestinationDir E profile dm d hostfile w = (r, w') \<Longrightarrow> view w' = view w"
  by (auto simp: createDestinationDir_def Let_def dest!: mpiStat_keeps Run_keeps
      split: prod.splits option.splits if_splits)

lemma PrepareDestination_keeps: "PrepareDestination E profile dm hostfile w = (r, w') \<Longrightarrow> view w' = view w"
  by (auto simp: PrepareDestination_def Let_def
      dest!: GetDestinationDir_keeps HandleIndexMountDir_keeps createDestinationDir_keeps
      split: prod.splits result.splits option.splits if_splits)

lemma write_all_keeps: "write_all E p ts w = (r, w') \<Longrightarrow> view w' = view w"
  by (induction ts arbitrary: w) (auto dest!: writeString_keeps split: prod.splits option.splits)

lemma write_hosts_keeps: "write_hosts E p slots maxSlots seen hosts w = (r, w') \<Longrightarrow> view w' = view w"
  by (induction hosts arbitrary: w seen) (auto dest!: write_all_keeps split: prod.splits option.splits if_splits)

lemma WriteMpiHostfile_keeps: "WriteMpiHostfile E name hosts slots maxSlots w = (r, w') \<Longrightarrow> view w' = view w"
  by (auto simp: WriteMpiHostfile_def Let_def
      dest!: mkdirTemp_keeps mkdirAll_keeps create_keeps write_hosts_keeps
      split: prod.splits result.splits option.splits if_splits)

lemma CreateMpiHostfile_keeps: "CreateMpiHostfile E profile hosts dm w = (r, w') \<Longrightarrow> view w' = view w"
  by (auto simp: CreateMpiHostfile_def Let_def dest!: WriteMpiHostfile_keeps)

end

end
