(* ===== verification/Dm_Controller.thy ===== *)
theory Dm_Controller
  imports Dcp_Output Dm_Destination
begin

text \<open>
  The controller of \<^verbatim>\<open>NnfDataMovement\<close> resources (\<^verbatim>\<open>internal/controller/datamovement_controller.go\<close>): one
  call of \<open>Reconcile\<close>, the goroutine that runs the data movement command (\<open>command_output\<close>,
  \<open>parseAndUpdateProgress\<close>, \<open>finish_command\<close>) and \<open>cancel\<close>, over the state the reconciler keeps: the map
  \<^verbatim>\<open>contexts\<close> of operations in flight, the contexts that were cancelled, and the goroutines.

  A goroutine is identified by the number of the context it runs under; the entry of \<^verbatim>\<open>contexts\<close> for a
  resource name holds that number and, once the command has ended, the status to be written.
  \<^verbatim>\<open>Reconcile\<close> is one step of the model: the work queue never runs two calls for one resource at the same
  time, and the cache a call reads may be arbitrarily old, which includes every write that happens
  between its read and its own writes.
\<close>

section \<open>State\<close>

definition finalizer :: string where "finalizer = ''dm.cray.hpe.com''"

record DataMovementContext =
  Ctx :: nat
  Result :: "NnfDataMovementStatus option"

text \<open>The variables of a goroutine: what it captured, its command status, and the two output buffers.\<close>

record DmRun =
  run_dm :: NnfDataMovement
  run_profile :: NnfDataMovementProfile
  run_hostfile :: string
  run_cmdStatus :: NnfDataMovementCommandStatus
  run_parseBuf :: string
  run_combinedOut :: string
  run_progressStart :: time

record 'w reconciler =
  world :: 'w
  contexts :: "string \<Rightarrow> DataMovementContext option"
  cancelled :: "nat \<Rightarrow> bool"
  next_ctx :: nat
  running :: "nat \<Rightarrow> DmRun option"
  completions :: "(string \<times> string) list"

section \<open>Cancellation\<close>

text \<open>The request, the object as it is in memory afterwards, and the state.\<close>

definition cancel ::
  "('w, 'z) env_scheme \<Rightarrow> NnfDataMovement \<Rightarrow> 'w reconciler \<Rightarrow> unit res \<times> NnfDataMovement \<times> 'w reconciler" where
  "cancel E dm s =
     (if StartTime (dm_Status dm) = None \<and> dm_DeletionTimestamp dm \<noteq> None then
        (let now = e_Now E (world s);
             dm1 = dm\<lparr>dm_Status := (dm_Status dm)\<lparr>State := TypeFinished, Status := ReasonCancelled,
                        StartTime := Some now, EndTime := Some now\<rparr>\<rparr>
         in case e_UpdateDmStatus E dm1 (world s) of
              (Ok dm2, w') \<Rightarrow> (Ok (), dm2, s\<lparr>world := w'\<rparr>)
            | (Err err, w') \<Rightarrow> (Err err, dm1, s\<lparr>world := w'\<rparr>)
            | (Panic, w') \<Rightarrow> (Panic, dm1, s\<lparr>world := w'\<rparr>))
      else
        (case contexts s (dm_Name dm) of
           None \<Rightarrow> (Ok (), dm, s)
         | Some dmCtx \<Rightarrow>
             if Result dmCtx \<noteq> None then (Ok (), dm, s)
             else (Ok (), dm, s\<lparr>cancelled := (cancelled s)(Ctx dmCtx := True)\<rparr>)))"

section \<open>Reconcile\<close>

text \<open>The deferred function: an error is recorded in the status, and a severe one ends the request.\<close>

definition error_status :: "goerr \<Rightarrow> NnfDataMovementStatus \<Rightarrow> NnfDataMovementStatus" where
  "error_status err st =
     (let st1 = (case err of
                   ResErr i \<Rightarrow> (if Severity i \<noteq> SeverityMinor
                                then st\<lparr>State := TypeFinished, Status := ReasonInvalid\<rparr> else st)
                 | _ \<Rightarrow> st)
      in st1\<lparr>ErrorInfo := SetResourceError err, Message := Error err\<rparr>)"

definition deferred_status ::
  "('w, 'z) env_scheme \<Rightarrow> unit res \<times> NnfDataMovement \<times> 'w reconciler \<Rightarrow> unit res \<times> 'w reconciler" where
  "deferred_status E = (\<lambda>(r, dm, s).
     (case r of
        Err err \<Rightarrow>
          (case e_UpdateDmStatus E (dm\<lparr>dm_Status := error_status err (dm_Status dm)\<rparr>) (world s) of
             (Ok dm', w') \<Rightarrow> (Err err, s\<lparr>world := w'\<rparr>)
           | (Err updateErr, w') \<Rightarrow> (Err updateErr, s\<lparr>world := w'\<rparr>)
           | (Panic, w') \<Rightarrow> (Panic, s\<lparr>world := w'\<rparr>))
      | _ \<Rightarrow> (r, s)))"

text \<open>An update of the object in which the reconciler adds or removes its finalizer.\<close>

definition update_finalizers ::
  "('w, 'z) env_scheme \<Rightarrow> string list \<Rightarrow> NnfDataMovement \<Rightarrow> 'w reconciler \<Rightarrow>
   unit res \<times> NnfDataMovement \<times> 'w reconciler" where
  "update_finalizers E fs dm s =
     (let dm1 = dm\<lparr>dm_Finalizers := fs\<rparr>
      in case e_UpdateDm E dm1 (world s) of
           (Ok dm2, w') \<Rightarrow> (Ok (), dm2, s\<lparr>world := w'\<rparr>)
         | (Err err, w') \<Rightarrow> (Err err, dm1, s\<lparr>world := w'\<rparr>)
         | (Panic, w') \<Rightarrow> (Panic, dm1, s\<lparr>world := w'\<rparr>))"

definition drop_context :: "string \<Rightarrow> 'w reconciler \<Rightarrow> 'w reconciler" where
  "drop_context name s = s\<lparr>contexts := (contexts s)(name := None)\<rparr>"

definition reconcile_deleted ::
  "('w, 'z) env_scheme \<Rightarrow> NnfDataMovement \<Rightarrow> 'w reconciler \<Rightarrow> unit res \<times> NnfDataMovement \<times> 'w reconciler" where
  "reconcile_deleted E dm s =
     (case cancel E dm s of
        (Ok _, dm1, s1) \<Rightarrow>
          (let remove = (\<lambda>s2. if ContainsFinalizer (dm_Finalizers dm1) finalizer
                              then update_finalizers E (RemoveFinalizer (dm_Finalizers dm1) finalizer) dm1 s2
                              else (Ok (), dm1, s2))
           in case contexts s1 (dm_Name dm1) of
                None \<Rightarrow> remove s1
              | Some ctxEntry \<Rightarrow>
                  if Result ctxEntry = None then (Ok (), dm1, s1)
                  else remove (drop_context (dm_Name dm1) s1))
      | other \<Rightarrow> other)"

definition write_result ::
  "('w, 'z) env_scheme \<Rightarrow> NnfDataMovementStatus \<Rightarrow> NnfDataMovement \<Rightarrow> 'w reconciler \<Rightarrow>
   unit res \<times> NnfDataMovement \<times> 'w reconciler" where
  "write_result E result dm s =
     (let dm1 = dm\<lparr>dm_Status := result\<rparr>
      in case e_UpdateDmStatus E dm1 (world s) of
           (Ok dm2, w') \<Rightarrow> (Ok (), dm2, drop_context (dm_Name dm2) (s\<lparr>world := w'\<rparr>))
         | (Err err, w') \<Rightarrow> (Err err, dm1, s\<lparr>world := w'\<rparr>)
         | (Panic, w') \<Rightarrow> (Panic, dm1, s\<lparr>world := w'\<rparr>))"

subsection \<open>Starting a command\<close>

definition major_error :: "string \<Rightarrow> goerr \<Rightarrow> goerr" where
  "major_error msg err = ResErr (WithMajor (WithError err (NewResourceError msg)))"

text \<open>Everything up to the built command: the profile, the hostfile and the command's arguments.\<close>

definition setup_command ::
  "('w, 'z) env_scheme \<Rightarrow> NnfDataMovement \<Rightarrow> 'w \<Rightarrow>
   ((NnfDataMovementProfile \<times> string \<times> string list) res \<times> NnfDataMovement) \<times> 'w" where
  "setup_command E dm w =
     (case GetDMProfile E dm w of
        Panic \<Rightarrow> ((Panic, dm), w)
      | Err err \<Rightarrow> ((Err (major_error ''could not get profile for data movement'' err), dm), w)
      | Ok profile \<Rightarrow>
     (case GetStorageNodeNames E dm w of
        Panic \<Rightarrow> ((Panic, dm), w)
      | Err err \<Rightarrow> ((Err (major_error ''could not get storage nodes for data movement'' err), dm), w)
      | Ok nodes \<Rightarrow>
     (case GetWorkerHostnames E nodes w of
        Panic \<Rightarrow> ((Panic, dm), w)
      | Err err \<Rightarrow> ((Err (major_error ''could not get worker nodes for data movement'' err), dm), w)
      | Ok hosts \<Rightarrow>
     (case CreateMpiHostfile E profile hosts dm w of
        (Panic, w1) \<Rightarrow> ((Panic, dm), w1)
      | (Err err, w1) \<Rightarrow> ((Err (major_error ''could not create MPI hostfile'' err), dm), w1)
      | (Ok mpiHostfile, w1) \<Rightarrow>
     (case PrepareDestination E profile dm mpiHostfile w1 of
        ((Panic, dm1), w2) \<Rightarrow> ((Panic, dm1), w2)
      | ((Err err, dm1), w2) \<Rightarrow> ((Err err, dm1), w2)
      | ((Ok _, dm1), w2) \<Rightarrow>
     (case BuildDMCommand profile mpiHostfile True dm1 of
        Panic \<Rightarrow> ((Panic, dm1), w2)
      | Err err \<Rightarrow> ((Err (major_error ''could not create data movement command'' err), dm1), w2)
      | Ok cmdArgs \<Rightarrow> ((Ok (profile, mpiHostfile, cmdArgs), dm1), w2)))))))"

definition start_command ::
  "('w, 'z) env_scheme \<Rightarrow> NnfDataMovementProfile \<Rightarrow> string \<Rightarrow> string list \<Rightarrow> NnfDataMovement \<Rightarrow> 'w reconciler \<Rightarrow>
   unit res \<times> NnfDataMovement \<times> 'w reconciler" where
  "start_command E profile mpiHostfile cmdArgs dm s =
     (let ctx = next_ctx s;
          cmdStatus = empty_CommandStatus\<lparr>Command := ''/bin/bash -c '' @ Join cmdArgs '' ''\<rparr>;
          now = e_Now E (world s);
          dm1 = dm\<lparr>dm_Status := (dm_Status dm)\<lparr>StartTime := Some now, State := TypeRunning,
                     CommandStatus := Some cmdStatus\<rparr>\<rparr>
      in case e_UpdateDmStatus E dm1 (world s) of
           (Err err, w') \<Rightarrow>
             (Err err, dm1, s\<lparr>world := w', next_ctx := Suc ctx, cancelled := (cancelled s)(ctx := True)\<rparr>)
         | (Panic, w') \<Rightarrow> (Panic, dm1, s\<lparr>world := w'\<rparr>)
         | (Ok dm2, w') \<Rightarrow>
             (Ok (), dm2,
              s\<lparr>world := w', next_ctx := Suc ctx, cancelled := (cancelled s)(ctx := False),
                contexts := (contexts s)(dm_Name dm2 \<mapsto> \<lparr>Ctx = ctx, Result = None\<rparr>),
                running := (running s)(ctx \<mapsto>
                  \<lparr>run_dm = dm2, run_profile = profile, run_hostfile = mpiHostfile, run_cmdStatus = cmdStatus,
                   run_parseBuf = [], run_combinedOut = [], run_progressStart = e_Now E w'\<rparr>)\<rparr>))"

definition reconcile_start ::
  "('w, 'z) env_scheme \<Rightarrow> NnfDataMovement \<Rightarrow> 'w reconciler \<Rightarrow> unit res \<times> NnfDataMovement \<times> 'w reconciler" where
  "reconcile_start E dm s =
     (case setup_command E dm (world s) of
        ((Panic, dm1), w') \<Rightarrow> (Panic, dm1, s\<lparr>world := w'\<rparr>)
      | ((Err err, dm1), w') \<Rightarrow> (Err err, dm1, s\<lparr>world := w'\<rparr>)
      | ((Ok (profile, mpiHostfile, cmdArgs), dm1), w') \<Rightarrow>
          start_command E profile mpiHostfile cmdArgs dm1 (s\<lparr>world := w'\<rparr>))"

definition count_restart :: "NnfDataMovement \<Rightarrow> NnfDataMovement" where
  "count_restart dm = dm\<lparr>dm_Status := (dm_Status dm)\<lparr>Restarts := Restarts (dm_Status dm) + 1\<rparr>\<rparr>"

text \<open>The part of \<^verbatim>\<open>Reconcile\<close> for an object that is not being deleted and holds the finalizer.\<close>

definition reconcile_active ::
  "('w, 'z) env_scheme \<Rightarrow> NnfDataMovement \<Rightarrow> 'w reconciler \<Rightarrow> unit res \<times> NnfDataMovement \<times> 'w reconciler" where
  "reconcile_active E dm s =
     (case Option.bind (contexts s (dm_Name dm)) Result of
        Some result \<Rightarrow> write_result E result dm s
      | None \<Rightarrow>
          if State (dm_Status dm) = TypeFinished then (Ok (), dm, s)
          else if Cancel (dm_Spec dm) then
            (case cancel E dm s of
               (Err err, dm1, s1) \<Rightarrow>
                 (Err (ResErr (WithUserMessage ''Unable to cancel data movement''
                                 (WithError err (NewResourceError [])))), dm1, s1)
             | other \<Rightarrow> other)
          else if State (dm_Status dm) = TypeRunning then
            (if contexts s (dm_Name dm) \<noteq> None then (Ok (), dm, s) else reconcile_start E (count_restart dm) s)
          else reconcile_start E dm s)"

definition reconcile_object ::
  "('w, 'z) env_scheme \<Rightarrow> NnfDataMovement \<Rightarrow> 'w reconciler \<Rightarrow> unit res \<times> NnfDataMovement \<times> 'w reconciler" where
  "reconcile_object E dm s =
     (if dm_DeletionTimestamp dm \<noteq> None then reconcile_deleted E dm s
      else if \<not> ContainsFinalizer (dm_Finalizers dm) finalizer
      then update_finalizers E (AddFinalizer (dm_Finalizers dm) finalizer) dm s
      else reconcile_active E dm s)"

definition Reconcile ::
  "('w, 'z) env_scheme \<Rightarrow> string \<times> string \<Rightarrow> 'w reconciler \<Rightarrow> unit res \<times> 'w reconciler" where
  "Reconcile E req s =
     (case e_GetDm E (fst req) (snd req) (world s) of
        Panic \<Rightarrow> (Panic, s)
      | Err err \<Rightarrow> (case IgnoreNotFound err of None \<Rightarrow> (Ok (), s) | Some e \<Rightarrow> (Err e, s))
      | Ok dm \<Rightarrow> deferred_status E (reconcile_object E dm s))"

section \<open>The goroutine\<close>

definition ProgressCollectionEnabled :: "64 word \<Rightarrow> bool" where
  "ProgressCollectionEnabled collectInterval = (1000000000 \<le> sint collectInterval)"

definition progressCollectInterval :: "NnfDataMovementProfile \<Rightarrow> 64 word" where
  "progressCollectInterval profile = word_of_int (ProgressIntervalSeconds (prof_Data profile)) * 1000000000"

text \<open>The command writes \<open>text\<close> to its standard output or error.\<close>

definition command_output :: "nat \<Rightarrow> string \<Rightarrow> 'w reconciler \<Rightarrow> 'w reconciler" where
  "command_output i txt s =
     (case running s i of
        None \<Rightarrow> s
      | Some run \<Rightarrow>
          s\<lparr>running := (running s)(i \<mapsto>
              run\<lparr>run_parseBuf := run_parseBuf run @ txt, run_combinedOut := run_combinedOut run @ txt\<rparr>)\<rparr>)"

definition parseAndUpdateProgress :: "('w, 'z) env_scheme \<Rightarrow> nat \<Rightarrow> 'w reconciler \<Rightarrow> 'w reconciler" where
  "parseAndUpdateProgress E i s =
     (case running s i of
        None \<Rightarrow> s
      | Some run \<Rightarrow>
          (case read_progress (run_progressStart run) (e_Now E (world s)) (run_parseBuf run) (run_cmdStatus run) of
             (complete, rest, cmdStatus) \<Rightarrow>
               (let s1 = s\<lparr>running := (running s)(i \<mapsto> run\<lparr>run_parseBuf := rest, run_cmdStatus := cmdStatus\<rparr>)\<rparr>
                in if \<not> complete then s1
                   else
                     (case e_GetDm E (dm_Namespace (run_dm run)) (dm_Name (run_dm run)) (world s1) of
                        Ok dm \<Rightarrow>
                          s1\<lparr>world := snd (e_UpdateDmStatus E
                              (dm\<lparr>dm_Status := (dm_Status dm)\<lparr>CommandStatus := Some cmdStatus\<rparr>\<rparr>) (world s1))\<rparr>
                      | _ \<Rightarrow> s1))))"

text \<open>The status when the command has ended with the error \<open>werr\<close> of \<^verbatim>\<open>cmd.Wait\<close>.\<close>

definition final_status ::
  "time \<Rightarrow> bool \<Rightarrow> goerr option \<Rightarrow> DmRun \<Rightarrow> NnfDataMovementStatus" where
  "final_status now wasCancelled werr run =
     (let dm = run_dm run;
          st = (dm_Status dm)\<lparr>EndTime := Some now, State := TypeFinished, Status := ReasonSuccess\<rparr>;
          output = TrimDcpProgressFromOutput (run_combinedOut run);
          storeStdout = (prof_StoreStdout (prof_Data (run_profile run)) \<or>
             (case UserConfig (dm_Spec dm) of None \<Rightarrow> False | Some cfg \<Rightarrow> StoreStdout cfg));
          st = (if wasCancelled then st\<lparr>Status := ReasonCancelled\<rparr>
                else case werr of
                  Some err \<Rightarrow>
                    st\<lparr>Status := ReasonFailed, Message := Error err @ '': '' @ output,
                       ErrorInfo := SetResourceError (ResErr (WithFatal
                         (WithUserMessage (''data movement operation failed: '' @ output)
                           (WithError err (NewResourceError [])))))\<rparr>
                | None \<Rightarrow> if storeStdout then st\<lparr>Message := output\<rparr> else st)
      in st\<lparr>CommandStatus := Some (run_cmdStatus run)\<rparr>)"

definition finish_command ::
  "('w, 'z) env_scheme \<Rightarrow> nat \<Rightarrow> goerr option \<Rightarrow> 'w reconciler \<Rightarrow> 'w reconciler" where
  "finish_command E i werr s =
     (case running s i of
        None \<Rightarrow> s
      | Some run0 \<Rightarrow>
          (let s1 = (if ProgressCollectionEnabled (progressCollectInterval (run_profile run0))
                     then parseAndUpdateProgress E i s else s)
           in case running s1 i of
                None \<Rightarrow> s1
              | Some run \<Rightarrow>
                  (let status = final_status (e_Now E (world s1)) (cancelled s1 i) werr run;
                       name = dm_Name (run_dm run)
                   in s1\<lparr>world := e_RemoveAll E (Dir (run_hostfile run)) (world s1),
                         contexts := (case contexts s1 name of
                             None \<Rightarrow> contexts s1
                           | Some ctxEntry \<Rightarrow> (contexts s1)(name \<mapsto> ctxEntry\<lparr>Result := Some status\<rparr>)),
                         running := (running s1)(i := None),
                         completions := completions s1 @ [(dm_Namespace (run_dm run), name)]\<rparr>)))"

end
