(* ===== verification/Offload_Types.thy ===== *)
theory Offload_Types
  imports Dm_Controller "HOL-Library.AList"
begin

text \<open>
  The data of the copy-offload daemon: its requests and responses
  (\<^verbatim>\<open>daemons/copy-offload/pkg/driver/dmrequest.go\<close>, \<^verbatim>\<open>dmresponse.go\<close>), the further API objects it reads
  (workflows, client mounts, Lustre file systems, the system configuration), and the environment of its
  calls, which extends the one of the controller. The daemon's client has no cache: its reads go to the
  API server.
\<close>

section \<open>Requests\<close>

record DMRequest =
  ComputeName :: string
  SourcePath :: string
  DestinationPath :: string
  req_Dryrun :: bool
  req_DcpOptions :: string
  req_LogStdout :: bool
  req_StoreStdout :: bool
  req_Slots :: "32 word"
  req_MaxSlots :: "32 word"
  DMProfile :: string
  req_MpirunOptions :: string

record StatusRequest =
  RequestName :: string
  MaxWaitSecs :: "64 word"

definition DMRequest_Validator :: "DMRequest \<Rightarrow> goerr option" where
  "DMRequest_Validator m =
     (if ComputeName m = [] then Some (PlainErr ''compute name must be supplied'')
      else if SourcePath m = [] then Some (PlainErr ''source path must be supplied'')
      else if DestinationPath m = [] then Some (PlainErr ''destination path must be supplied'')
      else if sint (req_Slots m) < - 1
      then Some (PlainErr ''slots must be -1 (defer to profile), 0 (disable), or a positive integer'')
      else if sint (req_MaxSlots m) < - 1
      then Some (PlainErr ''maxSlots must be -1 (defer to profile), 0 (disable), or a positive integer'')
      else None)"

definition StatusRequest_Validator :: "StatusRequest \<Rightarrow> goerr option" where
  "StatusRequest_Validator m =
     (if RequestName m = [] then Some (PlainErr ''request name must be supplied'') else None)"

text \<open>The user's settings of a request become the user configuration of its data movement.\<close>

definition setUserConfig :: "DMRequest \<Rightarrow> NnfDataMovement \<Rightarrow> NnfDataMovement" where
  "setUserConfig dmreq dm =
     dm\<lparr>dm_Spec := (dm_Spec dm)\<lparr>UserConfig := Some
       \<lparr>Dryrun = req_Dryrun dmreq, MpirunOptions = req_MpirunOptions dmreq, DcpOptions = req_DcpOptions dmreq,
        LogStdout = req_LogStdout dmreq, StoreStdout = req_StoreStdout dmreq,
        Slots = (if sint (req_Slots dmreq) \<ge> 0 then Some (sint (req_Slots dmreq)) else None),
        MaxSlots = (if sint (req_MaxSlots dmreq) \<ge> 0 then Some (sint (req_MaxSlots dmreq)) else None)\<rparr>\<rparr>\<rparr>"

section \<open>Responses\<close>

datatype resp_state = PENDING | STARTING | RUNNING | COMPLETED | CANCELLING | UNKNOWN_STATE

datatype resp_status = INVALID | NOT_FOUND | SUCCESS | FAILED | CANCELLED | UNKNOWN_STATUS

text \<open>Times and durations are kept as values; their rendering as text is not modelled.\<close>

record DataMovementCommandStatus =
  cs_Command :: string
  cs_Progress :: "32 word"
  cs_ElapsedTime :: "int option"
  cs_LastMessage :: string
  cs_LastMessageTime :: "time option"

record DataMovementStatusResponse =
  resp_State :: resp_state
  resp_Status :: resp_status
  resp_Message :: string
  resp_CommandStatus :: "DataMovementCommandStatus option"
  resp_StartTime :: "time option"
  resp_EndTime :: "time option"

section \<open>API objects\<close>

record Workflow =
  wf_Name :: string
  wf_Namespace :: string
  wf_Uid :: string
  wf_UserID :: "32 word"
  wf_GroupID :: "32 word"
  wf_State :: string
  wf_Status :: string

text \<open>A device reference is an object reference with private data of the driver.\<close>

type_synonym DeviceReference = "ObjectReference \<times> int"

record ClientMountInfo =
  MountPath :: string
  mount_Type :: string
  device_Type :: string
  device_Reference :: "DeviceReference option"

record ClientMount =
  cm_Name :: string
  cm_Namespace :: string
  cm_Labels :: "(string \<times> string) list option"
  cm_Mounts :: "ClientMountInfo list"

record LustreFileSystem =
  lus_Name :: string
  lus_Namespace :: string
  MountRoot :: string

record StorageNode =
  sn_Name :: string
  ComputesAccess :: "string list"

definition WorkflowNameLabel :: string where
  "WorkflowNameLabel = ''dataworkflowservices.github.io/workflow.name''"
definition WorkflowNamespaceLabel :: string where
  "WorkflowNamespaceLabel = ''dataworkflowservices.github.io/workflow.namespace''"
definition WorkflowUidLabel :: string where
  "WorkflowUidLabel = ''dataworkflowservices.github.io/workflow.uid''"
definition OwnerKindLabel :: string where "OwnerKindLabel = ''dataworkflowservices.github.io/owner.kind''"
definition OwnerNameLabel :: string where "OwnerNameLabel = ''dataworkflowservices.github.io/owner.name''"
definition OwnerNamespaceLabel :: string where
  "OwnerNamespaceLabel = ''dataworkflowservices.github.io/owner.namespace''"
definition OwnerUidLabel :: string where "OwnerUidLabel = ''dataworkflowservices.github.io/owner.uid''"
definition DataMovementTeardownStateLabel :: string where
  "DataMovementTeardownStateLabel = ''nnf.cray.hpe.com/teardown_state''"
definition DataMovementInitiatorLabel :: string where
  "DataMovementInitiatorLabel = ''dm.cray.hpe.com/initiator''"
definition DirectiveIndexLabel :: string where "DirectiveIndexLabel = ''nnf.cray.hpe.com/directive_index''"

lemmas label_defs =
  WorkflowNameLabel_def WorkflowNamespaceLabel_def WorkflowUidLabel_def OwnerKindLabel_def OwnerNameLabel_def
  OwnerNamespaceLabel_def OwnerUidLabel_def DataMovementTeardownStateLabel_def DataMovementInitiatorLabel_def
  DirectiveIndexLabel_def

text \<open>\<^verbatim>\<open>labels[k] = v\<close> for each pair, on the labels of a data movement.\<close>

definition set_labels :: "(string \<times> string) list \<Rightarrow> NnfDataMovement \<Rightarrow> NnfDataMovement" where
  "set_labels kvs dm = dm\<lparr>dm_Labels := fold (\<lambda>(k, v) ls. AList.update k v ls) kvs (dm_Labels dm)\<rparr>"

definition AddWorkflowLabels :: "Workflow \<Rightarrow> NnfDataMovement \<Rightarrow> NnfDataMovement" where
  "AddWorkflowLabels workflow =
     set_labels [(WorkflowNameLabel, wf_Name workflow), (WorkflowNamespaceLabel, wf_Namespace workflow), (WorkflowUidLabel, wf_Uid workflow)]"

definition AddOwnerLabels :: "Workflow \<Rightarrow> NnfDataMovement \<Rightarrow> NnfDataMovement" where
  "AddOwnerLabels workflow =
     set_labels [(OwnerKindLabel, ''Workflow''), (OwnerNameLabel, wf_Name workflow), (OwnerNamespaceLabel, wf_Namespace workflow),
                 (OwnerUidLabel, wf_Uid workflow)]"

definition AddDataMovementTeardownStateLabel :: "string \<Rightarrow> NnfDataMovement \<Rightarrow> NnfDataMovement" where
  "AddDataMovementTeardownStateLabel state = set_labels [(DataMovementTeardownStateLabel, state)]"

section \<open>The environment of the daemon\<close>

text \<open>
  \<open>o_CreateDm\<close> gets the prefix for the generated name; listing in the empty namespace lists all namespaces.
\<close>

record 'w offload_env = "'w env" +
  o_GetWorkflow :: "string \<Rightarrow> string \<Rightarrow> 'w \<Rightarrow> Workflow res"
  o_ListClientMounts :: "string \<Rightarrow> (string \<times> string) list \<Rightarrow> 'w \<Rightarrow> ClientMount list res"
  o_ListLustreFileSystems :: "'w \<Rightarrow> LustreFileSystem list res"
  o_ListProfiles :: "string \<Rightarrow> 'w \<Rightarrow> NnfDataMovementProfile list res"
  o_GetSystemConfiguration :: "string \<Rightarrow> string \<Rightarrow> 'w \<Rightarrow> StorageNode list res"
  o_CreateDm :: "string \<Rightarrow> NnfDataMovement \<Rightarrow> 'w \<Rightarrow> NnfDataMovement res \<times> 'w"

end
