(* ===== verification/Dm_Manager.thy ===== *)
theory Dm_Manager
  imports Offload_Types
begin

text \<open>
  The data movement manager (\<^verbatim>\<open>internal/controller/datamovementmanager_controller.go\<close>): it makes the secret with
  the SSH keys, the controller's deployment, the service and the daemon set of the workers, and keeps the
  finalizers of the global Lustre file systems that the workers mount. The API objects have the fields that
  the manager reads or writes; the rest of a pod or container is one opaque field.
\<close>

section \<open>Objects\<close>

datatype VolumeSource =
    SecretVolume string nat "(string \<times> string) list"
  | PersistentVolumeClaim string
  | HostPathDirectoryOrCreate string
  | OtherVolume string

record Volume =
  vol_Name :: string
  vol_Source :: VolumeSource

record VolumeMount =
  vm_Name :: string
  vm_MountPath :: string
  HostToContainer :: bool

record Container =
  cont_Name :: string
  Args :: "string list"
  Env :: "(string \<times> string) list"
  VolumeMounts :: "VolumeMount list"
  Capabilities :: "string list option"
  cont_Other :: string

record PodSpec =
  Containers :: "Container list"
  InitContainers :: "Container list"
  Volumes :: "Volume list"
  NodeSelector :: "(string \<times> string) list"
  Subdomain :: string
  ServiceAccountName :: string
  Tolerations :: "(string \<times> string \<times> string \<times> string) list"
  ShareProcessNamespace :: "bool option"
  pod_Other :: string

text \<open>The controller reference of an object: kind, name and uid of its owner.\<close>

type_synonym owner = "(string \<times> string \<times> string) option"

record Secret =
  sec_Name :: string
  sec_Namespace :: string
  sec_Owner :: owner
  sec_Type :: string
  sec_Data :: "(string \<times> string) list"

record Deployment =
  dep_Name :: string
  dep_Namespace :: string
  dep_Owner :: owner
  dep_Labels :: "(string \<times> string) list"
  dep_Other :: string
  dep_PodSpec :: PodSpec

record Service =
  svc_Name :: string
  svc_Namespace :: string
  svc_Owner :: owner
  svc_Selector :: "(string \<times> string) list"
  ClusterIP :: string

record DaemonSet =
  ds_Name :: string
  ds_Namespace :: string
  ds_Owner :: owner
  ds_Selector :: "(string \<times> string) list"
  ds_Labels :: "(string \<times> string) list"
  ds_PodSpec :: PodSpec
  ds_UpdateStrategy :: string
  Generation :: int
  ObservedGeneration :: int
  DesiredNumberScheduled :: int
  UpdatedNumberScheduled :: int
  NumberReady :: int

text \<open>
  The manager resource; the selector is its match labels, where the comparison of objects does not tell nil and
  the empty map apart, and the pod spec is what \<^verbatim>\<open>ToCorePodSpec\<close> makes of it.
\<close>

record NnfDataMovementManager =
  mgr_Name :: string
  mgr_Namespace :: string
  mgr_Uid :: string
  Selector :: "(string \<times> string) list"
  mgr_PodSpec :: PodSpec
  UpdateStrategy :: string
  HostPath :: string
  mgr_MountPath :: string
  Ready :: bool

record ManagedLustre = LustreFileSystem +
  lus_Namespaces :: "(string \<times> string list) list option"
  lus_DeletionTimestamp :: "time option"
  lus_Finalizers :: "string list"

definition lus_key :: "('z) ManagedLustre_scheme \<Rightarrow> string \<times> string" where
  "lus_key fs = (lus_Namespace fs, lus_Name fs)"

section \<open>The environment\<close>

text \<open>
  The client of controller-runtime reads from caches that its informers keep and writes to the API server. Before
  every read the informers may have taken in changes (\<open>g_Sync\<close>). An update carries the resource version of the
  object that was read; here it is given that object, and the server compares it with what is stored.
\<close>

record ('o, 'w) client =
  cl_Get :: "string \<Rightarrow> string \<Rightarrow> 'w \<Rightarrow> 'o res"
  cl_Create :: "'o \<Rightarrow> 'w \<Rightarrow> unit res \<times> 'w"
  cl_Update :: "'o \<Rightarrow> 'o \<Rightarrow> 'w \<Rightarrow> unit res \<times> 'w"

text \<open>\<open>g_NewKeys\<close> is the generation of a key pair: the private key in PEM form and the authorized key.\<close>

record 'w manager_env =
  g_Getenv :: "string \<Rightarrow> string"
  g_Sync :: "'w \<Rightarrow> 'w"
  g_GetManager :: "string \<Rightarrow> string \<Rightarrow> 'w \<Rightarrow> NnfDataMovementManager res"
  g_UpdateManagerStatus :: "NnfDataMovementManager \<Rightarrow> NnfDataMovementManager \<Rightarrow> 'w \<Rightarrow> unit res \<times> 'w"
  g_NewKeys :: "'w \<Rightarrow> (string \<times> string) res \<times> 'w"
  g_Secrets :: "(Secret, 'w) client"
  g_Deployments :: "(Deployment, 'w) client"
  g_Services :: "(Service, 'w) client"
  g_DaemonSets :: "(DaemonSet, 'w) client"
  g_ListLustre :: "'w \<Rightarrow> ManagedLustre list res"
  g_UpdateLustre :: "ManagedLustre \<Rightarrow> ManagedLustre \<Rightarrow> 'w \<Rightarrow> unit res \<times> 'w"

definition KindManager :: string where "KindManager = ''NnfDataMovementManager''"

text \<open>
  \<^verbatim>\<open>ctrl.SetControllerReference\<close>: refused when another object controls this one; objects are told apart by kind
  and name.
\<close>

definition SetControllerReference :: "NnfDataMovementManager \<Rightarrow> owner \<Rightarrow> owner res" where
  "SetControllerReference manager own =
     (case own of
        Some (kind, name, uid) \<Rightarrow>
          if (kind, name) \<noteq> (KindManager, mgr_Name manager)
          then Err (PlainErr ''Object is already owned by another controller'')
          else Ok (Some (KindManager, mgr_Name manager, mgr_Uid manager))
      | None \<Rightarrow> Ok (Some (KindManager, mgr_Name manager, mgr_Uid manager)))"

definition owned_by :: "string \<Rightarrow> NnfDataMovementManager \<Rightarrow> owner \<Rightarrow> owner res" where
  "owned_by what manager own =
     (case SetControllerReference manager own of
        Err err \<Rightarrow> Err (WrapErr (''setting '' @ what @ '' controller reference failed: '') err [])
      | r \<Rightarrow> r)"

text \<open>
  \<^verbatim>\<open>ctrl.CreateOrUpdate\<close>; \<open>new\<close> is the object that the caller passes, with only its name set. Its read is the first
  thing it does, so the callers give it a world in which the informers have caught up.
\<close>

definition CreateOrUpdate ::
  "('o, 'w) client \<Rightarrow> string \<Rightarrow> string \<Rightarrow> 'o \<Rightarrow> ('o \<Rightarrow> 'o res) \<Rightarrow> 'w \<Rightarrow> unit res \<times> 'w" where
  "CreateOrUpdate c namespace name new f w =
     (case cl_Get c namespace name w of
        Panic \<Rightarrow> (Panic, w)
      | Err err \<Rightarrow>
          if \<not> IsNotFound err then (Err err, w)
          else (case f new of
                  Panic \<Rightarrow> (Panic, w) | Err err \<Rightarrow> (Err err, w) | Ok obj \<Rightarrow> cl_Create c obj w)
      | Ok existing \<Rightarrow>
          (case f existing of
             Panic \<Rightarrow> (Panic, w)
           | Err err \<Rightarrow> (Err err, w)
           | Ok obj \<Rightarrow> if obj = existing then (Ok (), w) else cl_Update c existing obj w))"

section \<open>Pod specs\<close>

definition deploymentName :: string where "deploymentName = ''nnf-dm-controller-manager''"
definition daemonsetName :: string where "daemonsetName = ''nnf-dm-worker''"
definition serviceName :: string where "serviceName = ''dm''"
definition nnfVolumeName :: string where "nnfVolumeName = ''nnf''"
definition sshAuthVolume :: string where "sshAuthVolume = ''ssh-auth''"

definition sshAuthVolumeItems :: "(string \<times> string) list" where
  "sshAuthVolumeItems = [(''ssh-privatekey'', ''id_rsa''), (''ssh-publickey'', ''id_rsa.pub''), (''ssh-publickey'', ''authorized_keys'')]"

text \<open>The containers of a name: \<open>findContainer\<close> returns a pointer to the first one, through which it is changed.\<close>

fun change_container :: "string \<Rightarrow> (Container \<Rightarrow> Container) \<Rightarrow> Container list \<Rightarrow> Container list option" where
  "change_container name f [] = None"
| "change_container name f (c # cs) =
     (if cont_Name c = name then Some (f c # cs) else map_option ((#) c) (change_container name f cs))"

definition findContainer :: "string \<Rightarrow> (Container \<Rightarrow> Container) \<Rightarrow> PodSpec \<Rightarrow> PodSpec res" where
  "findContainer name f podSpec =
     (case change_container (ToLower name) f (Containers podSpec) of
        None \<Rightarrow> Err (PlainErr (''could not locate '' @ [CHR 0x27] @ ToLower name @ [CHR 0x27] @ '' container in pod spec''))
      | Some cs \<Rightarrow> Ok (podSpec\<lparr>Containers := cs\<rparr>))"

definition add_mounts :: "VolumeMount list \<Rightarrow> PodSpec \<Rightarrow> PodSpec" where
  "add_mounts ms podSpec =
     podSpec\<lparr>Containers := map (\<lambda>c. c\<lparr>VolumeMounts := VolumeMounts c @ ms\<rparr>) (Containers podSpec)\<rparr>"

definition setupSSHAuthVolumes :: "NnfDataMovementManager \<Rightarrow> PodSpec \<Rightarrow> PodSpec" where
  "setupSSHAuthVolumes manager podSpec =
     add_mounts [\<lparr>vm_Name = sshAuthVolume, vm_MountPath = ''/root/.ssh'', HostToContainer = False\<rparr>]
       (podSpec\<lparr>Volumes := Volumes podSpec @
          [\<lparr>vol_Name = sshAuthVolume, vol_Source = SecretVolume (mgr_Name manager) 384 sshAuthVolumeItems\<rparr>]\<rparr>)"

definition PersistentVolumeClaimName :: "ManagedLustre \<Rightarrow> string \<Rightarrow> string \<Rightarrow> string" where
  "PersistentVolumeClaimName fs namespace mode = lus_Name fs @ ''-'' @ namespace @ ''-'' @ ToLower mode @ ''-pvc''"

definition ReadWriteMany :: string where "ReadWriteMany = ''ReadWriteMany''"

text \<open>A file system that is being deleted is left out.\<close>

definition setupLustreVolumes :: "NnfDataMovementManager \<Rightarrow> ManagedLustre list \<Rightarrow> PodSpec \<Rightarrow> PodSpec" where
  "setupLustreVolumes manager fileSystems podSpec =
     (let live = filter (\<lambda>fs. lus_DeletionTimestamp fs = None) fileSystems;
          volumes = map (\<lambda>fs. \<lparr>vol_Name = lus_Name fs,
                              vol_Source = PersistentVolumeClaim (PersistentVolumeClaimName fs (mgr_Namespace manager) ReadWriteMany)\<rparr>) live @
                    [\<lparr>vol_Name = nnfVolumeName, vol_Source = HostPathDirectoryOrCreate (HostPath manager)\<rparr>];
          volumeMounts = map (\<lambda>fs. \<lparr>vm_Name = lus_Name fs, vm_MountPath = MountRoot fs, HostToContainer = False\<rparr>) live @
                         [\<lparr>vm_Name = nnfVolumeName, vm_MountPath = mgr_MountPath manager, HostToContainer = True\<rparr>]
      in add_mounts volumeMounts (podSpec\<lparr>Volumes := Volumes podSpec @ volumes\<rparr>))"

section \<open>The resources of the manager\<close>

definition newSecret :: "NnfDataMovementManager \<Rightarrow> string \<times> string \<Rightarrow> Secret res" where
  "newSecret manager keys =
     bind_result (owned_by ''Secret'' manager None) (\<lambda>own.
       Ok \<lparr>sec_Name = mgr_Name manager, sec_Namespace = mgr_Namespace manager, sec_Owner = own,
           sec_Type = ''kubernetes.io/ssh-auth'',
           sec_Data = [(''ssh-privatekey'', fst keys), (''ssh-publickey'', snd keys)]\<rparr>)"

definition createSecretIfNecessary ::
  "('w, 'z) manager_env_scheme \<Rightarrow> NnfDataMovementManager \<Rightarrow> 'w \<Rightarrow> unit res \<times> 'w" where
  "createSecretIfNecessary E manager w =
     (let w0 = g_Sync E w
      in case cl_Get (g_Secrets E) (mgr_Namespace manager) (mgr_Name manager) w0 of
        Ok secret \<Rightarrow> (Ok (), w0)
      | Panic \<Rightarrow> (Panic, w0)
      | Err err \<Rightarrow>
          if \<not> IsNotFound err then (Err err, w0)
          else
            (case g_NewKeys E w0 of
               (Panic, w1) \<Rightarrow> (Panic, w1)
             | (Err err, w1) \<Rightarrow> (Err err, w1)
             | (Ok keys, w1) \<Rightarrow>
                 (case newSecret manager keys of
                    Panic \<Rightarrow> (Panic, w1) | Err err \<Rightarrow> (Err err, w1) | Ok secret \<Rightarrow> cl_Create (g_Secrets E) secret w1)))"

fun replace_first_arg :: "string list \<Rightarrow> string list" where
  "replace_first_arg [] = []"
| "replace_first_arg (a # as) =
     (if a = ''--controller=manager'' then ''--controller=default'' # as else a # replace_first_arg as)"

definition manager_container :: "Container \<Rightarrow> Container" where
  "manager_container c =
     c\<lparr>Args := replace_first_arg (Args c) @ [''--leader-elect=false''],
       Env := Env c @ [(''OMPI_MCA_orte_keep_fqdn_hostnames'', ''true'')]\<rparr>"

definition mutate_deployment :: "NnfDataMovementManager \<Rightarrow> Deployment \<Rightarrow> Deployment \<Rightarrow> Deployment res" where
  "mutate_deployment manager base deployment =
     bind_result (findContainer ''manager'' manager_container (dep_PodSpec base)) (\<lambda>podSpec.
     bind_result (owned_by ''Deployment'' manager (dep_Owner deployment)) (\<lambda>own.
       Ok (deployment\<lparr>dep_Labels := dep_Labels base, dep_Other := dep_Other base,
                      dep_PodSpec := setupSSHAuthVolumes manager podSpec, dep_Owner := own\<rparr>)))"

definition empty_podSpec :: PodSpec where
  "empty_podSpec = \<lparr>Containers = [], InitContainers = [], Volumes = [], NodeSelector = [], Subdomain = [],
     ServiceAccountName = [], Tolerations = [], ShareProcessNamespace = None, pod_Other = []\<rparr>"

definition createOrUpdateDeploymentIfNecessary ::
  "('w, 'z) manager_env_scheme \<Rightarrow> NnfDataMovementManager \<Rightarrow> 'w \<Rightarrow> unit res \<times> 'w" where
  "createOrUpdateDeploymentIfNecessary E manager w =
     (let w0 = g_Sync E w
      in case cl_Get (g_Deployments E) (mgr_Namespace manager) (mgr_Name manager) w0 of
        Panic \<Rightarrow> (Panic, w0)
      | Err err \<Rightarrow> (Err (WrapErr ''retrieving base deployment failed '' err []), w0)
      | Ok base \<Rightarrow>
          CreateOrUpdate (g_Deployments E) (mgr_Namespace manager) deploymentName
            \<lparr>dep_Name = deploymentName, dep_Namespace = mgr_Namespace manager, dep_Owner = None, dep_Labels = [],
             dep_Other = [], dep_PodSpec = empty_podSpec\<rparr>
            (mutate_deployment manager base) (g_Sync E w0))"

definition mutate_service :: "NnfDataMovementManager \<Rightarrow> Service \<Rightarrow> Service res" where
  "mutate_service manager service =
     bind_result (owned_by ''Service'' manager (svc_Owner service)) (\<lambda>own.
       Ok (service\<lparr>svc_Selector := [(DataMovementWorkerLabel, ''true'')], ClusterIP := ''None'', svc_Owner := own\<rparr>))"

definition createOrUpdateServiceIfNecessary ::
  "('w, 'z) manager_env_scheme \<Rightarrow> NnfDataMovementManager \<Rightarrow> 'w \<Rightarrow> unit res \<times> 'w" where
  "createOrUpdateServiceIfNecessary E manager w =
     CreateOrUpdate (g_Services E) (mgr_Namespace manager) serviceName
       \<lparr>svc_Name = serviceName, svc_Namespace = mgr_Namespace manager, svc_Owner = None, svc_Selector = [], ClusterIP = []\<rparr>
       (mutate_service manager) (g_Sync E w)"

section \<open>Lustre file systems\<close>

text \<open>A cluster without the resource type has no file systems.\<close>

definition list_lustre :: "('w, 'z) manager_env_scheme \<Rightarrow> 'w \<Rightarrow> ManagedLustre list res" where
  "list_lustre E w =
     (case g_ListLustre E w of
        Err err \<Rightarrow> if IsNoMatchError err then Ok [] else Err (WrapErr ''list lustre file systems failed: '' err [])
      | r \<Rightarrow> r)"

definition prepare_lustre :: "NnfDataMovementManager \<Rightarrow> ManagedLustre \<Rightarrow> ManagedLustre" where
  "prepare_lustre manager lustre =
     (let nss = (case lus_Namespaces lustre of None \<Rightarrow> [] | Some m \<Rightarrow> m);
          lustre = (if map_of nss (mgr_Namespace manager) = None
                    then lustre\<lparr>lus_Namespaces := Some (AList.update (mgr_Namespace manager) [ReadWriteMany] nss)\<rparr> else lustre)
      in if lus_DeletionTimestamp lustre = None \<and> \<not> ContainsFinalizer (lus_Finalizers lustre) finalizer
         then lustre\<lparr>lus_Finalizers := AddFinalizer (lus_Finalizers lustre) finalizer\<rparr> else lustre)"

text \<open>Each file system as it was read, and as it is written.\<close>

fun update_lustres :: "('w, 'z) manager_env_scheme \<Rightarrow> (ManagedLustre \<times> ManagedLustre) list \<Rightarrow> 'w \<Rightarrow> unit res \<times> 'w" where
  "update_lustres E [] w = (Ok (), w)"
| "update_lustres E ((old, fs) # fss) w =
     (case g_UpdateLustre E old fs w of
        (Ok _, w') \<Rightarrow> update_lustres E fss w'
      | (Err err, w') \<Rightarrow> (Err err, w')
      | (Panic, w') \<Rightarrow> (Panic, w'))"

definition updateLustreFileSystemsIfNecessary ::
  "('w, 'z) manager_env_scheme \<Rightarrow> NnfDataMovementManager \<Rightarrow> 'w \<Rightarrow> unit res \<times> 'w" where
  "updateLustreFileSystemsIfNecessary E manager w =
     (let w0 = g_Sync E w
      in case list_lustre E w0 of
        Panic \<Rightarrow> (Panic, w0)
      | Err err \<Rightarrow> (Err err, w0)
      | Ok fss \<Rightarrow> update_lustres E (map (\<lambda>fs. (fs, prepare_lustre manager fs)) fss) w0)"

definition ds_ready :: "DaemonSet \<Rightarrow> bool" where
  "ds_ready ds \<longleftrightarrow> ObservedGeneration ds = Generation ds \<and> \<not> DesiredNumberScheduled ds < 1 \<and>
     UpdatedNumberScheduled ds = DesiredNumberScheduled ds \<and> NumberReady ds = DesiredNumberScheduled ds"

definition isDaemonSetReady :: "('w, 'z) manager_env_scheme \<Rightarrow> NnfDataMovementManager \<Rightarrow> 'w \<Rightarrow> bool res" where
  "isDaemonSetReady E manager w =
     (case cl_Get (g_DaemonSets E) (mgr_Namespace manager) daemonsetName w of
        Panic \<Rightarrow> Panic
      | Err err \<Rightarrow> if IsNotFound err then Ok False else Err err
      | Ok ds \<Rightarrow> Ok (ds_ready ds))"

definition removeLustreFileSystemsFinalizersIfNecessary ::
  "('w, 'z) manager_env_scheme \<Rightarrow> NnfDataMovementManager \<Rightarrow> 'w \<Rightarrow> unit res \<times> 'w" where
  "removeLustreFileSystemsFinalizersIfNecessary E manager w =
     (let w0 = g_Sync E w; w1 = g_Sync E w0; w2 = g_Sync E w1
      in case list_lustre E w0 of
        Panic \<Rightarrow> (Panic, w0)
      | Err err \<Rightarrow> (Err err, w0)
      | Ok fss \<Rightarrow>
          (case cl_Get (g_DaemonSets E) (mgr_Namespace manager) daemonsetName w1 of
             Panic \<Rightarrow> (Panic, w1)
           | Err err \<Rightarrow> if IsNotFound err then (Ok (), w1) else (Err err, w1)
           | Ok ds \<Rightarrow>
               (let finalizersToRemove = filter (\<lambda>fs. lus_DeletionTimestamp fs \<noteq> None) fss
                in if list_ex (\<lambda>fs. lus_Name fs \<in> set (map vol_Name (Volumes (ds_PodSpec ds)))) finalizersToRemove
                   then (Ok (), w1)
                   else if finalizersToRemove = [] then (Ok (), w1)
                   else
                     (case isDaemonSetReady E manager w2 of
                        Panic \<Rightarrow> (Panic, w2)
                      | Ok True \<Rightarrow>
                          update_lustres E
                            (map (\<lambda>fs. (fs, fs\<lparr>lus_Finalizers := RemoveFinalizer (lus_Finalizers fs) finalizer\<rparr>))
                              (filter (\<lambda>fs. ContainsFinalizer (lus_Finalizers fs) finalizer) finalizersToRemove)) w2
                      | _ \<Rightarrow> (Ok (), w2)))))"

section \<open>The daemon set\<close>

definition worker_capabilities :: "string list" where
  "worker_capabilities =
     [''SETUID'', ''SETGID'', ''SYS_CHROOT'', ''NET_BIND_SERVICE'', ''DAC_OVERRIDE'', ''CHOWN'', ''FOWNER'', ''MKNOD'']"

text \<open>A container that is not there is not changed.\<close>

definition try_container :: "string \<Rightarrow> (Container \<Rightarrow> Container) \<Rightarrow> PodSpec \<Rightarrow> PodSpec" where
  "try_container name f podSpec = (case findContainer name f podSpec of Ok p \<Rightarrow> p | _ \<Rightarrow> podSpec)"

definition worker_podSpec :: "('w, 'z) manager_env_scheme \<Rightarrow> NnfDataMovementManager \<Rightarrow> ManagedLustre list \<Rightarrow> PodSpec" where
  "worker_podSpec E manager fss =
     (let env = (\<lambda>c. c\<lparr>Env := Env c @ [(''ENVIRONMENT'', g_Getenv E ''ENVIRONMENT'')]\<rparr>);
          podSpec = (mgr_PodSpec manager)\<lparr>NodeSelector := Selector manager, Subdomain := serviceName,
            ServiceAccountName := ''nnf-dm-node-controller'',
            Tolerations := [(''cray.nnf.node'', ''Equal'', ''true'', ''NoSchedule'')], ShareProcessNamespace := Some True\<rparr>;
          podSpec = try_container ''manager'' env podSpec;
          podSpec = try_container ''worker'' (\<lambda>c. (env c)\<lparr>Capabilities := Some worker_capabilities\<rparr>) podSpec
      in setupLustreVolumes manager fss (setupSSHAuthVolumes manager podSpec))"

definition mutate_daemonset ::
  "('w, 'z) manager_env_scheme \<Rightarrow> NnfDataMovementManager \<Rightarrow> ManagedLustre list \<Rightarrow> DaemonSet \<Rightarrow> DaemonSet res" where
  "mutate_daemonset E manager fss ds =
     bind_result (owned_by ''DaemonSet'' manager (ds_Owner ds)) (\<lambda>own.
       Ok (ds\<lparr>ds_Selector := Selector manager,
              ds_Labels := AList.update DataMovementWorkerLabel ''true'' (Selector manager),
              ds_PodSpec := worker_podSpec E manager fss, ds_UpdateStrategy := UpdateStrategy manager, ds_Owner := own\<rparr>))"

definition createOrUpdateDaemonSetIfNecessary ::
  "('w, 'z) manager_env_scheme \<Rightarrow> NnfDataMovementManager \<Rightarrow> 'w \<Rightarrow> unit res \<times> 'w" where
  "createOrUpdateDaemonSetIfNecessary E manager w =
     (let w0 = g_Sync E w
      in case list_lustre E w0 of
        Panic \<Rightarrow> (Panic, w0)
      | Err err \<Rightarrow> (Err err, w0)
      | Ok fss \<Rightarrow>
          CreateOrUpdate (g_DaemonSets E) (mgr_Namespace manager) daemonsetName
            \<lparr>ds_Name = daemonsetName, ds_Namespace = mgr_Namespace manager, ds_Owner = None, ds_Selector = [], ds_Labels = [],
             ds_PodSpec = empty_podSpec, ds_UpdateStrategy = [], Generation = 0, ObservedGeneration = 0,
             DesiredNumberScheduled = 0, UpdatedNumberScheduled = 0, NumberReady = 0\<rparr>
            (mutate_daemonset E manager fss) (g_Sync E w0))"

section \<open>Reconciling the manager\<close>

text \<open>The steps in order; the first error ends the sequence.\<close>

definition manager_steps ::
  "('w, 'z) manager_env_scheme \<Rightarrow> NnfDataMovementManager \<Rightarrow> ('w \<Rightarrow> unit res \<times> 'w) list" where
  "manager_steps E manager =
     [createSecretIfNecessary E manager, createOrUpdateDeploymentIfNecessary E manager,
      createOrUpdateServiceIfNecessary E manager, updateLustreFileSystemsIfNecessary E manager,
      createOrUpdateDaemonSetIfNecessary E manager, removeLustreFileSystemsFinalizersIfNecessary E manager]"

fun run_steps :: "('w \<Rightarrow> unit res \<times> 'w) list \<Rightarrow> 'w \<Rightarrow> unit res \<times> 'w" where
  "run_steps [] w = (Ok (), w)"
| "run_steps (f # fs) w = (case f w of (Ok _, w') \<Rightarrow> run_steps fs w' | other \<Rightarrow> other)"

text \<open>
  \<^verbatim>\<open>CloseWithStatusUpdate\<close>: the status is written if it changed; a conflict is not an error, and an error of
  before is kept. The result of the reconcile is whether to requeue.
\<close>

definition close_status ::
  "('w, 'z) manager_env_scheme \<Rightarrow> NnfDataMovementManager \<Rightarrow> NnfDataMovementManager \<Rightarrow> bool res \<Rightarrow> 'w \<Rightarrow> bool res \<times> 'w" where
  "close_status E old manager r w =
     (if Ready manager = Ready old then (r, w)
      else case g_UpdateManagerStatus E old manager w of
             (Err uerr, w') \<Rightarrow> ((case r of Ok _ \<Rightarrow> if IsConflict uerr then r else Err uerr | _ \<Rightarrow> r), w')
           | (Panic, w') \<Rightarrow> (Panic, w')
           | (Ok _, w') \<Rightarrow> (r, w'))"

definition errorHandler :: "NnfDataMovementManager \<Rightarrow> goerr \<Rightarrow> bool res \<times> NnfDataMovementManager" where
  "errorHandler manager err = (if IsConflict err then (Ok True, manager) else (Err err, manager\<lparr>Ready := False\<rparr>))"

definition Manager_Reconcile ::
  "('w, 'z) manager_env_scheme \<Rightarrow> string \<times> string \<Rightarrow> 'w \<Rightarrow> bool res \<times> 'w" where
  "Manager_Reconcile E req w =
     (let w0 = g_Sync E w
      in case g_GetManager E (fst req) (snd req) w0 of
        Panic \<Rightarrow> (Panic, w0)
      | Err err \<Rightarrow> (case IgnoreNotFound err of None \<Rightarrow> (Ok False, w0) | Some e \<Rightarrow> (Err e, w0))
      | Ok manager \<Rightarrow>
          (case run_steps (manager_steps E manager) w0 of
             (Panic, w1) \<Rightarrow> (Panic, w1)
           | (Err err, w1) \<Rightarrow>
               (case errorHandler manager err of (r, manager') \<Rightarrow> close_status E manager manager' r w1)
           | (Ok _, w1) \<Rightarrow>
               (let w2 = g_Sync E w1
                in case isDaemonSetReady E manager w2 of
                  Panic \<Rightarrow> (Panic, w2)
                | Err err \<Rightarrow>
                    (case errorHandler manager err of (r, manager') \<Rightarrow> close_status E manager manager' r w2)
                | Ok ready \<Rightarrow> close_status E manager (manager\<lparr>Ready := ready\<rparr>) (Ok False) w2)))"

end
