(* ===== verification/Dm_Manager_Safety.thy ===== *)
theory Dm_Manager_Safety
  imports Dm_Manager
begin

text \<open>
  What the manager guarantees against an API server. The contracts say what the server holds of the Lustre file
  systems (\<open>lustre_server\<close>) and of the manager resources (\<open>status_server\<close>) and what each write changes; both
  extend \<open>manager_view\<close>, a part of the server's state that the first steps of the manager do not touch. They say
  nothing of what is read: a read may return any old state of an object, but a write is accepted only if the object
  it was made from is the one that is stored. \<open>current_server\<close> adds that the file systems are read as they are
  stored.
\<close>

section \<open>The contract\<close>

text \<open>An object that is being deleted disappears with its last finalizer.\<close>

definition kept_lustre :: "ManagedLustre \<Rightarrow> ManagedLustre option" where
  "kept_lustre fs = (if lus_DeletionTimestamp fs \<noteq> None \<and> lus_Finalizers fs = [] then None else Some fs)"

definition put_lustre :: "ManagedLustre \<Rightarrow> (string \<times> string \<Rightarrow> ManagedLustre option) \<Rightarrow> string \<times> string \<Rightarrow> ManagedLustre option" where
  "put_lustre fs m = m(lus_key fs := kept_lustre fs)"

text \<open>The finalizer of data movement on the file system \<open>k\<close>.\<close>

definition held :: "(string \<times> string \<Rightarrow> ManagedLustre option) \<Rightarrow> string \<times> string \<Rightarrow> bool" where
  "held m k = (case m k of None \<Rightarrow> False | Some fs \<Rightarrow> ContainsFinalizer (lus_Finalizers fs) finalizer)"

lemma CreateOrUpdate_keeps:
  assumes "\<And>obj w. view (snd (cl_Create c obj w)) = view w" "\<And>old obj w. view (snd (cl_Update c old obj w)) = view w"
  shows "view (snd (CreateOrUpdate c ns n new f w)) = view w"
  by (auto simp: CreateOrUpdate_def assms split: result.splits)

text \<open>What no write of the first steps of the manager changes.\<close>

locale manager_view =
  fixes E :: "('w, 'z) manager_env_scheme"
    and view :: "'w \<Rightarrow> 'v"
  assumes sync_keeps: "view (g_Sync E w) = view w"
    and keys_keep: "view (snd (g_NewKeys E w)) = view w"
    and secret_keeps: "view (snd (cl_Create (g_Secrets E) sec w)) = view w"
    and deployment_keeps: "view (snd (cl_Create (g_Deployments E) dep w)) = view w" "view (snd (cl_Update (g_Deployments E) dep0 dep w)) = view w"
    and service_keeps: "view (snd (cl_Create (g_Services E) svc w)) = view w" "view (snd (cl_Update (g_Services E) svc0 svc w)) = view w"
    and daemonset_keeps: "view (snd (cl_Create (g_DaemonSets E) ds w)) = view w" "view (snd (cl_Update (g_DaemonSets E) ds0 ds w)) = view w"
begin

lemma createSecret_keeps: "view (snd (createSecretIfNecessary E manager w)) = view w"
proof (cases "g_NewKeys E (g_Sync E w)")
  case (Pair rk w1)
  then have "view w1 = view w" using keys_keep[of "g_Sync E w"] sync_keeps[of w] by simp
  then show ?thesis using Pair by (auto simp: createSecretIfNecessary_def Let_def secret_keeps sync_keeps split: result.splits)
qed

lemma steps_keep:
  "view (snd (createOrUpdateDeploymentIfNecessary E manager w)) = view w"
  "view (snd (createOrUpdateServiceIfNecessary E manager w)) = view w"
  "view (snd (createOrUpdateDaemonSetIfNecessary E manager w)) = view w"
  by (auto simp: createOrUpdateDeploymentIfNecessary_def createOrUpdateServiceIfNecessary_def
      createOrUpdateDaemonSetIfNecessary_def CreateOrUpdate_keeps deployment_keeps service_keeps daemonset_keeps sync_keeps Let_def
      split: result.splits)

end

text \<open>A sequence of steps keeps what each of its steps keeps.\<close>

lemma run_steps_keep:
  assumes "run_steps fs w = (r, w')" and "P w" and "\<And>f w. f \<in> set fs \<Longrightarrow> P w \<Longrightarrow> P (snd (f w))"
  shows "P w'"
  using assms
proof (induction fs arbitrary: w)
  case (Cons f fs)
  have "P (snd (f w))" using Cons.prems by simp
  then show ?case using Cons by (cases "f w") (auto split: result.splits)
qed simp

lemma run_steps_append:
  "run_steps (xs @ ys) w = (case run_steps xs w of (Ok _, w') \<Rightarrow> run_steps ys w' | other \<Rightarrow> other)"
  by (induction xs arbitrary: w) (auto split: prod.splits result.splits)

lemma run_manager_steps:
  "run_steps (manager_steps E manager) w =
     (case run_steps (take 5 (manager_steps E manager)) w of
        (Ok _, w5) \<Rightarrow> removeLustreFileSystemsFinalizersIfNecessary E manager w5 | other \<Rightarrow> other)"
proof -
  have single: "run_steps [f] w = f w" for f and w :: 'a by (simp split: prod.split result.split)
  have "manager_steps E manager = take 5 (manager_steps E manager) @ [removeLustreFileSystemsFinalizersIfNecessary E manager]"
    by (simp add: manager_steps_def)
  then have "run_steps (manager_steps E manager) w =
      run_steps (take 5 (manager_steps E manager) @ [removeLustreFileSystemsFinalizersIfNecessary E manager]) w" by argo
  then show ?thesis unfolding run_steps_append single .
qed

section \<open>Lustre file systems\<close>

lemma prepare_key [simp]: "lus_key (prepare_lustre manager fs) = lus_key fs"
  by (simp add: prepare_lustre_def lus_key_def Let_def)

text \<open>A file system is prepared once.\<close>

lemma prepare_again: "prepare_lustre manager (prepare_lustre manager fs) = prepare_lustre manager fs"
proof -
  define nss where "nss = (case lus_Namespaces fs of None \<Rightarrow> [] | Some m \<Rightarrow> m)"
  define fs1 where "fs1 = (if map_of nss (mgr_Namespace manager) = None
    then fs\<lparr>lus_Namespaces := Some (AList.update (mgr_Namespace manager) [ReadWriteMany] nss)\<rparr> else fs)"
  obtain v where v: "map_of (case lus_Namespaces fs1 of None \<Rightarrow> [] | Some m \<Rightarrow> m) (mgr_Namespace manager) = Some v"
    by (cases "map_of nss (mgr_Namespace manager)") (auto simp: fs1_def nss_def update_conv)
  have fs1: "prepare_lustre manager fs =
      (if lus_DeletionTimestamp fs1 = None \<and> \<not> ContainsFinalizer (lus_Finalizers fs1) finalizer
       then fs1\<lparr>lus_Finalizers := AddFinalizer (lus_Finalizers fs1) finalizer\<rparr> else fs1)"
    unfolding prepare_lustre_def fs1_def nss_def Let_def by (rule refl)
  show ?thesis unfolding fs1 by (simp add: prepare_lustre_def Let_def v ContainsFinalizer_def AddFinalizer_def)
qed

locale lustre_server = manager_view E lus
  for E :: "('w, 'z) manager_env_scheme" and lus :: "'w \<Rightarrow> string \<times> string \<Rightarrow> ManagedLustre option" +
  assumes update_lustre: "g_UpdateLustre E old fs w = (r, w') \<Longrightarrow>
      lus w (lus_key fs) = Some old \<and> lus w' = put_lustre fs (lus w) \<or> (\<exists>e. r = Err e) \<and> lus w' = lus w"
    and status_keeps: "lus (snd (g_UpdateManagerStatus E m0 m w)) = lus w"
begin

text \<open>
  What every accepted update of a file system keeps: the update was made from the stored object. Updates of other
  file systems do not matter.
\<close>

lemma update_lustres_invariant:
  assumes "update_lustres E fss w = (r, w')" and "P (lus w k)"
    and "\<And>old fs. (old, fs) \<in> set fss \<Longrightarrow> lus_key fs = k \<Longrightarrow> P (Some old) \<Longrightarrow> P (kept_lustre fs)"
  shows "P (lus w' k)"
  using assms
proof (induction fss arbitrary: w)
  case (Cons p fss)
  obtain old fs where p: "p = (old, fs)" by (cases p)
  obtain r1 w1 where u: "g_UpdateLustre E old fs w = (r1, w1)" by fastforce
  have "P (lus w1 k)"
    using update_lustre[OF u] Cons.prems(2) Cons.prems(3)[of old fs] by (cases "lus_key fs = k") (auto simp: put_lustre_def p)
  then show ?case using Cons.prems(1,3) Cons.IH[of w1] u by (auto simp: p split: result.splits)
qed simp

lemma update_lustres_other:
  assumes "update_lustres E fss w = (r, w')" and "k \<notin> lus_key ` snd ` set fss"
  shows "lus w' k = lus w k"
  by (rule update_lustres_invariant[where P = "\<lambda>x. x = lus w k", OF assms(1)]) (use assms(2) in force)+

lemma prepare_holds: "ContainsFinalizer (lus_Finalizers fs) finalizer \<Longrightarrow> ContainsFinalizer (lus_Finalizers (prepare_lustre manager fs)) finalizer"
  by (simp add: prepare_lustre_def Let_def)

text \<open>Each file system is as before, or prepared.\<close>

lemma updateLustre_changes:
  assumes "updateLustreFileSystemsIfNecessary E manager w = (r, w')"
  shows "lus w' k = lus w k \<or> (\<exists>fs. lus w k = Some fs \<and> lus w' k = kept_lustre (prepare_lustre manager fs))"
proof (cases "list_lustre E (g_Sync E w)")
  case (Ok fss)
  let ?P = "\<lambda>x. x = lus w k \<or> (\<exists>fs. lus w k = Some fs \<and> x = kept_lustre (prepare_lustre manager fs))"
  have "update_lustres E (map (\<lambda>fs. (fs, prepare_lustre manager fs)) fss) (g_Sync E w) = (r, w')"
    using assms Ok by (simp add: updateLustreFileSystemsIfNecessary_def Let_def)
  then show ?thesis
  proof (rule update_lustres_invariant[where P = ?P])
    fix old fs assume "(old, fs) \<in> set (map (\<lambda>fs. (fs, prepare_lustre manager fs)) fss)" and P: "?P (Some old)"
    then have fs: "fs = prepare_lustre manager old" by auto
    from P show "?P (kept_lustre fs)"
    proof
      assume "\<exists>f. lus w k = Some f \<and> Some old = kept_lustre (prepare_lustre manager f)"
      then obtain f where f: "lus w k = Some f" "Some old = kept_lustre (prepare_lustre manager f)" by blast
      then have "old = prepare_lustre manager f" by (simp add: kept_lustre_def split: if_splits)
      then show ?thesis using f(1) by (simp add: fs prepare_again)
    qed (metis fs)
  qed (simp add: sync_keeps)
qed (use assms in \<open>auto simp: updateLustreFileSystemsIfNecessary_def sync_keeps Let_def\<close>)

lemma updateLustre_held:
  assumes "updateLustreFileSystemsIfNecessary E manager w = (r, w')" and "held (lus w) k"
  shows "held (lus w') k"
proof -
  obtain fs where fs: "lus w k = Some fs" "ContainsFinalizer (lus_Finalizers fs) finalizer"
    using assms(2) by (auto simp: held_def split: option.splits)
  have "kept_lustre (prepare_lustre manager fs) = Some (prepare_lustre manager fs)"
    using prepare_holds[OF fs(2), of manager] by (auto simp: kept_lustre_def ContainsFinalizer_def)
  then show ?thesis
    using updateLustre_changes[OF assms(1), of k] assms(2) fs prepare_holds[OF fs(2), of manager] by (auto simp: held_def)
qed

text \<open>The release: what it has read when it takes a finalizer away.\<close>

lemma removeFinalizers_changes:
  assumes "removeLustreFileSystemsFinalizersIfNecessary E manager w = (r, w')"
  shows "lus w' k = lus w k \<or>
    (\<exists>fs ds ds'. lus w k = Some fs \<and> lus_DeletionTimestamp fs \<noteq> None \<and>
       lus w' k = kept_lustre (fs\<lparr>lus_Finalizers := RemoveFinalizer (lus_Finalizers fs) finalizer\<rparr>) \<and>
       cl_Get (g_DaemonSets E) (mgr_Namespace manager) daemonsetName (g_Sync E (g_Sync E w)) = Ok ds \<and>
       lus_Name fs \<notin> set (map vol_Name (Volumes (ds_PodSpec ds))) \<and>
       cl_Get (g_DaemonSets E) (mgr_Namespace manager) daemonsetName (g_Sync E (g_Sync E (g_Sync E w))) = Ok ds' \<and> ds_ready ds')"
proof -
  let ?w0 = "g_Sync E w" and ?w1 = "g_Sync E (g_Sync E w)" and ?w2 = "g_Sync E (g_Sync E (g_Sync E w))"
  let ?get = "cl_Get (g_DaemonSets E) (mgr_Namespace manager) daemonsetName"
  let ?rm = "\<lambda>fs. fs\<lparr>lus_Finalizers := RemoveFinalizer (lus_Finalizers fs) finalizer\<rparr>"
  show ?thesis
  proof (cases "w' = ?w0 \<or> w' = ?w1 \<or> w' = ?w2")
    case False
    then obtain fss ds where fss: "list_lustre E ?w0 = Ok fss" and ds: "?get ?w1 = Ok ds"
      using assms
      by (auto simp: removeLustreFileSystemsFinalizersIfNecessary_def Let_def split: result.splits if_splits)
    let ?del = "filter (\<lambda>fs. lus_DeletionTimestamp fs \<noteq> None) fss"
    let ?upd = "map (\<lambda>fs. (fs, ?rm fs)) (filter (\<lambda>fs. ContainsFinalizer (lus_Finalizers fs) finalizer) ?del)"
    have no_vol: "\<not> list_ex (\<lambda>fs. lus_Name fs \<in> set (map vol_Name (Volumes (ds_PodSpec ds)))) ?del"
      and ready: "isDaemonSetReady E manager ?w2 = Ok True" and upd: "update_lustres E ?upd ?w2 = (r, w')"
      using assms False fss ds
      by (auto simp: removeLustreFileSystemsFinalizersIfNecessary_def Let_def split: result.splits if_splits bool.splits)
    obtain ds' where ds': "?get ?w2 = Ok ds'" "ds_ready ds'"
      using ready by (auto simp: isDaemonSetReady_def split: result.splits if_splits)
    let ?P = "\<lambda>x. x = lus w k \<or> (\<exists>fs\<in>set ?del. lus w k = Some fs \<and> x = kept_lustre (?rm fs))"
    have "?P (lus w' k)"
    proof (rule update_lustres_invariant[where P = ?P, OF upd])
      fix old fs assume fs: "(old, fs) \<in> set ?upd" and P: "?P (Some old)"
      then have old: "old \<in> set ?del" "ContainsFinalizer (lus_Finalizers old) finalizer" "fs = ?rm old" by auto
      then have "Some old \<noteq> kept_lustre (?rm f)" for f
        by (auto simp: kept_lustre_def ContainsFinalizer_def RemoveFinalizer_def)
      then have "lus w k = Some old" using P by auto
      then show "?P (kept_lustre fs)" using old by blast
    qed (simp add: sync_keeps)
    then show ?thesis using ds ds' no_vol by (fastforce simp: list_ex_iff)
  qed (auto simp: sync_keeps)
qed

text \<open>The five steps before the release keep the finalizers.\<close>

lemma first_steps_hold:
  assumes "run_steps (take 5 (manager_steps E manager)) w = (r, w')" and "held (lus w) k"
  shows "held (lus w') k"
proof (rule run_steps_keep[where P = "\<lambda>w. held (lus w) k", OF assms])
  fix f w assume f: "f \<in> set (take 5 (manager_steps E manager))" and h: "held (lus w) k"
  obtain r1 w1 where u: "updateLustreFileSystemsIfNecessary E manager w = (r1, w1)" by fastforce
  show "held (lus (snd (f w))) k"
    using f h updateLustre_held[OF u h] u by (auto simp: manager_steps_def createSecret_keeps steps_keep)
qed

text \<open>A file system that is being deleted keeps its name, its mark and the finalizer in these steps.\<close>

lemma first_steps_deleting:
  assumes "run_steps (take 5 (manager_steps E manager)) w = (r, w')"
    and "lus w k = Some fs" "lus_DeletionTimestamp fs = Some t" "ContainsFinalizer (lus_Finalizers fs) finalizer"
  shows "\<exists>fs'. lus w' k = Some fs' \<and> lus_Name fs' = lus_Name fs \<and> lus_DeletionTimestamp fs' = Some t"
proof -
  let ?P = "\<lambda>w. \<exists>fs'. lus w k = Some fs' \<and> lus_Name fs' = lus_Name fs \<and> lus_DeletionTimestamp fs' = Some t \<and>
    ContainsFinalizer (lus_Finalizers fs') finalizer"
  have upd: "?P (snd (updateLustreFileSystemsIfNecessary E manager w))" if "?P w" for w
  proof -
    obtain r1 w1 where u: "updateLustreFileSystemsIfNecessary E manager w = (r1, w1)" by fastforce
    from that obtain f where "lus w k = Some f" "lus_Name f = lus_Name fs" "lus_DeletionTimestamp f = Some t"
      "ContainsFinalizer (lus_Finalizers f) finalizer" by blast
    then show ?thesis
      using updateLustre_changes[OF u, of k] u by (auto simp: kept_lustre_def prepare_lustre_def Let_def ContainsFinalizer_def)
  qed
  have "?P w'"
  proof (rule run_steps_keep[where P = ?P, OF assms(1)])
    fix f w assume "f \<in> set (take 5 (manager_steps E manager))" "?P w"
    then show "?P (snd (f w))" using upd[of w] by (auto simp: manager_steps_def createSecret_keeps steps_keep)
  qed (use assms in auto)
  then show ?thesis by blast
qed

lemma close_status_keeps: "lus (snd (close_status E old manager r w)) = lus w"
  using status_keeps[of old manager w]
  by (cases "g_UpdateManagerStatus E old manager w") (auto simp: close_status_def split: result.splits)

lemma reconcile_lus:
  assumes "Manager_Reconcile E req w = (r, w')" and "g_GetManager E (fst req) (snd req) (g_Sync E w) = Ok manager"
    and "run_steps (manager_steps E manager) (g_Sync E w) = (rs, w1)"
  shows "lus w' = lus w1"
  using arg_cong[OF assms(1), of "\<lambda>p. lus (snd p)"] assms(2,3)
  by (auto simp: Manager_Reconcile_def close_status_keeps sync_keeps Let_def split: result.splits prod.splits)

lemma reconcile_release:
  assumes "Manager_Reconcile E req w = (r, w')" and "held (lus w) k" and "\<not> held (lus w') k"
  shows "\<exists>manager w5 fs ds ds'. g_GetManager E (fst req) (snd req) (g_Sync E w) = Ok manager \<and>
    run_steps (take 5 (manager_steps E manager)) (g_Sync E w) = (Ok (), w5) \<and>
    lus w5 k = Some fs \<and> lus_DeletionTimestamp fs \<noteq> None \<and>
    cl_Get (g_DaemonSets E) (mgr_Namespace manager) daemonsetName (g_Sync E (g_Sync E w5)) = Ok ds \<and>
    lus_Name fs \<notin> set (map vol_Name (Volumes (ds_PodSpec ds))) \<and>
    cl_Get (g_DaemonSets E) (mgr_Namespace manager) daemonsetName (g_Sync E (g_Sync E (g_Sync E w5))) = Ok ds' \<and> ds_ready ds'"
proof -
  have h: "held (lus (g_Sync E w)) k" using assms(2) by (simp add: sync_keeps)
  obtain manager where m: "g_GetManager E (fst req) (snd req) (g_Sync E w) = Ok manager"
    using assms h by (auto simp: Manager_Reconcile_def Let_def split: result.splits option.splits)
  obtain rs w1 where rs: "run_steps (manager_steps E manager) (g_Sync E w) = (rs, w1)" by fastforce
  have lost: "\<not> held (lus w1) k" using reconcile_lus[OF assms(1) m rs] assms(3) by simp
  obtain r5 w5 where r5: "run_steps (take 5 (manager_steps E manager)) (g_Sync E w) = (r5, w5)" by fastforce
  have h5: "held (lus w5) k" by (rule first_steps_hold[OF r5 h])
  have ok: "r5 = Ok ()" and last: "removeLustreFileSystemsFinalizersIfNecessary E manager w5 = (rs, w1)"
    using rs r5 h5 lost by (auto simp: run_manager_steps split: result.splits)
  have "lus w1 k \<noteq> lus w5 k" using h5 lost by (auto simp: held_def)
  then show ?thesis using removeFinalizers_changes[OF last, of k] m r5 ok by blast
qed

text \<open>Updates that return without an error are stored.\<close>

lemma update_lustres_put:
  assumes "update_lustres E fss w = (Ok (), w')" and "(old, fs) \<in> set fss"
    and "\<And>old' fs'. (old', fs') \<in> set fss \<Longrightarrow> lus_key fs' = lus_key fs \<Longrightarrow> fs' = fs"
  shows "lus w' (lus_key fs) = kept_lustre fs"
  using assms
proof (induction fss arbitrary: w)
  case (Cons p fss)
  obtain old1 a where p: "p = (old1, a)" by (cases p)
  obtain w1 where u: "g_UpdateLustre E old1 a w = (Ok (), w1)" and rest: "update_lustres E fss w1 = (Ok (), w')"
    using Cons.prems(1) by (auto simp: p split: prod.splits result.splits)
  have w1: "lus w1 = put_lustre a (lus w)" using update_lustre[OF u] by simp
  show ?case
  proof (cases "(old, fs) \<in> set fss")
    case True
    show ?thesis by (rule Cons.IH[OF rest True]) (use Cons.prems(3) in auto)
  next
    case False
    then have "lus w1 (lus_key fs) = kept_lustre fs" using Cons.prems(2) w1 by (simp add: p put_lustre_def)
    then show ?thesis
      by (rule update_lustres_invariant[where P = "\<lambda>x. x = kept_lustre fs", OF rest]) (use Cons.prems(3) in auto)
  qed
qed simp

end

text \<open>A server whose file systems are read as they are stored.\<close>

locale current_server = lustre_server E lus
  for E :: "('w, 'z) manager_env_scheme" and lus :: "'w \<Rightarrow> string \<times> string \<Rightarrow> ManagedLustre option" +
  assumes list_current: "g_ListLustre E (g_Sync E w) = Ok fss \<Longrightarrow> fs \<in> set fss \<Longrightarrow> lus w (lus_key fs) = Some fs"
begin

lemma list_lustre_Ok: "list_lustre E (g_Sync E w) = Ok fss \<Longrightarrow> fs \<in> set fss \<Longrightarrow> lus w (lus_key fs) = Some fs"
  using list_current by (auto simp: list_lustre_def split: result.splits if_splits)

lemma list_lustre_unique:
  assumes "list_lustre E (g_Sync E w) = Ok fss" "f \<in> set fss" "g \<in> set fss" "lus_key f = lus_key g"
  shows "f = g"
proof -
  have "Some f = Some g"
    using list_lustre_Ok[OF assms(1,2), unfolded assms(4)] list_lustre_Ok[OF assms(1,3)] by (rule subst)
  then show ?thesis by simp
qed

text \<open>After the update, every listed file system has the manager's namespace and, unless it goes away, the finalizer.\<close>

lemma updateLustre_prepares:
  assumes "updateLustreFileSystemsIfNecessary E manager w = (Ok (), w')" and "list_lustre E (g_Sync E w) = Ok fss" and "fs \<in> set fss"
  shows "lus w' (lus_key fs) = kept_lustre (prepare_lustre manager fs)"
proof -
  let ?upd = "map (\<lambda>fs. (fs, prepare_lustre manager fs)) fss"
  have upd: "update_lustres E ?upd (g_Sync E w) = (Ok (), w')"
    using assms(1,2) by (simp add: updateLustreFileSystemsIfNecessary_def Let_def)
  have uniq: "fs' = prepare_lustre manager fs"
    if f': "(old, fs') \<in> set ?upd" "lus_key fs' = lus_key (prepare_lustre manager fs)" for old fs'
  proof -
    obtain f0 where f0: "f0 \<in> set fss" "fs' = prepare_lustre manager f0" using f'(1) by auto
    then show ?thesis using f'(2) list_lustre_unique[OF assms(2) f0(1) assms(3)] by simp
  qed
  have "(fs, prepare_lustre manager fs) \<in> set ?upd" using assms(3) by simp
  from update_lustres_put[OF upd this uniq] show ?thesis by simp
qed

text \<open>The release is complete when it may happen and no write fails.\<close>

lemma releases:
  assumes "removeLustreFileSystemsFinalizersIfNecessary E manager w = (Ok (), w')"
    and "list_lustre E (g_Sync E w) = Ok fss" and "fs \<in> set fss" and "lus_DeletionTimestamp fs \<noteq> None"
    and "cl_Get (g_DaemonSets E) (mgr_Namespace manager) daemonsetName (g_Sync E (g_Sync E w)) = Ok ds"
    and "isDaemonSetReady E manager (g_Sync E (g_Sync E (g_Sync E w))) = Ok True"
    and free: "\<And>fs. fs \<in> set fss \<Longrightarrow> lus_DeletionTimestamp fs \<noteq> None \<Longrightarrow> lus_Name fs \<notin> set (map vol_Name (Volumes (ds_PodSpec ds)))"
  shows "\<not> held (lus w') (lus_key fs)"
proof -
  let ?rm = "\<lambda>fs. fs\<lparr>lus_Finalizers := RemoveFinalizer (lus_Finalizers fs) finalizer\<rparr>"
  let ?has = "\<lambda>fs. ContainsFinalizer (lus_Finalizers fs) finalizer"
  let ?del = "filter (\<lambda>fs. lus_DeletionTimestamp fs \<noteq> None) fss"
  let ?upd = "map (\<lambda>fs. (fs, ?rm fs)) (filter ?has ?del)"
  have del: "fs \<in> set ?del" using assms(3,4) by simp
  then have "?del \<noteq> []" by (metis empty_iff empty_set)
  moreover have "\<not> list_ex (\<lambda>fs. lus_Name fs \<in> set (map vol_Name (Volumes (ds_PodSpec ds)))) ?del"
    using free by (auto simp: list_ex_iff)
  ultimately have upd: "update_lustres E ?upd (g_Sync E (g_Sync E (g_Sync E w))) = (Ok (), w')"
    using assms(1,2,5,6) by (simp add: removeLustreFileSystemsFinalizersIfNecessary_def Let_def split: if_splits)
  have key: "lus_key (?rm f) = lus_key f" for f :: ManagedLustre by (simp add: lus_key_def)
  have same: "f = fs" if "f \<in> set fss" "lus_key f = lus_key fs" for f
    by (rule list_lustre_unique[OF assms(2) that(1) assms(3) that(2)])
  show ?thesis
  proof (cases "?has fs")
    case True
    then have mem: "(fs, ?rm fs) \<in> set ?upd" using del by auto
    have "lus w' (lus_key (?rm fs)) = kept_lustre (?rm fs)"
    proof (rule update_lustres_put[OF upd mem])
      show "f' = ?rm fs" if "(old, f') \<in> set ?upd" "lus_key f' = lus_key (?rm fs)" for old f'
        using that same[of old] by (auto simp: key)
    qed
    then show ?thesis unfolding key by (simp add: held_def kept_lustre_def ContainsFinalizer_def RemoveFinalizer_def)
  next
    case False
    have "lus_key fs \<notin> lus_key ` snd ` set ?upd" using same False by (fastforce simp: key)
    then have "lus w' (lus_key fs) = Some fs"
      using update_lustres_other[OF upd] list_lustre_Ok[OF assms(2,3)] by (simp add: sync_keeps)
    then show ?thesis using False by (simp add: held_def)
  qed
qed

end

section \<open>The status of the manager\<close>

definition put_ready :: "NnfDataMovementManager \<Rightarrow> (string \<times> string \<Rightarrow> NnfDataMovementManager option) \<Rightarrow>
    string \<times> string \<Rightarrow> NnfDataMovementManager option" where
  "put_ready m ms = ms((mgr_Namespace m, mgr_Name m) :=
     map_option (\<lambda>old. old\<lparr>Ready := Ready m\<rparr>) (ms (mgr_Namespace m, mgr_Name m)))"

locale status_server = manager_view E mgrs
  for E :: "('w, 'z) manager_env_scheme" and mgrs :: "'w \<Rightarrow> string \<times> string \<Rightarrow> NnfDataMovementManager option" +
  assumes get_manager: "g_GetManager E ns n w = Ok m \<Longrightarrow> mgr_Namespace m = ns \<and> mgr_Name m = n"
    and lustre_keeps: "mgrs (snd (g_UpdateLustre E old fs w)) = mgrs w"
    and update_status: "g_UpdateManagerStatus E m0 m w = (r, w') \<Longrightarrow>
      mgrs w (mgr_Namespace m, mgr_Name m) = Some m0 \<and> mgrs w' = put_ready m (mgrs w) \<or> (\<exists>e. r = Err e) \<and> mgrs w' = mgrs w"
begin

lemma update_lustres_keep: "mgrs (snd (update_lustres E fss w)) = mgrs w"
proof (induction fss arbitrary: w)
  case (Cons p fss)
  obtain old fs where p: "p = (old, fs)" by (cases p)
  show ?case
    using lustre_keeps[of old fs w] Cons.IH by (cases "g_UpdateLustre E old fs w") (auto simp: p split: result.splits)
qed simp

lemma lustre_steps_keep:
  "mgrs (snd (updateLustreFileSystemsIfNecessary E manager w)) = mgrs w"
  "mgrs (snd (removeLustreFileSystemsFinalizersIfNecessary E manager w)) = mgrs w"
  by (auto simp: updateLustreFileSystemsIfNecessary_def removeLustreFileSystemsFinalizersIfNecessary_def
      update_lustres_keep sync_keeps Let_def split: result.splits bool.splits)

lemma run_keeps:
  assumes "run_steps (manager_steps E manager) w = (r, w')"
  shows "mgrs w' = mgrs w"
  by (rule run_steps_keep[where P = "\<lambda>w1. mgrs w1 = mgrs w", OF assms refl])
    (auto simp: manager_steps_def createSecret_keeps steps_keep lustre_steps_keep)

text \<open>The status write at the end of a reconcile changes the readiness of the manager that was read, or nothing.\<close>

lemma close_status_ready:
  assumes "close_status E m0 m r w = (r', w')"
  shows "mgrs w' = mgrs w \<or> mgrs w (mgr_Namespace m, mgr_Name m) = Some m0 \<and> mgrs w' = put_ready m (mgrs w)"
proof (cases "Ready m = Ready m0")
  case False
  obtain ru where "g_UpdateManagerStatus E m0 m w = (ru, w')"
    using assms False by (auto simp: close_status_def split: prod.splits result.splits)
  then show ?thesis using update_status by blast
qed (use assms in \<open>auto simp: close_status_def\<close>)

lemma becomes_ready:
  assumes "Manager_Reconcile E req w = (r, w')"
    and "mgrs w req = Some old" "\<not> Ready old" "mgrs w' req = Some new" "Ready new"
  shows "\<exists>w1 ds. g_GetManager E (fst req) (snd req) (g_Sync E w) = Ok old \<and>
    run_steps (manager_steps E old) (g_Sync E w) = (Ok (), w1) \<and>
    cl_Get (g_DaemonSets E) (mgr_Namespace old) daemonsetName (g_Sync E w1) = Ok ds \<and> ds_ready ds"
proof -
  have changed: "mgrs w' \<noteq> mgrs w" using assms(2-5) by auto
  then obtain m where m: "g_GetManager E (fst req) (snd req) (g_Sync E w) = Ok m"
    using assms(1) by (auto simp: Manager_Reconcile_def sync_keeps Let_def split: result.splits option.splits)
  have key: "(mgr_Namespace m, mgr_Name m) = req" using get_manager[OF m] by simp
  obtain rs w1 where rs: "run_steps (manager_steps E m) (g_Sync E w) = (rs, w1)" by fastforce
  have w1: "mgrs w1 = mgrs w" using run_keeps[OF rs] by (simp add: sync_keeps)
  have written: "m = old \<and> Ready m'"
    if "close_status E m m' rr v = (r, w')" "(mgr_Namespace m', mgr_Name m') = req" "mgrs v = mgrs w" for m' rr v
    using close_status_ready[OF that(1)] that(2,3) changed assms(2,4,5) by (auto simp: put_ready_def)
  have fail: False if "(case errorHandler m err of (r, m') \<Rightarrow> close_status E m m' r v) = (r, w')" "mgrs v = mgrs w" for err v
    using that written[of m "Ok True" v] written[of "m\<lparr>Ready := False\<rparr>" "Err err" v] key assms(3)
    by (auto simp: errorHandler_def split: if_splits)
  have ready: "m = old \<and> b" if "close_status E m (m\<lparr>Ready := b\<rparr>) (Ok False) v = (r, w')" "mgrs v = mgrs w" for b v
    using written[OF that(1) _ that(2)] key by simp
  have "w1 \<noteq> w'" "g_Sync E w1 \<noteq> w'" using w1 changed sync_keeps[of w1] by auto
  moreover have "mgrs (g_Sync E w1) = mgrs w" using w1 by (simp add: sync_keeps)
  ultimately show ?thesis
    using assms(1) m rs w1 fail ready
    by (auto simp: Manager_Reconcile_def isDaemonSetReady_def Let_def split: result.splits if_splits)
qed

end

end
