(* ===== verification/Dm_Manager_Cluster.thy ===== *)
theory Dm_Manager_Cluster
  imports Dm_Manager_Safety Cluster
begin

text \<open>
  An API server for the manager: a table per kind, writes that may fail (before or after they are stored) and
  daemon sets whose generation grows with every change. An update must be made from the object that is stored, which
  stands for the comparison of resource versions. In \<open>manager_cluster_env\<close> every read is current, as if the informers
  of the client had caught up before it; \<open>Dm_Manager_Cached\<close> has a client that reads from caches of any age. The
  contracts of \<open>Dm_Manager_Safety\<close> are interpreted on both. The server sets no defaults in the objects that it
  stores, and nobody else writes while a reconcile runs.
\<close>

section \<open>The server\<close>

type_synonym 'o table = "string \<times> string \<Rightarrow> 'o option"

text \<open>\<open>mw_Faults\<close> is what happens to the next writes: \<open>Some (stored, err)\<close> is a failure.\<close>

record manager_world =
  mw_Managers :: "NnfDataMovementManager table"
  mw_Secrets :: "Secret table"
  mw_Deployments :: "Deployment table"
  mw_Services :: "Service table"
  mw_DaemonSets :: "DaemonSet table"
  mw_Lustre :: "ManagedLustre table"
  mw_LustreKeys :: "(string \<times> string) list"
  mw_Faults :: "(bool \<times> goerr) option list"

definition api_call :: "(manager_world \<Rightarrow> manager_world) \<Rightarrow> manager_world \<Rightarrow> unit res \<times> manager_world" where
  "api_call f w =
     (let w1 = w\<lparr>mw_Faults := tl (mw_Faults w)\<rparr>
      in case mw_Faults w of
           Some (stored, err) # _ \<Rightarrow> (Err err, if stored then f w1 else w1)
         | _ \<Rightarrow> (Ok (), f w1))"

text \<open>An object is stored under its key.\<close>

definition stored :: "('o \<Rightarrow> string \<times> string) \<Rightarrow> 'o table \<Rightarrow> 'o table" where
  "stored key t k = (case t k of Some obj \<Rightarrow> if key obj = k then Some obj else None | None \<Rightarrow> None)"

text \<open>An update of the object \<open>old\<close> when \<open>cur\<close> is stored.\<close>

definition update_call ::
  "'o option \<Rightarrow> 'o \<Rightarrow> (manager_world \<Rightarrow> manager_world) \<Rightarrow> manager_world \<Rightarrow> unit res \<times> manager_world" where
  "update_call cur old f w =
     (case cur of
        None \<Rightarrow> (Err (ApiErr NotFound ''not found''), w)
      | Some obj \<Rightarrow> if obj \<noteq> old then (Err (ApiErr Conflict ''the object has been modified''), w) else api_call f w)"

definition table_client ::
  "(manager_world \<Rightarrow> 'o table) \<Rightarrow> (('o table \<Rightarrow> 'o table) \<Rightarrow> manager_world \<Rightarrow> manager_world) \<Rightarrow>
   ('o \<Rightarrow> string \<times> string) \<Rightarrow> ('o \<Rightarrow> 'o) \<Rightarrow> ('o, manager_world) client" where
  "table_client get upd key bump =
     \<lparr>cl_Get = (\<lambda>ns n w. lookup_res (stored key (get w)) (ns, n)),
      cl_Create = (\<lambda>obj w. if stored key (get w) (key obj) \<noteq> None then (Err (ApiErr OtherReason ''already exists''), w)
                            else api_call (upd (\<lambda>t. t(key obj \<mapsto> bump obj))) w),
      cl_Update = (\<lambda>old obj w. update_call (stored key (get w) (key obj)) old (upd (\<lambda>t. t(key obj \<mapsto> bump obj))) w)\<rparr>"

definition stored_lustre :: "manager_world \<Rightarrow> ManagedLustre table" where
  "stored_lustre w k =
     (if k \<in> set (mw_LustreKeys w)
      then stored lus_key (mw_Lustre w) k else None)"

definition stored_manager :: "manager_world \<Rightarrow> NnfDataMovementManager table" where
  "stored_manager w = stored (\<lambda>m. (mgr_Namespace m, mgr_Name m)) (mw_Managers w)"

text \<open>\<open>vars\<close> are the environment variables of the manager and \<open>keys\<close> the generated key pair.\<close>

definition manager_cluster_env :: "(string \<Rightarrow> string) \<Rightarrow> string \<times> string \<Rightarrow> manager_world manager_env" where
  "manager_cluster_env vars keys =
     \<lparr>g_Getenv = vars,
      g_Sync = (\<lambda>w. w),
      g_GetManager = (\<lambda>ns n w. lookup_res (stored_manager w) (ns, n)),
      g_UpdateManagerStatus = (\<lambda>old m w. update_call (stored_manager w (mgr_Namespace m, mgr_Name m)) old
                                 (mw_Managers_update (put_ready m)) w),
      g_NewKeys = (\<lambda>w. (Ok keys, w)),
      g_Secrets = table_client mw_Secrets mw_Secrets_update (\<lambda>obj. (sec_Namespace obj, sec_Name obj)) id,
      g_Deployments = table_client mw_Deployments mw_Deployments_update (\<lambda>obj. (dep_Namespace obj, dep_Name obj)) id,
      g_Services = table_client mw_Services mw_Services_update (\<lambda>obj. (svc_Namespace obj, svc_Name obj)) id,
      g_DaemonSets = table_client mw_DaemonSets mw_DaemonSets_update (\<lambda>obj. (ds_Namespace obj, ds_Name obj))
                       (\<lambda>obj. obj\<lparr>Generation := Generation obj + 1\<rparr>),
      g_ListLustre = (\<lambda>w. Ok (List.map_filter (stored_lustre w) (mw_LustreKeys w))),
      g_UpdateLustre = (\<lambda>old fs w. update_call (stored_lustre w (lus_key fs)) old (mw_Lustre_update (put_lustre fs)) w)\<rparr>"

lemma manager_env_sel [simp]:
  "g_Getenv (manager_cluster_env vars keys) = vars"
  "g_Sync (manager_cluster_env vars keys) w = w"
  "g_GetManager (manager_cluster_env vars keys) ns n w = lookup_res (stored_manager w) (ns, n)"
  "g_UpdateManagerStatus (manager_cluster_env vars keys) m0 m w =
     update_call (stored_manager w (mgr_Namespace m, mgr_Name m)) m0 (mw_Managers_update (put_ready m)) w"
  "g_NewKeys (manager_cluster_env vars keys) w = (Ok keys, w)"
  "g_Secrets (manager_cluster_env vars keys) = table_client mw_Secrets mw_Secrets_update (\<lambda>obj. (sec_Namespace obj, sec_Name obj)) id"
  "g_Deployments (manager_cluster_env vars keys) =
     table_client mw_Deployments mw_Deployments_update (\<lambda>obj. (dep_Namespace obj, dep_Name obj)) id"
  "g_Services (manager_cluster_env vars keys) = table_client mw_Services mw_Services_update (\<lambda>obj. (svc_Namespace obj, svc_Name obj)) id"
  "g_DaemonSets (manager_cluster_env vars keys) =
     table_client mw_DaemonSets mw_DaemonSets_update (\<lambda>obj. (ds_Namespace obj, ds_Name obj)) (\<lambda>obj. obj\<lparr>Generation := Generation obj + 1\<rparr>)"
  "g_ListLustre (manager_cluster_env vars keys) w = Ok (List.map_filter (stored_lustre w) (mw_LustreKeys w))"
  "g_UpdateLustre (manager_cluster_env vars keys) old fs w =
     update_call (stored_lustre w (lus_key fs)) old (mw_Lustre_update (put_lustre fs)) w"
  by (simp_all add: manager_cluster_env_def)

text \<open>A write either happened as asked, or it failed and it may have happened.\<close>

lemma api_call_cases:
  assumes "api_call f w = (r, w')"
  shows "w' = f (w\<lparr>mw_Faults := tl (mw_Faults w)\<rparr>) \<or> (\<exists>e. r = Err e) \<and> w' = w\<lparr>mw_Faults := tl (mw_Faults w)\<rparr>"
  using assms by (auto simp: api_call_def Let_def split: list.splits option.splits prod.splits if_splits)

lemma api_call_keeps:
  assumes "\<And>w. view (f w) = view w" and "\<And>w fl. view (w\<lparr>mw_Faults := fl\<rparr>) = view w"
  shows "view (snd (api_call f w)) = view w"
  using api_call_cases[of f w "fst (api_call f w)" "snd (api_call f w)"] assms by (auto simp: assms)

lemma update_call_cases:
  assumes "update_call cur old f w = (r, w')"
  shows "cur = Some old \<and> w' = f (w\<lparr>mw_Faults := tl (mw_Faults w)\<rparr>) \<or>
    (\<exists>e. r = Err e) \<and> (w' = w \<or> w' = w\<lparr>mw_Faults := tl (mw_Faults w)\<rparr>)"
  using assms by (auto simp: update_call_def split: option.splits if_splits dest: api_call_cases)

lemma update_call_current [simp]: "update_call (Some old) old f w = api_call f w"
  by (simp add: update_call_def)

lemma update_call_keeps:
  assumes "\<And>w. view (f w) = view w" and "\<And>w fl. view (w\<lparr>mw_Faults := fl\<rparr>) = view w"
  shows "view (snd (update_call cur old f w)) = view w"
  by (simp add: update_call_def api_call_keeps assms split: option.split)

lemma table_client_keeps:
  assumes "\<And>f w. view (upd f w) = view w" and "\<And>w fl. view (w\<lparr>mw_Faults := fl\<rparr>) = view w"
  shows "view (snd (cl_Create (table_client get upd key bump) obj w)) = view w"
    and "view (snd (cl_Update (table_client get upd key bump) old obj w)) = view w"
  by (simp_all add: table_client_def api_call_keeps update_call_keeps assms)

lemma stored_lustre_put:
  assumes "stored_lustre w (lus_key fs) \<noteq> None"
  shows "stored_lustre (mw_Lustre_update (put_lustre fs) w) = put_lustre fs (stored_lustre w)"
  using assms
  by (intro ext) (auto simp: stored_lustre_def stored_def put_lustre_def kept_lustre_def split: option.splits if_splits)

lemma stored_views [simp]:
  "stored_lustre (w\<lparr>mw_Faults := fl\<rparr>) = stored_lustre w"
  "stored_lustre (mw_Managers_update f w) = stored_lustre w"
  "stored_lustre (mw_Secrets_update f1 w) = stored_lustre w"
  "stored_lustre (mw_Deployments_update f2 w) = stored_lustre w"
  "stored_lustre (mw_Services_update f3 w) = stored_lustre w"
  "stored_lustre (mw_DaemonSets_update f4 w) = stored_lustre w"
  "stored_manager (w\<lparr>mw_Faults := fl\<rparr>) = stored_manager w"
  "stored_manager (mw_Lustre_update f5 w) = stored_manager w"
  "stored_manager (mw_Secrets_update f1 w) = stored_manager w"
  "stored_manager (mw_Deployments_update f2 w) = stored_manager w"
  "stored_manager (mw_Services_update f3 w) = stored_manager w"
  "stored_manager (mw_DaemonSets_update f4 w) = stored_manager w"
  by (auto intro!: ext simp: stored_lustre_def stored_manager_def)

lemma stored_manager_put: "stored_manager (mw_Managers_update (put_ready m) w) = put_ready m (stored_manager w)"
  by (intro ext) (auto simp: stored_manager_def stored_def put_ready_def split: option.splits if_splits)

lemma stored_lustre_key: "stored_lustre w k = Some fs \<Longrightarrow> lus_key fs = k \<and> k \<in> set (mw_LustreKeys w)"
  by (simp add: stored_lustre_def stored_def split: option.splits if_splits)

lemma listed_lustre: "fs \<in> set (List.map_filter (stored_lustre w) (mw_LustreKeys w)) \<longleftrightarrow> stored_lustre w (lus_key fs) = Some fs"
proof -
  have "fs \<in> set (List.map_filter (stored_lustre w) (mw_LustreKeys w)) \<longleftrightarrow>
        (\<exists>k\<in>set (mw_LustreKeys w). stored_lustre w k = Some fs)"
    by (force simp: List.map_filter_def image_iff)
  then show ?thesis using stored_lustre_key by metis
qed

lemma stored_key: "stored key t k = Some obj \<Longrightarrow> key obj = k"
  by (simp add: stored_def split: option.splits if_splits)

text \<open>
  A step of the manager that makes or changes a resource leaves one stored that the mutation yields, and with a
  mutation that has nothing left to change it writes nothing.
\<close>

lemma CreateOrUpdate_stored:
  assumes run: "CreateOrUpdate (table_client get upd key bump) ns n new f w = (Ok (), w')"
    and upd: "\<And>g w. get (upd g w) = g (get w)" "\<And>w fl. get (w\<lparr>mw_Faults := fl\<rparr>) = get w"
    and keys: "key new = (ns, n)" "\<And>obj. key (bump obj) = key obj" "\<And>obj obj'. f obj = Ok obj' \<Longrightarrow> key obj' = key obj"
  shows "\<exists>old obj. f old = Ok obj \<and> (stored key (get w') (ns, n) = Some (bump obj) \<or> stored key (get w') (ns, n) = Some obj)"
proof -
  have put: "stored key (get w') (ns, n) = Some (bump obj)"
    if "api_call (upd (\<lambda>t. t(key obj \<mapsto> bump obj))) w = (Ok (), w')" "key obj = (ns, n)" for obj
    using api_call_cases[OF that(1)] that(2) by (auto simp: upd stored_def keys(2))
  show ?thesis
  proof (cases "stored key (get w) (ns, n)")
    case None
    then obtain obj where obj: "f new = Ok obj" "cl_Create (table_client get upd key bump) obj w = (Ok (), w')"
      using run by (auto simp: CreateOrUpdate_def table_client_def lookup_res_def split: result.splits)
    have "key obj = (ns, n)" using keys(3)[OF obj(1)] keys(1) by simp
    then show ?thesis using put[of obj] obj by (auto simp: table_client_def split: if_splits)
  next
    case (Some old)
    then obtain obj where obj: "f old = Ok obj" "w' = w \<and> obj = old \<or> cl_Update (table_client get upd key bump) old obj w = (Ok (), w')"
      using run by (auto simp: CreateOrUpdate_def table_client_def lookup_res_def split: result.splits if_splits)
    have "key obj = (ns, n)" using keys(3)[OF obj(1)] stored_key[OF Some] by simp
    then show ?thesis using put[of obj] obj Some by (auto simp: table_client_def)
  qed
qed

lemma CreateOrUpdate_quiet:
  assumes "stored key (get w) (ns, n) = Some obj" and "f obj = Ok obj"
  shows "CreateOrUpdate (table_client get upd key bump) ns n new f w = (Ok (), w)"
  using assms by (simp add: CreateOrUpdate_def table_client_def lookup_res_def)

interpretation mgr_lustre: current_server "manager_cluster_env vars keys" stored_lustre
proof
  fix w fss fs
  assume "g_ListLustre (manager_cluster_env vars keys) (g_Sync (manager_cluster_env vars keys) w) = Ok fss" "fs \<in> set fss"
  then show "stored_lustre w (lus_key fs) = Some fs" using listed_lustre[of fs w] by simp
next
  fix old fs w r w'
  assume "g_UpdateLustre (manager_cluster_env vars keys) old fs w = (r, w')"
  then show "stored_lustre w (lus_key fs) = Some old \<and> stored_lustre w' = put_lustre fs (stored_lustre w) \<or>
      (\<exists>e. r = Err e) \<and> stored_lustre w' = stored_lustre w"
    by (auto simp: stored_lustre_put dest!: update_call_cases)
qed (simp_all add: table_client_keeps api_call_keeps update_call_keeps)

interpretation mgr_status: status_server "manager_cluster_env vars keys" stored_manager
proof
  fix m0 m w r w'
  assume "g_UpdateManagerStatus (manager_cluster_env vars keys) m0 m w = (r, w')"
  then show "stored_manager w (mgr_Namespace m, mgr_Name m) = Some m0 \<and> stored_manager w' = put_ready m (stored_manager w) \<or>
      (\<exists>e. r = Err e) \<and> stored_manager w' = stored_manager w"
    by (auto simp: stored_manager_put dest!: update_call_cases)
qed (auto simp: table_client_keeps api_call_keeps update_call_keeps lookup_res_def stored_manager_def stored_def
     split: option.splits if_splits)

text \<open>The facts about the lustre file systems, with the reads that are current.\<close>

lemmas sync_current = manager_env_sel(2)
lemmas lustre_current = mgr_lustre.reconcile_lus [unfolded sync_current] mgr_lustre.reconcile_release [unfolded sync_current]
  mgr_lustre.removeFinalizers_changes [unfolded sync_current] mgr_lustre.updateLustre_prepares [unfolded sync_current]
  mgr_lustre.releases [unfolded sync_current]

end
