(* ===== verification/Dm_Manager_Results.thy ===== *)
theory Dm_Manager_Results
  imports Dm_Manager_Cluster
begin

text \<open>
  Properties of the data movement manager that need current reads, on the API server of \<open>Dm_Manager_Cluster\<close> with
  every order of failing writes.
\<close>

section \<open>The worker daemon set\<close>

definition live_lustre :: "ManagedLustre list \<Rightarrow> ManagedLustre list" where
  "live_lustre fss = filter (\<lambda>fs. lus_DeletionTimestamp fs = None) fss"

definition lustre_mount :: "ManagedLustre \<Rightarrow> VolumeMount" where
  "lustre_mount fs = \<lparr>vm_Name = lus_Name fs, vm_MountPath = MountRoot fs, HostToContainer = False\<rparr>"

abbreviation ds_key :: "DaemonSet \<Rightarrow> string \<times> string" where
  "ds_key ds \<equiv> (ds_Namespace ds, ds_Name ds)"

abbreviation all_lustre :: "manager_world \<Rightarrow> ManagedLustre list" where
  "all_lustre w \<equiv> List.map_filter (stored_lustre w) (mw_LustreKeys w)"

lemma try_container_Volumes [simp]: "Volumes (try_container name f p) = Volumes p"
  by (simp add: try_container_def findContainer_def split: option.split)

lemma worker_volume_names:
  "map vol_Name (Volumes (worker_podSpec E manager fss)) =
     map vol_Name (Volumes (mgr_PodSpec manager)) @ sshAuthVolume # map lus_Name (live_lustre fss) @ [nnfVolumeName]"
  by (simp add: worker_podSpec_def setupLustreVolumes_def setupSSHAuthVolumes_def add_mounts_def live_lustre_def Let_def comp_def)

lemma worker_mounts:
  "c \<in> set (Containers (worker_podSpec E manager fss)) \<Longrightarrow> lustre_mount ` set (live_lustre fss) \<subseteq> set (VolumeMounts c)"
  by (auto simp: worker_podSpec_def setupLustreVolumes_def add_mounts_def live_lustre_def lustre_mount_def Let_def)

lemma mutate_daemonset_Ok:
  assumes "mutate_daemonset E manager fss ds = Ok ds'"
  shows "ds_PodSpec ds' = worker_podSpec E manager fss" "ds_key ds' = ds_key ds"
  using assms by (auto simp: mutate_daemonset_def bind_result_Ok_iff)

lemma createOrUpdateDaemonSet_stored:
  assumes "createOrUpdateDaemonSetIfNecessary (manager_cluster_env vars keys) manager w = (Ok (), w')"
  shows "\<exists>old ds. mutate_daemonset (manager_cluster_env vars keys) manager (all_lustre w) old = Ok ds \<and>
    (stored ds_key (mw_DaemonSets w') (mgr_Namespace manager, daemonsetName) = Some (ds\<lparr>Generation := Generation ds + 1\<rparr>) \<or>
     stored ds_key (mw_DaemonSets w') (mgr_Namespace manager, daemonsetName) = Some ds)"
  by (rule CreateOrUpdate_stored[where get = mw_DaemonSets and upd = mw_DaemonSets_update])
    (use assms in \<open>auto simp: createOrUpdateDaemonSetIfNecessary_def list_lustre_def dest: mutate_daemonset_Ok\<close>)

text \<open>
  C24. After the daemon set step succeeds, the stored worker daemon set has exactly the volumes of the manager's pod
  spec, the SSH keys, one volume per global Lustre file system that is not being deleted, and the NNF volume, in
  this order; every container of the workers mounts each of these file systems at its mount root. The step reads the
  file systems and the daemon set as they are stored.
\<close>

theorem worker_volumes_current:
  assumes "createOrUpdateDaemonSetIfNecessary (manager_cluster_env vars keys) manager w = (Ok (), w')"
  shows "\<exists>ds. stored ds_key (mw_DaemonSets w') (mgr_Namespace manager, daemonsetName) = Some ds \<and>
    map vol_Name (Volumes (ds_PodSpec ds)) =
      map vol_Name (Volumes (mgr_PodSpec manager)) @ sshAuthVolume # map lus_Name (live_lustre (all_lustre w)) @ [nnfVolumeName] \<and>
    list_all (\<lambda>c. lustre_mount ` set (live_lustre (all_lustre w)) \<subseteq> set (VolumeMounts c)) (Containers (ds_PodSpec ds))"
proof -
  obtain old ds where ds: "mutate_daemonset (manager_cluster_env vars keys) manager (all_lustre w) old = Ok ds"
      and st: "stored ds_key (mw_DaemonSets w') (mgr_Namespace manager, daemonsetName) = Some (ds\<lparr>Generation := Generation ds + 1\<rparr>) \<or>
               stored ds_key (mw_DaemonSets w') (mgr_Namespace manager, daemonsetName) = Some ds"
    using createOrUpdateDaemonSet_stored[OF assms] by blast
  from st obtain d where "stored ds_key (mw_DaemonSets w') (mgr_Namespace manager, daemonsetName) = Some d" "ds_PodSpec d = ds_PodSpec ds"
    by auto
  then show ?thesis
    using mutate_daemonset_Ok(1)[OF ds] worker_mounts[where E = "manager_cluster_env vars keys" and manager = manager]
    by (auto simp: worker_volume_names list_all_iff)
qed

section \<open>The release of Lustre file systems\<close>

text \<open>After the first five steps the stored workers have the volumes of the file systems that stay.\<close>

lemma daemonset_step_lustre: "all_lustre (snd (createOrUpdateDaemonSetIfNecessary (manager_cluster_env vars keys) manager w)) = all_lustre w"
  by (simp add: createOrUpdateDaemonSetIfNecessary_def list_lustre_def CreateOrUpdate_keeps[of all_lustre] table_client_keeps[of all_lustre])

lemma workers_after_steps:
  assumes "run_steps (take 5 (manager_steps (manager_cluster_env vars keys) manager)) w = (Ok (), w5)"
  shows "\<exists>ds. stored ds_key (mw_DaemonSets w5) (mgr_Namespace manager, daemonsetName) = Some ds \<and>
    map vol_Name (Volumes (ds_PodSpec ds)) =
      map vol_Name (Volumes (mgr_PodSpec manager)) @ sshAuthVolume # map lus_Name (live_lustre (all_lustre w5)) @ [nnfVolumeName]"
proof -
  let ?E = "manager_cluster_env vars keys"
  have "take 5 (manager_steps ?E manager) = take 4 (manager_steps ?E manager) @ [createOrUpdateDaemonSetIfNecessary ?E manager]"
    by (simp add: manager_steps_def)
  then have "run_steps (take 4 (manager_steps ?E manager) @ [createOrUpdateDaemonSetIfNecessary ?E manager]) w = (Ok (), w5)"
    using assms by argo
  then obtain w4 where w4: "createOrUpdateDaemonSetIfNecessary ?E manager w4 = (Ok (), w5)"
    by (auto simp: run_steps_append split: prod.splits result.splits)
  have "all_lustre w5 = all_lustre w4" using daemonset_step_lustre[of vars keys manager w4] w4 by simp
  moreover obtain old ds where ds: "mutate_daemonset ?E manager (all_lustre w4) old = Ok ds"
      "stored ds_key (mw_DaemonSets w5) (mgr_Namespace manager, daemonsetName) = Some (ds\<lparr>Generation := Generation ds + 1\<rparr>) \<or>
       stored ds_key (mw_DaemonSets w5) (mgr_Namespace manager, daemonsetName) = Some ds"
    using createOrUpdateDaemonSet_stored[OF w4] by blast
  ultimately show ?thesis using mutate_daemonset_Ok(1)[OF ds(1)] by (auto simp: worker_volume_names)
qed

text \<open>The names of volumes that the workers have whatever file systems there are.\<close>

definition reserved_names :: "NnfDataMovementManager \<Rightarrow> string set" where
  "reserved_names manager = set (map vol_Name (Volumes (mgr_PodSpec manager))) \<union> {sshAuthVolume, nnfVolumeName}"

lemma reconcile_success:
  assumes "Manager_Reconcile E req w = (Ok False, w')" and "g_GetManager E (fst req) (snd req) (g_Sync E w) = Ok manager"
  obtains w1 where "run_steps (manager_steps E manager) (g_Sync E w) = (Ok (), w1)"
proof (cases "run_steps (manager_steps E manager) (g_Sync E w)")
  case (Pair rs w1)
  have "rs = Ok ()"
    using assms Pair
    by (auto simp: Manager_Reconcile_def errorHandler_def close_status_def Let_def split: result.splits prod.splits if_splits)
  then show ?thesis using Pair that by blast
qed


text \<open>
  A file system whose name is also the name of a volume that the workers always have (\<^verbatim>\<open>nnf\<close>, \<^verbatim>\<open>ssh-auth\<close> or a
  volume of the manager's pod spec) is never released once it is being deleted, and while it is there no other file
  system is released either: a reconcile keeps the finalizer of every file system.
\<close>

lemma reserved_name_blocks_release:
  assumes "Manager_Reconcile (manager_cluster_env vars keys) req w = (r, w')" and "stored_manager w req = Some manager"
    and "stored_lustre w kb = Some fb" and "lus_DeletionTimestamp fb = Some t"
    and "ContainsFinalizer (lus_Finalizers fb) finalizer" and "lus_Name fb \<in> reserved_names manager"
    and "held (stored_lustre w) k"
  shows "held (stored_lustre w') k"
proof (rule ccontr)
  let ?E = "manager_cluster_env vars keys"
  assume lost: "\<not> held (stored_lustre w') k"
  have m: "g_GetManager ?E (fst req) (snd req) w = Ok manager" using assms(2) by (simp add: lookup_res_def)
  obtain w5 where w5: "run_steps (take 5 (manager_steps ?E manager)) w = (Ok (), w5)"
    using lustre_current(2)[OF assms(1,7) lost] m by auto
  obtain f where f: "stored_lustre w5 kb = Some f" "lus_Name f = lus_Name fb" "lus_DeletionTimestamp f = Some t"
    using mgr_lustre.first_steps_deleting[OF w5 assms(3-5)] by blast
  obtain ds where ds: "stored ds_key (mw_DaemonSets w5) (mgr_Namespace manager, daemonsetName) = Some ds"
      and names: "map vol_Name (Volumes (ds_PodSpec ds)) =
        map vol_Name (Volumes (mgr_PodSpec manager)) @ sshAuthVolume # map lus_Name (live_lustre (all_lustre w5)) @ [nnfVolumeName]"
    using workers_after_steps[OF w5] by blast
  have "lus_Name f \<in> set (map vol_Name (Volumes (ds_PodSpec ds)))"
    using assms(6) f(2) unfolding names by (auto simp: reserved_names_def)
  moreover have "f \<in> set (all_lustre w5)" using stored_lustre_key[OF f(1)] f(1) by (auto simp: listed_lustre)
  ultimately have "list_ex (\<lambda>fs. lus_Name fs \<in> set (map vol_Name (Volumes (ds_PodSpec ds))))
      (filter (\<lambda>fs. lus_DeletionTimestamp fs \<noteq> None) (all_lustre w5))"
    using f(3) by (auto simp: list_ex_iff)
  then have "removeLustreFileSystemsFinalizersIfNecessary ?E manager w5 = (Ok (), w5)"
    using ds by (simp add: removeLustreFileSystemsFinalizersIfNecessary_def list_lustre_def table_client_def lookup_res_def Let_def)
  then have "run_steps (manager_steps ?E manager) w = (Ok (), w5)" using w5 by (simp add: run_manager_steps)
  from lustre_current(1)[OF assms(1) m this] mgr_lustre.first_steps_hold[OF w5 assms(7)] lost
  show False by simp
qed

section \<open>A rollout\<close>

definition mdemo_container :: "string \<Rightarrow> string list \<Rightarrow> Container" where
  "mdemo_container name args = \<lparr>cont_Name = name, Args = args, Env = [], VolumeMounts = [], Capabilities = None, cont_Other = []\<rparr>"

definition mdemo_manager :: NnfDataMovementManager where
  "mdemo_manager = \<lparr>mgr_Name = ''dm-manager'', mgr_Namespace = ''dm-system'', mgr_Uid = ''7'',
     Selector = [(''cray.nnf.node'', ''true'')],
     mgr_PodSpec = empty_podSpec\<lparr>Containers := [mdemo_container ''manager'' [], mdemo_container ''worker'' []]\<rparr>,
     UpdateStrategy = ''RollingUpdate'', HostPath = ''/mnt/nnf'', mgr_MountPath = ''/mnt/nnf'', Ready = False\<rparr>"

definition mdemo_base :: Deployment where
  "mdemo_base = \<lparr>dep_Name = ''dm-manager'', dep_Namespace = ''dm-system'', dep_Owner = None, dep_Labels = [], dep_Other = [],
     dep_PodSpec = empty_podSpec\<lparr>Containers := [mdemo_container ''manager'' [''--controller=manager'']]\<rparr>\<rparr>"

definition mdemo_lustre :: "string \<Rightarrow> time option \<Rightarrow> string list \<Rightarrow> ManagedLustre" where
  "mdemo_lustre name t fins = \<lparr>lus_Name = name, lus_Namespace = ''default'', MountRoot = CHR ''/'' # name,
     lus_Namespaces = None, lus_DeletionTimestamp = t, lus_Finalizers = fins\<rparr>"

definition mdemo_env :: "manager_world manager_env" where
  "mdemo_env = manager_cluster_env (\<lambda>_. []) (''private'', ''public'')"

text \<open>A file system \<open>alpha\<close> and one called \<open>name\<close> that is being deleted; there are no workers yet.\<close>

definition mdemo_world :: "string \<Rightarrow> manager_world" where
  "mdemo_world name =
     \<lparr>mw_Managers = [(''dm-system'', ''dm-manager'') \<mapsto> mdemo_manager], mw_Secrets = Map.empty,
      mw_Deployments = [(''dm-system'', ''dm-manager'') \<mapsto> mdemo_base], mw_Services = Map.empty, mw_DaemonSets = Map.empty,
      mw_Lustre = [(''default'', ''alpha'') \<mapsto> mdemo_lustre ''alpha'' None [],
                   (''default'', name) \<mapsto> mdemo_lustre name (Some 5) [finalizer]],
      mw_LustreKeys = [(''default'', ''alpha''), (''default'', name)], mw_Faults = []\<rparr>"

abbreviation mdemo_req :: "string \<times> string" where "mdemo_req \<equiv> (''dm-system'', ''dm-manager'')"

text \<open>The pods of the workers have started.\<close>

definition rollout :: "manager_world \<Rightarrow> manager_world" where
  "rollout w = mw_DaemonSets_update (\<lambda>t k. map_option (\<lambda>ds. ds\<lparr>ObservedGeneration := Generation ds,
     DesiredNumberScheduled := 2, UpdatedNumberScheduled := 2, NumberReady := 2\<rparr>) (t k)) w"

definition mdemo_rolled :: "string \<Rightarrow> manager_world" where
  "mdemo_rolled name = rollout (snd (Manager_Reconcile mdemo_env mdemo_req (mdemo_world name)))"

definition mdemo_done :: manager_world where
  "mdemo_done = snd (Manager_Reconcile mdemo_env mdemo_req (mdemo_rolled ''beta''))"

definition mdemo_w5 :: manager_world where
  "mdemo_w5 = snd (run_steps (take 5 (manager_steps mdemo_env mdemo_manager)) (mdemo_rolled ''beta''))"

lemma mdemo_start: "createOrUpdateDaemonSetIfNecessary mdemo_env mdemo_manager (mdemo_world ''beta'') =
    (Ok (), snd (createOrUpdateDaemonSetIfNecessary mdemo_env mdemo_manager (mdemo_world ''beta'')))"
  by (rule pair_of_fst) code_simp

lemma mdemo_reconcile: "Manager_Reconcile mdemo_env mdemo_req (mdemo_rolled ''beta'') = (Ok False, mdemo_done)"
  unfolding mdemo_done_def by (rule pair_of_fst) code_simp

lemma mdemo_first_steps: "run_steps (take 5 (manager_steps mdemo_env mdemo_manager)) (mdemo_rolled ''beta'') = (Ok (), mdemo_w5)"
  unfolding mdemo_w5_def by (rule pair_of_fst) code_simp

lemma mdemo_facts:
  "held (stored_lustre (mdemo_rolled ''beta'')) (''default'', ''beta'')"
  "\<not> held (stored_lustre mdemo_done) (''default'', ''beta'')"
  "stored_manager (mdemo_rolled ''beta'') mdemo_req = Some mdemo_manager"
  "stored_manager mdemo_done mdemo_req = Some (mdemo_manager\<lparr>Ready := True\<rparr>)"
  by code_simp+

theorem worker_volumes_current_witness:
  "createOrUpdateDaemonSetIfNecessary mdemo_env mdemo_manager (mdemo_world ''beta'') =
     (Ok (), snd (createOrUpdateDaemonSetIfNecessary mdemo_env mdemo_manager (mdemo_world ''beta''))) \<and>
   (\<exists>ds. stored ds_key (mw_DaemonSets (snd (createOrUpdateDaemonSetIfNecessary mdemo_env mdemo_manager (mdemo_world ''beta''))))
           (''dm-system'', ''nnf-dm-worker'') = Some ds \<and>
         map vol_Name (Volumes (ds_PodSpec ds)) = [''ssh-auth'', ''alpha'', ''nnf''])"
proof -
  have live: "map lus_Name (live_lustre (all_lustre (mdemo_world ''beta''))) = [''alpha'']" by code_simp
  have mgr: "mgr_Namespace mdemo_manager = ''dm-system''" "Volumes (mgr_PodSpec mdemo_manager) = []"
    by (simp_all add: mdemo_manager_def empty_podSpec_def)
  show ?thesis
    using worker_volumes_current[OF mdemo_start[unfolded mdemo_env_def]] mdemo_start
    unfolding live mgr mdemo_env_def daemonsetName_def sshAuthVolume_def nnfVolumeName_def by auto
qed


lemma reserved_name_blocks_release_witness:
  "stored_lustre (mdemo_rolled ''nnf'') (''default'', ''nnf'') \<noteq> None \<and>
   held (stored_lustre (snd (Manager_Reconcile mdemo_env mdemo_req (mdemo_rolled ''nnf'')))) (''default'', ''nnf'')"
proof -
  let ?fb = "mdemo_lustre ''nnf'' (Some 5) [finalizer]\<lparr>lus_Namespaces := Some [(''dm-system'', [ReadWriteMany])]\<rparr>"
  have m: "stored_manager (mdemo_rolled ''nnf'') mdemo_req = Some mdemo_manager" by code_simp
  have fb: "stored_lustre (mdemo_rolled ''nnf'') (''default'', ''nnf'') = Some ?fb" by code_simp
  have h: "held (stored_lustre (mdemo_rolled ''nnf'')) (''default'', ''nnf'')" by code_simp
  have facts: "lus_DeletionTimestamp ?fb = Some 5" "ContainsFinalizer (lus_Finalizers ?fb) finalizer"
      "lus_Name ?fb \<in> reserved_names mdemo_manager"
    by (simp_all add: mdemo_lustre_def ContainsFinalizer_def reserved_names_def nnfVolumeName_def)
  obtain r w' where run: "Manager_Reconcile mdemo_env mdemo_req (mdemo_rolled ''nnf'') = (r, w')" by fastforce
  show ?thesis
    using reserved_name_blocks_release[OF run[unfolded mdemo_env_def] m fb facts h] run fb by simp
qed

end
