(* ===== verification/Dm_Manager_Converges.thy ===== *)
theory Dm_Manager_Converges
  imports Dm_Manager_Results
begin

text \<open>
  Reconciling the manager reaches a fixed point: after one successful reconcile without failing writes, another one
  changes nothing. In particular the workers are not restarted by a reconcile that finds everything in place.
  Each step is shown to leave a state in which it has nothing to do, and the later steps do not touch that state.
\<close>

section \<open>What the steps do not touch\<close>

abbreviation sec_key :: "Secret \<Rightarrow> string \<times> string" where "sec_key o1 \<equiv> (sec_Namespace o1, sec_Name o1)"
abbreviation dep_key :: "Deployment \<Rightarrow> string \<times> string" where "dep_key o1 \<equiv> (dep_Namespace o1, dep_Name o1)"
abbreviation svc_key :: "Service \<Rightarrow> string \<times> string" where "svc_key o1 \<equiv> (svc_Namespace o1, svc_Name o1)"

lemma update_lustres_view:
  assumes "\<And>f w. view (mw_Lustre_update f w) = view w" "\<And>w fl. view (w\<lparr>mw_Faults := fl\<rparr>) = view w"
  shows "view (snd (update_lustres (manager_cluster_env vars keys) fss w)) = view w"
proof (induction fss arbitrary: w)
  case (Cons p fss)
  obtain old fs where p: "p = (old, fs)" by (cases p)
  obtain r1 w1 where u: "g_UpdateLustre (manager_cluster_env vars keys) old fs w = (r1, w1)" by fastforce
  have "view (snd (g_UpdateLustre (manager_cluster_env vars keys) old fs w)) = view w"
    by (simp add: update_call_keeps[of view] assms)
  then have "view w1 = view w" using u by simp
  then show ?case using u Cons.IH[of w1] by (auto simp: p simp del: manager_env_sel split: result.splits)
qed simp

lemma deployment_step_view:
  assumes "\<And>f w. view (mw_Deployments_update f w) = view w" "\<And>w fl. view (w\<lparr>mw_Faults := fl\<rparr>) = view w"
  shows "view (snd (createOrUpdateDeploymentIfNecessary (manager_cluster_env vars keys) manager w)) = view w"
  by (simp add: createOrUpdateDeploymentIfNecessary_def CreateOrUpdate_keeps[of view] table_client_keeps[of view] assms split: result.split)

lemma service_step_view:
  assumes "\<And>f w. view (mw_Services_update f w) = view w" "\<And>w fl. view (w\<lparr>mw_Faults := fl\<rparr>) = view w"
  shows "view (snd (createOrUpdateServiceIfNecessary (manager_cluster_env vars keys) manager w)) = view w"
  by (simp add: createOrUpdateServiceIfNecessary_def CreateOrUpdate_keeps[of view] table_client_keeps[of view] assms split: result.split)

lemma daemonset_step_view:
  assumes "\<And>f w. view (mw_DaemonSets_update f w) = view w" "\<And>w fl. view (w\<lparr>mw_Faults := fl\<rparr>) = view w"
  shows "view (snd (createOrUpdateDaemonSetIfNecessary (manager_cluster_env vars keys) manager w)) = view w"
  by (simp add: createOrUpdateDaemonSetIfNecessary_def CreateOrUpdate_keeps[of view] table_client_keeps[of view] assms split: result.split)

lemma lustre_step_view:
  assumes "\<And>f w. view (mw_Lustre_update f w) = view w" "\<And>w fl. view (w\<lparr>mw_Faults := fl\<rparr>) = view w"
  shows "view (snd (updateLustreFileSystemsIfNecessary (manager_cluster_env vars keys) manager w)) = view w"
    and "view (snd (removeLustreFileSystemsFinalizersIfNecessary (manager_cluster_env vars keys) manager w)) = view w"
  by (simp_all add: updateLustreFileSystemsIfNecessary_def removeLustreFileSystemsFinalizersIfNecessary_def
      update_lustres_view[of view] assms Let_def split: result.split bool.split)

lemmas step_views = deployment_step_view service_step_view daemonset_step_view lustre_step_view

section \<open>Writes that do not fail\<close>

lemma api_call_ok: "mw_Faults w = [] \<Longrightarrow> api_call f w = (Ok (), f w)"
  by (cases w) (simp add: api_call_def)

lemma update_call_ok:
  assumes "mw_Faults w = []" and "mw_Faults (f w) = []"
  shows "mw_Faults (snd (update_call cur old f w)) = []"
  using assms by (simp add: update_call_def api_call_ok split: option.split)

lemma table_client_ok:
  assumes "mw_Faults w = []" and "\<And>f w. mw_Faults (upd f w) = mw_Faults w"
  shows "mw_Faults (snd (cl_Create (table_client get upd key bump) obj w)) = []"
    and "mw_Faults (snd (cl_Update (table_client get upd key bump) old obj w)) = []"
  using assms by (simp_all add: table_client_def api_call_ok update_call_ok)

lemma CreateOrUpdate_ok:
  assumes "mw_Faults w = []" and "\<And>f w. mw_Faults (upd f w) = mw_Faults w"
  shows "mw_Faults (snd (CreateOrUpdate (table_client get upd key bump) ns n new f w)) = []"
  using assms by (simp add: CreateOrUpdate_def table_client_ok split: result.split)

lemma update_lustres_ok:
  "mw_Faults w = [] \<Longrightarrow> mw_Faults (snd (update_lustres (manager_cluster_env vars keys) fss w)) = []"
proof (induction fss arbitrary: w)
  case (Cons p fss)
  obtain old fs where p: "p = (old, fs)" by (cases p)
  obtain r1 w1 where u: "g_UpdateLustre (manager_cluster_env vars keys) old fs w = (r1, w1)" by fastforce
  have "mw_Faults (snd (g_UpdateLustre (manager_cluster_env vars keys) old fs w)) = []"
    using Cons.prems by (simp add: update_call_ok)
  then show ?case using u Cons.IH[of w1] by (auto simp: p simp del: manager_env_sel split: result.splits)
qed simp

lemma steps_ok:
  assumes "f \<in> set (manager_steps (manager_cluster_env vars keys) manager)" and "mw_Faults w = []"
  shows "mw_Faults (snd (f w)) = []"
  using assms
  by (auto simp: manager_steps_def createSecretIfNecessary_def createOrUpdateDeploymentIfNecessary_def
      createOrUpdateServiceIfNecessary_def createOrUpdateDaemonSetIfNecessary_def updateLustreFileSystemsIfNecessary_def
      removeLustreFileSystemsFinalizersIfNecessary_def CreateOrUpdate_ok table_client_ok update_lustres_ok Let_def
      split: result.split bool.split)

section \<open>Steps that have nothing to do\<close>

lemma table_client_get: "cl_Get (table_client get upd key bump) ns n w = lookup_res (stored key (get w)) (ns, n)"
  by (simp add: table_client_def)

lemma owned_by_again: "owned_by what manager own = Ok own' \<Longrightarrow> owned_by what manager own' = Ok own'"
  by (auto simp: owned_by_def SetControllerReference_def split: option.splits prod.splits if_splits result.splits)

lemma mutate_again:
  "mutate_deployment manager base d = Ok d' \<Longrightarrow> mutate_deployment manager base d' = Ok d'"
  "mutate_service manager s = Ok s' \<Longrightarrow> mutate_service manager s' = Ok s'"
  "mutate_daemonset E manager fss ds = Ok ds' \<Longrightarrow> mutate_daemonset E manager fss ds' = Ok ds'"
  by (auto simp: mutate_deployment_def mutate_service_def mutate_daemonset_def bind_result_Ok_iff dest: owned_by_again)

lemma mutate_generation:
  "mutate_daemonset E manager fss ds = Ok ds \<Longrightarrow> mutate_daemonset E manager fss (ds\<lparr>Generation := g\<rparr>) = Ok (ds\<lparr>Generation := g\<rparr>)"
  by (cases ds) (auto simp: mutate_daemonset_def bind_result_Ok_iff)

lemma mutate_keys:
  "mutate_deployment manager base d = Ok d' \<Longrightarrow> dep_key d' = dep_key d"
  "mutate_service manager s = Ok s' \<Longrightarrow> svc_key s' = svc_key s"
  by (auto simp: mutate_deployment_def mutate_service_def bind_result_Ok_iff)

lemma mutate_live: "mutate_daemonset E manager fss = mutate_daemonset E manager (live_lustre fss)"
  by (intro ext) (simp add: mutate_daemonset_def worker_podSpec_def setupLustreVolumes_def live_lustre_def Let_def)

text \<open>A step on one object leaves the others of its table.\<close>

lemma CreateOrUpdate_other:
  assumes "k \<noteq> (ns, n)" and "\<And>g w. get (upd g w) = g (get w)" "\<And>w fl. get (w\<lparr>mw_Faults := fl\<rparr>) = get w"
    and "key new = (ns, n)" "\<And>obj obj'. f obj = Ok obj' \<Longrightarrow> key obj' = key obj"
  shows "stored key (get (snd (CreateOrUpdate (table_client get upd key bump) ns n new f w))) k = stored key (get w) k"
proof -
  let ?c = "table_client get upd key bump"
  have put: "stored key (get (snd (api_call (upd (\<lambda>t. t(key obj \<mapsto> bump obj))) w))) k = stored key (get w) k"
    if "key obj = (ns, n)" for obj
    using api_call_cases[of "upd (\<lambda>t. t(key obj \<mapsto> bump obj))" w] that assms(1-3)
    by (cases "api_call (upd (\<lambda>t. t(key obj \<mapsto> bump obj))) w") (fastforce simp: stored_def)
  have wr: "stored key (get (snd (cl_Create ?c obj w))) k = stored key (get w) k"
      "stored key (get (snd (cl_Update ?c old obj w))) k = stored key (get w) k" if "key obj = (ns, n)" for old obj
    using put[OF that] by (simp_all add: table_client_def update_call_def split: option.split)
  have old: "key old = (ns, n)" if "cl_Get ?c ns n w = Ok old" for old
    using that by (auto simp: table_client_def lookup_res_def split: option.splits dest: stored_key)
  show ?thesis
    using assms(4,5) old by (auto simp: CreateOrUpdate_def wr split: result.split)
qed

lemma secret_quiet:
  assumes "createSecretIfNecessary (manager_cluster_env vars keys) manager w = (Ok (), w')" and "mw_Secrets u = mw_Secrets w'"
  shows "createSecretIfNecessary (manager_cluster_env vars keys) manager u = (Ok (), u)"
proof -
  have "stored sec_key (mw_Secrets w') (mgr_Namespace manager, mgr_Name manager) \<noteq> None"
    using assms(1)
    by (auto simp: createSecretIfNecessary_def newSecret_def owned_by_def SetControllerReference_def table_client_def
        lookup_res_def stored_def split: option.splits if_splits dest!: api_call_cases)
  then show ?thesis
    using assms(2) by (auto simp: createSecretIfNecessary_def table_client_def lookup_res_def)
qed

lemma deployment_quiet:
  assumes run: "createOrUpdateDeploymentIfNecessary (manager_cluster_env vars keys) manager w = (Ok (), w')"
    and u: "mw_Deployments u = mw_Deployments w'" and name: "mgr_Name manager \<noteq> deploymentName"
  shows "createOrUpdateDeploymentIfNecessary (manager_cluster_env vars keys) manager u = (Ok (), u)"
proof -
  let ?c = "table_client mw_Deployments mw_Deployments_update dep_key id"
  let ?new = "\<lparr>dep_Name = deploymentName, dep_Namespace = mgr_Namespace manager, dep_Owner = None, dep_Labels = [],
    dep_Other = [], dep_PodSpec = empty_podSpec\<rparr>"
  obtain base where base: "stored dep_key (mw_Deployments w) (mgr_Namespace manager, mgr_Name manager) = Some base"
      and step: "CreateOrUpdate ?c (mgr_Namespace manager) deploymentName ?new (mutate_deployment manager base) w = (Ok (), w')"
    using run by (auto simp: createOrUpdateDeploymentIfNecessary_def table_client_def lookup_res_def split: option.splits)
  have "stored dep_key (mw_Deployments w') (mgr_Namespace manager, mgr_Name manager) = Some base"
    using CreateOrUpdate_other[of "(mgr_Namespace manager, mgr_Name manager)" "mgr_Namespace manager" deploymentName
        mw_Deployments mw_Deployments_update dep_key ?new "mutate_deployment manager base" id w] name base step
    by (auto dest: mutate_keys)
  moreover obtain old d where "mutate_deployment manager base old = Ok d"
      "stored dep_key (mw_Deployments w') (mgr_Namespace manager, deploymentName) = Some d"
    using CreateOrUpdate_stored[OF step] by (auto dest: mutate_keys)
  ultimately show ?thesis
    using CreateOrUpdate_quiet[of dep_key mw_Deployments u "mgr_Namespace manager" deploymentName d
        "mutate_deployment manager base"] u mutate_again(1)
    by (simp add: createOrUpdateDeploymentIfNecessary_def table_client_get lookup_res_def)
qed

lemma service_quiet:
  assumes run: "createOrUpdateServiceIfNecessary (manager_cluster_env vars keys) manager w = (Ok (), w')"
    and u: "mw_Services u = mw_Services w'"
  shows "createOrUpdateServiceIfNecessary (manager_cluster_env vars keys) manager u = (Ok (), u)"
proof -
  obtain old s where "mutate_service manager old = Ok s"
      "stored svc_key (mw_Services w') (mgr_Namespace manager, serviceName) = Some s"
    using CreateOrUpdate_stored[OF run[unfolded createOrUpdateServiceIfNecessary_def manager_env_sel]] by (auto dest: mutate_keys)
  then show ?thesis
    using CreateOrUpdate_quiet[of svc_key mw_Services u "mgr_Namespace manager" serviceName s "mutate_service manager"]
      u mutate_again(2)
    by (simp add: createOrUpdateServiceIfNecessary_def)
qed

lemma daemonset_quiet:
  assumes run: "createOrUpdateDaemonSetIfNecessary (manager_cluster_env vars keys) manager w = (Ok (), w')"
    and u: "mw_DaemonSets u = mw_DaemonSets w'" "live_lustre (all_lustre u) = live_lustre (all_lustre w)"
  shows "createOrUpdateDaemonSetIfNecessary (manager_cluster_env vars keys) manager u = (Ok (), u)"
proof -
  let ?E = "manager_cluster_env vars keys"
  obtain old ds where ds: "mutate_daemonset ?E manager (all_lustre w) old = Ok ds"
      "stored ds_key (mw_DaemonSets w') (mgr_Namespace manager, daemonsetName) = Some (ds\<lparr>Generation := Generation ds + 1\<rparr>) \<or>
       stored ds_key (mw_DaemonSets w') (mgr_Namespace manager, daemonsetName) = Some ds"
    using createOrUpdateDaemonSet_stored[OF run] by blast
  have "mutate_daemonset ?E manager (all_lustre u) ds = Ok ds"
    using mutate_again(3)[OF ds(1)] u(2) mutate_live by metis
  moreover from this have "mutate_daemonset ?E manager (all_lustre u) (ds\<lparr>Generation := Generation ds + 1\<rparr>) = Ok (ds\<lparr>Generation := Generation ds + 1\<rparr>)"
    by (rule mutate_generation)
  ultimately show ?thesis
    using ds(2) CreateOrUpdate_quiet[of ds_key mw_DaemonSets u "mgr_Namespace manager" daemonsetName _
        "mutate_daemonset ?E manager (all_lustre u)"] u(1)
    by (auto simp: createOrUpdateDaemonSetIfNecessary_def list_lustre_def)
qed

section \<open>File systems\<close>

definition prepared :: "NnfDataMovementManager \<Rightarrow> manager_world \<Rightarrow> bool" where
  "prepared manager w \<longleftrightarrow> (\<forall>k fs. stored_lustre w k = Some fs \<longrightarrow> prepare_lustre manager fs = fs \<and> kept_lustre fs = Some fs)"

lemma preparedD: "prepared manager w \<Longrightarrow> stored_lustre w k = Some fs \<Longrightarrow> prepare_lustre manager fs = fs \<and> kept_lustre fs = Some fs"
  unfolding prepared_def by blast

lemma prepared_after_update:
  assumes "updateLustreFileSystemsIfNecessary (manager_cluster_env vars keys) manager w = (Ok (), w')"
  shows "prepared manager w'"
  unfolding prepared_def
proof (intro allI impI)
  fix k fs assume st: "stored_lustre w' k = Some fs"
  show "prepare_lustre manager fs = fs \<and> kept_lustre fs = Some fs"
  proof (cases "stored_lustre w k")
    case None
    then show ?thesis using mgr_lustre.updateLustre_changes[OF assms, of k] st by simp
  next
    case (Some f)
    then have f: "f \<in> set (all_lustre w)" "lus_key f = k" using stored_lustre_key[OF Some] by (auto simp: listed_lustre)
    have "stored_lustre w' (lus_key f) = kept_lustre (prepare_lustre manager f)"
      by (rule lustre_current(4)[OF assms _ f(1)]) (simp add: list_lustre_def)
    then show ?thesis using st f(2) by (auto simp: kept_lustre_def prepare_again split: if_splits)
  qed
qed

text \<open>Releasing file systems leaves the others prepared, and the ones that stay are the same.\<close>

lemma prepared_after_release:
  assumes "removeLustreFileSystemsFinalizersIfNecessary (manager_cluster_env vars keys) manager w = (r, w')" and "prepared manager w"
  shows "prepared manager w'"
  unfolding prepared_def
proof (intro allI impI)
  fix k fs assume st: "stored_lustre w' k = Some fs"
  have rm: "prepare_lustre manager (f\<lparr>lus_Finalizers := x\<rparr>) = f\<lparr>lus_Finalizers := x\<rparr>"
    if "prepare_lustre manager f = f" "lus_DeletionTimestamp f \<noteq> None" for f x
    using that by (cases f) (auto simp: prepare_lustre_def Let_def split: if_splits option.splits)
  show "prepare_lustre manager fs = fs \<and> kept_lustre fs = Some fs"
  proof (cases "stored_lustre w' k = stored_lustre w k")
    case True
    then show ?thesis using st preparedD[OF assms(2), of k] by simp
  next
    case False
    then obtain f where f: "stored_lustre w k = Some f" "lus_DeletionTimestamp f \<noteq> None"
      "stored_lustre w' k = kept_lustre (f\<lparr>lus_Finalizers := RemoveFinalizer (lus_Finalizers f) finalizer\<rparr>)"
      using lustre_current(3)[OF assms(1), of k] by blast
    have "prepare_lustre manager f = f" using preparedD[OF assms(2) f(1)] by blast
    then show ?thesis using rm[OF _ f(2)] f(3) st by (auto simp: kept_lustre_def split: if_splits)
  qed
qed

lemma live_filter:
  "live_lustre (List.map_filter g ks) =
     List.map_filter (\<lambda>k. case g k of Some fs \<Rightarrow> if lus_DeletionTimestamp fs = None then Some fs else None | None \<Rightarrow> None) ks"
  by (induction ks) (auto simp: live_lustre_def split: option.splits)

lemma live_after_release:
  assumes "removeLustreFileSystemsFinalizersIfNecessary (manager_cluster_env vars keys) manager w = (r, w')"
  shows "live_lustre (all_lustre w') = live_lustre (all_lustre w)"
proof -
  let ?live = "\<lambda>w k. case stored_lustre w k of Some fs \<Rightarrow> if lus_DeletionTimestamp fs = None then Some fs else None | None \<Rightarrow> None"
  have keys: "mw_LustreKeys w' = mw_LustreKeys w"
    using lustre_step_view(2)[of mw_LustreKeys vars keys manager w] assms by simp
  have "?live w' k = ?live w k" for k
    using lustre_current(3)[OF assms, of k] by (auto simp: kept_lustre_def)
  then have "?live w' = ?live w" by (rule ext)
  then show ?thesis unfolding live_filter keys by (simp only:)
qed

lemma update_same:
  assumes "stored_lustre w (lus_key fs) = Some fs" "kept_lustre fs = Some fs" "mw_Faults w = []"
  shows "g_UpdateLustre (manager_cluster_env vars keys) fs fs w = (Ok (), w)"
proof -
  have "mw_Lustre w (lus_key fs) = Some fs"
    using assms(1) by (auto simp: stored_lustre_def stored_def split: if_splits option.splits)
  then have "put_lustre fs (mw_Lustre w) = mw_Lustre w" using assms(2) by (auto simp: put_lustre_def)
  then show ?thesis using assms by (simp add: api_call_ok)
qed

lemma lustre_quiet:
  assumes "prepared manager w" "mw_Faults w = []"
  shows "updateLustreFileSystemsIfNecessary (manager_cluster_env vars keys) manager w = (Ok (), w)"
proof -
  have all: "stored_lustre w (lus_key fs) = Some fs \<and> prepare_lustre manager fs = fs \<and> kept_lustre fs = Some fs"
    if "fs \<in> set (all_lustre w)" for fs using that preparedD[OF assms(1)] by (simp add: listed_lustre)
  have "update_lustres (manager_cluster_env vars keys) (map (\<lambda>fs. (fs, prepare_lustre manager fs)) fss) w = (Ok (), w)"
    if "set fss \<subseteq> set (all_lustre w)" for fss
    using that
  proof (induction fss)
    case (Cons fs fss)
    then show ?case using all[of fs] update_same[of w fs] assms(2) by (simp del: manager_env_sel)
  qed simp
  then show ?thesis by (simp add: updateLustreFileSystemsIfNecessary_def list_lustre_def)
qed

definition may_release :: "ManagedLustre list \<Rightarrow> DaemonSet option \<Rightarrow> bool" where
  "may_release fss ds \<longleftrightarrow> (case ds of None \<Rightarrow> False
     | Some d \<Rightarrow> ds_ready d \<and> \<not> list_ex (\<lambda>fs. lus_DeletionTimestamp fs \<noteq> None \<and> lus_Name fs \<in> set (map vol_Name (Volumes (ds_PodSpec d)))) fss)"

lemma release_eq:
  "removeLustreFileSystemsFinalizersIfNecessary (manager_cluster_env vars keys) manager w =
     (if may_release (all_lustre w) (stored ds_key (mw_DaemonSets w) (mgr_Namespace manager, daemonsetName))
      then update_lustres (manager_cluster_env vars keys) 
             (map (\<lambda>fs. (fs, fs\<lparr>lus_Finalizers := RemoveFinalizer (lus_Finalizers fs) finalizer\<rparr>)) (filter (\<lambda>fs. ContainsFinalizer (lus_Finalizers fs) finalizer) (filter (\<lambda>fs. lus_DeletionTimestamp fs \<noteq> None) (all_lustre w)))) w
      else (Ok (), w))"
  by (auto simp: removeLustreFileSystemsFinalizersIfNecessary_def isDaemonSetReady_def list_lustre_def table_client_def
      lookup_res_def may_release_def list_ex_iff Let_def filter_empty_conv split: option.split)

lemma release_quiet:
  assumes run: "removeLustreFileSystemsFinalizersIfNecessary (manager_cluster_env vars keys) manager w = (Ok (), w')"
    and u: "mw_DaemonSets u = mw_DaemonSets w'" "stored_lustre u = stored_lustre w'" "mw_LustreKeys u = mw_LustreKeys w'"
  shows "removeLustreFileSystemsFinalizersIfNecessary (manager_cluster_env vars keys) manager u = (Ok (), u)"
proof (cases "may_release (all_lustre w) (stored ds_key (mw_DaemonSets w) (mgr_Namespace manager, daemonsetName))")
  case False
  then have "w' = w" using run unfolding release_eq by simp
  then show ?thesis using False u unfolding release_eq by simp
next
  case True
  then obtain ds where ds: "stored ds_key (mw_DaemonSets w) (mgr_Namespace manager, daemonsetName) = Some ds" "ds_ready ds"
      and free: "\<And>fs. fs \<in> set (all_lustre w) \<Longrightarrow> lus_DeletionTimestamp fs \<noteq> None \<Longrightarrow>
        lus_Name fs \<notin> set (map vol_Name (Volumes (ds_PodSpec ds)))"
    by (fastforce simp: may_release_def list_ex_iff split: option.splits)
  have "\<not> ContainsFinalizer (lus_Finalizers f) finalizer"
    if f: "f \<in> set (all_lustre u)" "lus_DeletionTimestamp f \<noteq> None" for f
  proof -
    have st: "stored_lustre w' (lus_key f) = Some f" using f(1) u by (simp add: listed_lustre)
    then obtain f0 where f0: "stored_lustre w (lus_key f) = Some f0" "lus_DeletionTimestamp f0 \<noteq> None"
      using lustre_current(3)[OF run, of "lus_key f"] f(2) by (metis option.inject)
    have mem: "f0 \<in> set (all_lustre w)" "lus_key f0 = lus_key f" using stored_lustre_key[OF f0(1)] f0(1) by (auto simp: listed_lustre)
    have "\<not> held (stored_lustre w') (lus_key f0)"
      by (rule lustre_current(5)[OF run _ mem(1) f0(2) _ _ free])
        (simp_all add: list_lustre_def table_client_def lookup_res_def isDaemonSetReady_def ds)
    then show ?thesis using st mem(2) by (simp add: held_def)
  qed
  then have "filter (\<lambda>fs. ContainsFinalizer (lus_Finalizers fs) finalizer) (filter (\<lambda>fs. lus_DeletionTimestamp fs \<noteq> None) (all_lustre u)) = []"
    by (auto simp: filter_empty_conv)
  then show ?thesis unfolding release_eq by simp
qed

section \<open>A fixed point\<close>

text \<open>After a run of all steps, the steps have nothing left to do, whatever the status of the manager becomes.\<close>

lemma steps_quiet:
  fixes vars keys manager
  defines "E \<equiv> manager_cluster_env vars keys"
  assumes run: "run_steps (manager_steps E manager) w = (Ok (), w6)" and ok: "mw_Faults w = []"
    and name: "mgr_Name manager \<noteq> deploymentName"
    and u: "mw_Secrets u = mw_Secrets w6" "mw_Deployments u = mw_Deployments w6" "mw_Services u = mw_Services w6"
      "mw_DaemonSets u = mw_DaemonSets w6" "stored_lustre u = stored_lustre w6" "mw_LustreKeys u = mw_LustreKeys w6" "mw_Faults u = []"
  shows "run_steps (manager_steps E manager) u = (Ok (), u)"
proof -
  obtain w1 w2 w3 w4 w5 where s1: "createSecretIfNecessary E manager w = (Ok (), w1)"
      and s2: "createOrUpdateDeploymentIfNecessary E manager w1 = (Ok (), w2)"
      and s3: "createOrUpdateServiceIfNecessary E manager w2 = (Ok (), w3)"
      and s4: "updateLustreFileSystemsIfNecessary E manager w3 = (Ok (), w4)"
      and s5: "createOrUpdateDaemonSetIfNecessary E manager w4 = (Ok (), w5)"
      and s6: "removeLustreFileSystemsFinalizersIfNecessary E manager w5 = (Ok (), w6)"
    using run by (auto simp: manager_steps_def split: prod.splits result.splits)
  note views = step_views[where vars = vars and keys = keys and manager = manager, folded E_def]
  have secrets: "mw_Secrets w6 = mw_Secrets w1"
    using views(1)[of mw_Secrets w1] views(2)[of mw_Secrets w2] views(3)[of mw_Secrets w4] views(4)[of mw_Secrets w3]
      views(5)[of mw_Secrets w5] s2 s3 s4 s5 s6 by simp
  have deployments: "mw_Deployments w6 = mw_Deployments w2"
    using views(2)[of mw_Deployments w2] views(3)[of mw_Deployments w4] views(4)[of mw_Deployments w3]
      views(5)[of mw_Deployments w5] s3 s4 s5 s6 by simp
  have services: "mw_Services w6 = mw_Services w3"
    using views(3)[of mw_Services w4] views(4)[of mw_Services w3] views(5)[of mw_Services w5] s4 s5 s6 by simp
  have daemonsets: "mw_DaemonSets w6 = mw_DaemonSets w5" using views(5)[of mw_DaemonSets w5] s6 by simp
  have lustre5: "stored_lustre w5 = stored_lustre w4" using views(3)[of stored_lustre w4] s5 by simp
  have keys5: "mw_LustreKeys w5 = mw_LustreKeys w4" using views(3)[of mw_LustreKeys w4] s5 by simp
  have "prepared manager w5"
    using prepared_after_update[OF s4[unfolded E_def]] lustre5 by (simp add: prepared_def)
  then have prep: "prepared manager u"
    using prepared_after_release[OF s6[unfolded E_def]] u(5) by (simp add: prepared_def)
  have live: "live_lustre (all_lustre u) = live_lustre (all_lustre w4)"
    using live_after_release[OF s6[unfolded E_def]] u(5,6) lustre5 keys5 by simp
  have "createSecretIfNecessary E manager u = (Ok (), u)"
    unfolding E_def by (rule secret_quiet[OF s1[unfolded E_def]]) (simp add: u secrets)
  moreover have "createOrUpdateDeploymentIfNecessary E manager u = (Ok (), u)"
    unfolding E_def by (rule deployment_quiet[OF s2[unfolded E_def] _ name]) (simp add: u deployments)
  moreover have "createOrUpdateServiceIfNecessary E manager u = (Ok (), u)"
    unfolding E_def by (rule service_quiet[OF s3[unfolded E_def]]) (simp add: u services)
  moreover have "updateLustreFileSystemsIfNecessary E manager u = (Ok (), u)"
    unfolding E_def by (rule lustre_quiet[OF prep u(7)])
  moreover have "createOrUpdateDaemonSetIfNecessary E manager u = (Ok (), u)"
    unfolding E_def by (rule daemonset_quiet[OF s5[unfolded E_def] _ live]) (simp add: u daemonsets)
  moreover have "removeLustreFileSystemsFinalizersIfNecessary E manager u = (Ok (), u)"
    unfolding E_def by (rule release_quiet[OF s6[unfolded E_def]]) (simp_all add: u)
  ultimately show ?thesis by (simp add: manager_steps_def)
qed

text \<open>The status of the manager has no part in the steps.\<close>

lemma owned_Ready: "owned_by what (manager\<lparr>Ready := b\<rparr>) = owned_by what manager"
  by (intro ext) (simp add: owned_by_def SetControllerReference_def split: option.split)

lemma Ready_sel:
  "mgr_Name (manager\<lparr>Ready := b\<rparr>) = mgr_Name manager" "mgr_Namespace (manager\<lparr>Ready := b\<rparr>) = mgr_Namespace manager"
  by simp_all

lemma mutate_Ready:
  "mutate_deployment (manager\<lparr>Ready := b\<rparr>) = mutate_deployment manager"
  "mutate_service (manager\<lparr>Ready := b\<rparr>) = mutate_service manager"
  "mutate_daemonset E (manager\<lparr>Ready := b\<rparr>) = mutate_daemonset E manager"
  by (intro ext; simp add: mutate_deployment_def mutate_service_def mutate_daemonset_def owned_Ready worker_podSpec_def
      setupSSHAuthVolumes_def setupLustreVolumes_def Let_def)+

lemma prepare_Ready: "prepare_lustre (manager\<lparr>Ready := b\<rparr>) = prepare_lustre manager"
  unfolding prepare_lustre_def[abs_def] Ready_sel ..

lemma ready_Ready: "isDaemonSetReady E (manager\<lparr>Ready := b\<rparr>) = isDaemonSetReady E manager"
  unfolding isDaemonSetReady_def[abs_def] Ready_sel ..

lemma steps_Ready: "manager_steps E (manager\<lparr>Ready := b\<rparr>) = manager_steps E manager"
  unfolding manager_steps_def createSecretIfNecessary_def[abs_def] createOrUpdateDeploymentIfNecessary_def[abs_def]
    createOrUpdateServiceIfNecessary_def[abs_def] updateLustreFileSystemsIfNecessary_def[abs_def]
    createOrUpdateDaemonSetIfNecessary_def[abs_def] removeLustreFileSystemsFinalizersIfNecessary_def[abs_def]
    newSecret_def[abs_def] mutate_Ready prepare_Ready ready_Ready owned_Ready Ready_sel ..

text \<open>
  C9. Reconciling the manager is idempotent: after a successful reconcile during which no write failed, another
  reconcile succeeds and leaves the whole cluster as it is. The keys are not made anew, the generation of the worker
  daemon set does not grow (the workers are not restarted) and no file system or status changes. The manager must
  not have the name of the deployment that it makes: then it would add to its own base deployment each time. The
  reads are current; by \<open>caught_up_reconcile\<close> the same holds of a client with a cache once no event waits for it.
\<close>

theorem manager_reconcile_converges:
  assumes run: "Manager_Reconcile (manager_cluster_env vars keys) req w = (Ok False, w')" and "mw_Faults w = []"
    and "snd req \<noteq> deploymentName"
  shows "Manager_Reconcile (manager_cluster_env vars keys) req w' = (Ok False, w')"
proof (cases "stored_manager w req")
  case None
  then have "w' = w" using run by (simp add: Manager_Reconcile_def lookup_res_def IgnoreNotFound_def)
  then show ?thesis using run by simp
next
  case (Some m)
  let ?E = "manager_cluster_env vars keys"
  have get: "g_GetManager ?E (fst req) (snd req) w = Ok m" using Some by (simp add: lookup_res_def)
  have key: "(mgr_Namespace m, mgr_Name m) = req" using Some by (auto simp: stored_manager_def dest: stored_key)
  obtain w6 where w6: "run_steps (manager_steps ?E m) w = (Ok (), w6)" by (rule reconcile_success[OF run, unfolded sync_current, OF get])
  have ok6: "mw_Faults w6 = []"
    by (rule run_steps_keep[where P = "\<lambda>w. mw_Faults w = []", OF w6 assms(2)]) (rule steps_ok)
  obtain b where b: "isDaemonSetReady ?E m w6 = Ok b"
    by (cases "stored ds_key (mw_DaemonSets w6) (mgr_Namespace m, daemonsetName)")
      (auto simp: isDaemonSetReady_def table_client_def lookup_res_def)
  have st6: "stored_manager w6 req = Some m" using mgr_status.run_keeps[OF w6] Some by simp
  have w': "w' = (if b = Ready m then w6 else mw_Managers_update (put_ready (m\<lparr>Ready := b\<rparr>)) w6)"
    using run get w6 b ok6 st6 key by (auto simp: Manager_Reconcile_def close_status_def api_call_ok simp del: manager_env_sel(3) split: if_splits)
  have m': "stored_manager w' req = Some (m\<lparr>Ready := b\<rparr>)"
    using key st6 by (auto simp: w' stored_manager_put put_ready_def)
  have "run_steps (manager_steps ?E m) w' = (Ok (), w')"
    by (rule steps_quiet[OF w6 assms(2)]) (use key assms(3) ok6 in \<open>auto simp: w'\<close>)
  moreover have "isDaemonSetReady ?E m w' = Ok b"
    using b by (simp add: w' isDaemonSetReady_def table_client_def)
  ultimately show ?thesis
    using m' by (simp add: Manager_Reconcile_def lookup_res_def steps_Ready ready_Ready close_status_def)
qed

theorem manager_reconcile_converges_witness:
  "Manager_Reconcile mdemo_env mdemo_req (mdemo_rolled ''beta'') = (Ok False, mdemo_done) \<and>
   Manager_Reconcile mdemo_env mdemo_req mdemo_done = (Ok False, mdemo_done)"
proof -
  have ok: "mw_Faults (mdemo_rolled ''beta'') = []" by code_simp
  have name: "snd mdemo_req \<noteq> deploymentName" by (simp add: deploymentName_def)
  show ?thesis
    using manager_reconcile_converges[OF mdemo_reconcile[unfolded mdemo_env_def] ok name] mdemo_reconcile
    unfolding mdemo_env_def by simp
qed

end
