(* ===== verification/Offload_Create.thy ===== *)
theory Offload_Create
  imports Offload_Types
begin

text \<open>
  Turning a copy-offload request into a data movement (\<^verbatim>\<open>daemons/copy-offload/pkg/driver/driver.go\<close>): the
  client mounts that translate the compute node's path to the rabbit's, the destination file system, the
  profile, and \<open>prepare_request\<close>, the part of \<open>Create\<close> that makes the data movement, its hostfile, its
  destination and its command. A nil device reference that the code dereferences is a panic.
\<close>

section \<open>Looking things up\<close>

definition workflow_labels :: "string \<Rightarrow> string \<Rightarrow> (string \<times> string) list" where
  "workflow_labels name namespace = [(WorkflowNameLabel, name), (WorkflowNamespaceLabel, namespace)]"

text \<open>The mounts of a list of client mounts, in the order of the two nested loops.\<close>

definition all_mounts :: "ClientMount list \<Rightarrow> (ClientMount \<times> ClientMountInfo) list" where
  "all_mounts cms = concat (map (\<lambda>cm. map (Pair cm) (cm_Mounts cm)) cms)"

definition findComputeMountInfo ::
  "('w, 'z) offload_env_scheme \<Rightarrow> string \<Rightarrow> string \<Rightarrow> DMRequest \<Rightarrow> 'w \<Rightarrow> (ClientMount \<times> ClientMountInfo) res" where
  "findComputeMountInfo E wfName wfNamespace dmreq w =
     bind_result (o_ListClientMounts E (ComputeName dmreq) (workflow_labels wfName wfNamespace) w) (\<lambda>cms.
       if cms = [] then Err (PlainErr (''no client mounts found for node '' @ [CHR 0x27] @ ComputeName dmreq @ [CHR 0x27]))
       else
         (case find (\<lambda>(cm, mount). HasPrefix (SourcePath dmreq) (MountPath mount)) (all_mounts cms) of
            None \<Rightarrow> Err (PlainErr (''source path not found in list of client mounts: '' @ SourcePath dmreq))
          | Some (cm, mount) \<Rightarrow>
              if device_Reference mount = None \<and> device_Type mount \<noteq> ''lustre''
              then Err (PlainErr (''ClientMount '' @ cm_Namespace cm @ ''/'' @ cm_Name cm @ '': Source path '' @ [CHR 0x27] @
                                  SourcePath dmreq @ [CHR 0x27] @ '' does not have device reference''))
              else Ok (cm, mount)))"

fun match_mount :: "DMRequest \<Rightarrow> ClientMountInfo \<Rightarrow> ClientMountInfo list \<Rightarrow> string res" where
  "match_mount dmreq compute [] =
     Err (PlainErr (''initiator not found in list of client mounts: '' @ ComputeName dmreq))"
| "match_mount dmreq compute (mount # mounts) =
     (case (device_Reference compute, device_Reference mount) of
        (Some c, Some m) \<Rightarrow>
          if c = m then Ok (MountPath mount @ TrimPrefix (SourcePath dmreq) (MountPath compute))
          else match_mount dmreq compute mounts
      | _ \<Rightarrow> Panic)"

definition findRabbitRelativeSource ::
  "('w, 'z) offload_env_scheme \<Rightarrow> string \<Rightarrow> string \<Rightarrow> string \<Rightarrow> DMRequest \<Rightarrow> ClientMountInfo \<Rightarrow> 'w \<Rightarrow> string res" where
  "findRabbitRelativeSource E wfName wfNamespace rabbit dmreq compute w =
     bind_result (o_ListClientMounts E rabbit (workflow_labels wfName wfNamespace) w) (\<lambda>cms.
       if cms = [] then Err (PlainErr (''no client mounts found for node '' @ [CHR 0x27] @ rabbit @ [CHR 0x27]))
       else match_mount dmreq compute (map snd (all_mounts cms)))"

definition with_slash :: "string \<Rightarrow> string" where
  "with_slash p = (if HasSuffix p ''/'' then p else p @ ''/'')"

definition findDestinationLustreFilesystem ::
  "('w, 'z) offload_env_scheme \<Rightarrow> string \<Rightarrow> 'w \<Rightarrow> LustreFileSystem res" where
  "findDestinationLustreFilesystem E dest w =
     (if \<not> IsAbs dest then Err (PlainErr ''destination must be an absolute path'')
      else
        (case o_ListLustreFileSystems E w of
           Panic \<Rightarrow> Panic
         | Err err \<Rightarrow> Err (PlainErr (''unable to list LustreFileSystem resources: '' @ Error err))
         | Ok [] \<Rightarrow> Err (PlainErr ''no LustreFileSystem resources found'')
         | Ok fss \<Rightarrow>
             (case find (\<lambda>fs. HasPrefix (with_slash dest) (with_slash (MountRoot fs))) fss of
                Some fs \<Rightarrow> Ok fs
              | None \<Rightarrow> Err (PlainErr (''unable to find a LustreFileSystem resource matching '' @ dest)))))"

definition selectProfile ::
  "('w, 'z) offload_env_scheme \<Rightarrow> DMRequest \<Rightarrow> 'w \<Rightarrow> NnfDataMovementProfile res" where
  "selectProfile E dmreq w =
     (let ns = ''nnf-system'';
          get = (\<lambda>name. case e_GetProfile E ns name w of
                   Ok profile \<Rightarrow> Ok profile
                 | Err err \<Rightarrow> Err (PlainErr (''unable to retrieve NnfDataMovementProfile: '' @ name))
                 | Panic \<Rightarrow> Panic)
      in if DMProfile dmreq \<noteq> [] then get (DMProfile dmreq)
         else
           bind_result (o_ListProfiles E ns w) (\<lambda>profiles.
             (case map prof_Name (filter (\<lambda>p. Default (prof_Data p)) profiles) of
                [] \<Rightarrow> Err (PlainErr ''unable to find a default NnfDataMovementProfile to use'')
              | [name] \<Rightarrow> get name
              | names \<Rightarrow>
                  Err (PlainErr (''more than one default NnfDataMovementProfile found; unable to pick one: ['' @
                                 Join names '' '' @ '']'')))))"

definition findRabbitNameFromCompute :: "('w, 'z) offload_env_scheme \<Rightarrow> string \<Rightarrow> 'w \<Rightarrow> string res" where
  "findRabbitNameFromCompute E compute w =
     (case o_GetSystemConfiguration E ''default'' ''default'' w of
        Panic \<Rightarrow> Panic
      | Err err \<Rightarrow> Err (WrapErr ''failed to retrieve system configuration: '' err [])
      | Ok storageNodes \<Rightarrow>
          (case find (\<lambda>n. compute \<in> set (ComputesAccess n)) storageNodes of
             Some n \<Rightarrow> Ok (sn_Name n)
           | None \<Rightarrow> Ok []))"

definition getDirectiveIndexFromClientMount :: "ClientMount \<Rightarrow> string res" where
  "getDirectiveIndexFromClientMount cm =
     (case cm_Labels cm of
        None \<Rightarrow> Err (PlainErr (''unable to find labels on compute ClientMount, namespaces='' @ cm_Namespace cm @
                               '', name='' @ cm_Name cm))
      | Some labels \<Rightarrow>
          (case map_of labels DirectiveIndexLabel of
             None \<Rightarrow> Err (PlainErr (''unable to find directive index label on compute ClientMount, namespace='' @
                                    cm_Namespace cm @ '' name='' @ cm_Name cm))
           | Some dwIndex \<Rightarrow> Ok dwIndex))"

section \<open>Making the data movement\<close>

definition nil_ref :: ObjectReference where
  "nil_ref = \<lparr>ref_Kind = [], ref_Name = [], ref_Namespace = []\<rparr>"

definition new_dm ::
  "string \<Rightarrow> (string \<times> string) list \<Rightarrow> string \<Rightarrow> ObjectReference \<Rightarrow> string \<Rightarrow> ObjectReference \<Rightarrow> NnfDataMovement" where
  "new_dm namespace labels source srcRef dest destRef =
     \<lparr>dm_Name = [], dm_Namespace = namespace, dm_Labels = labels, dm_Finalizers = [], dm_DeletionTimestamp = None,
      dm_ResourceVersion = 0,
      dm_Spec = \<lparr>Source = \<lparr>Path = source, StorageReference = srcRef\<rparr>,
                 Destination = \<lparr>Path = dest, StorageReference = destRef\<rparr>, UserId = 0, GroupId = 0,
                 Cancel = False, ProfileReference = nil_ref, UserConfig = None\<rparr>,
      dm_Status = empty_status\<rparr>"

definition nameBase :: string where "nameBase = ''nnf-copy-offload-''"
definition nodeNameBase :: string where "nodeNameBase = ''nnf-copy-offload-node-''"

definition device_object :: "ClientMountInfo \<Rightarrow> ObjectReference res" where
  "device_object m = (case device_Reference m of None \<Rightarrow> Panic | Some (r, d) \<Rightarrow> Ok r)"

definition createNnfDataMovement ::
  "('w, 'z) offload_env_scheme \<Rightarrow> string \<Rightarrow> string \<Rightarrow> string \<Rightarrow> DMRequest \<Rightarrow> ClientMountInfo \<Rightarrow> ClientMount \<Rightarrow> 'w \<Rightarrow>
   NnfDataMovement res" where
  "createNnfDataMovement E wfName wfNamespace rabbit dmreq compute computeClientMount w =
     bind_result (findRabbitRelativeSource E wfName wfNamespace rabbit dmreq compute w) (\<lambda>source.
     bind_result (getDirectiveIndexFromClientMount computeClientMount) (\<lambda>dwIndex.
     bind_result (findDestinationLustreFilesystem E (DestinationPath dmreq) w) (\<lambda>fs.
     bind_result (device_object compute) (\<lambda>ref.
       Ok (new_dm DataMovementNamespace
             [(DataMovementInitiatorLabel, ComputeName dmreq), (DirectiveIndexLabel, dwIndex)]
             source ref (DestinationPath dmreq)
             \<lparr>ref_Kind = ''LustreFileSystem'', ref_Name = lus_Name fs, ref_Namespace = lus_Namespace fs\<rparr>)))))"

definition createNnfNodeDataMovement ::
  "('w, 'z) offload_env_scheme \<Rightarrow> string \<Rightarrow> string \<Rightarrow> string \<Rightarrow> DMRequest \<Rightarrow> ClientMountInfo \<Rightarrow> 'w \<Rightarrow>
   NnfDataMovement res" where
  "createNnfNodeDataMovement E wfName wfNamespace rabbit dmreq compute w =
     bind_result (findRabbitRelativeSource E wfName wfNamespace rabbit dmreq compute w) (\<lambda>source.
     bind_result (device_object compute) (\<lambda>ref.
       Ok (new_dm rabbit [(DataMovementInitiatorLabel, ComputeName dmreq)] source ref (DestinationPath dmreq) nil_ref)))"

text \<open>What the driver collects for a request.\<close>

record DriverRequest =
  dmProfile :: NnfDataMovementProfile
  mpiHostfile :: string
  cmdArgs :: "string list"
  RabbitName :: string

text \<open>The part of \<^verbatim>\<open>Create\<close> that only reads: the data movement, its name prefix, and its profile.\<close>

definition plan_request ::
  "('w, 'z) offload_env_scheme \<Rightarrow> string \<Rightarrow> string \<Rightarrow> DMRequest \<Rightarrow> 'w \<Rightarrow>
   (string \<times> string \<times> NnfDataMovementProfile \<times> NnfDataMovement) res" where
  "plan_request E wfName wfNamespace dmreq w =
     bind_result (o_GetWorkflow E wfNamespace wfName w) (\<lambda>workflow.
     if wf_State workflow \<noteq> ''PreRun'' \<or> wf_Status workflow \<noteq> ''Completed''
     then Err (PlainErr (''workflow must be in '' @ [CHR 0x27] @ ''PreRun'' @ [CHR 0x27] @ '' state and '' @ [CHR 0x27] @
                         ''Completed'' @ [CHR 0x27] @ '' status''))
     else
     bind_result (findComputeMountInfo E wfName wfNamespace dmreq w) (\<lambda>(cm, mount).
     bind_result (findRabbitNameFromCompute E (ComputeName dmreq) w) (\<lambda>rabbit.
     bind_result
       (if mount_Type mount = ''lustre''
        then bind_result (createNnfDataMovement E wfName wfNamespace rabbit dmreq mount cm w) (\<lambda>dm. Ok (nameBase, dm))
        else if mount_Type mount = ''gfs2''
        then bind_result (createNnfNodeDataMovement E wfName wfNamespace rabbit dmreq mount w) (\<lambda>dm. Ok (nodeNameBase, dm))
        else Err (PlainErr ''filesystem not supported'')) (\<lambda>(base, dm).
     bind_result (selectProfile E dmreq w) (\<lambda>profile.
       (let spec = (dm_Spec dm)\<lparr>ProfileReference := \<lparr>ref_Kind = KindNnfDataMovementProfile, ref_Name = prof_Name profile,
                                                   ref_Namespace = prof_Namespace profile\<rparr>,
                                UserId := wf_UserID workflow, GroupId := wf_GroupID workflow\<rparr>;
            dm = AddDataMovementTeardownStateLabel ''PostRun''
                   (AddOwnerLabels workflow (AddWorkflowLabels workflow (dm\<lparr>dm_Spec := spec\<rparr>)))
        in Ok (rabbit, base, profile, setUserConfig dmreq dm)))))))"

text \<open>The rest of \<^verbatim>\<open>Create\<close> up to the recorded request: hostfile, destination, command, and the resource.\<close>

definition prepare_request ::
  "('w, 'z) offload_env_scheme \<Rightarrow> string \<Rightarrow> string \<Rightarrow> DMRequest \<Rightarrow> 'w \<Rightarrow>
   (DriverRequest \<times> NnfDataMovement) res \<times> 'w" where
  "prepare_request E wfName wfNamespace dmreq w =
     (case plan_request E wfName wfNamespace dmreq w of
        Panic \<Rightarrow> (Panic, w)
      | Err err \<Rightarrow> (Err err, w)
      | Ok (rabbit, base, profile, dm) \<Rightarrow>
     (case bind_result (GetStorageNodeNames E dm w)
             (\<lambda>nodes. GetCopyOffloadWorkerHostnames E nodes wfName wfNamespace dm w) of
        Panic \<Rightarrow> (Panic, w)
      | Err err \<Rightarrow> (Err err, w)
      | Ok hosts \<Rightarrow>
     (case CreateMpiHostfile E profile hosts dm w of
        (Panic, w1) \<Rightarrow> (Panic, w1)
      | (Err err, w1) \<Rightarrow> (Err err, w1)
      | (Ok hostfile, w1) \<Rightarrow>
     (case PrepareDestination E profile dm hostfile w1 of
        ((Panic, dm1), w2) \<Rightarrow> (Panic, w2)
      | ((Err err, dm1), w2) \<Rightarrow> (Err err, w2)
      | ((Ok _, dm1), w2) \<Rightarrow>
     (case BuildDMCommand profile hostfile False dm1 of
        Panic \<Rightarrow> (Panic, w2)
      | Err err \<Rightarrow> (Err err, w2)
      | Ok args \<Rightarrow>
     (case o_CreateDm E base dm1 w2 of
        (Panic, w3) \<Rightarrow> (Panic, w3)
      | (Err err, w3) \<Rightarrow> (Err err, w3)
      | (Ok dm2, w3) \<Rightarrow>
          (Ok (\<lparr>dmProfile = profile, mpiHostfile = hostfile, cmdArgs = args, RabbitName = rabbit\<rparr>, dm2), w3)))))))"

end
