(* ===== verification/Offload_Driver.thy ===== *)
theory Offload_Driver
  imports Offload_Create "HOL-Library.List_Lexorder" "HOL-Library.Char_ord"
begin

text \<open>
  The driver of the copy-offload daemon (\<^verbatim>\<open>daemons/copy-offload/pkg/driver/driver.go\<close>): the map of active
  requests and the set of completions, \<open>Create\<close> and \<open>Drive\<close>, the goroutine that runs the command,
  cancellation, status and listing. In mock mode the driver makes up its data movements, runs a \<^verbatim>\<open>sleep\<close> for
  each and does not use the API server.

  A request is tracked under \<open>dmKey\<close>; its record holds the number of its cancellable context, under which its
  goroutine runs. The variable \<^verbatim>\<open>err\<close> of the goroutine is shared with the closure that reports progress, so
  it is part of the goroutine's state. In mock mode the record of a request also points to its data movement,
  whose start and progress are written in place: \<open>drv_mockDM\<close> is the object behind the pointer, by context.
\<close>

section \<open>State\<close>

record OffloadRun =
  or_dm :: NnfDataMovement
  or_profile :: NnfDataMovementProfile
  or_hostfile :: string
  or_cmdStatus :: NnfDataMovementCommandStatus
  or_parseBuf :: string
  or_combinedOut :: string
  or_progressStart :: time
  or_err :: "goerr option"

record 'w driver =
  Mock :: bool
  MockCount :: nat
  WorkflowName :: string
  WorkflowNamespace :: string
  drv_world :: 'w
  drv_contexts :: "(string \<times> nat) list"
  drv_cancelled :: "nat \<Rightarrow> bool"
  drv_next :: nat
  drv_mockDM :: "nat \<Rightarrow> NnfDataMovement option"
  drv_completions :: "string list"
  drv_running :: "nat \<Rightarrow> OffloadRun option"

definition dmKey :: "NnfDataMovement \<Rightarrow> string" where
  "dmKey dm = dm_Namespace dm @ ''--'' @ dm_Name dm"

definition dmKeySplit :: "string \<Rightarrow> (string \<times> string) res" where
  "dmKeySplit key = (case Split key ''--'' of a # b # _ \<Rightarrow> Ok (a, b) | _ \<Rightarrow> Panic)"

definition recordRequest :: "NnfDataMovement \<Rightarrow> 'w driver \<Rightarrow> 'w driver" where
  "recordRequest dm s =
     s\<lparr>drv_contexts := AList.update (dmKey dm) (drv_next s) (drv_contexts s), drv_next := Suc (drv_next s),
       drv_cancelled := (drv_cancelled s)(drv_next s := False),
       drv_mockDM := (drv_mockDM s)(drv_next s := if Mock s then Some dm else None)\<rparr>"

definition loadRequestByName :: "string \<Rightarrow> 'w driver \<Rightarrow> nat res" where
  "loadRequestByName name s =
     (case map_of (drv_contexts s) name of None \<Rightarrow> Err (PlainErr ''request not found'') | Some i \<Rightarrow> Ok i)"

definition deleteRequest :: "NnfDataMovement \<Rightarrow> 'w driver \<Rightarrow> 'w driver" where
  "deleteRequest dm s = s\<lparr>drv_contexts := AList.delete (dmKey dm) (drv_contexts s)\<rparr>"

definition notifyCompletion :: "NnfDataMovement \<Rightarrow> 'w driver \<Rightarrow> 'w driver" where
  "notifyCompletion dm s = s\<lparr>drv_completions := List.insert (dmKey dm) (drv_completions s)\<rparr>"

definition deleteCompletionByName :: "string \<Rightarrow> 'w driver \<Rightarrow> 'w driver" where
  "deleteCompletionByName name s = s\<lparr>drv_completions := filter (\<lambda>k. k \<noteq> name) (drv_completions s)\<rparr>"

definition ListRequests :: "'w driver \<Rightarrow> string list" where
  "ListRequests s = sort (map fst (drv_contexts s))"

definition CancelRequest :: "string \<Rightarrow> 'w driver \<Rightarrow> unit res \<times> 'w driver" where
  "CancelRequest name s =
     (case loadRequestByName name s of
        Ok i \<Rightarrow> (Ok (), s\<lparr>drv_cancelled := (drv_cancelled s)(i := True)\<rparr>)
      | Err err \<Rightarrow> if name \<in> set (drv_completions s) then (Ok (), s) else (Err err, s)
      | Panic \<Rightarrow> (Panic, s))"

section \<open>Retrying conflicting updates\<close>

text \<open>\<^verbatim>\<open>retry.OnError\<close> with the five steps of \<^verbatim>\<open>DefaultRetry\<close>; the sleeps between the attempts are not modelled.\<close>

fun OnError :: "nat \<Rightarrow> (goerr \<Rightarrow> bool) \<Rightarrow> ('w \<Rightarrow> unit res \<times> 'w) \<Rightarrow> 'w \<Rightarrow> unit res \<times> 'w" where
  "OnError 0 retriable f w = (Ok (), w)"
| "OnError (Suc n) retriable f w =
     (case f w of
        (Err err, w') \<Rightarrow> if retriable err \<and> n \<noteq> 0 then OnError n retriable f w' else (Err err, w')
      | (r, w') \<Rightarrow> (r, w'))"

definition RetryOnConflict :: "('w \<Rightarrow> unit res \<times> 'w) \<Rightarrow> 'w \<Rightarrow> unit res \<times> 'w" where
  "RetryOnConflict = OnError 5 IsConflict"

text \<open>
  The functions the driver retries: read the data movement (one that is gone is no error), change its
  status, and write it.
\<close>

definition modify_status ::
  "('w, 'z) env_scheme \<Rightarrow> string \<times> string \<Rightarrow> (NnfDataMovementStatus \<Rightarrow> NnfDataMovementStatus) \<Rightarrow> 'w \<Rightarrow> unit res \<times> 'w" where
  "modify_status E dmReq change w =
     (case e_GetDm E (fst dmReq) (snd dmReq) w of
        Panic \<Rightarrow> (Panic, w)
      | Err err \<Rightarrow> (case IgnoreNotFound err of None \<Rightarrow> (Ok (), w) | Some e \<Rightarrow> (Err e, w))
      | Ok dm \<Rightarrow>
          (case e_UpdateDmStatus E (dm\<lparr>dm_Status := change (dm_Status dm)\<rparr>) w of
             (Ok dm', w') \<Rightarrow> (Ok (), w')
           | (Err err, w') \<Rightarrow> (Err err, w')
           | (Panic, w') \<Rightarrow> (Panic, w')))"

section \<open>Creating and driving a request\<close>

definition Create ::
  "('w, 'z) offload_env_scheme \<Rightarrow> DMRequest \<Rightarrow> 'w driver \<Rightarrow> (string \<times> DriverRequest \<times> NnfDataMovement) res \<times> 'w driver" where
  "Create E dmreq s =
     (case prepare_request E (WorkflowName s) (WorkflowNamespace s) dmreq (drv_world s) of
        (Ok (r, dm), w') \<Rightarrow> (Ok (dmKey dm, r, dm), recordRequest dm (s\<lparr>drv_world := w'\<rparr>))
      | (Err err, w') \<Rightarrow> (Err err, s\<lparr>drv_world := w'\<rparr>)
      | (Panic, w') \<Rightarrow> (Panic, s\<lparr>drv_world := w'\<rparr>))"

text \<open>In mock mode the name is counted, and the hostfile is empty.\<close>

definition mock_profile :: NnfDataMovementProfile where
  "mock_profile =
     \<lparr>prof_Name = ''mock'', prof_Namespace = DataMovementNamespace,
      prof_Data = \<lparr>Default = False, prof_Slots = 0, prof_MaxSlots = 0, prof_Command = ''sleep 300'',
        prof_LogStdout = False, prof_StoreStdout = False, ProgressIntervalSeconds = 1,
        CreateDestDir = False, StatCommand = [], MkdirCommand = [], SetprivCommand = []\<rparr>\<rparr>"

definition CreateMock ::
  "DMRequest \<Rightarrow> 'w driver \<Rightarrow> (string \<times> DriverRequest \<times> NnfDataMovement) res \<times> 'w driver" where
  "CreateMock dmreq s =
     (let rabbit = ''mock-rabbit-01'';
          dm = setUserConfig dmreq (new_dm rabbit [(DataMovementInitiatorLabel, ComputeName dmreq)]
                 (SourcePath dmreq) nil_ref (DestinationPath dmreq) nil_ref);
          dm = dm\<lparr>dm_Name := nodeNameBase @ show_nat (MockCount s)\<rparr>;
          s1 = s\<lparr>MockCount := Suc (MockCount s)\<rparr>
      in case BuildDMCommand mock_profile [] False dm of
           Panic \<Rightarrow> (Panic, s1)
         | Err err \<Rightarrow> (Err err, s1)
         | Ok args \<Rightarrow>
             (Ok (dmKey dm, \<lparr>dmProfile = mock_profile, mpiHostfile = [], cmdArgs = args, RabbitName = rabbit\<rparr>, dm),
              recordRequest dm s1))"

text \<open>A write through the pointer of the record of context \<open>i\<close>, which is nil unless the driver is in mock mode.\<close>

definition set_mockDM :: "nat \<Rightarrow> (NnfDataMovementStatus \<Rightarrow> NnfDataMovementStatus) \<Rightarrow> 'w driver \<Rightarrow> 'w driver" where
  "set_mockDM i change s =
     s\<lparr>drv_mockDM := (drv_mockDM s)(i := map_option (\<lambda>dm. dm\<lparr>dm_Status := change (dm_Status dm)\<rparr>) (drv_mockDM s i))\<rparr>"

definition start_status ::
  "time \<Rightarrow> NnfDataMovementCommandStatus \<Rightarrow> NnfDataMovementStatus \<Rightarrow> NnfDataMovementStatus" where
  "start_status now cmdStatus st =
     st\<lparr>StartTime := Some now, State := TypeRunning, CommandStatus := Some cmdStatus\<rparr>"

definition driveWithContext ::
  "('w, 'z) env_scheme \<Rightarrow> DriverRequest \<Rightarrow> nat \<Rightarrow> NnfDataMovement \<Rightarrow> 'w driver \<Rightarrow> unit res \<times> 'w driver" where
  "driveWithContext E r ctx dm s =
     (let cmdStatus = empty_CommandStatus\<lparr>Command := ''/bin/bash -c '' @ Join (cmdArgs r) '' ''\<rparr>;
          setStart = (\<lambda>w. start_status (e_Now E w) cmdStatus)
      in case (if \<not> Mock s
               then RetryOnConflict (\<lambda>w. modify_status E (dm_Namespace dm, dm_Name dm) (setStart w) w) (drv_world s)
               else (Ok (), drv_world s)) of
           (Err err, w') \<Rightarrow> (Err err, s\<lparr>drv_world := w'\<rparr>)
         | (Panic, w') \<Rightarrow> (Panic, s\<lparr>drv_world := w'\<rparr>)
         | (Ok _, w') \<Rightarrow>
             (Ok (), (set_mockDM ctx (setStart (drv_world s)) s)\<lparr>drv_world := w', drv_running := (drv_running s)(ctx \<mapsto>
                \<lparr>or_dm = dm, or_profile = dmProfile r, or_hostfile = mpiHostfile r, or_cmdStatus = cmdStatus,
                 or_parseBuf = [], or_combinedOut = [], or_progressStart = e_Now E w', or_err = None\<rparr>)\<rparr>))"

definition Drive ::
  "('w, 'z) env_scheme \<Rightarrow> DriverRequest \<Rightarrow> NnfDataMovement \<Rightarrow> 'w driver \<Rightarrow> unit res \<times> 'w driver" where
  "Drive E r dm s =
     (case loadRequestByName (dmKey dm) s of
        Panic \<Rightarrow> (Panic, s)
      | Err err \<Rightarrow> (Err err, s)
      | Ok ctx \<Rightarrow>
          (case driveWithContext E r ctx dm s of
             (Err err, s1) \<Rightarrow>
               (Err err, notifyCompletion dm (deleteRequest dm
                  (s1\<lparr>drv_world := e_RemoveAll E (Dir (mpiHostfile r)) (drv_world s1)\<rparr>)))
           | other \<Rightarrow> other))"

definition DriveMock ::
  "('w, 'z) env_scheme \<Rightarrow> DriverRequest \<Rightarrow> NnfDataMovement \<Rightarrow> 'w driver \<Rightarrow> unit res \<times> 'w driver" where
  "DriveMock E r dm s =
     (case loadRequestByName (dmKey dm) s of
        Panic \<Rightarrow> (Panic, s)
      | Err err \<Rightarrow> (Err err, s)
      | Ok ctx \<Rightarrow>
          (case driveWithContext E r ctx dm s of
             (Err err, s1) \<Rightarrow> (Err err, notifyCompletion dm (deleteRequest dm s1))
           | other \<Rightarrow> other))"

section \<open>The goroutine\<close>

definition offload_output :: "nat \<Rightarrow> string \<Rightarrow> 'w driver \<Rightarrow> 'w driver" where
  "offload_output i out s =
     (case drv_running s i of
        None \<Rightarrow> s
      | Some run \<Rightarrow>
          s\<lparr>drv_running := (drv_running s)(i \<mapsto>
              run\<lparr>or_parseBuf := or_parseBuf run @ out, or_combinedOut := or_combinedOut run @ out\<rparr>)\<rparr>)"

text \<open>
  The closure \<^verbatim>\<open>parseAndUpdateProgress\<close>: when all lines were parsed, it assigns the result of its update to
  the \<^verbatim>\<open>err\<close> of the goroutine. In mock mode there is no update; the data movement has a pointer to the command
  status.
\<close>

definition offload_progress :: "('w, 'z) env_scheme \<Rightarrow> nat \<Rightarrow> 'w driver \<Rightarrow> 'w driver" where
  "offload_progress E i s =
     (case drv_running s i of
        None \<Rightarrow> s
      | Some run \<Rightarrow>
          (case read_progress (or_progressStart run) (e_Now E (drv_world s)) (or_parseBuf run) (or_cmdStatus run) of
             (complete, rest, cmdStatus) \<Rightarrow>
               (let run1 = run\<lparr>or_parseBuf := rest, or_cmdStatus := cmdStatus\<rparr>;
                    setStatus = (\<lambda>st. st\<lparr>CommandStatus := Some cmdStatus\<rparr>);
                    s1 = (set_mockDM i setStatus s)\<lparr>drv_running := (drv_running s)(i \<mapsto> run1)\<rparr>
                in if \<not> complete \<or> Mock s then s1
                   else
                     (case RetryOnConflict (modify_status E (dm_Namespace (or_dm run), dm_Name (or_dm run)) setStatus)
                             (drv_world s) of
                        (r, w') \<Rightarrow>
                          s1\<lparr>drv_world := w', drv_running := (drv_running s1)(i \<mapsto>
                             run1\<lparr>or_err := (case r of Err e \<Rightarrow> Some e | _ \<Rightarrow> None)\<rparr>)\<rparr>))))"

text \<open>The status when the command has ended, computed from the data movement as it is read then.\<close>

definition offload_final_status ::
  "time \<Rightarrow> bool \<Rightarrow> goerr option \<Rightarrow> OffloadRun \<Rightarrow> NnfDataMovement \<Rightarrow> NnfDataMovementStatus" where
  "offload_final_status now wasCancelled err run dm =
     (let st = (dm_Status dm)\<lparr>EndTime := Some now, State := TypeFinished, Status := ReasonSuccess\<rparr>;
          output = TrimDcpProgressFromOutput (or_combinedOut run);
          storeStdout = (prof_StoreStdout (prof_Data (or_profile run)) \<or>
             (case UserConfig (dm_Spec dm) of None \<Rightarrow> False | Some cfg \<Rightarrow> StoreStdout cfg))
      in if wasCancelled then st\<lparr>Status := ReasonCancelled\<rparr>
         else case err of
           Some e \<Rightarrow>
             st\<lparr>Status := ReasonFailed, Message := Error e @ '': '' @ output,
                ErrorInfo := SetResourceError (ResErr (WithFatal
                  (WithUserMessage (''data movement operation failed: '' @ output)
                    (WithError e (NewResourceError [])))))\<rparr>
         | None \<Rightarrow> if storeStdout then st\<lparr>Message := output\<rparr> else st)"

text \<open>What happens when the command has ended: its result is noted, and what is left of the output is reported.\<close>

definition last_report ::
  "('w, 'z) env_scheme \<Rightarrow> nat \<Rightarrow> goerr option \<Rightarrow> OffloadRun \<Rightarrow> 'w driver \<Rightarrow> 'w driver" where
  "last_report E i werr run s =
     (let s0 = s\<lparr>drv_running := (drv_running s)(i \<mapsto> run\<lparr>or_err := werr\<rparr>)\<rparr>
      in if ProgressCollectionEnabled (progressCollectInterval (or_profile run)) then offload_progress E i s0 else s0)"

text \<open>
  The final write copies the command status into the one of the computed status, which must exist by then: the
  pointer is followed after the data movement was read.
\<close>

definition final_update ::
  "('w, 'z) env_scheme \<Rightarrow> string \<times> string \<Rightarrow> NnfDataMovementStatus \<Rightarrow> NnfDataMovementCommandStatus \<Rightarrow>
   'w \<Rightarrow> unit res \<times> 'w" where
  "final_update E dmReq status cmdStatus w =
     (case e_GetDm E (fst dmReq) (snd dmReq) w of
        Panic \<Rightarrow> (Panic, w)
      | Err err \<Rightarrow> (case IgnoreNotFound err of None \<Rightarrow> (Ok (), w) | Some e \<Rightarrow> (Err e, w))
      | Ok dm \<Rightarrow>
          if CommandStatus status = None then (Panic, w)
          else
            (case e_UpdateDmStatus E (dm\<lparr>dm_Status := status\<lparr>CommandStatus := Some cmdStatus\<rparr>\<rparr>) w of
               (Ok dm', w') \<Rightarrow> (Ok (), w')
             | (Err err, w') \<Rightarrow> (Err err, w')
             | (Panic, w') \<Rightarrow> (Panic, w')))"

text \<open>
  The end of the goroutine. \<open>Panic\<close> in a goroutine ends the daemon. In mock mode the final status is that of a
  data movement nobody else has, and it is dropped.
\<close>

definition zero_dm :: NnfDataMovement where
  "zero_dm = new_dm [] [] [] nil_ref [] nil_ref"

definition finish_offload ::
  "('w, 'z) env_scheme \<Rightarrow> nat \<Rightarrow> goerr option \<Rightarrow> 'w driver \<Rightarrow> unit res \<times> 'w driver" where
  "finish_offload E i werr s =
     (case drv_running s i of
        None \<Rightarrow> (Ok (), s)
      | Some run0 \<Rightarrow>
          (let s1 = last_report E i werr run0 s
           in case drv_running s1 i of
                None \<Rightarrow> (Ok (), s1)
              | Some run \<Rightarrow>
                  (let dmReq = (dm_Namespace (or_dm run), dm_Name (or_dm run));
                       stop = s1\<lparr>drv_running := (drv_running s1)(i := None)\<rparr>
                   in case (if \<not> Mock s1 then e_GetDm E (fst dmReq) (snd dmReq) (drv_world s1) else Ok zero_dm) of
                        Panic \<Rightarrow> (Panic, stop)
                      | Err err \<Rightarrow> (Ok (), stop)
                      | Ok dm \<Rightarrow>
                          (let status = offload_final_status (e_Now E (drv_world s1)) (drv_cancelled s1 i) (or_err run) run dm;
                               w1 = e_RemoveAll E (Dir (or_hostfile run)) (drv_world s1)
                           in case (if \<not> Mock s1 then RetryOnConflict (final_update E dmReq status (or_cmdStatus run)) w1
                                    else (Ok (), w1)) of
                                (Panic, w2) \<Rightarrow> (Panic, stop\<lparr>drv_world := w2\<rparr>)
                              | (_, w2) \<Rightarrow>
                                  (Ok (), notifyCompletion (or_dm run) (deleteRequest (or_dm run)
                                     (stop\<lparr>drv_world := w2\<rparr>)))))))"

section \<open>Status\<close>

definition buildStatusResponse ::
  "StatusRequest \<Rightarrow> NnfDataMovement \<Rightarrow> 'w driver \<Rightarrow> (DataMovementStatusResponse, int \<times> goerr) sum \<times> 'w driver" where
  "buildStatusResponse statreq dm s =
     (let st = dm_Status dm
      in if StartTime st = None \<and> Status st \<noteq> ReasonInvalid then
           (Inl \<lparr>resp_State = PENDING, resp_Status = UNKNOWN_STATUS, resp_Message = [], resp_CommandStatus = None,
                 resp_StartTime = None, resp_EndTime = None\<rparr>, s)
         else
           (case map_of [([], UNKNOWN_STATE), (TypeStarting, STARTING), (TypeRunning, RUNNING), (TypeFinished, COMPLETED)]
                   (State st) of
              None \<Rightarrow> (Inr (500, PlainErr ''failed to decode returned state''), s)
            | Some state0 \<Rightarrow>
                (let state = (if state0 \<noteq> COMPLETED \<and> Cancel (dm_Spec dm) then CANCELLING else state0)
                 in case map_of [([], UNKNOWN_STATUS), (ReasonFailed, FAILED), (ReasonSuccess, SUCCESS),
                                 (ReasonInvalid, INVALID), (ReasonCancelled, CANCELLED)] (Status st) of
                      None \<Rightarrow> (Inr (500, PlainErr ''failed to decode returned status''), s)
                    | Some status \<Rightarrow>
                        (let cs = (case CommandStatus st of
                               None \<Rightarrow> \<lparr>cs_Command = [], cs_Progress = 0, cs_ElapsedTime = None, cs_LastMessage = [],
                                        cs_LastMessageTime = None\<rparr>
                             | Some c \<Rightarrow>
                                 \<lparr>cs_Command = Command c,
                                  cs_Progress = (case ProgressPercentage c of None \<Rightarrow> 0 | Some p \<Rightarrow> p),
                                  cs_ElapsedTime = (if ElapsedTime c > 0
                                                    then Some (ElapsedTime c - ElapsedTime c mod 1000000) else None),
                                  cs_LastMessage = LastMessage c, cs_LastMessageTime = LastMessageTime c\<rparr>)
                         in (Inl \<lparr>resp_State = state, resp_Status = status, resp_Message = Message st,
                                  resp_CommandStatus = Some cs, resp_StartTime = StartTime st, resp_EndTime = EndTime st\<rparr>,
                             if state = COMPLETED \<and> EndTime st \<noteq> None
                             then deleteCompletionByName (RequestName statreq) s else s)))))"

text \<open>
  How long \<^verbatim>\<open>waitForCompletionOrTimeout\<close> waits at most, in nanoseconds, and where the wait ends in a
  sequence of observations (the time waited and the driver at that time): at the first one that holds the
  completion or is past the limit, otherwise at the last one.
\<close>

definition max_wait :: "64 word \<Rightarrow> 64 word" where
  "max_wait secs =
     (if sint secs < 0 \<or> sint secs > (2 ^ 63 - 1) div 1000000000 then word_of_int (2 ^ 63 - 1) else secs * 1000000000)"

fun waitForCompletionOrTimeout :: "StatusRequest \<Rightarrow> 'w driver \<Rightarrow> (int \<times> 'w driver) list \<Rightarrow> 'w driver" where
  "waitForCompletionOrTimeout statreq s [] = s"
| "waitForCompletionOrTimeout statreq s ((elapsed, t) # obs) =
     (if RequestName statreq \<in> set (drv_completions t) \<or> sint (max_wait (MaxWaitSecs statreq)) \<le> elapsed then t
      else waitForCompletionOrTimeout statreq t obs)"

text \<open>Indexing a map of Go with a key it does not have gives the empty string.\<close>

definition label_of :: "NnfDataMovement \<Rightarrow> string \<Rightarrow> string" where
  "label_of dm k = (case map_of (dm_Labels dm) k of None \<Rightarrow> [] | Some v \<Rightarrow> v)"

text \<open>The static start time is \<^verbatim>\<open>2025-04-01 11:46:36.535519 -0500\<close>; a nil pointer is a panic.\<close>

definition GetRequestMock ::
  "StatusRequest \<Rightarrow> 'w driver \<Rightarrow> (DataMovementStatusResponse, int \<times> goerr) sum res \<times> 'w driver" where
  "GetRequestMock statreq s =
     (case loadRequestByName (RequestName statreq) s of
        Panic \<Rightarrow> (Panic, s)
      | Err err \<Rightarrow> (Ok (Inr (404, PlainErr ''request not found'')), s)
      | Ok ctx \<Rightarrow>
          (case drv_mockDM s ctx of
             None \<Rightarrow> (Panic, s)
           | Some dm \<Rightarrow>
               (case buildStatusResponse statreq dm s of
                  (Inr e, s') \<Rightarrow> (Panic, s')
                | (Inl resp, s') \<Rightarrow> (Ok (Inl (resp\<lparr>resp_StartTime := Some 1743525996535519000\<rparr>)), s'))))"

definition GetRequest ::
  "('w, 'z) env_scheme \<Rightarrow> StatusRequest \<Rightarrow> (int \<times> 'w driver) list \<Rightarrow> 'w driver \<Rightarrow>
   (DataMovementStatusResponse, int \<times> goerr) sum res \<times> 'w driver" where
  "GetRequest E statreq obs s =
     (case dmKeySplit (RequestName statreq) of
        Panic \<Rightarrow> (Panic, s)
      | Err err \<Rightarrow> (Err err, s)
      | Ok (keyNS, keyName) \<Rightarrow>
          (case e_GetDm E keyNS keyName (drv_world s) of
             Panic \<Rightarrow> (Panic, s)
           | Err err \<Rightarrow>
               if IsNotFound err
               then (Ok (Inr (404, PlainErr ''request not found'')), deleteCompletionByName (RequestName statreq) s)
               else (Ok (Inr (500, err)), s)
           | Ok dm \<Rightarrow>
               if label_of dm WorkflowNameLabel \<noteq> WorkflowName s \<or>
                  label_of dm WorkflowNamespaceLabel \<noteq> WorkflowNamespace s
               then (Ok (Inr (400, PlainErr ''request does not belong to workflow'')), s)
               else if EndTime (dm_Status dm) = None \<and> MaxWaitSecs statreq \<noteq> 0 then
                 (let t = waitForCompletionOrTimeout statreq s obs
                  in case e_GetDm E keyNS keyName (drv_world t) of
                       Panic \<Rightarrow> (Panic, t)
                     | Err err \<Rightarrow>
                         if IsNotFound err
                         then (Ok (Inr (404, PlainErr ''request not found after waiting for completion'')),
                               deleteCompletionByName (RequestName statreq) t)
                         else (Ok (Inr (500, err)), t)
                     | Ok dm' \<Rightarrow> map_prod Ok id (buildStatusResponse statreq dm' t))
               else map_prod Ok id (buildStatusResponse statreq dm s)))"

end
