(* ===== verification/Offload_Machine.thy ===== *)
theory Offload_Machine
  imports Offload_Driver
begin

text \<open>
  The copy-offload daemon as a state machine: the driver together with the requests that a handler has
  created and not yet driven. A step of its own is one call of a driver operation or one event of a goroutine. The invariant says that the daemon tracks every command it runs; the
  life cycle of a request is the abstract specification that every step refines.
\<close>

section \<open>The machine\<close>

type_synonym 'w daemon = "'w driver \<times> (DriverRequest \<times> NnfDataMovement) list"

text \<open>
  The name of a new data movement is generated by the API server: the step \<open>create\<close> assumes that it is
  not the name of a request the daemon tracks. A status request only touches the driver after its wait,
  so it is one step, taken when the wait has ended. A goroutine that panics ends the daemon, so there
  is no such step; a panic in a handler only ends the handler. The server calls the mock operations exactly
  when the driver is in mock mode, since \<^verbatim>\<open>main\<close> gives both the same flag.
\<close>

inductive daemon_step :: "('w, 'z) offload_env_scheme \<Rightarrow> 'w daemon \<Rightarrow> 'w daemon \<Rightarrow> bool"
  for E where
  create: "\<not> Mock s \<Longrightarrow> Create E dmreq s = (Ok (k, r, dm), s') \<Longrightarrow> map_of (drv_contexts s) k = None \<Longrightarrow>
           daemon_step E (s, p) (s', (r, dm) # p)"
| create_fails: "\<not> Mock s \<Longrightarrow> Create E dmreq s = (res, s') \<Longrightarrow> (\<And>v. res \<noteq> Ok v) \<Longrightarrow> daemon_step E (s, p) (s', p)"
| create_mock: "Mock s \<Longrightarrow> CreateMock dmreq s = (Ok (k, r, dm), s') \<Longrightarrow> daemon_step E (s, p) (s', (r, dm) # p)"
| create_mock_fails: "Mock s \<Longrightarrow> CreateMock dmreq s = (res, s') \<Longrightarrow> (\<And>v. res \<noteq> Ok v) \<Longrightarrow> daemon_step E (s, p) (s', p)"
| drive: "\<not> Mock s \<Longrightarrow> (r, dm) \<in> set p \<Longrightarrow> Drive E r dm s = (res, s') \<Longrightarrow> daemon_step E (s, p) (s', remove1 (r, dm) p)"
| drive_mock: "Mock s \<Longrightarrow> (r, dm) \<in> set p \<Longrightarrow> DriveMock E r dm s = (res, s') \<Longrightarrow> daemon_step E (s, p) (s', remove1 (r, dm) p)"
| cancel: "CancelRequest name s = (res, s') \<Longrightarrow> daemon_step E (s, p) (s', p)"
| status: "\<not> Mock s \<Longrightarrow> GetRequest E statreq [] s = (res, s') \<Longrightarrow> daemon_step E (s, p) (s', p)"
| status_mock: "Mock s \<Longrightarrow> GetRequestMock statreq s = (res, s') \<Longrightarrow> daemon_step E (s, p) (s', p)"
| prints: "daemon_step E (s, p) (offload_output i out s, p)"
| progress: "daemon_step E (s, p) (offload_progress E i s, p)"
| finish: "finish_offload E i werr s = (Ok (), s') \<Longrightarrow> daemon_step E (s, p) (s', p)"

text \<open>The daemon among others: between its own steps the world may change in any way.\<close>

inductive offload_step :: "('w, 'z) offload_env_scheme \<Rightarrow> 'w daemon \<Rightarrow> 'w daemon \<Rightarrow> bool"
  for E where
  own: "daemon_step E \<sigma> \<sigma>' \<Longrightarrow> offload_step E \<sigma> \<sigma>'"
| world: "offload_step E (s, p) (s\<lparr>drv_world := w\<rparr>, p)"

lemmas offload_steps =
  daemon_step.create [THEN offload_step.own] daemon_step.drive [THEN offload_step.own]
  daemon_step.finish [THEN offload_step.own]


text \<open>\<^verbatim>\<open>NewDriver\<close>: the names come from the environment and must not be empty; nothing is tracked.\<close>

definition NewDriver :: "('w, 'z) env_scheme \<Rightarrow> bool \<Rightarrow> 'w \<Rightarrow> 'w driver res" where
  "NewDriver E mock w =
     (let workflowName = Getenv E ''DW_WORKFLOW_NAME''; workflowNamespace = Getenv E ''DW_WORKFLOW_NAMESPACE''
      in if workflowName = [] \<or> workflowNamespace = []
         then Err (PlainErr ''DW_WORKFLOW_NAME and DW_WORKFLOW_NAMESPACE must be set'')
         else Ok \<lparr>Mock = mock, MockCount = 0, WorkflowName = workflowName, WorkflowNamespace = workflowNamespace, drv_world = w,
                  drv_contexts = [], drv_cancelled = (\<lambda>_. False), drv_next = 0, drv_mockDM = Map.empty,
                  drv_completions = [], drv_running = Map.empty\<rparr>)"

definition offload_init :: "('w, 'z) env_scheme \<Rightarrow> 'w daemon \<Rightarrow> bool" where
  "offload_init E \<sigma> \<longleftrightarrow> (\<exists>mock w s. NewDriver E mock w = Ok s \<and> \<sigma> = (s, []))"

section \<open>What the operations change\<close>

text \<open>
  The part of the driver that the invariant and the life cycle depend on: the tracked requests with their
  contexts, the next context, the request of every goroutine, and the completions.
\<close>

type_synonym tracking = "(string \<Rightarrow> nat option) \<times> nat \<times> (nat \<Rightarrow> NnfDataMovement option) \<times> string set"

definition run_dms :: "'w driver \<Rightarrow> nat \<Rightarrow> NnfDataMovement option" where
  "run_dms s i = map_option or_dm (drv_running s i)"

definition tracking :: "'w driver \<Rightarrow> tracking" where
  "tracking s = (map_of (drv_contexts s), drv_next s, run_dms s, set (drv_completions s))"

lemma run_dms_simps [simp]:
  "run_dms (s\<lparr>drv_world := w\<rparr>) = run_dms s"
  "run_dms (s\<lparr>drv_contexts := c\<rparr>) = run_dms s"
  "run_dms (s\<lparr>drv_cancelled := f\<rparr>) = run_dms s"
  "run_dms (s\<lparr>drv_next := n\<rparr>) = run_dms s"
  "run_dms (s\<lparr>drv_completions := cs\<rparr>) = run_dms s"
  "run_dms (s\<lparr>drv_mockDM := d\<rparr>) = run_dms s"
  "run_dms (s\<lparr>MockCount := n\<rparr>) = run_dms s"
  "run_dms (set_mockDM j ch s) = run_dms s"
  "run_dms (s\<lparr>drv_running := (drv_running s)(i \<mapsto> run)\<rparr>) = (run_dms s)(i \<mapsto> or_dm run)"
  "run_dms (s\<lparr>drv_running := (drv_running s)(i := None)\<rparr>) = (run_dms s)(i := None)"
  by (auto simp: run_dms_def set_mockDM_def fun_eq_iff)

lemma set_mockDM_sel [simp]:
  "drv_world (set_mockDM i ch s) = drv_world s"
  "drv_contexts (set_mockDM i ch s) = drv_contexts s"
  "drv_next (set_mockDM i ch s) = drv_next s"
  "drv_completions (set_mockDM i ch s) = drv_completions s"
  "drv_running (set_mockDM i ch s) = drv_running s"
  "drv_cancelled (set_mockDM i ch s) = drv_cancelled s"
  "Mock (set_mockDM i ch s) = Mock s"
  "MockCount (set_mockDM i ch s) = MockCount s"
  by (simp_all add: set_mockDM_def)

lemma run_dms_Some: "run_dms s i = Some dm \<longleftrightarrow> (\<exists>run. drv_running s i = Some run \<and> or_dm run = dm)"
  by (auto simp: run_dms_def)

lemma tracking_world [simp]: "tracking (s\<lparr>drv_world := w\<rparr>) = tracking s"
  by (simp add: tracking_def)

lemma map_of_delete: "map_of (AList.delete k xs) = (map_of xs)(k := None)"
  by (simp add: delete_conv fun_eq_iff)

lemma Create_tracking:
  assumes "Create E dmreq s = (Ok (k, r, dm), s')"
  shows "k = dmKey dm \<and>
    tracking s' = ((map_of (drv_contexts s))(dmKey dm \<mapsto> drv_next s), Suc (drv_next s), run_dms s, set (drv_completions s))"
  using assms by (auto simp: Create_def tracking_def recordRequest_def update_conv split: result.splits prod.splits)

lemma Create_fails_tracking: "Create E dmreq s = (res, s') \<Longrightarrow> (\<And>v. res \<noteq> Ok v) \<Longrightarrow> tracking s' = tracking s"
  by (fastforce simp: Create_def split: result.splits prod.splits)

text \<open>A mock request gets the next number in its name, and is recorded like any other.\<close>

definition mock_key :: "nat \<Rightarrow> string" where
  "mock_key n = ''mock-rabbit-01--'' @ nodeNameBase @ show_nat n"

lemma mock_key_inject [simp]: "mock_key m = mock_key n \<longleftrightarrow> m = n"
  by (simp add: mock_key_def)

lemma CreateMock_tracking:
  assumes "CreateMock dmreq s = (Ok (k, r, dm), s')"
  shows "k = dmKey dm \<and> k = mock_key (MockCount s) \<and> Mock s' = Mock s \<and> MockCount s' = Suc (MockCount s) \<and>
    tracking s' = ((map_of (drv_contexts s))(dmKey dm \<mapsto> drv_next s), Suc (drv_next s), run_dms s, set (drv_completions s))"
  using assms
  by (auto simp: CreateMock_def tracking_def recordRequest_def update_conv dmKey_def mock_key_def setUserConfig_def new_dm_def
      run_dms_def fun_eq_iff Let_def split: result.splits)

lemma CreateMock_fails_tracking:
  "CreateMock dmreq s = (res, s') \<Longrightarrow> (\<And>v. res \<noteq> Ok v) \<Longrightarrow> tracking s' = tracking s \<and> Mock s' = Mock s \<and> MockCount s \<le> MockCount s'"
  by (fastforce simp: CreateMock_def tracking_def Let_def split: result.splits)

lemma Cancel_tracking: "CancelRequest name s = (res, s') \<Longrightarrow> tracking s' = tracking s"
  by (auto simp: CancelRequest_def tracking_def split: result.splits if_splits)

lemma build_driver: "snd (buildStatusResponse statreq dm s) \<in> {s, deleteCompletionByName (RequestName statreq) s}"
  unfolding buildStatusResponse_def Let_def by (simp del: map_of.simps split: option.split)

lemma status_mock_driver:
  assumes "GetRequestMock statreq s = (res, s')"
  shows "s' = s \<or> s' = deleteCompletionByName (RequestName statreq) s"
  using assms build_driver[of statreq _ s] unfolding GetRequestMock_def
  by (auto split: result.splits option.splits prod.splits sum.splits) (metis insertE singletonD snd_conv)+

lemma status_driver:
  assumes "GetRequest E statreq [] s = (res, s')"
  shows "s' = s \<or> s' = deleteCompletionByName (RequestName statreq) s"
proof -
  have m: "map_prod Ok id (buildStatusResponse statreq dm s) = (res, s') \<Longrightarrow> s' = snd (buildStatusResponse statreq dm s)" for dm
    by (cases "buildStatusResponse statreq dm s") simp
  show ?thesis
    using assms unfolding GetRequest_def
    by (auto simp: Let_def split: result.splits prod.splits if_splits dest!: m) (use build_driver[of statreq _ s] in auto)
qed

lemma status_tracking:
  assumes "GetRequest E statreq [] s = (res, s') \<or> GetRequestMock statreq s = (res, s')"
  shows "tracking s' = tracking s \<or>
    tracking s' = (map_of (drv_contexts s), drv_next s, run_dms s, set (drv_completions s) - {RequestName statreq})"
proof -
  have "s' = s \<or> s' = deleteCompletionByName (RequestName statreq) s"
    using assms status_driver[of E statreq s res s'] status_mock_driver[of statreq s res s'] by blast
  then show ?thesis by (auto simp: tracking_def deleteCompletionByName_def)
qed

lemma output_tracking [simp]: "tracking (offload_output i out s) = tracking s"
  by (auto simp: offload_output_def tracking_def run_dms_def fun_eq_iff split: option.splits)

lemma progress_tracking [simp]: "tracking (offload_progress E i s) = tracking s"
  by (auto simp: offload_progress_def tracking_def run_dms_def fun_eq_iff Let_def split: option.splits prod.splits)

text \<open>Driving a request starts its goroutine, or completes it when its start could not be recorded.\<close>

lemma start_tracking:
  assumes "driveWithContext E r i dm s = (res, s1)"
  shows "tracking s1 = (case res of Ok _ \<Rightarrow> (map_of (drv_contexts s), drv_next s, (run_dms s)(i \<mapsto> dm), set (drv_completions s))
    | _ \<Rightarrow> tracking s)"
  using assms unfolding driveWithContext_def Let_def
  by (auto simp: tracking_def run_dms_def fun_eq_iff split: prod.splits result.splits)

lemma Drive_tracking:
  assumes "Drive E r dm s = (res, s') \<or> DriveMock E r dm s = (res, s')"
    and "map_of (drv_contexts s) (dmKey dm) = Some i"
  shows "tracking s' =
           (case res of
              Ok _ \<Rightarrow> (map_of (drv_contexts s), drv_next s, (run_dms s)(i \<mapsto> dm), set (drv_completions s))
            | Err _ \<Rightarrow> ((map_of (drv_contexts s))(dmKey dm := None), drv_next s, run_dms s,
                        insert (dmKey dm) (set (drv_completions s)))
            | Panic \<Rightarrow> tracking s)"
proof -
  obtain x s1 where x: "driveWithContext E r i dm s = (x, s1)" by fastforce
  show ?thesis
    using assms start_tracking[OF x] unfolding Drive_def DriveMock_def loadRequestByName_def
    by (cases x) (auto simp: x tracking_def deleteRequest_def notifyCompletion_def map_of_delete)
qed

lemma progress_mode [simp]:
  "Mock (offload_progress E i s) = Mock s" "MockCount (offload_progress E i s) = MockCount s"
  "drv_contexts (offload_progress E i s) = drv_contexts s"
  by (auto simp: offload_progress_def Let_def split: option.splits prod.splits)

text \<open>The last report changes the status of the goroutine and of its data movement only.\<close>

lemma last_report_tracking:
  assumes "drv_running s i = Some run"
  shows "tracking (last_report E i werr run s) = tracking s"
    and "\<exists>run'. drv_running (last_report E i werr run s) i = Some run' \<and> or_dm run' = or_dm run"
proof -
  have "tracking (s\<lparr>drv_running := (drv_running s)(i \<mapsto> run\<lparr>or_err := werr\<rparr>)\<rparr>) = tracking s"
    using assms by (auto simp: tracking_def run_dms_def)
  then show t: "tracking (last_report E i werr run s) = tracking s" by (simp add: last_report_def Let_def)
  have "run_dms s i = Some (or_dm run)" using assms by (simp add: run_dms_def)
  then have "run_dms (last_report E i werr run s) i = Some (or_dm run)" using t by (simp add: tracking_def)
  then show "\<exists>run'. drv_running (last_report E i werr run s) i = Some run' \<and> or_dm run' = or_dm run"
    by (simp add: run_dms_Some)
qed

lemma last_report_mode [simp]:
  "Mock (last_report E i werr run s) = Mock s" "MockCount (last_report E i werr run s) = MockCount s"
  "drv_contexts (last_report E i werr run s) = drv_contexts s"
  by (simp_all add: last_report_def Let_def)

text \<open>The end of a goroutine completes its request, unless the data movement could not be read.\<close>

lemma finish_tracking:
  assumes "finish_offload E i werr s = (Ok (), s')" and "drv_running s i = Some run"
  shows "tracking s' = ((map_of (drv_contexts s))(dmKey (or_dm run) := None), drv_next s, (run_dms s)(i := None),
                         insert (dmKey (or_dm run)) (set (drv_completions s)))
       \<or> \<not> Mock s \<and>
         (\<exists>e. e_GetDm E (dm_Namespace (or_dm run)) (dm_Name (or_dm run)) (drv_world (last_report E i werr run s)) = Err e) \<and>
         tracking s' = (map_of (drv_contexts s), drv_next s, (run_dms s)(i := None), set (drv_completions s))"
proof -
  define s1 where "s1 = last_report E i werr run s"
  have t1: "tracking s1 = tracking s" and mode: "Mock s1 = Mock s"
    by (simp_all add: s1_def last_report_tracking(1)[OF assms(2)])
  obtain run1 where run1: "drv_running s1 i = Some run1" "or_dm run1 = or_dm run"
    using last_report_tracking(2)[OF assms(2)] unfolding s1_def by blast
  have eqs: "map_of (drv_contexts s1) = map_of (drv_contexts s)" "drv_next s1 = drv_next s" "run_dms s1 = run_dms s"
      "set (drv_completions s1) = set (drv_completions s)"
    using t1 by (auto simp: tracking_def)
  show ?thesis
    using assms(1) unfolding finish_offload_def assms(2) option.case Let_def s1_def[symmetric] run1 mode
    by (auto simp: tracking_def eqs deleteRequest_def notifyCompletion_def map_of_delete
        split: result.splits if_splits prod.splits)
qed

section \<open>The invariant\<close>

text \<open>
  Every goroutine is tracked under the key of its request; every request still to be driven is tracked and
  has no goroutine; no context serves two requests.
\<close>

definition tracked :: "tracking \<Rightarrow> NnfDataMovement list \<Rightarrow> bool" where
  "tracked = (\<lambda>(ctxs, n, run, cs) p.
     (\<forall>k i. ctxs k = Some i \<longrightarrow> i < n) \<and>
     (\<forall>k k' i. ctxs k = Some i \<longrightarrow> ctxs k' = Some i \<longrightarrow> k = k') \<and>
     (\<forall>i dm. run i = Some dm \<longrightarrow> ctxs (dmKey dm) = Some i) \<and>
     (\<forall>dm\<in>set p. \<exists>i. ctxs (dmKey dm) = Some i \<and> run i = None) \<and>
     distinct (map dmKey p))"

text \<open>In mock mode, every tracked request has a number below the next one.\<close>

definition mock_named :: "'w driver \<Rightarrow> bool" where
  "mock_named s \<longleftrightarrow> (Mock s \<longrightarrow> (\<forall>k i. map_of (drv_contexts s) k = Some i \<longrightarrow> (\<exists>n<MockCount s. k = mock_key n)))"

definition offload_inv :: "'w daemon \<Rightarrow> bool" where
  "offload_inv \<sigma> \<longleftrightarrow> tracked (tracking (fst \<sigma>)) (map snd (snd \<sigma>)) \<and> mock_named (fst \<sigma>)"

lemma trackedD:
  assumes "tracked (ctxs, n, run, cs) p"
  shows "ctxs k = Some i \<Longrightarrow> i < n"
    and "ctxs k = Some i \<Longrightarrow> ctxs k' = Some i \<Longrightarrow> k = k'"
    and "run i = Some d \<Longrightarrow> ctxs (dmKey d) = Some i"
    and "d \<in> set p \<Longrightarrow> \<exists>i. ctxs (dmKey d) = Some i \<and> run i = None"
    and "distinct (map dmKey p)"
  using assms unfolding tracked_def prod.case by blast+

lemma trackedI:
  assumes "\<And>k i. ctxs k = Some i \<Longrightarrow> i < n"
    and "\<And>k k' i. ctxs k = Some i \<Longrightarrow> ctxs k' = Some i \<Longrightarrow> k = k'"
    and "\<And>i d. run i = Some d \<Longrightarrow> ctxs (dmKey d) = Some i"
    and "\<And>d. d \<in> set p \<Longrightarrow> \<exists>i. ctxs (dmKey d) = Some i \<and> run i = None"
    and "distinct (map dmKey p)"
  shows "tracked (ctxs, n, run, cs) p"
  using assms unfolding tracked_def prod.case by blast

text \<open>The ways in which a step changes what is tracked.\<close>

lemma tracked_record:
  assumes t: "tracked (ctxs, n, run, cs) p" and fresh: "ctxs (dmKey dm) = None"
  shows "tracked (ctxs(dmKey dm \<mapsto> n), Suc n, run, cs) (dm # p)"
proof (rule trackedI)
  have no: "ctxs k \<noteq> Some n" for k using trackedD(1)[OF t] by blast
  have no_run: "run n = None" using no trackedD(3)[OF t] by (cases "run n") blast+
  have new: "dmKey d \<noteq> dmKey dm" if "d \<in> set p" for d using trackedD(4)[OF t that] fresh by auto
  show "i < Suc n" if "(ctxs(dmKey dm \<mapsto> n)) k = Some i" for k i
    using that trackedD(1)[OF t, of k i] by (auto split: if_splits)
  show "k = k'" if "(ctxs(dmKey dm \<mapsto> n)) k = Some i" "(ctxs(dmKey dm \<mapsto> n)) k' = Some i" for k k' i
    using that no trackedD(2)[OF t, of k i k'] by (auto split: if_splits)
  show "(ctxs(dmKey dm \<mapsto> n)) (dmKey d) = Some i" if "run i = Some d" for i d
    using trackedD(3)[OF t that] fresh by auto
  show "\<exists>i. (ctxs(dmKey dm \<mapsto> n)) (dmKey d) = Some i \<and> run i = None" if "d \<in> set (dm # p)" for d
    using that trackedD(4)[OF t, of d] new no_run by auto
  show "distinct (map dmKey (dm # p))" using trackedD(5)[OF t] new by (simp add: image_iff) metis
qed

lemma tracked_remove1:
  assumes t: "tracked (ctxs, n, run, cs) p"
  shows "tracked (ctxs, n, run, cs) (remove1 dm p)"
proof (rule trackedI)
  show "distinct (map dmKey (remove1 dm p))"
    using trackedD(5)[OF t] by (auto simp: distinct_map intro: inj_on_subset dest: set_remove1_subset[THEN subsetD])
qed (use trackedD[OF t] in \<open>blast dest: set_remove1_subset[THEN subsetD]\<close>)+

lemma tracked_other:
  assumes t: "tracked (ctxs, n, run, cs) p" and "dm \<in> set p" and "d \<in> set (remove1 dm p)"
  shows "dmKey d \<noteq> dmKey dm"
proof -
  have "distinct p" "inj_on dmKey (set p)" using trackedD(5)[OF t] by (auto simp: distinct_map)
  then show ?thesis using assms(2,3) by (auto dest: inj_onD)
qed

lemma tracked_start:
  assumes t: "tracked (ctxs, n, run, cs) p" and "dm \<in> set p" and i: "ctxs (dmKey dm) = Some i"
  shows "tracked (ctxs, n, run(i \<mapsto> dm), cs) (remove1 dm p)"
proof (rule trackedI)
  have t': "tracked (ctxs, n, run, cs) (remove1 dm p)" by (rule tracked_remove1[OF t])
  show "ctxs (dmKey d) = Some j" if "(run(i \<mapsto> dm)) j = Some d" for j d
    using that i trackedD(3)[OF t, of j d] by (auto split: if_splits)
  show "\<exists>j. ctxs (dmKey d) = Some j \<and> (run(i \<mapsto> dm)) j = None" if "d \<in> set (remove1 dm p)" for d
    using trackedD(4)[OF t' that] trackedD(2)[OF t i, of "dmKey d"] tracked_other[OF t assms(2) that] by fastforce
  show "distinct (map dmKey (remove1 dm p))" by (rule trackedD(5)[OF t'])
qed (use trackedD(1,2)[OF t] in blast)+

lemma tracked_forget:
  assumes t: "tracked (ctxs, n, run, cs) p"
    and "\<And>i d. run i = Some d \<Longrightarrow> dmKey d \<noteq> k" and "\<And>d. d \<in> set p \<Longrightarrow> dmKey d \<noteq> k"
  shows "tracked (ctxs(k := None), n, run, cs') p"
proof (rule trackedI)
  show "distinct (map dmKey p)" by (rule trackedD(5)[OF t])
  show "\<And>k' i. (ctxs(k := None)) k' = Some i \<Longrightarrow> i < n" using trackedD(1)[OF t] by (auto split: if_splits)
  show "\<And>k1 k2 i. (ctxs(k := None)) k1 = Some i \<Longrightarrow> (ctxs(k := None)) k2 = Some i \<Longrightarrow> k1 = k2"
    using trackedD(2)[OF t] by (auto split: if_splits)
qed (use trackedD(3,4)[OF t] assms(2,3) in auto)

lemma tracked_stop:
  assumes t: "tracked (ctxs, n, run, cs) p"
  shows "tracked (ctxs, n, run(i := None), cs) p"
proof (rule trackedI)
  show "\<And>j d. (run(i := None)) j = Some d \<Longrightarrow> ctxs (dmKey d) = Some j"
    using trackedD(3)[OF t] by (auto split: if_splits)
  show "\<And>d. d \<in> set p \<Longrightarrow> \<exists>j. ctxs (dmKey d) = Some j \<and> (run(i := None)) j = None"
    using trackedD(4)[OF t] by fastforce
  show "distinct (map dmKey p)" by (rule trackedD(5)[OF t])
qed (use trackedD(1,2)[OF t] in blast)+

lemma tracked_completions: "tracked (ctxs, n, run, cs) p \<Longrightarrow> tracked (ctxs, n, run, cs') p"
  by (simp add: tracked_def)

lemma tracked_finish:
  assumes t: "tracked (ctxs, n, run, cs) p" and i: "run i = Some dm"
  shows "tracked (ctxs(dmKey dm := None), n, run(i := None), cs') p"
proof (rule tracked_forget)
  have k: "ctxs (dmKey dm) = Some i" by (rule trackedD(3)[OF t i])
  show "tracked (ctxs, n, run(i := None), cs) p" by (rule tracked_stop[OF t])
  show "dmKey d \<noteq> dmKey dm" if "(run(i := None)) j = Some d" for j d
    using that trackedD(3)[OF t, of j d] k by (auto split: if_splits)
  show "dmKey d \<noteq> dmKey dm" if "d \<in> set p" for d
    using trackedD(4)[OF t that] k i by auto
qed

lemma tracked_drive_fails:
  assumes t: "tracked (ctxs, n, run, cs) p" and "dm \<in> set p"
  shows "tracked (ctxs(dmKey dm := None), n, run, cs') (remove1 dm p)"
proof (rule tracked_forget)
  show "tracked (ctxs, n, run, cs) (remove1 dm p)" by (rule tracked_remove1[OF t])
  show "dmKey d \<noteq> dmKey dm" if "run j = Some d" for j d
    using trackedD(4)[OF t assms(2)] trackedD(3)[OF t that] that by auto
  show "dmKey d \<noteq> dmKey dm" if "d \<in> set (remove1 dm p)" for d
    by (rule tracked_other[OF t assms(2) that])
qed

lemma finish_tracked:
  assumes "tracked (tracking s) p" and "finish_offload E i werr s = (Ok (), s')"
  shows "tracked (tracking s') p"
proof (cases "drv_running s i")
  case (Some run)
  have inv: "tracked (map_of (drv_contexts s), drv_next s, run_dms s, set (drv_completions s)) p"
    using assms(1) by (simp add: tracking_def)
  have "run_dms s i = Some (or_dm run)" using Some by (simp add: run_dms_def)
  then show ?thesis using finish_tracking[OF assms(2) Some] tracked_finish[OF inv] tracked_stop[OF inv] by auto
qed (use assms in \<open>simp add: finish_offload_def\<close>)

lemma map_snd_remove1:
  assumes "x \<in> set xs" and "inj_on snd (set xs)"
  shows "map snd (remove1 x xs) = remove1 (snd x) (map snd xs)"
  using assms by (induction xs) (auto simp: inj_on_def)

text \<open>The requests still to be driven, when one of them is driven.\<close>

lemma drive_request:
  assumes "tracked (tracking s) (map snd p)" and "(r, dm) \<in> set p"
  obtains i where "map_of (drv_contexts s) (dmKey dm) = Some i" "dm \<in> set (map snd p)"
    "map snd (remove1 (r, dm) p) = remove1 dm (map snd p)"
proof -
  have inv: "tracked (map_of (drv_contexts s), drv_next s, run_dms s, set (drv_completions s)) (map snd p)"
    using assms(1) by (simp add: tracking_def)
  have "distinct (map snd p)" using trackedD(5)[OF inv] by (auto simp: distinct_map intro: inj_on_imageI2)
  then have p: "map snd (remove1 (r, dm) p) = remove1 dm (map snd p)"
    using map_snd_remove1[OF assms(2)] by (simp add: distinct_map)
  have mem: "dm \<in> set (map snd p)" using assms(2) by force
  obtain i where "map_of (drv_contexts s) (dmKey dm) = Some i" using trackedD(4)[OF inv mem] by blast
  then show thesis using that mem p by blast
qed

lemma drive_tracked:
  assumes "tracked (tracking s) (map snd p)" and "(r, dm) \<in> set p"
    and "Drive E r dm s = (res, s') \<or> DriveMock E r dm s = (res, s')"
  shows "tracked (tracking s') (map snd (remove1 (r, dm) p))"
proof -
  obtain i where i: "map_of (drv_contexts s) (dmKey dm) = Some i" and mem: "dm \<in> set (map snd p)"
      and p: "map snd (remove1 (r, dm) p) = remove1 dm (map snd p)"
    by (rule drive_request[OF assms(1,2)])
  have inv: "tracked (map_of (drv_contexts s), drv_next s, run_dms s, set (drv_completions s)) (map snd p)"
    using assms(1) by (simp add: tracking_def)
  show ?thesis
    using Drive_tracking[OF assms(3) i] tracked_start[OF inv mem i] tracked_drive_fails[OF inv mem] tracked_remove1[OF inv]
    by (cases res) (simp_all add: p tracking_def[of s])
qed

text \<open>The mode of the driver never changes, and only a creation adds a key.\<close>

lemma finish_mode:
  assumes "finish_offload E i werr s = (res, s')"
  shows "Mock s' = Mock s \<and> MockCount s' = MockCount s \<and> map_of (drv_contexts s') \<subseteq>\<^sub>m map_of (drv_contexts s)"
proof (cases "drv_running s i")
  case (Some run)
  show ?thesis
    using assms unfolding finish_offload_def Some option.case Let_def
    by (auto simp: deleteRequest_def notifyCompletion_def map_of_delete map_le_def
        split: option.splits result.splits if_splits prod.splits)
qed (use assms in \<open>simp add: finish_offload_def\<close>)

lemma drive_mode:
  assumes "Drive E r dm s = (res, s') \<or> DriveMock E r dm s = (res, s')"
  shows "Mock s' = Mock s \<and> MockCount s' = MockCount s \<and> map_of (drv_contexts s') \<subseteq>\<^sub>m map_of (drv_contexts s)"
  using assms unfolding Drive_def DriveMock_def driveWithContext_def
  by (auto simp: Let_def deleteRequest_def notifyCompletion_def map_of_delete map_le_def
      split: prod.splits result.splits if_splits)

lemma Create_mode: "Create E dmreq s = (res, s') \<Longrightarrow> Mock s' = Mock s"
  by (auto simp: Create_def recordRequest_def split: result.splits prod.splits)

lemma mock_named_less:
  assumes "mock_named s" and "Mock s' = Mock s" and "MockCount s \<le> MockCount s'"
    and "map_of (drv_contexts s') \<subseteq>\<^sub>m map_of (drv_contexts s)"
  shows "mock_named s'"
  using assms unfolding mock_named_def map_le_def by (metis domI order_less_le_trans)

lemma mock_named_own:
  assumes "mock_named (fst \<sigma>)" and "daemon_step E \<sigma> \<sigma>'"
  shows "mock_named (fst \<sigma>')"
  using assms(2,1)
proof (induction rule: daemon_step.induct)
  case (create_mock s dmreq k r dm s' p)
  then show ?case
    using CreateMock_tracking[OF create_mock(2)] by (auto simp: mock_named_def tracking_def less_Suc_eq)
next
  case (create_mock_fails s dmreq res s' p)
  then show ?case
    using CreateMock_fails_tracking[OF create_mock_fails(2,3)] mock_named_less[of s s'] by (simp add: tracking_def)
next
  case (drive_mock s r dm p res s')
  then show ?case using drive_mode[of E r dm s res s'] mock_named_less[of s s'] by simp
next
  case (finish i werr s s' p)
  then show ?case using finish_mode[OF finish(1)] mock_named_less[of s s'] by simp
next
  case (status_mock s statreq res s' p)
  then show ?case using status_mock_driver[OF status_mock(2)] by (auto simp: mock_named_def deleteCompletionByName_def)
next
  case (cancel name s res s' p)
  then show ?case by (auto simp: mock_named_def CancelRequest_def split: result.splits if_splits)
next
  case (prints s p i out)
  then show ?case by (simp add: mock_named_def offload_output_def split: option.split)
next
  case (drive s r dm p res s')
  then show ?case using drive_mode[of E r dm s res s'] by (simp add: mock_named_def)
next
  case (status s statreq res s' p)
  then show ?case using status_driver[OF status(2)] by (auto simp: mock_named_def deleteCompletionByName_def)
qed (auto simp: mock_named_def dest: Create_mode)

text \<open>The name of a mock request is new.\<close>

lemma mock_fresh:
  assumes "mock_named s" and "Mock s" and "CreateMock dmreq s = (Ok (k, r, dm), s')"
  shows "map_of (drv_contexts s) (dmKey dm) = None"
  using CreateMock_tracking[OF assms(3)] assms(1,2) by (cases "map_of (drv_contexts s) (dmKey dm)") (auto simp: mock_named_def)

lemma tracked_own:
  assumes "offload_inv \<sigma>" and "daemon_step E \<sigma> \<sigma>'"
  shows "tracked (tracking (fst \<sigma>')) (map snd (snd \<sigma>'))"
  using assms(2,1)
proof (induction rule: daemon_step.induct)
  case (create s dmreq k r dm s' p)
  then show ?case
    using tracked_record[of "map_of (drv_contexts s)"] Create_tracking[OF create(2)]
    by (simp add: offload_inv_def tracking_def)
next
  case (create_mock s dmreq k r dm s' p)
  then have "map_of (drv_contexts s) (dmKey dm) = None" using mock_fresh[OF _ create_mock(1,2)] by (simp add: offload_inv_def)
  then show ?case
    using tracked_record[of "map_of (drv_contexts s)"] CreateMock_tracking[OF create_mock(2)] create_mock(3)
    by (simp add: offload_inv_def tracking_def)
next
  case (drive s r dm p res s')
  then show ?case using drive_tracked[OF _ drive(2), of s E res s'] by (simp add: offload_inv_def)
next
  case (drive_mock s r dm p res s')
  then show ?case using drive_tracked[OF _ drive_mock(2), of s E res s'] by (simp add: offload_inv_def)
next
  case (finish i werr s s' p)
  then show ?case
    using finish_tracked[OF _ finish(1)] by (simp add: offload_inv_def)
next
  case (status s statreq res s' p)
  then show ?case
    using status_tracking[OF disjI1, OF status(2)] tracked_completions by (auto simp: offload_inv_def tracking_def)
next
  case (status_mock s statreq res s' p)
  then show ?case
    using status_tracking[OF disjI2, OF status_mock(2)] tracked_completions by (auto simp: offload_inv_def tracking_def)
next
  case (create_fails s dmreq res s' p)
  then show ?case using Create_fails_tracking[OF create_fails(2,3)] by (simp add: offload_inv_def)
next
  case (create_mock_fails s dmreq res s' p)
  then show ?case using CreateMock_fails_tracking[OF create_mock_fails(2,3)] by (simp add: offload_inv_def)
qed (auto simp: offload_inv_def dest: Cancel_tracking)

lemma offload_inv_step: "offload_step E \<sigma> \<sigma>' \<Longrightarrow> offload_inv \<sigma> \<Longrightarrow> offload_inv \<sigma>'"
proof (induction rule: offload_step.induct)
  case (own \<sigma> \<sigma>')
  then show ?case using tracked_own[of \<sigma> E \<sigma>'] mock_named_own[of \<sigma> E \<sigma>'] by (simp add: offload_inv_def)
qed (simp add: offload_inv_def mock_named_def)

lemma offload_inv_init: "offload_init E \<sigma> \<Longrightarrow> offload_inv \<sigma>"
  by (auto simp: offload_init_def offload_inv_def mock_named_def NewDriver_def Let_def tracking_def tracked_def run_dms_def
      split: if_splits)

interpretation offload: invariant_machine "offload_init E" "offload_step E" offload_inv
  by unfold_locales (auto intro: offload_inv_init offload_inv_step)

section \<open>The life cycle of a request\<close>

text \<open>
  What a client can know of a request: it is unknown, waits to be driven, is being copied, is lost
  (tracked for ever, with nobody to end it) or is completed.
\<close>

datatype phase = Unknown | Waiting | Copying | Lost | Completed

definition phase_of :: "'w daemon \<Rightarrow> string \<Rightarrow> phase" where
  "phase_of \<sigma> k =
     (case map_of (drv_contexts (fst \<sigma>)) k of
        Some i \<Rightarrow> if drv_running (fst \<sigma>) i \<noteq> None then Copying
                  else if k \<in> dmKey ` snd ` set (snd \<sigma>) then Waiting else Lost
      | None \<Rightarrow> if k \<in> set (drv_completions (fst \<sigma>)) then Completed else Unknown)"

text \<open>The abstract specification.\<close>

fun life_step :: "phase \<Rightarrow> phase \<Rightarrow> bool" where
  "life_step Unknown p \<longleftrightarrow> p \<in> {Unknown, Waiting}"
| "life_step Waiting p \<longleftrightarrow> p \<in> {Waiting, Copying, Completed, Lost}"
| "life_step Copying p \<longleftrightarrow> p \<in> {Copying, Completed, Lost}"
| "life_step Completed p \<longleftrightarrow> p \<in> {Completed, Unknown, Waiting}"
| "life_step Lost p \<longleftrightarrow> p = Lost"

definition phase :: "tracking \<Rightarrow> NnfDataMovement list \<Rightarrow> string \<Rightarrow> phase" where
  "phase = (\<lambda>(ctxs, n, run, cs) p k.
     case ctxs k of
       Some i \<Rightarrow> if run i \<noteq> None then Copying else if k \<in> dmKey ` set p then Waiting else Lost
     | None \<Rightarrow> if k \<in> cs then Completed else Unknown)"

lemma phase_of_phase: "phase_of \<sigma> k = phase (tracking (fst \<sigma>)) (map snd (snd \<sigma>)) k"
  by (simp add: phase_of_def phase_def tracking_def run_dms_def split: option.split)

lemma life_refl [simp]: "life_step q q"
  by (cases q) simp_all

text \<open>A step along an edge by which no request is lost.\<close>

definition regular_step :: "phase \<Rightarrow> phase \<Rightarrow> bool" where
  "regular_step q q' \<longleftrightarrow> life_step q q' \<and> (q' = Lost \<longrightarrow> q = Lost)"

lemma regular_refl [simp]: "regular_step q q"
  by (simp add: regular_step_def)

lemma regular_life: "regular_step q q' \<Longrightarrow> life_step q q'"
  by (simp add: regular_step_def)

lemma life_record:
  assumes "tracked (ctxs, n, run, cs) p" and "ctxs (dmKey dm) = None"
  shows "regular_step (phase (ctxs, n, run, cs) p k) (phase (ctxs(dmKey dm \<mapsto> n), Suc n, run, cs) (dm # p) k)"
proof (cases "k = dmKey dm")
  case True
  have "ctxs k \<noteq> Some n" for k using trackedD(1)[OF assms(1)] by blast
  then have "run n = None" using trackedD(3)[OF assms(1)] by (cases "run n") blast+
  then show ?thesis using True assms(2) by (simp add: regular_step_def phase_def)
next
  case False
  then show ?thesis by (simp add: regular_step_def phase_def split: option.split)
qed

lemma image_remove1: "k \<noteq> f x \<Longrightarrow> k \<in> f ` set (remove1 x p) \<longleftrightarrow> k \<in> f ` set p"
  by (induction p) auto

lemma life_start:
  assumes "tracked (ctxs, n, run, cs) p" and "dm \<in> set p" and "ctxs (dmKey dm) = Some i"
  shows "regular_step (phase (ctxs, n, run, cs) p k) (phase (ctxs, n, run(i \<mapsto> dm), cs) (remove1 dm p) k)"
proof (cases "k = dmKey dm")
  case True
  then show ?thesis using assms trackedD(4)[OF assms(1,2)] by (auto simp: regular_step_def phase_def)
next
  case False
  then have "ctxs k \<noteq> Some i" using trackedD(2)[OF assms(1,3)] by blast
  then show ?thesis using False by (auto simp: regular_step_def phase_def image_remove1 split: option.split)
qed

lemma life_drive_fails:
  assumes "tracked (ctxs, n, run, cs) p" and "dm \<in> set p"
  shows "regular_step (phase (ctxs, n, run, cs) p k)
           (phase (ctxs(dmKey dm := None), n, run, insert (dmKey dm) cs) (remove1 dm p) k)"
proof (cases "k = dmKey dm")
  case True
  then show ?thesis using assms trackedD(4)[OF assms] by (auto simp: regular_step_def phase_def)
next
  case False
  then show ?thesis by (auto simp: regular_step_def phase_def image_remove1 split: option.split)
qed

lemma life_finish:
  assumes "tracked (ctxs, n, run, cs) p" and "run i = Some dm"
  shows "regular_step (phase (ctxs, n, run, cs) p k) (phase (ctxs(dmKey dm := None), n, run(i := None), insert (dmKey dm) cs) p k)"
    and "life_step (phase (ctxs, n, run, cs) p k) (phase (ctxs, n, run(i := None), cs) p k)"
    and "k \<noteq> dmKey dm \<Longrightarrow> phase (ctxs, n, run(i := None), cs) p k = phase (ctxs, n, run, cs) p k"
proof -
  have c: "ctxs (dmKey dm) = Some i" by (rule trackedD(3)[OF assms])
  have other: "ctxs k' \<noteq> Some i" if "k' \<noteq> dmKey dm" for k' using trackedD(2)[OF assms(1) c] that by blast
  have nw: "dmKey dm \<notin> dmKey ` set p" using trackedD(4)[OF assms(1)] c assms(2) by fastforce
  show "regular_step (phase (ctxs, n, run, cs) p k) (phase (ctxs(dmKey dm := None), n, run(i := None), insert (dmKey dm) cs) p k)"
    using c other[of k] assms(2) by (cases "k = dmKey dm") (auto simp: regular_step_def phase_def split: option.split)
  show "phase (ctxs, n, run(i := None), cs) p k = phase (ctxs, n, run, cs) p k" if "k \<noteq> dmKey dm"
    using other[OF that] by (auto simp: phase_def split: option.split)
  show "life_step (phase (ctxs, n, run, cs) p k) (phase (ctxs, n, run(i := None), cs) p k)"
    using c other[of k] assms(2) nw by (cases "k = dmKey dm") (auto simp: regular_step_def phase_def split: option.split)
qed

lemma life_drive_panics:
  "life_step (phase (ctxs, n, run, cs) p k) (phase (ctxs, n, run, cs) (remove1 dm p) k)"
  "k \<noteq> dmKey dm \<Longrightarrow> phase (ctxs, n, run, cs) (remove1 dm p) k = phase (ctxs, n, run, cs) p k"
  by (auto simp: phase_def image_remove1 split: option.split dest: set_remove1_subset[THEN subsetD])

lemma life_reap: "regular_step (phase (ctxs, n, run, cs) p k) (phase (ctxs, n, run, cs - {name}) p k)"
  by (auto simp: regular_step_def phase_def split: option.split)

lemma DriveMock_answers:
  assumes "Mock s" and "DriveMock E r dm s = (res, s')"
  shows "res \<noteq> Panic"
  using assms by (auto simp: DriveMock_def driveWithContext_def loadRequestByName_def Let_def split: option.splits)

lemma drive_life:
  assumes "tracked (tracking s) (map snd p)" and "(r, dm) \<in> set p"
    and "Drive E r dm s = (res, s') \<or> DriveMock E r dm s = (res, s')"
  shows "if res = Panic then life_step (phase_of (s, p) k) (phase_of (s', remove1 (r, dm) p) k) \<and>
             (k \<noteq> dmKey dm \<longrightarrow> phase_of (s', remove1 (r, dm) p) k = phase_of (s, p) k)
         else regular_step (phase_of (s, p) k) (phase_of (s', remove1 (r, dm) p) k)"
proof -
  obtain i where i: "map_of (drv_contexts s) (dmKey dm) = Some i" and mem: "dm \<in> set (map snd p)"
      and p: "map snd (remove1 (r, dm) p) = remove1 dm (map snd p)"
    by (rule drive_request[OF assms(1,2)])
  have inv: "tracked (map_of (drv_contexts s), drv_next s, run_dms s, set (drv_completions s)) (map snd p)"
    using assms(1) by (simp add: tracking_def)
  show ?thesis
    using Drive_tracking[OF assms(3) i] life_start[OF inv mem i] life_drive_fails[OF inv mem] life_drive_panics
    by (cases res) (simp_all add: phase_of_phase p tracking_def[of s] del: life_step.simps)
qed

text \<open>
  The two ways to lose a request: the handler panics while it drives it, or its goroutine cannot read the data
  movement after the last report.
\<close>

definition loses :: "('w, 'z) offload_env_scheme \<Rightarrow> 'w daemon \<Rightarrow> 'w daemon \<Rightarrow> string \<Rightarrow> bool" where
  "loses E \<sigma> \<sigma>' k \<longleftrightarrow>
     \<not> Mock (fst \<sigma>) \<and>
     ((\<exists>r dm. (r, dm) \<in> set (snd \<sigma>) \<and> dmKey dm = k \<and> Drive E r dm (fst \<sigma>) = (Panic, fst \<sigma>')) \<or>
      (\<exists>i run werr e. drv_running (fst \<sigma>) i = Some run \<and> dmKey (or_dm run) = k \<and>
         finish_offload E i werr (fst \<sigma>) = (Ok (), fst \<sigma>') \<and>
         e_GetDm E (dm_Namespace (or_dm run)) (dm_Name (or_dm run)) (drv_world (last_report E i werr run (fst \<sigma>))) = Err e))"

lemma finish_life:
  assumes "tracked (tracking s) (map snd p)" and "finish_offload E i werr s = (Ok (), s')" and "drv_running s i = Some run"
  shows "regular_step (phase_of (s, p) k) (phase_of (s', p) k) \<or>
    life_step (phase_of (s, p) k) (phase_of (s', p) k) \<and> loses E (s, p) (s', p) k"
proof -
  have inv: "tracked (map_of (drv_contexts s), drv_next s, run_dms s, set (drv_completions s)) (map snd p)"
    using assms(1) by (simp add: tracking_def)
  have run: "run_dms s i = Some (or_dm run)" using assms(3) by (simp add: run_dms_def)
  from finish_tracking[OF assms(2,3)] show ?thesis
  proof (elim disjE conjE exE)
    fix e assume e: "\<not> Mock s"
      "e_GetDm E (dm_Namespace (or_dm run)) (dm_Name (or_dm run)) (drv_world (last_report E i werr run s)) = Err e"
      and t: "tracking s' = (map_of (drv_contexts s), drv_next s, (run_dms s)(i := None), set (drv_completions s))"
    show ?thesis
    proof (cases "k = dmKey (or_dm run)")
      case True
      then have "loses E (s, p) (s', p) k" using e assms(2,3) unfolding loses_def by auto
      then show ?thesis using life_finish(2)[OF inv run] by (simp add: phase_of_phase t tracking_def[of s] del: life_step.simps)
    next
      case False
      then show ?thesis using life_finish(3)[OF inv run] by (simp add: phase_of_phase t tracking_def[of s])
    qed
  qed (use life_finish(1)[OF inv run] in \<open>simp add: phase_of_phase tracking_def[of s]\<close>)
qed

lemma life_own:
  assumes "offload_inv \<sigma>" and "daemon_step E \<sigma> \<sigma>'"
  shows "regular_step (phase_of \<sigma> k) (phase_of \<sigma>' k) \<or> life_step (phase_of \<sigma> k) (phase_of \<sigma>' k) \<and> loses E \<sigma> \<sigma>' k"
  using assms(2,1)
proof (induction rule: daemon_step.induct)
  case (create s dmreq k' r dm s' p)
  then show ?case
    using life_record[of "map_of (drv_contexts s)"] Create_tracking[OF create(2)]
    by (simp add: offload_inv_def phase_of_phase tracking_def)
next
  case (create_mock s dmreq k' r dm s' p)
  then have "map_of (drv_contexts s) (dmKey dm) = None" using mock_fresh[OF _ create_mock(1,2)] by (simp add: offload_inv_def)
  then show ?case
    using life_record[of "map_of (drv_contexts s)"] CreateMock_tracking[OF create_mock(2)] create_mock(3)
    by (simp add: offload_inv_def phase_of_phase tracking_def)
next
  case (drive s r dm p res s')
  show ?case
  proof (cases "res = Panic \<and> k = dmKey dm")
    case True
    then have "loses E (s, p) (s', remove1 (r, dm) p) k" using drive by (auto simp: loses_def)
    then show ?thesis
      using drive_life[OF _ drive(2), of s E res s' k] drive(3,4) True by (simp add: offload_inv_def del: life_step.simps)
  next
    case False
    then show ?thesis
      using drive_life[OF _ drive(2), of s E res s' k] drive(3,4)
      by (auto simp: offload_inv_def simp del: life_step.simps split: if_splits)
  qed
next
  case (drive_mock s r dm p res s')
  then show ?case
    using drive_life[OF _ drive_mock(2), of s E res s' k] DriveMock_answers[OF drive_mock(1,3)]
    by (simp add: offload_inv_def del: life_step.simps)
next
  case (finish i werr s s' p)
  show ?case
  proof (cases "drv_running s i")
    case (Some run)
    then show ?thesis using finish_life[OF _ finish(1) Some] finish(2) by (simp add: offload_inv_def)
  qed (use finish(1) in \<open>simp add: finish_offload_def\<close>)
next
  case (status s statreq res s' p)
  then show ?case
    using status_tracking[OF disjI1, OF status(2)] life_reap
    by (auto simp: offload_inv_def phase_of_phase tracking_def[of s] simp del: life_step.simps)
next
  case (status_mock s statreq res s' p)
  then show ?case
    using status_tracking[OF disjI2, OF status_mock(2)] life_reap
    by (auto simp: offload_inv_def phase_of_phase tracking_def[of s] simp del: life_step.simps)
next
  case (create_fails s dmreq res s' p)
  then show ?case using Create_fails_tracking[OF create_fails(2,3)] by (simp add: phase_of_phase)
next
  case (create_mock_fails s dmreq res s' p)
  then show ?case using CreateMock_fails_tracking[OF create_mock_fails(2,3)] by (simp add: phase_of_phase)
qed (auto simp: phase_of_phase dest: Cancel_tracking)

lemma offload_step_life:
  assumes "offload_inv \<sigma>" and "offload_step E \<sigma> \<sigma>'"
  shows "regular_step (phase_of \<sigma> k) (phase_of \<sigma>' k) \<or> life_step (phase_of \<sigma> k) (phase_of \<sigma>' k) \<and> loses E \<sigma> \<sigma>' k"
  using assms(2,1)
proof (induction rule: offload_step.induct)
  case (own \<sigma> \<sigma>')
  then show ?case using life_own by blast
qed (simp add: phase_of_phase)

end
