(* ===== verification/Offload_Cluster.thy ===== *)
theory Offload_Cluster
  imports Offload_Machine
begin

text \<open>
  The surroundings of the copy-offload daemon. The contract \<open>direct_server\<close> is that of the API server for a
  client without a cache: a read returns the stored object, and a status write is accepted only if it is
  based on the stored version, although an accepted write may be reported as failed. \<open>offload_cluster_env\<close>
  is the daemon's environment over a cluster that also holds workflows, client mounts, Lustre file systems
  and the system configuration, and that generates the names of new objects; it keeps the contract, and the
  one of \<open>creating_server\<close> for new objects.
\<close>

section \<open>A client without a cache\<close>

type_synonym store = "string \<times> string \<Rightarrow> NnfDataMovement option"

definition stored_keys :: "store \<Rightarrow> bool" where
  "stored_keys S \<longleftrightarrow> (\<forall>k dm. S k = Some dm \<longrightarrow> dm_key dm = k)"

lemma stored_keysD: "stored_keys S \<Longrightarrow> S k = Some dm \<Longrightarrow> dm_key dm = k"
  unfolding stored_keys_def by blast

definition status_accept :: "NnfDataMovement \<Rightarrow> store \<Rightarrow> store \<Rightarrow> bool" where
  "status_accept dm S S' \<longleftrightarrow>
     (\<exists>cur v. S (dm_key dm) = Some cur \<and> dm_ResourceVersion cur = dm_ResourceVersion dm \<and>
        (let new = cur\<lparr>dm_Status := dm_Status dm, dm_ResourceVersion := v\<rparr>
         in S' = S(dm_key dm := if dm_DeletionTimestamp cur \<noteq> None \<and> dm_Finalizers cur = [] then None else Some new)))"

text \<open>Status changes of the object \<open>k\<close> leave every other object and its own spec alone.\<close>

definition only_status :: "string \<times> string \<Rightarrow> store \<Rightarrow> store \<Rightarrow> bool" where
  "only_status k S S' \<longleftrightarrow>
     (\<forall>k'. k' \<noteq> k \<longrightarrow> S' k' = S k') \<and>
     (\<forall>dm'. S' k = Some dm' \<longrightarrow>
        (\<exists>dm. S k = Some dm \<and> (\<exists>st v. dm' = dm\<lparr>dm_Status := st, dm_ResourceVersion := v\<rparr>)))"

lemma only_statusD:
  assumes "only_status k S S'"
  shows "k' \<noteq> k \<Longrightarrow> S' k' = S k'"
    and "S' k = Some dm' \<Longrightarrow> \<exists>dm st v. S k = Some dm \<and> dm' = dm\<lparr>dm_Status := st, dm_ResourceVersion := v\<rparr>"
  using assms unfolding only_status_def by blast+

lemma only_status_refl [simp]: "only_status k S S"
  by (auto simp: only_status_def) (metis NnfDataMovement.surjective NnfDataMovement.update_convs(6,8))

lemma only_status_trans:
  assumes "only_status k S T" and "only_status k T U"
  shows "only_status k S U"
  unfolding only_status_def
proof (intro conjI allI impI)
  show "U k' = S k'" if "k' \<noteq> k" for k' using only_statusD(1)[OF assms(1) that] only_statusD(1)[OF assms(2) that] by simp
  fix dm'' assume "U k = Some dm''"
  then obtain dm' st' v' where "T k = Some dm'" and d'': "dm'' = dm'\<lparr>dm_Status := st', dm_ResourceVersion := v'\<rparr>"
    using only_statusD(2)[OF assms(2)] by blast
  then obtain dm st v where "S k = Some dm" and d': "dm' = dm\<lparr>dm_Status := st, dm_ResourceVersion := v\<rparr>"
    using only_statusD(2)[OF assms(1)] by blast
  moreover have "dm'' = dm\<lparr>dm_Status := st', dm_ResourceVersion := v'\<rparr>" unfolding d'' d' by simp
  ultimately show "\<exists>dm. S k = Some dm \<and> (\<exists>st v. dm'' = dm\<lparr>dm_Status := st, dm_ResourceVersion := v\<rparr>)" by blast
qed

lemma status_accept_only: "status_accept dm S S' \<Longrightarrow> only_status (dm_key dm) S S'"
  by (auto simp: status_accept_def only_status_def Let_def split: if_splits) blast+

lemma only_status_keys:
  assumes "only_status k S S'" and "stored_keys S"
  shows "stored_keys S'"
  unfolding stored_keys_def
proof (intro allI impI)
  fix k' dm' assume d: "S' k' = Some dm'"
  show "dm_key dm' = k'"
  proof (cases "k' = k")
    case True
    then show ?thesis using only_statusD(2)[OF assms(1)] d stored_keysD[OF assms(2)] by (fastforce simp: dm_key_def)
  next
    case False
    then show ?thesis using only_statusD(1)[OF assms(1) False] d stored_keysD[OF assms(2)] by simp
  qed
qed

locale direct_server = shell_view E store
  for E :: "('w, 'z) env_scheme" and store :: "'w \<Rightarrow> store" +
  assumes get_stored: "e_GetDm E ns n w = Ok dm \<longleftrightarrow> store w (ns, n) = Some dm"
    and get_no_panic: "e_GetDm E ns n w \<noteq> Panic"
    and update_status: "e_UpdateDmStatus E dm w = (r, w') \<Longrightarrow>
      (case r of Ok new \<Rightarrow> status_accept dm (store w) (store w')
               | Err e \<Rightarrow> store w' = store w \<or> status_accept dm (store w) (store w')
               | Panic \<Rightarrow> False)"
begin

text \<open>
  A status change that returned without an error was applied to the object that was stored at that moment,
  or there was no object. With or without an error, only this object's status can have changed.
\<close>

lemma modify_status_Ok:
  assumes "modify_status E (ns, n) change w = (Ok (), w')" and "stored_keys (store w)"
  shows "store w (ns, n) = None \<and> w' = w \<or>
         (\<exists>dm v. store w (ns, n) = Some dm \<and>
            (store w' (ns, n) = Some (dm\<lparr>dm_Status := change (dm_Status dm), dm_ResourceVersion := v\<rparr>) \<or>
             store w' (ns, n) = None \<and> dm_DeletionTimestamp dm \<noteq> None))"
proof (cases "e_GetDm E ns n w")
  case (Ok dm)
  then have st: "store w (ns, n) = Some dm" by (simp add: get_stored)
  then have key: "dm_key dm = (ns, n)" by (rule stored_keysD[OF assms(2)])
  obtain new where "e_UpdateDmStatus E (dm\<lparr>dm_Status := change (dm_Status dm)\<rparr>) w = (Ok new, w')"
    using assms(1) Ok by (auto simp: modify_status_def split: prod.splits result.splits)
  from update_status[OF this] show ?thesis
    using st key by (auto simp: status_accept_def dm_key_def Let_def split: if_splits)
next
  case (Err err)
  then have "store w (ns, n) = None" using get_stored[of ns n w] by (cases "store w (ns, n)") auto
  then show ?thesis using assms(1) Err by (auto simp: modify_status_def split: option.splits)
next
  case Panic
  then show ?thesis using get_no_panic[of ns n w] by simp
qed

lemma modify_status_only:
  assumes "modify_status E k change w = (r, w')" and "stored_keys (store w)"
  shows "only_status k (store w) (store w')"
proof (cases "e_GetDm E (fst k) (snd k) w")
  case (Ok dm)
  then have "store w k = Some dm" by (simp add: get_stored)
  then have key: "dm_key dm = k" by (rule stored_keysD[OF assms(2)])
  obtain r' where u: "e_UpdateDmStatus E (dm\<lparr>dm_Status := change (dm_Status dm)\<rparr>) w = (r', w')"
    using assms(1) Ok by (auto simp: modify_status_def split: prod.splits result.splits)
  have "store w' = store w \<or> status_accept (dm\<lparr>dm_Status := change (dm_Status dm)\<rparr>) (store w) (store w')"
    using update_status[OF u] by (auto split: result.splits)
  moreover have "dm_key (dm\<lparr>dm_Status := change (dm_Status dm)\<rparr>) = k" using key by (simp add: dm_key_def)
  ultimately show ?thesis using status_accept_only by fastforce
qed (use assms(1) in \<open>auto simp: modify_status_def split: option.splits\<close>)

text \<open>A function that writes at most a status does so when it is retried.\<close>

lemma RetryOnConflict_only:
  assumes "RetryOnConflict f w = (r, w')" and "stored_keys (store w)"
    and f: "\<And>v r v'. f v = (r, v') \<Longrightarrow> stored_keys (store v) \<Longrightarrow> only_status k (store v) (store v')"
  shows "only_status k (store w) (store w')"
proof -
  have "only_status k (store w) (store w')"
    if "OnError m IsConflict f w = (r, w')" "stored_keys (store w)" for m w
    using that
  proof (induction m arbitrary: w)
    case (Suc m)
    obtain r1 w1 where f1: "f w = (r1, w1)" by fastforce
    have o1: "only_status k (store w) (store w1)" by (rule f[OF f1 Suc.prems(2)])
    have k1: "stored_keys (store w1)" by (rule only_status_keys[OF o1 Suc.prems(2)])
    show ?case
      using Suc.prems(1) f1 o1 Suc.IH[OF _ k1] by (auto split: result.splits if_splits intro: only_status_trans)
  qed simp
  then show ?thesis using assms(1,2) by (simp add: RetryOnConflict_def)
qed

lemma final_update_only:
  assumes "final_update E k status cmdStatus w = (r, w')" and "stored_keys (store w)"
  shows "only_status k (store w) (store w')"
proof -
  have "w' = w \<or> modify_status E k (\<lambda>_. status\<lparr>CommandStatus := Some cmdStatus\<rparr>) w = (r, w')"
    using assms(1) by (auto simp: final_update_def modify_status_def split: result.splits option.splits if_splits prod.splits)
  then show ?thesis using modify_status_only[OF _ assms(2)] only_status_refl by blast
qed

end

text \<open>
  A server that also creates objects: a created object is new under its key, which has the given prefix, and
  it is stored as it was given. A creation that is reported as failed may have happened.
\<close>

definition created :: "string \<Rightarrow> NnfDataMovement \<Rightarrow> NnfDataMovement \<Rightarrow> store \<Rightarrow> store \<Rightarrow> bool" where
  "created base dm new S S' \<longleftrightarrow>
     (\<exists>suffix v. new = dm\<lparr>dm_Name := base @ suffix, dm_ResourceVersion := v\<rparr>) \<and>
     S (dm_key new) = None \<and> S' = S(dm_key new \<mapsto> new)"

lemma created_status: "created base dm new S S' \<Longrightarrow> dm_Status new = dm_Status dm"
  by (auto simp: created_def)

lemma created_keys: "created base dm new S S' \<Longrightarrow> stored_keys S \<Longrightarrow> stored_keys S'"
  by (auto simp: created_def stored_keys_def)

locale creating_server = direct_server E store
  for E :: "('w, 'z) offload_env_scheme" and store :: "'w \<Rightarrow> store" +
  assumes create: "o_CreateDm E base dm w = (r, w') \<Longrightarrow>
      (case r of Ok new \<Rightarrow> created base dm new (store w) (store w')
               | Err e \<Rightarrow> store w' = store w \<or> (\<exists>new. created base dm new (store w) (store w'))
               | Panic \<Rightarrow> False)"
begin

text \<open>Preparing a request changes no object, and creates at most its data movement, with an empty status.\<close>

lemma prepare_request_stores:
  assumes "prepare_request E wfName wfNamespace dmreq w = (r, w')"
  shows "store w' = store w \<or>
    (\<exists>base dm new. created base dm new (store w) (store w') \<and> dm_Status new = empty_status)"
proof -
  have status: "dm_Status dm = empty_status"
    if "plan_request E wfName wfNamespace dmreq w = Ok (rabbit, base, profile, dm)" for rabbit base profile dm
    using that
    by (auto simp: plan_request_def createNnfDataMovement_def createNnfNodeDataMovement_def new_dm_def setUserConfig_def
        AddWorkflowLabels_def AddOwnerLabels_def AddDataMovementTeardownStateLabel_def set_labels_def bind_result_Ok_iff Let_def
        split: if_splits prod.splits)
  have prep: "dm_Status dm1 = dm_Status dm \<and> store w2 = store w1"
    if "PrepareDestination E profile dm hostfile w1 = ((x, dm1), w2)" for profile dm hostfile w1 x dm1 w2
    using PrepareDestination_object[of E profile dm hostfile w1] PrepareDestination_keeps[OF that] that
    by (auto simp: set_destination_def)
  have host: "store w1 = store w" if "CreateMpiHostfile E profile hosts dm w = (x, w1)" for profile hosts dm x w1
    by (rule CreateMpiHostfile_keeps[OF that])
  have new: "store w3 = store w2 \<or> (\<exists>new. created base dm new (store w2) (store w3) \<and> dm_Status new = dm_Status dm)"
    if "o_CreateDm E base dm w2 = (x, w3)" for base dm w2 x w3
    using create[OF that] created_status by (fastforce split: result.splits)
  show ?thesis
    using assms unfolding prepare_request_def
    by (auto split: result.splits prod.splits dest!: status prep host new)
qed

end

section \<open>The daemon's cluster\<close>

record offload_world =
  ow_cluster :: cluster
  ow_workflows :: "string \<times> string \<Rightarrow> Workflow option"
  ow_mounts :: "ClientMount list"
  ow_lustre :: "LustreFileSystem list"
  ow_profiles :: "NnfDataMovementProfile list"
  ow_storage :: "StorageNode list"
  ow_serial :: nat

definition on_cluster :: "(cluster \<Rightarrow> 'a \<times> cluster) \<Rightarrow> offload_world \<Rightarrow> 'a \<times> offload_world" where
  "on_cluster f w = (case f (ow_cluster w) of (r, c) \<Rightarrow> (r, w\<lparr>ow_cluster := c\<rparr>))"

definition has_labels :: "(string \<times> string) list \<Rightarrow> ClientMount \<Rightarrow> bool" where
  "has_labels ls cm \<longleftrightarrow> list_all (\<lambda>(k, v). map_of (case cm_Labels cm of None \<Rightarrow> [] | Some l \<Rightarrow> l) k = Some v) ls"

text \<open>A creation takes the next entry of the fault plan, like every other write.\<close>

definition create_apply :: "string \<Rightarrow> NnfDataMovement \<Rightarrow> offload_world \<Rightarrow> NnfDataMovement res \<times> offload_world" where
  "create_apply base dm w =
     (let c = ow_cluster w;
          new = dm\<lparr>dm_Name := base @ show_nat (ow_serial w), dm_ResourceVersion := Suc (c_revision c)\<rparr>
      in if c_dms c (dm_key new) \<noteq> None then (Err (ApiErr OtherReason ''already exists''), w)
         else (Ok new, w\<lparr>ow_cluster := c\<lparr>c_revision := Suc (c_revision c), c_dms := (c_dms c)(dm_key new \<mapsto> new)\<rparr>,
                         ow_serial := Suc (ow_serial w)\<rparr>))"

definition create_dm :: "string \<Rightarrow> NnfDataMovement \<Rightarrow> offload_world \<Rightarrow> NnfDataMovement res \<times> offload_world" where
  "create_dm base dm w =
     (let faults = c_faults (ow_cluster w); w' = w\<lparr>ow_cluster := (ow_cluster w)\<lparr>c_faults := tl faults\<rparr>\<rparr>
      in case (if faults = [] then None else hd faults) of
           None \<Rightarrow> create_apply base dm w'
         | Some (reason, lost) \<Rightarrow>
             (Err (ApiErr reason ''injected''), if lost then snd (create_apply base dm w') else w'))"

definition offload_cluster_env :: "(string \<Rightarrow> string option) \<Rightarrow> nat \<Rightarrow> offload_world offload_env" where
  "offload_cluster_env vars uid =
     (let E = cluster_env vars uid
      in \<lparr>e_LookupEnv = vars, e_Getuid = uid, e_Now = (\<lambda>w. c_clock (ow_cluster w)),
          e_GetDm = (\<lambda>ns n w. lookup_res (c_dms (ow_cluster w)) (ns, n)),
          e_UpdateDm = (\<lambda>dm. on_cluster (e_UpdateDm E dm)),
          e_UpdateDmStatus = (\<lambda>dm. on_cluster (e_UpdateDmStatus E dm)),
          e_GetProfile = (\<lambda>ns n w. lookup_res (\<lambda>k. find (\<lambda>p. (prof_Namespace p, prof_Name p) = k) (ow_profiles w)) (ns, n)),
          e_GetStorage = (\<lambda>ns n w. e_GetStorage E ns n (ow_cluster w)),
          e_GetNodeStorage = (\<lambda>ns n w. e_GetNodeStorage E ns n (ow_cluster w)),
          e_ListPods = (\<lambda>q w. e_ListPods E q (ow_cluster w)),
          e_Bash = (\<lambda>cmd timeout. on_cluster (e_Bash E cmd timeout)),
          e_StatIsDir = (\<lambda>p w. e_StatIsDir E p (ow_cluster w)),
          e_MkdirTemp = (\<lambda>d p. on_cluster (e_MkdirTemp E d p)),
          e_MkdirAll = (\<lambda>d. on_cluster (e_MkdirAll E d)),
          e_Create = (\<lambda>p. on_cluster (e_Create E p)),
          e_WriteString = (\<lambda>p t. on_cluster (e_WriteString E p t)),
          e_ReadFile = (\<lambda>p w. e_ReadFile E p (ow_cluster w)),
          e_RemoveAll = (\<lambda>d w. w\<lparr>ow_cluster := e_RemoveAll E d (ow_cluster w)\<rparr>),
          o_GetWorkflow = (\<lambda>ns n w. lookup_res (ow_workflows w) (ns, n)),
          o_ListClientMounts = (\<lambda>ns ls w. Ok (filter (\<lambda>cm. (ns = [] \<or> cm_Namespace cm = ns) \<and> has_labels ls cm) (ow_mounts w))),
          o_ListLustreFileSystems = (\<lambda>w. Ok (ow_lustre w)),
          o_ListProfiles = (\<lambda>ns w. Ok (filter (\<lambda>p. prof_Namespace p = ns) (ow_profiles w))),
          o_GetSystemConfiguration = (\<lambda>ns n w. Ok (ow_storage w)),
          o_CreateDm = create_dm\<rparr>)"

lemma offload_env_sel [simp]:
  "e_LookupEnv (offload_cluster_env vars uid) = vars"
  "e_Getuid (offload_cluster_env vars uid) = uid"
  "e_Now (offload_cluster_env vars uid) w = c_clock (ow_cluster w)"
  "e_GetDm (offload_cluster_env vars uid) ns n w = lookup_res (c_dms (ow_cluster w)) (ns, n)"
  "e_UpdateDm (offload_cluster_env vars uid) dm w = on_cluster (srv_write (put_object dm) dm) w"
  "e_UpdateDmStatus (offload_cluster_env vars uid) dm w = on_cluster (srv_write (put_status dm) dm) w"
  "e_Bash (offload_cluster_env vars uid) cmd timeout w = on_cluster (e_Bash (cluster_env vars uid) cmd timeout) w"
  "e_MkdirTemp (offload_cluster_env vars uid) d p w = on_cluster (e_MkdirTemp (cluster_env vars uid) d p) w"
  "e_MkdirAll (offload_cluster_env vars uid) d w = on_cluster (e_MkdirAll (cluster_env vars uid) d) w"
  "e_Create (offload_cluster_env vars uid) p w = on_cluster (e_Create (cluster_env vars uid) p) w"
  "e_WriteString (offload_cluster_env vars uid) p t w = on_cluster (e_WriteString (cluster_env vars uid) p t) w"
  "e_ReadFile (offload_cluster_env vars uid) p w = e_ReadFile (cluster_env vars uid) p (ow_cluster w)"
  "e_RemoveAll (offload_cluster_env vars uid) d w = w\<lparr>ow_cluster := e_RemoveAll (cluster_env vars uid) d (ow_cluster w)\<rparr>"
  "o_CreateDm (offload_cluster_env vars uid) = create_dm"
  by (simp_all add: offload_cluster_env_def Let_def cluster_env_def)

definition offload_store :: "offload_world \<Rightarrow> store" where
  "offload_store w = c_dms (ow_cluster w)"

lemma offload_store_cluster [simp]: "offload_store (w\<lparr>ow_cluster := c\<rparr>) = c_dms c"
  by (simp add: offload_store_def)

lemma create_apply_created:
  assumes "create_apply base dm w = (r, w')"
  shows "case r of Ok new \<Rightarrow> created base dm new (offload_store w) (offload_store w')
               | Err e \<Rightarrow> offload_store w' = offload_store w | Panic \<Rightarrow> False"
  using assms by (auto simp: create_apply_def created_def offload_store_def Let_def dm_key_def split: if_splits) (intro exI, rule refl)

lemma create_dm_created:
  assumes "create_dm base dm w = (r, w')"
  shows "case r of Ok new \<Rightarrow> created base dm new (offload_store w) (offload_store w')
               | Err e \<Rightarrow> offload_store w' = offload_store w \<or> (\<exists>new. created base dm new (offload_store w) (offload_store w'))
               | Panic \<Rightarrow> False"
proof -
  let ?w = "w\<lparr>ow_cluster := (ow_cluster w)\<lparr>c_faults := tl (c_faults (ow_cluster w))\<rparr>\<rparr>"
  obtain r1 w1 where ap: "create_apply base dm ?w = (r1, w1)" by fastforce
  show ?thesis
    using assms create_apply_created[OF ap] ap
    by (auto simp: create_dm_def Let_def offload_store_def split: if_splits option.splits result.splits)
qed

interpretation offload_shell: shell_view "offload_cluster_env vars uid" offload_store
  by unfold_locales (auto simp: on_cluster_def offload_store_def cluster_env_def split: option.splits)

interpretation offload_server: creating_server "offload_cluster_env vars uid" offload_store
proof
  fix dm w r w'
  assume "e_UpdateDmStatus (offload_cluster_env vars uid) dm w = (r, w')"
  then obtain c where c: "srv_write (put_status dm) dm (ow_cluster w) = (r, c)" "w' = w\<lparr>ow_cluster := c\<rparr>"
    by (auto simp: on_cluster_def split: prod.splits)
  have acc: "status_accept dm (c_dms (ow_cluster w)) (c_dms c)"
    if "api_accept (put_status dm) dm new (cluster_api (ow_cluster w)) (cluster_api c)" for new
    using that by (fastforce simp: api_accept_def status_accept_def cluster_api_def Let_def)
  show "case r of Ok new \<Rightarrow> status_accept dm (offload_store w) (offload_store w')
        | Err e \<Rightarrow> offload_store w' = offload_store w \<or> status_accept dm (offload_store w) (offload_store w')
        | Panic \<Rightarrow> False"
    using srv_write_write[OF c(1)] acc c(2)
    by (auto simp: api_write_def offload_store_def cluster_api_def split: result.splits)
qed (use create_dm_created in \<open>auto simp: lookup_res_def offload_store_def split: option.splits\<close>)

end
