(* ===== verification/Offload_Safety.thy ===== *)
theory Offload_Safety
  imports Offload_Cluster
begin

text \<open>
  What the copy-offload daemon guarantees: which requests it tracks and cancels, what it writes, what it
  reports, and where it loses a result.
\<close>

section \<open>A request on a concrete cluster\<close>

text \<open>One workflow in \<^verbatim>\<open>PreRun\<close>, a gfs2 mount on a compute node and on its rabbit, one worker pod there.\<close>

definition offload_vars :: "string \<Rightarrow> string option" where
  "offload_vars = [''NNF_TEST_ENVIRONMENT'' \<mapsto> ''true'', ''DW_WORKFLOW_NAME'' \<mapsto> ''wf'',
                   ''DW_WORKFLOW_NAMESPACE'' \<mapsto> ''default'']"

abbreviation "offload_env0 \<equiv> offload_cluster_env offload_vars 0"

definition demo_device :: DeviceReference where
  "demo_device = (\<lparr>ref_Kind = KindNnfNodeStorage, ref_Name = ''st'', ref_Namespace = ''rabbit-0''\<rparr>, 0)"

definition demo_mount :: "string \<Rightarrow> string \<Rightarrow> ClientMount" where
  "demo_mount node path =
     \<lparr>cm_Name = ''cm'', cm_Namespace = node,
      cm_Labels = Some [(WorkflowNameLabel, ''wf''), (WorkflowNamespaceLabel, ''default'')],
      cm_Mounts = [\<lparr>MountPath = path, mount_Type = ''gfs2'', device_Type = ''lvm'', device_Reference = Some demo_device\<rparr>]\<rparr>"

definition demo_pod :: "PodQuery \<times> Pod" where
  "demo_pod =
     (\<lparr>q_Namespace = ''default'',
       q_Labels = [(''training.kubeflow.org/job-name'', ''wf''), (''training.kubeflow.org/job-role'', ''worker'')],
       q_NodeName = Some ''rabbit-0''\<rparr>,
      \<lparr>pod_Name = ''worker'', pod_NodeName = ''rabbit-0'', pod_PodIP = ''10.1.1.1''\<rparr>)"

definition demo_world :: offload_world where
  "demo_world =
     \<lparr>ow_cluster = empty_cluster\<lparr>c_pods := [demo_pod], c_clock := 7\<rparr>,
      ow_workflows = [(''default'', ''wf'') \<mapsto>
        \<lparr>wf_Name = ''wf'', wf_Namespace = ''default'', wf_Uid = ''u'', wf_UserID = 1050, wf_GroupID = 1051,
         wf_State = ''PreRun'', wf_Status = ''Completed''\<rparr>],
      ow_mounts = [demo_mount ''compute-0'' ''/mnt/nnf/1'', demo_mount ''rabbit-0'' ''/mnt/nnf/rabbit''],
      ow_lustre = [], ow_profiles = [sample_profile []],
      ow_storage = [\<lparr>sn_Name = ''rabbit-0'', ComputesAccess = [''compute-0'', ''compute-1'']\<rparr>], ow_serial = 0\<rparr>"

definition demo_request :: DMRequest where
  "demo_request =
     \<lparr>ComputeName = ''compute-0'', SourcePath = ''/mnt/nnf/1/out'', DestinationPath = ''/lus/b'', req_Dryrun = True,
      req_DcpOptions = [], req_LogStdout = False, req_StoreStdout = False, req_Slots = - 1, req_MaxSlots = - 1,
      DMProfile = [], req_MpirunOptions = []\<rparr>"

definition demo_driver :: "offload_world driver" where
  "demo_driver = \<lparr>Mock = False, MockCount = 0, WorkflowName = ''wf'', WorkflowNamespace = ''default'', drv_world = demo_world,
     drv_contexts = [], drv_cancelled = (\<lambda>_. False), drv_next = 0, drv_mockDM = Map.empty, drv_completions = [],
     drv_running = Map.empty\<rparr>"

text \<open>The request is created, driven, and its command ends with an error.\<close>

definition demo_s1 :: "offload_world driver" where
  "demo_s1 = snd (Create offload_env0 demo_request demo_driver)"

definition demo_pair :: "DriverRequest \<times> NnfDataMovement" where
  "demo_pair =
     (case fst (Create offload_env0 demo_request demo_driver) of
        Ok (k, r, dm) \<Rightarrow> (r, dm)
      | _ \<Rightarrow> (\<lparr>dmProfile = sample_profile [], mpiHostfile = [], cmdArgs = [], RabbitName = []\<rparr>, sample_dm))"

definition demo_s2 :: "offload_world driver" where
  "demo_s2 = snd (Drive offload_env0 (fst demo_pair) (snd demo_pair) demo_s1)"

definition demo_err :: goerr where "demo_err = PlainErr ''exit status 1''"

definition demo_s3 :: "offload_world driver" where
  "demo_s3 = snd (finish_offload offload_env0 0 (Some demo_err) demo_s2)"

definition demo_name :: string where "demo_name = ''rabbit-0--nnf-copy-offload-node-0''"

definition demo_key :: "string \<times> string" where "demo_key = (''rabbit-0'', ''nnf-copy-offload-node-0'')"

definition stored_status :: "offload_world driver \<Rightarrow> NnfDataMovementStatus option" where
  "stored_status s = map_option dm_Status (c_dms (ow_cluster (drv_world s)) demo_key)"

text \<open>One evaluation of the whole run, from which the facts about its states follow.\<close>

definition demo_goroutine :: "offload_world driver \<Rightarrow> bool" where
  "demo_goroutine s =
     (case drv_running s 0 of
        None \<Rightarrow> False
      | Some run \<Rightarrow>
          dmKey (or_dm run) = demo_name \<and> dm_key (or_dm run) = demo_key \<and>
          ProgressCollectionEnabled (progressCollectInterval (or_profile run)) \<and>
          fst (read_progress (or_progressStart run) (e_Now offload_env0 (drv_world s)) (or_parseBuf run) (or_cmdStatus run)))"

lemma demo_run:
  "(case Create offload_env0 demo_request demo_driver of
      (Ok (k, r, dm), s1) \<Rightarrow>
        k = demo_name \<and> \<not> Mock s1 \<and> phase_of (s1, [(r, dm)]) demo_name = Waiting \<and>
        (case Drive offload_env0 r dm s1 of
           (Ok u, s2) \<Rightarrow>
             \<not> Mock s2 \<and> phase_of (s2, []) demo_name = Copying \<and> map_option State (stored_status s2) = Some TypeRunning \<and>
             drv_contexts s2 = [(demo_name, 0)] \<and> demo_goroutine s2 \<and>
             (case finish_offload offload_env0 0 (Some demo_err) s2 of
                (Ok u, s3) \<Rightarrow>
                  phase_of (s3, []) demo_name = Completed \<and> map_option State (stored_status s3) = Some TypeFinished \<and>
                  map_option Status (stored_status s3) = Some ReasonSuccess
              | _ \<Rightarrow> False)
         | _ \<Rightarrow> False)
    | _ \<Rightarrow> False)"
  by code_simp

lemma case_Ok: "(case p of (Ok v, s) \<Rightarrow> P v s | _ \<Rightarrow> False) \<Longrightarrow> \<exists>v s. p = (Ok v, s) \<and> P v s"
  by (auto split: prod.splits result.splits)

lemma demo_eval:
  "Create offload_env0 demo_request demo_driver = (Ok (demo_name, demo_pair), demo_s1)"
  "Drive offload_env0 (fst demo_pair) (snd demo_pair) demo_s1 = (Ok (), demo_s2)"
  "finish_offload offload_env0 0 (Some demo_err) demo_s2 = (Ok (), demo_s3)"
proof -
  obtain r dm s1 s2 s3 where run: "Create offload_env0 demo_request demo_driver = (Ok (demo_name, r, dm), s1)"
    "Drive offload_env0 r dm s1 = (Ok (), s2)" "finish_offload offload_env0 0 (Some demo_err) s2 = (Ok (), s3)"
    using demo_run by (auto dest!: case_Ok)
  have s1: "demo_pair = (r, dm)" "demo_s1 = s1" using run(1) by (simp_all add: demo_pair_def demo_s1_def)
  have s2: "demo_s2 = s2" using run(2) by (simp add: demo_s2_def s1)
  have s3: "demo_s3 = s3" using run(3) by (simp add: demo_s3_def s2)
  show "Create offload_env0 demo_request demo_driver = (Ok (demo_name, demo_pair), demo_s1)"
    "Drive offload_env0 (fst demo_pair) (snd demo_pair) demo_s1 = (Ok (), demo_s2)"
    "finish_offload offload_env0 0 (Some demo_err) demo_s2 = (Ok (), demo_s3)"
    unfolding s1 s2 s3 fst_conv snd_conv by (rule run)+
qed

lemmas demo_states = demo_run [unfolded demo_eval(1) prod.case result.case, unfolded case_prod_beta demo_eval(2) fst_conv snd_conv
    result.case, unfolded demo_eval(3) fst_conv snd_conv result.case]

lemma demo_mode [simp]: "\<not> Mock demo_driver" "\<not> Mock demo_s1" "\<not> Mock demo_s2"
  using demo_states by (simp_all add: demo_driver_def)

lemma demo_phases:
  "phase_of (demo_driver, []) demo_name = Unknown"
  "phase_of (demo_s1, [demo_pair]) demo_name = Waiting"
  "phase_of (demo_s2, []) demo_name = Copying"
  "phase_of (demo_s3, []) demo_name = Completed"
  using demo_states by simp_all (simp add: phase_of_def demo_driver_def)

lemma demo_status:
  "map_option State (stored_status demo_s2) = Some TypeRunning"
  "map_option State (stored_status demo_s3) = Some TypeFinished"
  "map_option Status (stored_status demo_s3) = Some ReasonSuccess"
  using demo_states by simp_all

lemma demo_listed: "drv_contexts demo_s2 = [(demo_name, 0)]"
  using demo_states by simp

lemma demo_running:
  obtains run where "drv_running demo_s2 0 = Some run" "dmKey (or_dm run) = demo_name" "dm_key (or_dm run) = demo_key"
    "ProgressCollectionEnabled (progressCollectInterval (or_profile run))"
    "fst (read_progress (or_progressStart run) (e_Now offload_env0 (drv_world demo_s2)) (or_parseBuf run) (or_cmdStatus run))"
  using demo_states by (auto simp: demo_goroutine_def split: option.splits)

lemma offload_demo_reach:
  "reach (offload_init offload_env0) (offload_step offload_env0) (demo_driver, [])"
  "reach (offload_init offload_env0) (offload_step offload_env0) (demo_s1, [demo_pair])"
  "reach (offload_init offload_env0) (offload_step offload_env0) (demo_s2, [])"
  "reach (offload_init offload_env0) (offload_step offload_env0) (demo_s3, [])"
proof -
  have "NewDriver offload_env0 False demo_world = Ok demo_driver"
    by (simp add: NewDriver_def Getenv_def offload_vars_def demo_driver_def)
  then show r0: "reach (offload_init offload_env0) (offload_step offload_env0) (demo_driver, [])"
    by (intro reach_init) (auto simp: offload_init_def)
  have "Create offload_env0 demo_request demo_driver = (Ok (demo_name, fst demo_pair, snd demo_pair), demo_s1)"
    using demo_eval(1) by simp
  then have "offload_step offload_env0 (demo_driver, []) (demo_s1, [demo_pair])"
    using offload_steps(1)[of demo_driver offload_env0 demo_request demo_name "fst demo_pair" "snd demo_pair" demo_s1 "[]"]
    by (simp add: demo_driver_def)
  with r0 show r1: "reach (offload_init offload_env0) (offload_step offload_env0) (demo_s1, [demo_pair])"
    by (rule reach_step)
  have "offload_step offload_env0 (demo_s1, [demo_pair]) (demo_s2, [])"
    using offload_steps(2)[of demo_s1 "fst demo_pair" "snd demo_pair" "[demo_pair]" offload_env0 "Ok ()" demo_s2]
      demo_eval(2) by simp
  with r1 show r2: "reach (offload_init offload_env0) (offload_step offload_env0) (demo_s2, [])" by (rule reach_step)
  have "offload_step offload_env0 (demo_s2, []) (demo_s3, [])"
    by (rule offload_steps(3)[OF demo_eval(3)])
  with r2 show "reach (offload_init offload_env0) (offload_step offload_env0) (demo_s3, [])" by (rule reach_step)
qed

section \<open>What the daemon tracks\<close>

lemma ListRequests_iff: "k \<in> set (ListRequests s) \<longleftrightarrow> map_of (drv_contexts s) k \<noteq> None"
  by (force simp: ListRequests_def map_of_eq_None_iff)

text \<open>
  C5. The daemon implements the life cycle of a request, with five phases. In every reachable state, every step of
  the daemon takes every request along an edge of \<open>life_step\<close>: from unknown to waiting, from waiting to copying, from
  there to completed, and from completed to unknown or waiting again; a request that could not be driven goes from
  waiting to completed. The fifth phase is lost: tracked for ever, with no goroutine and no handler. A request gets
  there only outside mock mode and only in two ways: its command has ended and its data movement could not be read
  after the last report, or the handler that drives it panicked.
\<close>

theorem request_lifecycle:
  assumes "reach (offload_init E) (offload_step E) \<sigma>" and "offload_step E \<sigma> \<sigma>'"
  shows "life_step (phase_of \<sigma> k) (phase_of \<sigma>' k) \<and>
    (phase_of \<sigma> k \<noteq> Lost \<and> phase_of \<sigma>' k = Lost \<longrightarrow>
       \<not> Mock (fst \<sigma>) \<and>
       ((\<exists>r dm. (r, dm) \<in> set (snd \<sigma>) \<and> dmKey dm = k \<and> Drive E r dm (fst \<sigma>) = (Panic, fst \<sigma>')) \<or>
        (\<exists>i run werr e. drv_running (fst \<sigma>) i = Some run \<and> dmKey (or_dm run) = k \<and>
           finish_offload E i werr (fst \<sigma>) = (Ok (), fst \<sigma>') \<and>
           e_GetDm E (dm_Namespace (or_dm run)) (dm_Name (or_dm run)) (drv_world (last_report E i werr run (fst \<sigma>))) = Err e)))"
  using offload_step_life[OF offload.inv_reachable[OF assms(1)] assms(2), of k]
  unfolding regular_step_def loses_def by blast

theorem request_lifecycle_witness:
  "life_step (phase_of (demo_s1, [demo_pair]) demo_name) (phase_of (demo_s2, []) demo_name) \<and>
   phase_of (demo_s1, [demo_pair]) demo_name = Waiting \<and> phase_of (demo_s2, []) demo_name = Copying"
proof -
  have "offload_step offload_env0 (demo_s1, [demo_pair]) (demo_s2, [])"
    using offload_steps(2)[of demo_s1 "fst demo_pair" "snd demo_pair" "[demo_pair]" offload_env0 "Ok ()" demo_s2]
      demo_eval(2) by simp
  from request_lifecycle[OF offload_demo_reach(2) this, of demo_name] demo_phases(2,3) show ?thesis by blast
qed

text \<open>
  C8. Every command the daemon runs is listed and can be cancelled under the name of its request, and no
  other goroutine runs for that name.
\<close>

theorem running_copy_tracked:
  assumes "reach (offload_init E) (offload_step E) (s, p)" and "drv_running s i = Some run"
  shows "dmKey (or_dm run) \<in> set (ListRequests s) \<and>
         CancelRequest (dmKey (or_dm run)) s = (Ok (), s\<lparr>drv_cancelled := (drv_cancelled s)(i := True)\<rparr>) \<and>
         (\<forall>j run'. drv_running s j = Some run' \<and> dmKey (or_dm run') = dmKey (or_dm run) \<longrightarrow> j = i)"
proof -
  have t: "tracked (map_of (drv_contexts s), drv_next s, run_dms s, set (drv_completions s)) (map snd p)"
    using offload.inv_reachable[OF assms(1)] by (simp add: offload_inv_def tracking_def)
  have own: "map_of (drv_contexts s) (dmKey (or_dm run')) = Some j" if "drv_running s j = Some run'" for j run'
    using trackedD(3)[OF t, of j "or_dm run'"] that by (simp add: run_dms_def)
  show ?thesis
    using own[OF assms(2)] by (auto simp: ListRequests_iff CancelRequest_def loadRequestByName_def dest: own)
qed

theorem running_copy_tracked_witness:
  "\<exists>run. drv_running demo_s2 0 = Some run \<and> dmKey (or_dm run) = demo_name \<and> demo_name \<in> set (ListRequests demo_s2)"
proof -
  obtain run where run: "drv_running demo_s2 0 = Some run" "dmKey (or_dm run) = demo_name" by (rule demo_running)
  from running_copy_tracked[OF offload_demo_reach(3) run(1)] run show ?thesis by auto
qed

section \<open>What the daemon reports\<close>

text \<open>The progress report at the end of the command forgets how the command ended.\<close>

lemma progress_forgets_err:
  assumes "\<not> Mock s"
    and "fst (read_progress (or_progressStart run) (e_Now E (drv_world s)) (or_parseBuf run) (or_cmdStatus run))"
  shows "offload_progress E i (s\<lparr>drv_running := (drv_running s)(i \<mapsto> run\<lparr>or_err := err\<rparr>)\<rparr>) =
         offload_progress E i (s\<lparr>drv_running := (drv_running s)(i \<mapsto> run\<lparr>or_err := err'\<rparr>)\<rparr>)"
  using assms by (auto simp: offload_progress_def set_mockDM_def Let_def split: prod.splits)

text \<open>
  C40. With progress collection enabled, and unless a line of the output does not parse, the result of the
  command is ignored: the end of the goroutine is the same for a failed and for a successful command,
  because the last progress report overwrites the error of \<^verbatim>\<open>cmd.Wait\<close>.
\<close>

theorem copy_failure_masked:
  assumes "\<not> Mock s" and "drv_running s i = Some run"
    and "ProgressCollectionEnabled (progressCollectInterval (or_profile run))"
    and "fst (read_progress (or_progressStart run) (e_Now E (drv_world s)) (or_parseBuf run) (or_cmdStatus run))"
  shows "finish_offload E i (Some err) s = finish_offload E i None s"
  using progress_forgets_err[OF assms(1,4), of i "Some err" None] assms(2,3) by (simp add: finish_offload_def last_report_def)

theorem copy_failure_masked_witness:
  "finish_offload offload_env0 0 (Some demo_err) demo_s2 = finish_offload offload_env0 0 None demo_s2 \<and>
   map_option Status (stored_status demo_s3) = Some ReasonSuccess"
proof -
  obtain run where run: "drv_running demo_s2 0 = Some run"
      "ProgressCollectionEnabled (progressCollectInterval (or_profile run))"
      "fst (read_progress (or_progressStart run) (e_Now offload_env0 (drv_world demo_s2)) (or_parseBuf run) (or_cmdStatus run))"
    by (rule demo_running)
  from copy_failure_masked[OF demo_mode(3) run] demo_status(3) show ?thesis by blast
qed

section \<open>When a result is lost\<close>

lemma unreadable_unchanged:
  assumes "e_GetDm E (fst k) (snd k) w = Err e"
  shows "snd (RetryOnConflict (modify_status E k change) w) = w"
proof -
  have f: "modify_status E k change w = (case IgnoreNotFound e of None \<Rightarrow> (Ok (), w) | Some e \<Rightarrow> (Err e, w))"
    using assms by (simp add: modify_status_def)
  have "snd (OnError m IsConflict (modify_status E k change) w) = w" for m
    by (induction m) (simp_all add: f split: option.split)
  then show ?thesis by (simp add: RetryOnConflict_def)
qed

lemma progress_unreadable:
  assumes "drv_running s i = Some run" and "e_GetDm E (dm_Namespace (or_dm run)) (dm_Name (or_dm run)) (drv_world s) = Err e"
  shows "drv_world (offload_progress E i s) = drv_world s \<and>
         (\<exists>run'. drv_running (offload_progress E i s) i = Some run' \<and> or_dm run' = or_dm run)"
proof -
  have "snd (RetryOnConflict (modify_status E (dm_Namespace (or_dm run), dm_Name (or_dm run)) ch) (drv_world s)) = drv_world s" for ch
    by (rule unreadable_unchanged) (simp add: assms(2))
  then show ?thesis
    using assms(1) by (auto simp: offload_progress_def Let_def split: prod.splits) (metis snd_conv)
qed

text \<open>A goroutine that cannot read its data movement at the end stops, and nothing else happens.\<close>

lemma finish_unreadable:
  assumes "\<not> Mock s" and "drv_running s i = Some run" and "e_GetDm E (dm_Namespace (or_dm run)) (dm_Name (or_dm run)) (drv_world s) = Err e"
  shows "\<exists>s'. finish_offload E i werr s = (Ok (), s') \<and> drv_contexts s' = drv_contexts s \<and>
    drv_running s' i = None \<and> drv_world s' = drv_world s"
proof -
  define s1 where "s1 = last_report E i werr run s"
  have "drv_world s1 = drv_world s \<and> (\<exists>run'. drv_running s1 i = Some run' \<and> or_dm run' = or_dm run)"
    using progress_unreadable[of "s\<lparr>drv_running := (drv_running s)(i \<mapsto> run\<lparr>or_err := werr\<rparr>)\<rparr>" i "run\<lparr>or_err := werr\<rparr>" E e] assms(3)
    by (simp add: s1_def last_report_def Let_def)
  moreover have "drv_contexts s1 = drv_contexts s" "Mock s1 = Mock s" by (simp_all add: s1_def)
  ultimately show ?thesis
    using assms unfolding finish_offload_def assms(2) option.case Let_def s1_def[symmetric] by auto
qed

lemma lost_steps:
  assumes "(offload_step E)\<^sup>*\<^sup>* \<sigma> \<sigma>'" and "reach (offload_init E) (offload_step E) \<sigma>" and "phase_of \<sigma> k = Lost"
  shows "phase_of \<sigma>' k = Lost \<and> reach (offload_init E) (offload_step E) \<sigma>'"
  using assms
proof (induction rule: rtranclp_induct)
  case (step \<sigma>1 \<sigma>2)
  then have r: "reach (offload_init E) (offload_step E) \<sigma>1" and l: "phase_of \<sigma>1 k = Lost" by auto
  have "life_step (phase_of \<sigma>1 k) (phase_of \<sigma>2 k)"
    using offload_step_life[OF offload.inv_reachable[OF r] step.hyps(2)] regular_life by blast
  then show ?case using l reach_step[OF r step.hyps(2)] by simp
qed simp

text \<open>
  A command whose data movement cannot be read when it ends, because it was deleted meanwhile or the
  API server did not answer, is lost: its goroutine is gone and its request stays in the list of active
  requests whatever happens later.
\<close>

lemma lost_request_stays_listed:
  assumes "reach (offload_init E) (offload_step E) (s, p)" and "\<not> Mock s" and "drv_running s i = Some run"
    and "e_GetDm E (dm_Namespace (or_dm run)) (dm_Name (or_dm run)) (drv_world s) = Err e"
  shows "\<exists>s'. finish_offload E i werr s = (Ok (), s') \<and> drv_running s' i = None \<and>
           (\<forall>\<sigma>. (offload_step E)\<^sup>*\<^sup>* (s', p) \<sigma> \<longrightarrow> dmKey (or_dm run) \<in> set (ListRequests (fst \<sigma>)))"
proof -
  obtain s' where s': "finish_offload E i werr s = (Ok (), s')" "drv_contexts s' = drv_contexts s" "drv_running s' i = None"
    using finish_unreadable[OF assms(2,3,4)] by blast
  have t: "tracked (map_of (drv_contexts s), drv_next s, run_dms s, set (drv_completions s)) (map snd p)"
    using offload.inv_reachable[OF assms(1)] by (simp add: offload_inv_def tracking_def)
  have run: "run_dms s i = Some (or_dm run)" using assms(3) by (simp add: run_dms_def)
  have c: "map_of (drv_contexts s) (dmKey (or_dm run)) = Some i" by (rule trackedD(3)[OF t run])
  have "dmKey (or_dm run) \<notin> dmKey ` snd ` set p"
    using trackedD(4)[OF t] c run by fastforce
  then have "phase_of (s', p) (dmKey (or_dm run)) = Lost" using s' c by (simp add: phase_of_def)
  moreover have "reach (offload_init E) (offload_step E) (s', p)"
    by (rule reach_step[OF assms(1)]) (rule offload_steps(3)[OF s'(1)])
  ultimately have lost: "phase_of \<sigma> (dmKey (or_dm run)) = Lost" if "(offload_step E)\<^sup>*\<^sup>* (s', p) \<sigma>" for \<sigma>
    using lost_steps[OF that] by blast
  have "dmKey (or_dm run) \<in> set (ListRequests (fst \<sigma>))" if "(offload_step E)\<^sup>*\<^sup>* (s', p) \<sigma>" for \<sigma>
    using lost[OF that] by (auto simp: ListRequests_iff phase_of_def split: option.splits if_splits)
  then show ?thesis using s' by blast
qed

text \<open>The data movement of the example is deleted while it is copied.\<close>

definition demo_deleted :: "offload_world driver" where
  "demo_deleted = demo_s2\<lparr>drv_world := demo_world\<rparr>"

lemma lost_request_stays_listed_witness:
  "\<exists>s'. finish_offload offload_env0 0 None demo_deleted = (Ok (), s') \<and> drv_running s' 0 = None \<and>
        demo_name \<in> set (ListRequests s')"
proof -
  have r: "reach (offload_init offload_env0) (offload_step offload_env0) (demo_deleted, [])"
    unfolding demo_deleted_def by (rule reach_step[OF offload_demo_reach(3)]) (rule offload_step.world)
  obtain run where "drv_running demo_s2 0 = Some run" "dmKey (or_dm run) = demo_name" "dm_key (or_dm run) = demo_key"
    by (rule demo_running)
  then have run: "drv_running demo_deleted 0 = Some run" "dmKey (or_dm run) = demo_name"
      "dm_Namespace (or_dm run) = fst demo_key" "dm_Name (or_dm run) = snd demo_key"
    by (auto simp: demo_deleted_def dm_key_def demo_key_def)
  have "e_GetDm offload_env0 (fst demo_key) (snd demo_key) (drv_world demo_deleted) = Err (ApiErr NotFound ''not found'')"
    by (simp add: lookup_res_def demo_deleted_def demo_world_def empty_cluster_def)
  moreover have "\<not> Mock demo_deleted" by (simp add: demo_deleted_def)
  ultimately show ?thesis
    using lost_request_stays_listed[OF r _ run(1)] run by (fastforce simp del: offload_env_sel)
qed

end
