(* ===== verification/Offload_Results.thy ===== *)
theory Offload_Results
  imports Offload_Safety
begin

text \<open>
  What the daemon writes to the API server and what it answers: retries of conflicting updates, the status
  recorded at the start and at the end of a copy, and the answers to status requests.
\<close>

section \<open>Retries\<close>

fun attempts :: "('w \<Rightarrow> 'r \<times> 'w) \<Rightarrow> nat \<Rightarrow> 'w \<Rightarrow> 'w" where
  "attempts f 0 w = w"
| "attempts f (Suc n) w = attempts f n (snd (f w))"

definition conflicts :: "unit res \<times> 'w \<Rightarrow> bool" where
  "conflicts x = (case fst x of Err e \<Rightarrow> IsConflict e | _ \<Rightarrow> False)"

lemma OnError_attempts:
  assumes "m \<noteq> 0"
  shows "\<exists>k<m. OnError m IsConflict f w = f (attempts f k w) \<and>
           (\<forall>j<k. conflicts (f (attempts f j w))) \<and> (conflicts (f (attempts f k w)) \<longrightarrow> Suc k = m)"
  using assms
proof (induction m arbitrary: w)
  case (Suc m)
  obtain r w' where f: "f w = (r, w')" by fastforce
  show ?case
  proof (cases "conflicts (f w) \<and> m \<noteq> 0")
    case True
    then obtain e where e: "r = Err e" "IsConflict e" using f by (auto simp: conflicts_def split: result.splits)
    obtain k where k: "k < m" "OnError m IsConflict f w' = f (attempts f k w')"
        "\<forall>j<k. conflicts (f (attempts f j w'))" "conflicts (f (attempts f k w')) \<longrightarrow> Suc k = m"
      using Suc.IH[of w'] True by blast
    have "\<forall>j<Suc k. conflicts (f (attempts f j w))"
      using True k(3) f by (auto simp: less_Suc_eq_0_disj)
    then show ?thesis using k e f True by (intro exI[of _ "Suc k"]) simp
  next
    case False
    then show ?thesis using f by (intro exI[of _ 0]) (auto simp: conflicts_def split: result.splits)
  qed
qed simp

text \<open>
  C31. An update is tried at most five times: \<^verbatim>\<open>RetryOnConflict\<close> returns the outcome of the first attempt
  that does not end in a conflict, and a conflict only when all five attempts did.
\<close>

theorem RetryOnConflict_spec:
  "\<exists>k<5. RetryOnConflict f w = f (attempts f k w) \<and> (\<forall>j<k. conflicts (f (attempts f j w))) \<and>
     (conflicts (f (attempts f k w)) \<longrightarrow> k = 4)"
proof -
  have five: "(5::nat) \<noteq> 0" by simp
  obtain k where "k < 5" "OnError 5 IsConflict f w = f (attempts f k w)"
      "\<forall>j<k. conflicts (f (attempts f j w))" "conflicts (f (attempts f k w)) \<longrightarrow> Suc k = 5"
    using OnError_attempts[OF five, of f w] by blast
  then show ?thesis unfolding RetryOnConflict_def by (intro exI[of _ k]) auto
qed

definition demo_conflict :: "nat \<Rightarrow> unit res \<times> nat" where
  "demo_conflict n = (if n = 0 then (Ok (), 0) else (Err (ApiErr Conflict ''conflict''), n - 1))"

theorem RetryOnConflict_spec_witness:
  "(\<exists>k<5. RetryOnConflict demo_conflict 3 = demo_conflict (attempts demo_conflict k 3)) \<and>
   RetryOnConflict demo_conflict 3 = (Ok (), 0) \<and>
   RetryOnConflict demo_conflict 9 = (Err (ApiErr Conflict ''conflict''), 4)"
proof (intro conjI)
  show "\<exists>k<5. RetryOnConflict demo_conflict 3 = demo_conflict (attempts demo_conflict k 3)"
    using RetryOnConflict_spec[of demo_conflict 3] by blast
  show "RetryOnConflict demo_conflict 3 = (Ok (), 0)" by code_simp
  show "RetryOnConflict demo_conflict 9 = (Err (ApiErr Conflict ''conflict''), 4)" by code_simp
qed

section \<open>What is written\<close>

context direct_server
begin

lemma progress_only:
  assumes "drv_running s i = Some run" and "stored_keys (store (drv_world s))"
  shows "only_status (dm_key (or_dm run)) (store (drv_world s)) (store (drv_world (offload_progress E i s)))"
  using assms by (auto simp: offload_progress_def Let_def dm_key_def split: prod.splits dest!: RetryOnConflict_only[OF _ _ modify_status_only])

lemma finish_only:
  assumes "drv_running s i = Some run" and "stored_keys (store (drv_world s))" and "finish_offload E i werr s = (res, s')"
  shows "only_status (dm_key (or_dm run)) (store (drv_world s)) (store (drv_world s'))"
proof -
  define s1 where "s1 = last_report E i werr run s"
  have o1: "only_status (dm_key (or_dm run)) (store (drv_world s)) (store (drv_world s1))"
    using progress_only[of "s\<lparr>drv_running := (drv_running s)(i \<mapsto> run\<lparr>or_err := werr\<rparr>)\<rparr>" i "run\<lparr>or_err := werr\<rparr>"] assms(2)
    by (simp add: s1_def last_report_def Let_def)
  obtain run1 where run1: "drv_running s1 i = Some run1" "or_dm run1 = or_dm run"
    using last_report_tracking(2)[OF assms(1)] unfolding s1_def by blast
  have k1: "stored_keys (store (drv_world s1))" by (rule only_status_keys[OF o1 assms(2)])
  have retry: "only_status (dm_key (or_dm run)) (store (drv_world s)) (store w2)"
    if "RetryOnConflict (final_update E (dm_Namespace (or_dm run), dm_Name (or_dm run)) st cs)
          (e_RemoveAll E d (drv_world s1)) = (r, w2)" for st cs d r w2
    using RetryOnConflict_only[OF that _ final_update_only] k1 o1 by (auto simp: removeAll_keeps dm_key_def intro: only_status_trans)
  show ?thesis
    using assms(3) o1 unfolding finish_offload_def assms(1) option.case Let_def s1_def[symmetric] run1
    by (auto simp: removeAll_keeps deleteRequest_def notifyCompletion_def split: result.splits if_splits prod.splits dest: retry)
qed

lemma drive_only:
  assumes "stored_keys (store (drv_world s))" and "Drive E r dm s = (res, s')"
  shows "only_status (dm_key dm) (store (drv_world s)) (store (drv_world s'))"
proof -
  have retry: "only_status (dm_key dm) (store (drv_world s)) (store w2)"
    if "RetryOnConflict (\<lambda>w. modify_status E (dm_Namespace dm, dm_Name dm) (ch w) w) (drv_world s) = (r, w2)" for ch r w2
    using RetryOnConflict_only[OF that assms(1) modify_status_only] by (simp add: dm_key_def)
  show ?thesis
    using assms(2) unfolding Drive_def driveWithContext_def
    by (auto simp: Let_def removeAll_keeps deleteRequest_def notifyCompletion_def
        split: result.splits prod.splits if_splits dest: retry)
qed

end

text \<open>
  C11. Copies do not interfere: starting a request, reporting its progress and finishing it change at most the
  status of its own data movement; every other data movement, and the specification of this one, stay as
  they are.
\<close>

theorem daemon_writes_own_status:
  assumes "stored_keys (offload_store (drv_world s))" and "drv_running s i = Some run"
  shows "only_status (dm_key dm) (offload_store (drv_world s))
           (offload_store (drv_world (snd (Drive (offload_cluster_env vars uid) r dm s)))) \<and>
         only_status (dm_key (or_dm run)) (offload_store (drv_world s))
           (offload_store (drv_world (offload_progress (offload_cluster_env vars uid) i s))) \<and>
         only_status (dm_key (or_dm run)) (offload_store (drv_world s))
           (offload_store (drv_world (snd (finish_offload (offload_cluster_env vars uid) i werr s))))"
  using offload_server.drive_only[OF assms(1)] offload_server.progress_only[OF assms(2,1)]
    offload_server.finish_only[OF assms(2,1)] prod.collapse by metis

text \<open>A running copy, with and without progress collection, on a server that reports some conflicts.\<close>

definition demo_running_dm :: NnfDataMovement where
  "demo_running_dm =
     sample_dm\<lparr>dm_Namespace := fst demo_key, dm_Name := snd demo_key,
       dm_Labels := [(WorkflowNameLabel, ''wf''), (WorkflowNamespaceLabel, ''default'')],
       dm_Status := empty_status\<lparr>State := TypeRunning, StartTime := Some 3, CommandStatus := Some empty_CommandStatus\<rparr>\<rparr>"

definition demo_run :: "int \<Rightarrow> OffloadRun" where
  "demo_run interval =
     \<lparr>or_dm = demo_running_dm,
      or_profile = (sample_profile [])\<lparr>prof_Data := (prof_Data (sample_profile []))\<lparr>ProgressIntervalSeconds := interval\<rparr>\<rparr>,
      or_hostfile = ''/tmp/dm-0/hostfile'', or_cmdStatus = empty_CommandStatus, or_parseBuf = [], or_combinedOut = [],
      or_progressStart = 3, or_err = None\<rparr>"

definition demo_copying :: "int \<Rightarrow> nat \<Rightarrow> offload_world driver" where
  "demo_copying interval m =
     demo_driver\<lparr>drv_world := demo_world\<lparr>ow_cluster := (ow_cluster demo_world)\<lparr>c_dms := [demo_key \<mapsto> demo_running_dm],
         c_faults := replicate m (Some (Conflict, False))\<rparr>\<rparr>,
       drv_contexts := [(demo_name, 0)], drv_next := 1, drv_running := [0 \<mapsto> demo_run interval]\<rparr>"

lemma demo_running_key [simp]: "dm_key demo_running_dm = demo_key"
  by (simp add: demo_running_dm_def dm_key_def)

lemma demo_copying_sel [simp]:
  "drv_running (demo_copying interval m) 0 = Some (demo_run interval)"
  "or_dm (demo_run interval) = demo_running_dm"
  "c_dms (ow_cluster (drv_world (demo_copying interval m))) = [demo_key \<mapsto> demo_running_dm]"
  "c_faults (ow_cluster (drv_world (demo_copying interval m))) = replicate m (Some (Conflict, False))"
  "\<not> Mock (demo_copying interval m)"
  by (simp_all add: demo_copying_def demo_run_def)

theorem daemon_writes_own_status_witness:
  "only_status demo_key [demo_key \<mapsto> demo_running_dm]
     (offload_store (drv_world (snd (finish_offload offload_env0 0 None (demo_copying 5 2)))))"
proof -
  have "stored_keys (offload_store (drv_world (demo_copying 5 2)))"
    by (auto simp: stored_keys_def offload_store_def split: if_splits)
  from daemon_writes_own_status[OF this, of 0 "demo_run 5" sample_dm offload_vars 0 "fst demo_pair" None]
  show ?thesis by (simp add: offload_store_def)
qed

text \<open>With up to four conflicts an update goes through.\<close>

abbreviation conflicts_planned :: "nat \<Rightarrow> offload_world \<Rightarrow> bool" where
  "conflicts_planned m w \<equiv> c_faults (ow_cluster w) = replicate m (Some (Conflict, False))"

definition put_dm :: "NnfDataMovement \<Rightarrow> offload_world \<Rightarrow> offload_world" where
  "put_dm dm w =
     w\<lparr>ow_cluster := (ow_cluster w)\<lparr>c_faults := [], c_revision := Suc (c_revision (ow_cluster w)),
        c_dms := (c_dms (ow_cluster w))(dm_key dm \<mapsto> dm\<lparr>dm_ResourceVersion := Suc (c_revision (ow_cluster w))\<rparr>)\<rparr>\<rparr>"

lemma modify_conflict:
  assumes "c_dms (ow_cluster w) k = Some dm" and "conflicts_planned (Suc m) w"
  shows "modify_status (offload_cluster_env vars uid) k ch w =
    (Err (ApiErr Conflict ''injected''),
     w\<lparr>ow_cluster := (ow_cluster w)\<lparr>c_faults := replicate m (Some (Conflict, False))\<rparr>\<rparr>)"
  using assms by (simp add: modify_status_def lookup_res_def on_cluster_def srv_write_def)

lemma modify_answered:
  assumes "c_dms (ow_cluster w) k = Some dm" and "dm_key dm = k" and "dm_DeletionTimestamp dm = None"
    and "conflicts_planned 0 w"
  shows "modify_status (offload_cluster_env vars uid) k ch w = (Ok (), put_dm (dm\<lparr>dm_Status := ch (dm_Status dm)\<rparr>) w)"
  using assms by (auto simp: modify_status_def lookup_res_def on_cluster_def srv_write_def srv_apply_def put_dm_def
      dm_key_def Let_def)

lemma retry_answered:
  assumes "c_dms (ow_cluster w) k = Some dm" and "dm_key dm = k" and "dm_DeletionTimestamp dm = None"
    and "conflicts_planned m w" and "m < n"
  shows "OnError n IsConflict (modify_status (offload_cluster_env vars uid) k ch) w =
           (Ok (), put_dm (dm\<lparr>dm_Status := ch (dm_Status dm)\<rparr>) w)"
  using assms
proof (induction m arbitrary: n w)
  case 0
  then show ?case by (cases n) (simp_all add: modify_answered[OF 0(1-4)])
next
  case (Suc m)
  let ?w = "w\<lparr>ow_cluster := (ow_cluster w)\<lparr>c_faults := replicate m (Some (Conflict, False))\<rparr>\<rparr>"
  obtain n' where n: "n = Suc n'" "m < n'" using Suc.prems(5) by (cases n) auto
  have "OnError n' IsConflict (modify_status (offload_cluster_env vars uid) k ch) ?w =
          (Ok (), put_dm (dm\<lparr>dm_Status := ch (dm_Status dm)\<rparr>) ?w)"
    using Suc.prems n(2) by (intro Suc.IH) simp_all
  then show ?case using n by (simp add: modify_conflict[OF Suc.prems(1,4)] put_dm_def)
qed

lemma finish_readable:
  assumes "\<not> Mock s" and "drv_running s i = Some run"
    and "\<not> ProgressCollectionEnabled (progressCollectInterval (or_profile run))"
    and "e_GetDm E (dm_Namespace (or_dm run)) (dm_Name (or_dm run)) (drv_world s) = Ok dm"
    and "st = offload_final_status (e_Now E (drv_world s)) (drv_cancelled s i) werr (run\<lparr>or_err := werr\<rparr>) dm"
    and "CommandStatus st \<noteq> None"
    and "RetryOnConflict (modify_status E (dm_Namespace (or_dm run), dm_Name (or_dm run))
           (\<lambda>_. st\<lparr>CommandStatus := Some (or_cmdStatus run)\<rparr>)) (e_RemoveAll E (Dir (or_hostfile run)) (drv_world s)) = (Ok (), w2)"
  shows "finish_offload E i werr s =
    (Ok (), notifyCompletion (or_dm run) (deleteRequest (or_dm run)
       (s\<lparr>drv_running := (drv_running s)(i := None), drv_world := w2\<rparr>)))"
proof -
  have "final_update E k st cs = modify_status E k (\<lambda>_. st\<lparr>CommandStatus := Some cs\<rparr>)" for k cs
    using assms(6) by (intro ext) (auto simp: final_update_def modify_status_def split: result.split)
  then show ?thesis using assms by (simp add: finish_offload_def last_report_def Let_def)
qed

text \<open>
  C20. Without progress collection, and with at most four conflicting writes of others, the end of a command
  is recorded in its data movement: finished, with the reason Cancelled if the request was cancelled,
  Failed if the command failed and Success otherwise; the request is no longer active, and its completion
  is noted for the status requests that wait for it.
\<close>

theorem offload_outcome_recorded:
  assumes "\<not> Mock s" and "drv_running s i = Some run"
    and "\<not> ProgressCollectionEnabled (progressCollectInterval (or_profile run))"
    and "c_dms (ow_cluster (drv_world s)) (dm_key (or_dm run)) = Some dm" and "dm_key dm = dm_key (or_dm run)"
    and "dm_DeletionTimestamp dm = None" and "CommandStatus (dm_Status dm) \<noteq> None"
    and "conflicts_planned m (drv_world s)" and "m \<le> 4"
  shows "\<exists>s' dm'. finish_offload (offload_cluster_env vars uid) i werr s = (Ok (), s') \<and>
           c_dms (ow_cluster (drv_world s')) (dm_key dm) = Some dm' \<and> dm_Spec dm' = dm_Spec dm \<and>
           State (dm_Status dm') = TypeFinished \<and> EndTime (dm_Status dm') = Some (c_clock (ow_cluster (drv_world s))) \<and>
           Status (dm_Status dm') =
             (if drv_cancelled s i then ReasonCancelled else if werr \<noteq> None then ReasonFailed else ReasonSuccess) \<and>
           dmKey (or_dm run) \<notin> set (ListRequests s') \<and> dmKey (or_dm run) \<in> set (drv_completions s')"
proof -
  let ?E = "offload_cluster_env vars uid"
  let ?k = "(dm_Namespace (or_dm run), dm_Name (or_dm run))"
  let ?run = "run\<lparr>or_err := werr\<rparr>"
  define st where "st = offload_final_status (c_clock (ow_cluster (drv_world s))) (drv_cancelled s i) werr ?run dm"
  define w1 where "w1 = e_RemoveAll ?E (Dir (or_hostfile run)) (drv_world s)"
  define st' where "st' = st\<lparr>CommandStatus := Some (or_cmdStatus run)\<rparr>"
  have k: "?k = dm_key dm" using assms(5) by (simp add: dm_key_def)
  have stored: "c_dms (ow_cluster w1) ?k = Some dm" and faults: "conflicts_planned m w1"
    using assms(4,5,8) by (simp_all add: w1_def cluster_env_def dm_key_def)
  have get: "e_GetDm ?E (dm_Namespace (or_dm run)) (dm_Name (or_dm run)) (drv_world s) = Ok dm"
    using assms(4) by (simp add: lookup_res_def dm_key_def)
  have retry: "RetryOnConflict (modify_status ?E ?k (\<lambda>_. st')) w1 = (Ok (), put_dm (dm\<lparr>dm_Status := st'\<rparr>) w1)"
    using retry_answered[OF stored k[symmetric] assms(6) faults, of 5 vars uid "\<lambda>_. st'"] assms(9)
    by (simp add: RetryOnConflict_def)
  have cs: "CommandStatus st \<noteq> None"
    using assms(7) by (simp add: st_def offload_final_status_def Let_def split: option.split)
  have fin: "State st' = TypeFinished" "EndTime st' = Some (c_clock (ow_cluster (drv_world s)))"
      "Status st' = (if drv_cancelled s i then ReasonCancelled else if werr \<noteq> None then ReasonFailed else ReasonSuccess)"
    by (simp_all add: st'_def st_def offload_final_status_def Let_def split: option.split)
  have "finish_offload ?E i werr s =
      (Ok (), notifyCompletion (or_dm run) (deleteRequest (or_dm run)
        (s\<lparr>drv_running := (drv_running s)(i := None), drv_world := put_dm (dm\<lparr>dm_Status := st'\<rparr>) w1\<rparr>)))"
    using finish_readable[OF assms(1,2,3) get _ cs, of werr] retry by (simp add: st'_def st_def w1_def)
  then show ?thesis
    using fin by (auto simp: notifyCompletion_def deleteRequest_def ListRequests_iff map_of_delete put_dm_def dm_key_def)
qed

theorem offload_outcome_recorded_witness:
  "\<exists>s' dm'. finish_offload offload_env0 0 (Some demo_err) (demo_copying 0 4) = (Ok (), s') \<and>
     c_dms (ow_cluster (drv_world s')) demo_key = Some dm' \<and> Status (dm_Status dm') = ReasonFailed"
proof -
  have "\<not> ProgressCollectionEnabled (progressCollectInterval (or_profile (demo_run 0)))" by code_simp
  from offload_outcome_recorded[of "demo_copying 0 4" 0 "demo_run 0" demo_running_dm 4 offload_vars 0 "Some demo_err", OF _ _ this]
  show ?thesis
    by (auto simp: demo_running_dm_def sample_dm_def demo_copying_def demo_driver_def dm_key_def)
qed

section \<open>The start of a copy\<close>

context direct_server
begin

lemma attempts_keys:
  fixes ch k
  defines "f \<equiv> \<lambda>w. modify_status E k (ch w) w"
  assumes "stored_keys (store w)"
  shows "stored_keys (store (attempts f j w))"
  using assms(2)
proof (induction j arbitrary: w)
  case (Suc j)
  have "only_status k (store w) (store (snd (f w)))"
    unfolding f_def by (rule modify_status_only[OF prod.collapse[symmetric] Suc.prems])
  then have "stored_keys (store (snd (f w)))" by (rule only_status_keys[OF _ Suc.prems])
  then show ?case using Suc.IH by simp
qed simp

lemma Retry_Ok_stored:
  fixes ch ns n
  defines "f \<equiv> \<lambda>w. modify_status E (ns, n) (ch w) w"
  assumes "RetryOnConflict f w = (Ok (), w')" and "stored_keys (store w)" and "store w' (ns, n) = Some dm'"
  shows "\<exists>j dm v. dm' = dm\<lparr>dm_Status := ch (attempts f j w) (dm_Status dm), dm_ResourceVersion := v\<rparr> \<and> dm_key dm = (ns, n)"
proof -
  obtain j where j: "RetryOnConflict f w = f (attempts f j w)"
    using OnError_attempts[of 5 f w] by (auto simp: RetryOnConflict_def)
  have keys: "stored_keys (store (attempts f j w))" unfolding f_def by (rule attempts_keys[OF assms(3)])
  have "modify_status E (ns, n) (ch (attempts f j w)) (attempts f j w) = (Ok (), w')"
    using assms(2) j by (simp add: f_def)
  from modify_status_Ok[OF this keys] assms(4) obtain dm v where
    dm: "dm' = dm\<lparr>dm_Status := ch (attempts f j w) (dm_Status dm), dm_ResourceVersion := v\<rparr>" "store (attempts f j w) (ns, n) = Some dm"
    by auto
  show ?thesis by (intro exI conjI, rule dm(1), rule stored_keysD[OF keys dm(2)])
qed

end

text \<open>The clock of the example cluster stands still during the attempts.\<close>

lemma attempts_clock:
  "c_clock (ow_cluster (attempts (\<lambda>w. modify_status (offload_cluster_env vars uid) k (ch w) w) j w)) = c_clock (ow_cluster w)"
proof (induction j arbitrary: w)
  case (Suc j)
  have "c_clock (ow_cluster (snd (modify_status (offload_cluster_env vars uid) k ch' w))) = c_clock (ow_cluster w)" for ch'
    by (auto simp: modify_status_def on_cluster_def srv_write_def srv_apply_def Let_def split: result.split option.split prod.split)
  then show ?case using Suc by simp
qed simp

lemma Drive_stored:
  assumes "\<not> Mock s" and "Drive (offload_cluster_env vars uid) r dm s = (Ok (), s')" and "stored_keys (offload_store (drv_world s))"
    and "offload_store (drv_world s') (dm_key dm) = Some dm'"
  shows "\<exists>d v. dm' = d\<lparr>dm_Status := start_status (c_clock (ow_cluster (drv_world s)))
             (empty_CommandStatus\<lparr>Command := ''/bin/bash -c '' @ Join (cmdArgs r) '' ''\<rparr>) (dm_Status d), dm_ResourceVersion := v\<rparr> \<and>
           dm_key d = dm_key dm"
    and "\<exists>i run. map_of (drv_contexts s') (dmKey dm) = Some i \<and> drv_running s' i = Some run \<and> or_dm run = dm"
proof -
  let ?E = "offload_cluster_env vars uid"
  obtain i w' where i: "map_of (drv_contexts s) (dmKey dm) = Some i"
    and w': "RetryOnConflict (\<lambda>w. modify_status ?E (dm_Namespace dm, dm_Name dm)
               (start_status (c_clock (ow_cluster w))
                 (empty_CommandStatus\<lparr>Command := ''/bin/bash -c '' @ Join (cmdArgs r) '' ''\<rparr>)) w) (drv_world s) = (Ok (), w')"
      "drv_world s' = w'" "drv_contexts s' = drv_contexts s"
      "\<exists>run. drv_running s' i = Some run \<and> or_dm run = dm"
    using assms(1,2) unfolding Drive_def driveWithContext_def loadRequestByName_def
    by (auto simp: Let_def split: prod.splits result.splits option.splits)
  from offload_server.Retry_Ok_stored[OF w'(1) assms(3), unfolded attempts_clock] assms(4) w'(2)
  show "\<exists>d v. dm' = d\<lparr>dm_Status := start_status (c_clock (ow_cluster (drv_world s)))
             (empty_CommandStatus\<lparr>Command := ''/bin/bash -c '' @ Join (cmdArgs r) '' ''\<rparr>) (dm_Status d), dm_ResourceVersion := v\<rparr> \<and>
           dm_key d = dm_key dm"
    by (auto simp: dm_key_def)
  show "\<exists>i run. map_of (drv_contexts s') (dmKey dm) = Some i \<and> drv_running s' i = Some run \<and> or_dm run = dm"
    using i w'(3,4) by auto
qed

text \<open>
  C21. A request that was driven without an error runs, and its data movement, unless it is gone, is stored as
  Running with its start time and its command.
\<close>

theorem drive_recorded:
  assumes "\<not> Mock s" and "Drive (offload_cluster_env vars uid) r dm s = (Ok (), s')" and "stored_keys (offload_store (drv_world s))"
    and "offload_store (drv_world s') (dm_key dm) = Some dm'"
  shows "State (dm_Status dm') = TypeRunning \<and> StartTime (dm_Status dm') = Some (c_clock (ow_cluster (drv_world s))) \<and>
         map_option Command (CommandStatus (dm_Status dm')) = Some (''/bin/bash -c '' @ Join (cmdArgs r) '' '') \<and>
         (\<exists>i run. map_of (drv_contexts s') (dmKey dm) = Some i \<and> drv_running s' i = Some run \<and> or_dm run = dm)"
  using Drive_stored[OF assms] by (auto simp: start_status_def)

theorem drive_recorded_witness:
  "\<exists>dm'. offload_store (drv_world (snd (Drive offload_env0 (fst demo_pair) demo_running_dm ((demo_copying 5 3)\<lparr>drv_running := Map.empty\<rparr>)))) demo_key =
           Some dm' \<and> State (dm_Status dm') = TypeRunning \<and> StartTime (dm_Status dm') = Some 7"
proof -
  let ?s = "(demo_copying 5 3)\<lparr>drv_running := Map.empty\<rparr>"
  have keys: "stored_keys (offload_store (drv_world ?s))"
    by (auto simp: stored_keys_def offload_store_def split: if_splits)
  have ok: "fst (Drive offload_env0 (fst demo_pair) demo_running_dm ?s) = Ok ()" by code_simp
  have "offload_store (drv_world (snd (Drive offload_env0 (fst demo_pair) demo_running_dm ?s))) demo_key \<noteq> None" by code_simp
  then obtain dm' where dm': "offload_store (drv_world (snd (Drive offload_env0 (fst demo_pair) demo_running_dm ?s))) demo_key = Some dm'"
    by blast
  have clock: "c_clock (ow_cluster (drv_world ?s)) = 7" by code_simp
  have "\<not> Mock ?s" by simp
  from drive_recorded[OF this pair_of_fst[OF ok] keys] dm' clock show ?thesis by simp
qed

end
