(* ===== verification/Offload_Requests.thy ===== *)
theory Offload_Requests
  imports Offload_Results
begin

text \<open>
  How requests are named, looked up and turned into data movements: the key of a request, the file systems of
  its paths, what the data movement inherits from the workflow, the answers to status requests, and the
  limit of their wait.
\<close>

section \<open>Keys\<close>

lemma str_index_key:
  assumes "\<not> Contains (ns @ ''-'') ''--''"
  shows "str_index (ns @ ''--'' @ rest) ''--'' = Some (length ns)"
proof -
  have no: "\<not> prefix ''--'' (drop j (ns @ ''-''))" for j
    using assms unfolding Contains_iff prefix_def by (metis append_take_drop_id)
  have "\<not> prefix ''--'' (drop j (ns @ ''--'' @ rest))" if "j < length ns" for j
  proof -
    have "drop j ns \<noteq> []" using that by simp
    then obtain c cs where cs: "drop j ns = c # cs" by (cases "drop j ns") auto
    show ?thesis using no[of j] that cs by (cases cs) auto
  qed
  moreover have here: "prefix ''--'' (drop (length ns) (ns @ ''--'' @ rest))" by simp
  obtain i where i: "str_index (ns @ ''--'' @ rest) ''--'' = Some i"
    using str_index_None here by (cases "str_index (ns @ ''--'' @ rest) ''--''") blast+
  ultimately show ?thesis
    using str_index_Some[OF i] str_index_first[OF i] here by (metis linorder_neqE_nat)
qed

text \<open>
  The name of a request leads back to its data movement: splitting the key gives its namespace and name,
  provided that neither contains two dashes in a row and the namespace does not end in one.
\<close>

lemma dmKey_roundtrip:
  assumes "\<not> Contains (dm_Namespace dm @ ''-'') ''--''" and "\<not> Contains (dm_Name dm) ''--''"
  shows "dmKeySplit (dmKey dm) = Ok (dm_Namespace dm, dm_Name dm)"
proof -
  have "Split (dm_Name dm) ''--'' = [dm_Name dm]"
    using assms(2) by (subst Split.simps) (simp add: Contains_def split: option.split)
  then have "Split (dmKey dm) ''--'' = [dm_Namespace dm, dm_Name dm]"
    unfolding dmKey_def by (subst Split.simps) (simp only: str_index_key[OF assms(1)], simp)
  then show ?thesis by (simp add: dmKeySplit_def)
qed

lemma dmKey_roundtrip_witness:
  "dmKeySplit (dmKey demo_running_dm) = Ok (''rabbit-0'', ''nnf-copy-offload-node-0'')"
proof -
  have "\<not> Contains (dm_Namespace demo_running_dm @ ''-'') ''--''" "\<not> Contains (dm_Name demo_running_dm) ''--''"
    by code_simp+
  from dmKey_roundtrip[OF this] show ?thesis by (simp add: demo_running_dm_def demo_key_def)
qed

section \<open>Paths\<close>

lemma with_slash_prefix:
  assumes "\<not> HasSuffix root ''/''"
  shows "HasPrefix (with_slash p) (with_slash root) \<longleftrightarrow> p = root \<or> (\<exists>rest. p = root @ ''/'' @ rest)"
proof
  assume "HasPrefix (with_slash p) (with_slash root)"
  then obtain t where t: "with_slash p = root @ ''/'' @ t"
    using assms by (auto simp: HasPrefix_def with_slash_def prefix_def)
  show "p = root \<or> (\<exists>rest. p = root @ ''/'' @ rest)"
  proof (cases "HasSuffix p ''/''")
    case False
    then have "p @ ''/'' = root @ ''/'' @ t" using t by (simp add: with_slash_def)
    then show ?thesis by (cases t rule: rev_cases) auto
  qed (use t in \<open>simp add: with_slash_def\<close>)
next
  assume "p = root \<or> (\<exists>rest. p = root @ ''/'' @ rest)"
  then show "HasPrefix (with_slash p) (with_slash root)"
    using assms by (auto simp: HasPrefix_def with_slash_def)
qed

lemma find_split: "find P xs = Some x \<longleftrightarrow> (\<exists>as bs. xs = as @ x # bs \<and> P x \<and> list_all (\<lambda>y. \<not> P y) as)"
proof
  show "find P xs = Some x \<Longrightarrow> \<exists>as bs. xs = as @ x # bs \<and> P x \<and> list_all (\<lambda>y. \<not> P y) as"
  proof (induction xs)
    case (Cons a xs)
    show ?case
    proof (cases "P a")
      case False
      then obtain as bs where "xs = as @ x # bs" "P x" "list_all (\<lambda>y. \<not> P y) as" using Cons by auto
      then show ?thesis using False by (intro exI[of _ "a # as"] exI[of _ bs]) simp
    qed (use Cons in \<open>auto intro: exI[of _ "[]"]\<close>)
  qed simp
  have "find P (as @ x # bs) = Some x" if "P x" "list_all (\<lambda>y. \<not> P y) as" for as bs
    using that by (induction as) auto
  then show "\<exists>as bs. xs = as @ x # bs \<and> P x \<and> list_all (\<lambda>y. \<not> P y) as \<Longrightarrow> find P xs = Some x" by blast
qed

text \<open>
  The destination's file system is the first one whose mount root is the destination or one of its parent
  directories (mount roots without a trailing slash); a root such as \<^verbatim>\<open>/lus/a\<close> does not match
  \<^verbatim>\<open>/lus/ab\<close>.
\<close>

lemma destination_filesystem_spec:
  assumes "o_ListLustreFileSystems E w = Ok fss" and "list_all (\<lambda>fs. \<not> HasSuffix (MountRoot fs) ''/'') fss"
  shows "findDestinationLustreFilesystem E dest w = Ok fs \<longleftrightarrow>
         IsAbs dest \<and> (\<exists>as bs. fss = as @ fs # bs \<and>
           (dest = MountRoot fs \<or> (\<exists>rest. dest = MountRoot fs @ ''/'' @ rest)) \<and>
           list_all (\<lambda>g. dest \<noteq> MountRoot g \<and> (\<forall>rest. dest \<noteq> MountRoot g @ ''/'' @ rest)) as)"
proof -
  let ?P = "\<lambda>fs. HasPrefix (with_slash dest) (with_slash (MountRoot fs))"
  let ?Q = "\<lambda>fs. dest = MountRoot fs \<or> (\<exists>rest. dest = MountRoot fs @ ''/'' @ rest)"
  have PQ: "?P g \<longleftrightarrow> ?Q g" if "g \<in> set fss" for g
    using assms(2) that by (intro with_slash_prefix) (auto simp: list_all_iff)
  have "find ?P fss = find ?Q fss" using PQ by (intro find_cong) auto
  moreover have "findDestinationLustreFilesystem E dest w = Ok fs \<longleftrightarrow> IsAbs dest \<and> find ?P fss = Some fs"
    using assms(1) by (cases fss) (simp_all add: findDestinationLustreFilesystem_def split: option.split)
  ultimately show ?thesis by (simp only: find_split) (simp only: de_Morgan_disj not_ex)
qed

text \<open>Two file systems with similar names.\<close>

definition demo_lustre :: "string \<Rightarrow> LustreFileSystem" where
  "demo_lustre name = \<lparr>lus_Name = name, lus_Namespace = ''default'', MountRoot = ''/lus/'' @ name\<rparr>"

lemma destination_filesystem_spec_witness:
  "findDestinationLustreFilesystem offload_env0 ''/lus/ab/x'' (demo_world\<lparr>ow_lustre := [demo_lustre ''a'', demo_lustre ''ab'']\<rparr>) =
     Ok (demo_lustre ''ab'')"
proof -
  let ?w = "demo_world\<lparr>ow_lustre := [demo_lustre ''a'', demo_lustre ''ab'']\<rparr>"
  have l: "o_ListLustreFileSystems offload_env0 ?w = Ok [demo_lustre ''a'', demo_lustre ''ab'']"
    by (simp add: offload_cluster_env_def Let_def)
  have r: "list_all (\<lambda>fs. \<not> HasSuffix (MountRoot fs) ''/'') [demo_lustre ''a'', demo_lustre ''ab'']" by code_simp
  show ?thesis
    unfolding destination_filesystem_spec[OF l r]
    by (intro conjI exI[of _ "[demo_lustre ''a'']"] exI[of _ "[]"]) (simp_all add: demo_lustre_def IsAbs_def)
qed

definition demo_two_mounts :: "string \<Rightarrow> string \<Rightarrow> string \<Rightarrow> ClientMount" where
  "demo_two_mounts node a b =
     (demo_mount node a)\<lparr>cm_Mounts := cm_Mounts (demo_mount node a) @
        [\<lparr>MountPath = b, mount_Type = ''gfs2'', device_Type = ''lvm'',
          device_Reference = Some (fst demo_device, 1)\<rparr>]\<rparr>"

text \<open>
  The lookup of the source path in the client mounts compares plain text: with mounts on
  \<^verbatim>\<open>/mnt/nnf/1\<close> and \<^verbatim>\<open>/mnt/nnf/10\<close>, a request to copy \<^verbatim>\<open>/mnt/nnf/10/out\<close> is given the first mount, and the
  data movement would copy the path \<^verbatim>\<open>0/out\<close> next to the first rabbit mount.
\<close>

lemma compute_mount_prefix_confusion:
  "(case plan_request offload_env0 ''wf'' ''default'' (demo_request\<lparr>SourcePath := ''/mnt/nnf/10/out''\<rparr>)
      (demo_world\<lparr>ow_mounts := [demo_two_mounts ''compute-0'' ''/mnt/nnf/1'' ''/mnt/nnf/10'',
                               demo_two_mounts ''rabbit-0'' ''/mnt/nnf/a'' ''/mnt/nnf/b'']\<rparr>) of
      Ok (rabbit, base, profile, dm) \<Rightarrow> Some (Path (Source (dm_Spec dm)))
    | _ \<Rightarrow> None) = Some ''/mnt/nnf/a0/out''"
  by code_simp

section \<open>What a data movement inherits\<close>

lemma map_of_updates: "map_of (fold (\<lambda>(k, v) ls. AList.update k v ls) kvs ls) = map_of ls ++ map_of (rev kvs)"
  by (induction kvs arbitrary: ls) (auto simp: update_conv' map_add_def fun_eq_iff split: option.split)

lemma label_of_set:
  "label_of (set_labels kvs dm) k = (case map_of (rev kvs) k of Some v \<Rightarrow> v | None \<Rightarrow> label_of dm k)"
  by (simp add: label_of_def set_labels_def map_of_updates map_add_def split: option.split)

text \<open>
  C30. A data movement is planned only for a workflow that is in \<^verbatim>\<open>PreRun\<close> and has completed it. It runs as the
  user and group of the workflow whatever the request says. It carries the labels that name the workflow, the labels
  that make the workflow its owner, and the teardown state \<^verbatim>\<open>PostRun\<close>, which is fixed. It is named after the compute node that asked, refers
  to the chosen profile, goes to the destination of the request, and takes its options from it; slot counts below zero
  leave the profile's.
\<close>

theorem planned_movement_inherits_workflow:
  assumes "plan_request E wfName wfNamespace dmreq w = Ok (rabbit, base, profile, dm)"
  shows "\<exists>workflow. o_GetWorkflow E wfNamespace wfName w = Ok workflow \<and>
    wf_State workflow = ''PreRun'' \<and> wf_Status workflow = ''Completed'' \<and>
    UserId (dm_Spec dm) = wf_UserID workflow \<and> GroupId (dm_Spec dm) = wf_GroupID workflow \<and>
    label_of dm WorkflowNameLabel = wf_Name workflow \<and> label_of dm WorkflowNamespaceLabel = wf_Namespace workflow \<and>
    label_of dm WorkflowUidLabel = wf_Uid workflow \<and> label_of dm OwnerKindLabel = ''Workflow'' \<and>
    label_of dm OwnerNameLabel = wf_Name workflow \<and> label_of dm OwnerNamespaceLabel = wf_Namespace workflow \<and>
    label_of dm OwnerUidLabel = wf_Uid workflow \<and> label_of dm DataMovementTeardownStateLabel = ''PostRun'' \<and>
    label_of dm DataMovementInitiatorLabel = ComputeName dmreq \<and>
    ProfileReference (dm_Spec dm) =
      \<lparr>ref_Kind = KindNnfDataMovementProfile, ref_Name = prof_Name profile, ref_Namespace = prof_Namespace profile\<rparr> \<and>
    Path (Destination (dm_Spec dm)) = DestinationPath dmreq \<and> \<not> Cancel (dm_Spec dm) \<and>
    (\<exists>cfg. UserConfig (dm_Spec dm) = Some cfg \<and> Dryrun cfg = req_Dryrun dmreq \<and> DcpOptions cfg = req_DcpOptions dmreq \<and>
       MpirunOptions cfg = req_MpirunOptions dmreq \<and> LogStdout cfg = req_LogStdout dmreq \<and>
       StoreStdout cfg = req_StoreStdout dmreq \<and>
       MaxSlots cfg = (if sint (req_MaxSlots dmreq) < 0 then None else Some (sint (req_MaxSlots dmreq))) \<and>
       Slots cfg = (if sint (req_Slots dmreq) < 0 then None else Some (sint (req_Slots dmreq))))"
proof -
  obtain workflow cm mount dm0 where wf: "o_GetWorkflow E wfNamespace wfName w = Ok workflow"
      "wf_State workflow = ''PreRun''" "wf_Status workflow = ''Completed''"
    and dm0: "createNnfDataMovement E wfName wfNamespace rabbit dmreq mount cm w = Ok dm0 \<or>
              createNnfNodeDataMovement E wfName wfNamespace rabbit dmreq mount w = Ok dm0"
    and dm: "dm = setUserConfig dmreq (AddDataMovementTeardownStateLabel ''PostRun''
               (AddOwnerLabels workflow (AddWorkflowLabels workflow (dm0\<lparr>dm_Spec := (dm_Spec dm0)\<lparr>ProfileReference :=
                  \<lparr>ref_Kind = KindNnfDataMovementProfile, ref_Name = prof_Name profile, ref_Namespace = prof_Namespace profile\<rparr>,
                  UserId := wf_UserID workflow, GroupId := wf_GroupID workflow\<rparr>\<rparr>))))"
    using assms by (auto simp: plan_request_def Let_def bind_result_Ok_iff split: if_splits prod.splits)
  have new: "Path (Destination (dm_Spec dm0)) = DestinationPath dmreq \<and> \<not> Cancel (dm_Spec dm0) \<and>
      label_of dm0 DataMovementInitiatorLabel = ComputeName dmreq"
    using dm0 by (auto simp: createNnfDataMovement_def createNnfNodeDataMovement_def bind_result_Ok_iff new_dm_def label_of_def label_defs)
  have spec: "dm_Spec (set_labels kvs d) = dm_Spec d" for kvs d by (simp add: set_labels_def)
  have lab: "label_of (d\<lparr>dm_Spec := sp\<rparr>) k = label_of d k" for d sp k by (simp add: label_of_def)
  show ?thesis
    using wf new unfolding dm
    by (intro exI[of _ workflow])
       (simp add: setUserConfig_def lab label_of_set AddDataMovementTeardownStateLabel_def AddOwnerLabels_def
         AddWorkflowLabels_def spec label_defs)
qed

theorem planned_movement_inherits_workflow_witness:
  "\<exists>rabbit base profile dm. plan_request offload_env0 ''wf'' ''default'' demo_request demo_world = Ok (rabbit, base, profile, dm) \<and>
     label_of dm WorkflowNameLabel = ''wf'' \<and> Path (Destination (dm_Spec dm)) = ''/lus/b''"
proof -
  have "(case plan_request offload_env0 ''wf'' ''default'' demo_request demo_world of Ok _ \<Rightarrow> True | _ \<Rightarrow> False)" by code_simp
  then obtain rabbit base profile dm where
    p: "plan_request offload_env0 ''wf'' ''default'' demo_request demo_world = Ok (rabbit, base, profile, dm)"
    by (auto split: result.splits)
  have "map_option wf_Name (case o_GetWorkflow offload_env0 ''default'' ''wf'' demo_world of Ok x \<Rightarrow> Some x | _ \<Rightarrow> None) = Some ''wf''"
    by code_simp
  with planned_movement_inherits_workflow[OF p] p show ?thesis by (auto simp: demo_request_def)
qed

text \<open>
  A request that leaves its slots out of its JSON body has slot counts of zero, and these override the
  profile: the hostfile is written without any slots, whatever the profile says.
\<close>

lemma omitted_slots_override_profile:
  assumes "req_Slots dmreq = 0" and "req_MaxSlots dmreq = 0"
  shows "CreateMpiHostfile E profile hosts (setUserConfig dmreq dm) w = WriteMpiHostfile E (dm_Name dm) hosts 0 0 w"
  using assms by (simp add: CreateMpiHostfile_def setUserConfig_def)

lemma omitted_slots_override_profile_witness:
  "CreateMpiHostfile (cluster_env Map.empty 0) (sample_profile []) [''h'']
     (setUserConfig (demo_request\<lparr>req_Slots := 0, req_MaxSlots := 0\<rparr>) sample_dm) empty_cluster =
   WriteMpiHostfile (cluster_env Map.empty 0) ''dm0'' [''h''] 0 0 empty_cluster \<and> prof_Slots (prof_Data (sample_profile [])) = 8"
  using omitted_slots_override_profile[of "demo_request\<lparr>req_Slots := 0, req_MaxSlots := 0\<rparr>" "cluster_env Map.empty 0"
      "sample_profile []" "[''h'']" sample_dm empty_cluster]
  by (simp add: sample_dm_def sample_profile_def)

section \<open>Status requests\<close>

text \<open>What a client is told of the state and of the result of a data movement that has been started or found invalid.\<close>

definition told_state :: "NnfDataMovement \<Rightarrow> resp_state option" where
  "told_state dm =
     (if State (dm_Status dm) = TypeFinished then Some COMPLETED
      else if State (dm_Status dm) \<notin> {[], TypeStarting, TypeRunning} then None
      else if Cancel (dm_Spec dm) then Some CANCELLING
      else if State (dm_Status dm) = TypeRunning then Some RUNNING
      else if State (dm_Status dm) = TypeStarting then Some STARTING
      else Some UNKNOWN_STATE)"

definition told_status :: "NnfDataMovement \<Rightarrow> resp_status option" where
  "told_status dm =
     (if Status (dm_Status dm) = ReasonSuccess then Some SUCCESS
      else if Status (dm_Status dm) = ReasonFailed then Some FAILED
      else if Status (dm_Status dm) = ReasonCancelled then Some CANCELLED
      else if Status (dm_Status dm) = ReasonInvalid then Some INVALID
      else if Status (dm_Status dm) = [] then Some UNKNOWN_STATUS
      else None)"

definition pending :: "NnfDataMovement \<Rightarrow> bool" where
  "pending dm \<longleftrightarrow> StartTime (dm_Status dm) = None \<and> Status (dm_Status dm) \<noteq> ReasonInvalid"

definition own_workflow :: "'w driver \<Rightarrow> NnfDataMovement \<Rightarrow> bool" where
  "own_workflow s dm \<longleftrightarrow>
     label_of dm WorkflowNameLabel = WorkflowName s \<and> label_of dm WorkflowNamespaceLabel = WorkflowNamespace s"

text \<open>The answer about a data movement of the workflow, and the driver after it.\<close>

definition answered ::
  "StatusRequest \<Rightarrow> NnfDataMovement \<Rightarrow> 'w driver \<Rightarrow> (DataMovementStatusResponse, int \<times> goerr) sum \<times> 'w driver \<Rightarrow> bool" where
  "answered statreq dm t x \<longleftrightarrow>
     (pending dm \<longrightarrow>
        (\<exists>resp. x = (Inl resp, t) \<and> resp_State resp = PENDING \<and> resp_Status resp = UNKNOWN_STATUS)) \<and>
     (\<not> pending dm \<longrightarrow>
        (case (told_state dm, told_status dm) of
           (Some state, Some status) \<Rightarrow>
             (\<exists>resp. x = (Inl resp, if state = COMPLETED \<and> EndTime (dm_Status dm) \<noteq> None
                                    then deleteCompletionByName (RequestName statreq) t else t) \<and>
                resp_State resp = state \<and> resp_Status resp = status \<and> resp_Message resp = Message (dm_Status dm) \<and>
                resp_StartTime resp = StartTime (dm_Status dm) \<and> resp_EndTime resp = EndTime (dm_Status dm) \<and>
                map_option cs_Command (resp_CommandStatus resp) =
                  Some (case CommandStatus (dm_Status dm) of None \<Rightarrow> [] | Some c \<Rightarrow> Command c))
         | _ \<Rightarrow> (\<exists>msg. x = (Inr (500, PlainErr msg), t))))"

lemma state_table:
  "map_of [([], UNKNOWN_STATE), (TypeStarting, STARTING), (TypeRunning, RUNNING), (TypeFinished, COMPLETED)] st =
     (if st = TypeFinished then Some COMPLETED else if st = TypeRunning then Some RUNNING
      else if st = TypeStarting then Some STARTING else if st = [] then Some UNKNOWN_STATE else None)"
  by (simp add: condition_defs)

lemma status_table:
  "map_of [([], UNKNOWN_STATUS), (ReasonFailed, FAILED), (ReasonSuccess, SUCCESS), (ReasonInvalid, INVALID),
           (ReasonCancelled, CANCELLED)] (Status (dm_Status dm)) = told_status dm"
  by (simp add: told_status_def condition_defs)

lemma build_answered: "answered statreq dm t (buildStatusResponse statreq dm t)"
proof (cases "pending dm")
  case True
  then show ?thesis by (simp add: answered_def pending_def buildStatusResponse_def)
next
  case False
  then have start: "\<not> (StartTime (dm_Status dm) = None \<and> Status (dm_Status dm) \<noteq> ReasonInvalid)" by (simp add: pending_def)
  have ne: "TypeFinished \<noteq> []" "TypeRunning \<noteq> []" "TypeStarting \<noteq> []" "TypeFinished \<noteq> TypeRunning" "TypeFinished \<noteq> TypeStarting"
    by (simp_all add: condition_defs)
  show ?thesis
    using False ne unfolding answered_def buildStatusResponse_def state_table status_table Let_def if_not_P[OF start]
    by (auto simp: told_state_def split: option.split)
qed

text \<open>
  C36. What a status request is answered, in every case. A data movement that is not there is not found (and its
  completion is forgotten), one that cannot be read is an error of the server, and one of another workflow is refused
  without an effect. If it has not ended and the client wants to wait, the answer is about the data movement as it is read
  after the wait, which again may be gone or not readable; otherwise it is about the one that was read. Not yet started, it is
  pending. Else the answer has its state (starting, running, cancelling if its cancellation was asked for and it has not finished,
  completed, or unknown if the state is empty), its result (success, failed, cancelled, invalid or none), message,
  times and command; an unknown state or result is an error of the server. The completion is forgotten exactly when a finished one
  with an end time is reported.
\<close>

theorem status_request_answers:
  assumes "dmKeySplit (RequestName statreq) = Ok (ns, n)"
  shows "case e_GetDm E ns n (drv_world s) of
      Panic \<Rightarrow> GetRequest E statreq obs s = (Panic, s)
    | Err err \<Rightarrow>
        GetRequest E statreq obs s =
          (if IsNotFound err then (Ok (Inr (404, PlainErr ''request not found'')), deleteCompletionByName (RequestName statreq) s)
           else (Ok (Inr (500, err)), s))
    | Ok dm \<Rightarrow>
        (\<not> own_workflow s dm \<longrightarrow>
           GetRequest E statreq obs s = (Ok (Inr (400, PlainErr ''request does not belong to workflow'')), s)) \<and>
        (own_workflow s dm \<and> (EndTime (dm_Status dm) \<noteq> None \<or> MaxWaitSecs statreq = 0) \<longrightarrow>
           (\<exists>x t. GetRequest E statreq obs s = (Ok x, t) \<and> answered statreq dm s (x, t))) \<and>
        (own_workflow s dm \<and> EndTime (dm_Status dm) = None \<and> MaxWaitSecs statreq \<noteq> 0 \<longrightarrow>
           (let u = waitForCompletionOrTimeout statreq s obs
            in case e_GetDm E ns n (drv_world u) of
                 Panic \<Rightarrow> GetRequest E statreq obs s = (Panic, u)
               | Err err \<Rightarrow>
                   GetRequest E statreq obs s =
                     (if IsNotFound err then (Ok (Inr (404, PlainErr ''request not found after waiting for completion'')),
                                              deleteCompletionByName (RequestName statreq) u)
                      else (Ok (Inr (500, err)), u))
               | Ok dm' \<Rightarrow> \<exists>x t. GetRequest E statreq obs s = (Ok x, t) \<and> answered statreq dm' u (x, t)))"
proof -
  have ans: "\<exists>x t'. map_prod Ok id (buildStatusResponse statreq dm t) = (Ok x, t') \<and> answered statreq dm t (x, t')" for dm t
    using build_answered[of statreq dm t] by (cases "buildStatusResponse statreq dm t") auto
  show ?thesis
    using assms ans by (auto simp: GetRequest_def own_workflow_def Let_def split: result.split)
qed

definition demo_finished_dm :: NnfDataMovement where
  "demo_finished_dm = demo_running_dm\<lparr>dm_Status := (dm_Status demo_running_dm)\<lparr>State := TypeFinished, EndTime := Some 9,
      Status := ReasonFailed, Message := ''exit status 1''\<rparr>\<rparr>"

definition demo_asked :: "NnfDataMovement \<Rightarrow> offload_world driver" where
  "demo_asked dm = demo_driver\<lparr>drv_world := demo_world\<lparr>ow_cluster := (ow_cluster demo_world)\<lparr>c_dms := [demo_key \<mapsto> dm]\<rparr>\<rparr>\<rparr>"

lemma demo_asked_get [simp]: "e_GetDm offload_env0 (fst demo_key) (snd demo_key) (drv_world (demo_asked dm)) = Ok dm"
  by (simp add: demo_asked_def lookup_res_def)

text \<open>A copy is running; the client waits, and at the second look it has failed.\<close>

theorem status_request_answers_witness:
  "\<exists>resp. GetRequest offload_env0 \<lparr>RequestName = demo_name, MaxWaitSecs = 5\<rparr>
            [(1, demo_asked demo_running_dm), (2, (demo_asked demo_finished_dm)\<lparr>drv_completions := [demo_name]\<rparr>)]
            (demo_asked demo_running_dm) = (Ok (Inl resp), demo_asked demo_finished_dm) \<and>
          resp_State resp = COMPLETED \<and> resp_Status resp = FAILED \<and> resp_Message resp = ''exit status 1''"
proof -
  let ?q = "\<lparr>RequestName = demo_name, MaxWaitSecs = 5\<rparr>"
  let ?u = "(demo_asked demo_finished_dm)\<lparr>drv_completions := [demo_name]\<rparr>"
  let ?obs = "[(1, demo_asked demo_running_dm), (2, ?u)]"
  have k: "dmKeySplit (RequestName ?q) = Ok (fst demo_key, snd demo_key)" by code_simp
  have own: "own_workflow (demo_asked demo_running_dm) demo_running_dm" "EndTime (dm_Status demo_running_dm) = None" by code_simp+
  have "drv_completions (demo_asked demo_running_dm) = []" "sint (max_wait 5) = 5000000000" by code_simp+
  then have wait: "waitForCompletionOrTimeout ?q (demo_asked demo_running_dm) ?obs = ?u" by simp
  have fin: "\<not> pending demo_finished_dm" "told_state demo_finished_dm = Some COMPLETED" "told_status demo_finished_dm = Some FAILED"
      "EndTime (dm_Status demo_finished_dm) \<noteq> None" "Message (dm_Status demo_finished_dm) = ''exit status 1''" by code_simp+
  have get: "e_GetDm offload_env0 (fst demo_key) (snd demo_key) (drv_world ?u) = Ok demo_finished_dm"
    using demo_asked_get[of demo_finished_dm] by simp
  have "deleteCompletionByName demo_name ?u = demo_asked demo_finished_dm"
    by (simp add: deleteCompletionByName_def demo_asked_def demo_driver_def)
  then show ?thesis
    using status_request_answers[OF k, where E = offload_env0 and s = "demo_asked demo_running_dm" and obs = ?obs] own fin
    unfolding demo_asked_get result.case wait get Let_def by (auto simp: answered_def)
qed

text \<open>
  C39. The wait of a status request is limited by its \<^verbatim>\<open>maxWaitSecs\<close> in nanoseconds; a negative value and one
  that would overflow wait for the longest duration there is. The wait ends at the first moment at which the
  request is completed or the limit is reached.
\<close>

theorem status_wait_limit:
  "sint (max_wait secs) = (if sint secs < 0 then 2 ^ 63 - 1 else min (sint secs * 1000000000) (2 ^ 63 - 1)) \<and>
   waitForCompletionOrTimeout statreq s obs =
     (case find (\<lambda>(elapsed, t). RequestName statreq \<in> set (drv_completions t) \<or> sint (max_wait (MaxWaitSecs statreq)) \<le> elapsed) obs of
        Some (elapsed, t) \<Rightarrow> t
      | None \<Rightarrow> last (s # map snd obs))"
proof
  show "sint (max_wait secs) = (if sint secs < 0 then 2 ^ 63 - 1 else min (sint secs * 1000000000) (2 ^ 63 - 1))"
  proof (cases "sint secs < 0 \<or> sint secs > (2 ^ 63 - 1) div 1000000000")
    case True
    then show ?thesis by (auto simp: max_wait_def sint_word_ariths min_def)
  next
    case False
    then have "0 \<le> sint secs * 1000000000" "sint secs * 1000000000 < 2 ^ 63" by auto
    moreover have "sint (secs * 1000000000) = signed_take_bit 63 (sint secs * 1000000000)"
      by (simp add: sint_word_ariths)
    ultimately have "sint (secs * 1000000000) = sint secs * 1000000000"
      by (simp add: signed_take_bit_int_eq_self)
    then show ?thesis using False by (auto simp: max_wait_def)
  qed
  show "waitForCompletionOrTimeout statreq s obs =
     (case find (\<lambda>(elapsed, t). RequestName statreq \<in> set (drv_completions t) \<or> sint (max_wait (MaxWaitSecs statreq)) \<le> elapsed) obs of
        Some (elapsed, t) \<Rightarrow> t
      | None \<Rightarrow> last (s # map snd obs))"
    by (induction statreq s obs rule: waitForCompletionOrTimeout.induct) (auto split: option.splits)
qed

end
