(* ===== verification/Jwt_Token.thy ===== *)
theory Jwt_Token
  imports Dm_Types
begin

text \<open>
  The bearer tokens of the copy-offload daemon: parsing and verifying a JSON web token
  (\<^verbatim>\<open>vendor/github.com/golang-jwt/jwt/v5\<close>: \<open>Parse\<close> without options, the HMAC method, the validation of the
  claims), and the tool that makes a token (\<^verbatim>\<open>daemons/copy-offload-testing/make-jwt\<close>).

  Base64 in its raw URL form is modelled; JSON, SHA-256 and the signing methods other than HS256 are the
  parameters of a record \<open>jwt_lib\<close>.
\<close>

section \<open>Base64\<close>

definition b64_alphabet :: string where
  "b64_alphabet = ''ABCDEFGHIJKLMNOPQRSTUVWXYZabcdefghijklmnopqrstuvwxyz0123456789-_''"

definition b64_char :: "nat \<Rightarrow> char" where
  "b64_char d = b64_alphabet ! d"

definition b64_digit :: "char \<Rightarrow> nat option" where
  "b64_digit c = map_of (zip b64_alphabet [0..<64]) c"

text \<open>Three bytes are four digits; a last group of one or two bytes is two or three digits.\<close>

fun b64_encode :: "nat list \<Rightarrow> nat list" where
  "b64_encode (a # b # c # xs) =
     a div 4 # (a mod 4 * 16 + b div 16) # (b mod 16 * 4 + c div 64) # c mod 64 # b64_encode xs"
| "b64_encode [a, b] = [a div 4, a mod 4 * 16 + b div 16, b mod 16 * 4]"
| "b64_encode [a] = [a div 4, a mod 4 * 16]"
| "b64_encode [] = []"

text \<open>The decoder ignores the bits of an incomplete last byte; one digit alone is an error.\<close>

fun b64_decode :: "nat list \<Rightarrow> nat list option" where
  "b64_decode (a # b # c # d # xs) =
     map_option (\<lambda>ys. (a * 4 + b div 16) # (b mod 16 * 16 + c div 4) # (c mod 4 * 64 + d) # ys) (b64_decode xs)"
| "b64_decode [a, b, c] = Some [a * 4 + b div 16, b mod 16 * 16 + c div 4]"
| "b64_decode [a, b] = Some [a * 4 + b div 16]"
| "b64_decode [a] = None"
| "b64_decode [] = Some []"

definition corrupt_input :: "nat \<Rightarrow> goerr" where
  "corrupt_input n = PlainErr (''illegal base64 data at input byte '' @ show_nat n)"

fun b64_digits :: "nat \<Rightarrow> string \<Rightarrow> nat list res" where
  "b64_digits pos [] = Ok []"
| "b64_digits pos (c # cs) =
     (case b64_digit c of
        Some d \<Rightarrow> bind_result (b64_digits (Suc pos) cs) (\<lambda>ds. Ok (d # ds))
      | None \<Rightarrow> if c = CHR 0x0A \<or> c = CHR 0x0D then b64_digits (Suc pos) cs else Err (corrupt_input pos))"

definition EncodeSegment :: "string \<Rightarrow> string" where
  "EncodeSegment seg = map b64_char (b64_encode (map of_char seg))"

definition DecodeSegment :: "string \<Rightarrow> string res" where
  "DecodeSegment seg =
     bind_result (b64_digits 0 seg) (\<lambda>ds.
       case b64_decode ds of
         None \<Rightarrow> Err (corrupt_input (length seg - 1))
       | Some bs \<Rightarrow> Ok (map char_of bs))"

lemma b64_digit_char: "d < 64 \<Longrightarrow> b64_digit (b64_char d) = Some d"
proof -
  have "\<forall>d\<in>set [0..<64]. b64_digit (b64_char d) = Some d" by code_simp
  then show "d < 64 \<Longrightarrow> ?thesis" by simp
qed

lemma b64_char_plain: "d < 64 \<Longrightarrow> b64_char d \<noteq> CHR ''.'' \<and> \<not> is_space (b64_char d)"
proof -
  have "\<forall>d\<in>set [0..<64]. b64_char d \<noteq> CHR ''.'' \<and> \<not> is_space (b64_char d)" by code_simp
  then show "d < 64 \<Longrightarrow> ?thesis" by simp
qed

lemma b64_encode_digits: "\<forall>x\<in>set xs. x < 256 \<Longrightarrow> d \<in> set (b64_encode xs) \<Longrightarrow> d < 64"
  by (induction xs rule: b64_encode.induct) (auto intro!: less_mult_imp_div_less)

lemma b64_decode_encode: "\<forall>x\<in>set xs. x < 256 \<Longrightarrow> b64_decode (b64_encode xs) = Some xs"
  by (induction xs rule: b64_encode.induct) auto

lemma b64_digits_map: "\<forall>d\<in>set ds. d < 64 \<Longrightarrow> b64_digits pos (map b64_char ds) = Ok ds"
  by (induction ds arbitrary: pos) (auto simp: b64_digit_char)

lemma DecodeSegment_Encode: "DecodeSegment (EncodeSegment s) = Ok s"
proof -
  let ?bs = "map of_char s :: nat list"
  have bytes: "\<forall>x\<in>set ?bs. x < 256" by simp
  have "b64_digits 0 (EncodeSegment s) = Ok (b64_encode ?bs)"
    unfolding EncodeSegment_def using b64_encode_digits[OF bytes] by (intro b64_digits_map) blast
  then show ?thesis using b64_decode_encode[OF bytes] by (simp add: DecodeSegment_def comp_def)
qed

lemma EncodeSegment_plain: "c \<in> set (EncodeSegment s) \<Longrightarrow> c \<noteq> CHR ''.'' \<and> \<not> is_space c"
proof -
  assume "c \<in> set (EncodeSegment s)"
  then obtain d where d: "d \<in> set (b64_encode (map of_char s))" "b64_char d = c"
    by (auto simp: EncodeSegment_def)
  have "\<forall>x\<in>set (map of_char s :: nat list). x < 256" by simp
  from b64_char_plain[OF b64_encode_digits[OF this d(1)]] d(2) show ?thesis by simp
qed

lemma EncodeSegment_dot: "CHR ''.'' \<notin> set (EncodeSegment s)"
  using EncodeSegment_plain by blast

section \<open>The library\<close>

text \<open>A claim of the token as JSON gives it: missing, a number (kept as a time), or of another type.\<close>

datatype claim = NoClaim | NumberClaim time | OtherClaim

record MapClaims =
  claim_exp :: claim
  claim_nbf :: claim

text \<open>
  \<open>j_UnmarshalHeader\<close> gives the string under \<^verbatim>\<open>alg\<close>, if there is one; a signing method other than HS256 takes
  the text, the signature and the key.
\<close>

record jwt_lib =
  j_UnmarshalHeader :: "string \<Rightarrow> string option res"
  j_UnmarshalClaims :: "string \<Rightarrow> MapClaims res"
  j_MarshalHeader :: "string \<Rightarrow> string"
  j_MarshalClaims :: "string \<Rightarrow> time \<Rightarrow> string"
  j_HMAC :: "string \<Rightarrow> string \<Rightarrow> string"
  j_OtherMethods :: "string \<Rightarrow> (string \<Rightarrow> string \<Rightarrow> string \<Rightarrow> goerr option) option"

definition newError :: "string \<Rightarrow> string \<Rightarrow> goerr list \<Rightarrow> goerr" where
  "newError message err errs =
     PlainErr (err @ (if message \<noteq> [] then '': '' @ message else []) @ concat (map (\<lambda>e. '': '' @ Error e) errs))"

definition parseNumericDate :: "string \<Rightarrow> claim \<Rightarrow> time option res" where
  "parseNumericDate key c =
     (case c of
        NoClaim \<Rightarrow> Ok None
      | NumberClaim t \<Rightarrow> Ok (if t = 0 then None else Some t)
      | OtherClaim \<Rightarrow> Err (newError (key @ '' is invalid'') ''invalid type for claim'' []))"

definition claim_errors :: "time option res \<Rightarrow> (time \<Rightarrow> bool) \<Rightarrow> string \<Rightarrow> string list" where
  "claim_errors r ok msg =
     (case r of Err e \<Rightarrow> [Error e] | Ok None \<Rightarrow> [] | Ok (Some t) \<Rightarrow> if ok t then [] else [msg] | Panic \<Rightarrow> [])"

definition Validate :: "time \<Rightarrow> MapClaims \<Rightarrow> goerr option" where
  "Validate now claims =
     (let errs = claim_errors (parseNumericDate ''exp'' (claim_exp claims)) (\<lambda>t. now < t) ''token is expired'' @
                 claim_errors (parseNumericDate ''nbf'' (claim_nbf claims)) (\<lambda>t. t \<le> now) ''token is not valid yet''
      in if errs = [] then None else Some (PlainErr (Join errs '', '')))"

definition HMAC_Verify :: "jwt_lib \<Rightarrow> string \<Rightarrow> string \<Rightarrow> string \<Rightarrow> goerr option" where
  "HMAC_Verify J signingString sig key =
     (if sig = j_HMAC J key signingString then None else Some (PlainErr ''signature is invalid''))"

definition HS256 :: string where "HS256 = ''HS256''"

definition GetSigningMethod :: "jwt_lib \<Rightarrow> string \<Rightarrow> (string \<Rightarrow> string \<Rightarrow> string \<Rightarrow> goerr option) option" where
  "GetSigningMethod J alg = (if alg = HS256 then Some (HMAC_Verify J) else j_OtherMethods J alg)"

definition splitToken :: "string \<Rightarrow> (string \<times> string \<times> string) option" where
  "splitToken token = (case Split token ''.'' of [h, c, s] \<Rightarrow> Some (h, c, s) | _ \<Rightarrow> None)"

definition malformed :: "string \<Rightarrow> 'a res \<Rightarrow> 'a res" where
  "malformed message r = (case r of Err e \<Rightarrow> Err (newError message ''token is malformed'' [e]) | _ \<Rightarrow> r)"

text \<open>The parts of the token, its claims, and its signing method with the method's name.\<close>

definition ParseUnverified ::
  "jwt_lib \<Rightarrow> string \<Rightarrow>
   ((string \<times> string \<times> string) \<times> MapClaims \<times> string \<times> (string \<Rightarrow> string \<Rightarrow> string \<Rightarrow> goerr option)) res" where
  "ParseUnverified J tokenString =
     (case splitToken tokenString of
        None \<Rightarrow> Err (newError ''token contains an invalid number of segments'' ''token is malformed'' [])
      | Some (h, c, s) \<Rightarrow>
          bind_result (malformed ''could not base64 decode header'' (DecodeSegment h)) (\<lambda>headerBytes.
          bind_result (malformed ''could not JSON decode header'' (j_UnmarshalHeader J headerBytes)) (\<lambda>header.
          bind_result (malformed ''could not base64 decode claim'' (DecodeSegment c)) (\<lambda>claimBytes.
          bind_result (malformed ''could not JSON decode claim'' (j_UnmarshalClaims J claimBytes)) (\<lambda>claims.
            (case header of
               None \<Rightarrow> Err (newError ''signing method (alg) is unspecified'' ''token is unverifiable'' [])
             | Some alg \<Rightarrow>
                 (case GetSigningMethod J alg of
                    None \<Rightarrow> Err (newError ''signing method (alg) is unavailable'' ''token is unverifiable'' [])
                  | Some verify \<Rightarrow> Ok ((h, c, s), claims, alg, verify))))))))"

text \<open>\<^verbatim>\<open>jwt.Parse\<close>; the token it returns without an error is valid.\<close>

definition Parse :: "jwt_lib \<Rightarrow> time \<Rightarrow> string \<Rightarrow> (string \<Rightarrow> string res) \<Rightarrow> unit res" where
  "Parse J now tokenString keyFunc =
     bind_result (ParseUnverified J tokenString) (\<lambda>((h, c, s), claims, alg, verify).
     bind_result (malformed ''could not base64 decode signature'' (DecodeSegment s)) (\<lambda>sig.
     (case keyFunc alg of
        Panic \<Rightarrow> Panic
      | Err e \<Rightarrow> Err (newError ''error while executing keyfunc'' ''token is unverifiable'' [e])
      | Ok key \<Rightarrow>
          (case verify (Join [h, c] ''.'') sig key of
             Some e \<Rightarrow> Err (newError [] ''token signature is invalid'' [e])
           | None \<Rightarrow>
               (case Validate now claims of
                  Some e \<Rightarrow> Err (newError [] ''token has invalid claims'' [e])
                | None \<Rightarrow> Ok ())))))"

section \<open>Making a token\<close>

definition SignedString :: "jwt_lib \<Rightarrow> string \<Rightarrow> string \<Rightarrow> string" where
  "SignedString J claims key =
     (let sstr = EncodeSegment (j_MarshalHeader J HS256) @ ''.'' @ EncodeSegment claims
      in sstr @ ''.'' @ EncodeSegment (j_HMAC J key sstr))"

definition createTokenFromKey :: "jwt_lib \<Rightarrow> time \<Rightarrow> string \<Rightarrow> string" where
  "createTokenFromKey J now key = SignedString J (j_MarshalClaims J ''user-container'' now) key"

text \<open>\<^verbatim>\<open>verifyToken\<close> of the tool and of the daemon differ only in their messages.\<close>

definition key_for :: "goerr \<Rightarrow> string \<Rightarrow> string \<Rightarrow> string res" where
  "key_for err key alg = (if alg \<noteq> HS256 then Err err else Ok key)"

definition make_verifyToken :: "jwt_lib \<Rightarrow> time \<Rightarrow> string \<Rightarrow> string \<Rightarrow> unit res" where
  "make_verifyToken J now tokenString key =
     (case Parse J now tokenString
             (key_for (PlainErr ''token verification failed: unexpected signing method for token'') key) of
        Err err \<Rightarrow> Err (WrapErr ''token verification failed: parse failed: '' err [])
      | r \<Rightarrow> r)"

definition verifyToken :: "jwt_lib \<Rightarrow> time \<Rightarrow> string \<Rightarrow> string \<Rightarrow> unit res" where
  "verifyToken J now keyBytes tokenString =
     (case Parse J now tokenString (key_for (PlainErr ''unexpected signing method'') keyBytes) of
        Err err \<Rightarrow> Err (WrapErr ''token parse failed: '' err [])
      | r \<Rightarrow> r)"

section \<open>What an accepted token is\<close>

lemma malformed_Ok [simp]: "malformed m r = Ok x \<longleftrightarrow> r = Ok x"
  by (cases r) (simp_all add: malformed_def)

lemma option_case_Ok:
  "(case x of None \<Rightarrow> Err e | Some v \<Rightarrow> f v) = Ok y \<longleftrightarrow> (\<exists>v. x = Some v \<and> f v = Ok y)"
  "(case x of None \<Rightarrow> g | Some v \<Rightarrow> Err (h v)) = Ok y \<longleftrightarrow> x = None \<and> g = Ok y"
  by (auto split: option.split)

lemma splitToken_Some:
  assumes "splitToken token = Some (h, c, s)"
  shows "token = h @ ''.'' @ c @ ''.'' @ s"
proof -
  have "Split token ''.'' = [h, c, s]" using assms by (auto simp: splitToken_def split: list.splits)
  then have "Join [h, c, s] ''.'' = token" using Join_Split[of "''.''" token] by simp
  then show ?thesis by simp
qed

lemma ParseUnverified_Ok:
  assumes "ParseUnverified J token = Ok ((h, c, s), claims, alg, verify)"
  shows "token = h @ ''.'' @ c @ ''.'' @ s \<and> GetSigningMethod J alg = Some verify \<and>
    (\<exists>hb cb. DecodeSegment h = Ok hb \<and> j_UnmarshalHeader J hb = Ok (Some alg) \<and>
             DecodeSegment c = Ok cb \<and> j_UnmarshalClaims J cb = Ok claims)"
proof -
  have "splitToken token = Some (h, c, s) \<and> GetSigningMethod J alg = Some verify \<and>
    (\<exists>hb cb. DecodeSegment h = Ok hb \<and> j_UnmarshalHeader J hb = Ok (Some alg) \<and>
             DecodeSegment c = Ok cb \<and> j_UnmarshalClaims J cb = Ok claims)"
    using assms unfolding ParseUnverified_def
    by (auto simp: bind_result_Ok_iff option_case_Ok)
  then show ?thesis using splitToken_Some by blast
qed

lemma Validate_None:
  assumes "Validate now claims = None"
  shows "claim_exp claims \<noteq> OtherClaim \<and> (\<forall>t. claim_exp claims = NumberClaim t \<longrightarrow> t = 0 \<or> now < t) \<and>
         claim_nbf claims \<noteq> OtherClaim \<and> (\<forall>t. claim_nbf claims = NumberClaim t \<longrightarrow> t = 0 \<or> t \<le> now)"
  using assms
  by (auto simp: Validate_def claim_errors_def parseNumericDate_def Let_def newError_def split: claim.splits if_splits)

text \<open>
  The daemon accepts a token only if its header names HS256, whatever other methods the library knows, its
  signature is the HMAC of header and claims under the daemon's key, and the current time is before its
  expiration and not before its start, if it has them.
\<close>

lemma accepted_token_is_signed:
  assumes "verifyToken J now keyBytes token = Ok ()"
  shows "\<exists>h c s hb cb claims. token = h @ ''.'' @ c @ ''.'' @ s \<and>
           DecodeSegment h = Ok hb \<and> j_UnmarshalHeader J hb = Ok (Some HS256) \<and>
           DecodeSegment s = Ok (j_HMAC J keyBytes (h @ ''.'' @ c)) \<and>
           DecodeSegment c = Ok cb \<and> j_UnmarshalClaims J cb = Ok claims \<and>
           (\<forall>t. claim_exp claims = NumberClaim t \<longrightarrow> t = 0 \<or> now < t) \<and>
           (\<forall>t. claim_nbf claims = NumberClaim t \<longrightarrow> t = 0 \<or> t \<le> now)"
proof -
  obtain h c s claims alg verify sig where
      p: "ParseUnverified J token = Ok ((h, c, s), claims, alg, verify)" and sig: "DecodeSegment s = Ok sig" and
      alg: "alg = HS256" and v: "verify (Join [h, c] ''.'') sig keyBytes = None" and val: "Validate now claims = None"
    using assms
    by (auto simp: verifyToken_def Parse_def key_for_def bind_result_Ok_iff option_case_Ok split: result.splits if_splits)
  have "verify = HMAC_Verify J" using ParseUnverified_Ok[OF p] alg by (simp add: GetSigningMethod_def)
  then have "sig = j_HMAC J keyBytes (h @ ''.'' @ c)" using v by (simp add: HMAC_Verify_def split: if_splits)
  then show ?thesis using ParseUnverified_Ok[OF p] alg sig Validate_None[OF val] by blast
qed

text \<open>What the token tool relies on: JSON gives back what was written, and the claims have no time limits.\<close>

definition json_laws :: "jwt_lib \<Rightarrow> bool" where
  "json_laws J \<longleftrightarrow>
     (\<forall>alg. j_UnmarshalHeader J (j_MarshalHeader J alg) = Ok (Some alg)) \<and>
     (\<forall>sub iat. j_UnmarshalClaims J (j_MarshalClaims J sub iat) = Ok \<lparr>claim_exp = NoClaim, claim_nbf = NoClaim\<rparr>)"

lemma splitToken_parts:
  assumes "CHR ''.'' \<notin> set h" and "CHR ''.'' \<notin> set c" and "CHR ''.'' \<notin> set s"
  shows "splitToken (h @ ''.'' @ c @ ''.'' @ s) = Some (h, c, s)"
  using Split_step[OF assms(1), of "c @ ''.'' @ s"] Split_step[OF assms(2), of s] Split_notin[OF assms(3)]
  by (simp add: splitToken_def)

text \<open>At any time, the daemon accepts every token that the tool made with the same key, and so does the tool's check.\<close>

lemma token_roundtrip:
  assumes "json_laws J"
  shows "verifyToken J now key (createTokenFromKey J made key) = Ok () \<and>
         make_verifyToken J now (createTokenFromKey J made key) key = Ok ()"
proof -
  define h where "h = EncodeSegment (j_MarshalHeader J HS256)"
  define c where "c = EncodeSegment (j_MarshalClaims J ''user-container'' made)"
  define s where "s = EncodeSegment (j_HMAC J key (h @ ''.'' @ c))"
  have token: "createTokenFromKey J made key = h @ ''.'' @ c @ ''.'' @ s"
    by (simp add: createTokenFromKey_def SignedString_def Let_def h_def c_def s_def)
  have "splitToken (h @ ''.'' @ c @ ''.'' @ s) = Some (h, c, s)"
    by (rule splitToken_parts) (simp_all add: h_def c_def s_def EncodeSegment_dot)
  moreover have "DecodeSegment h = Ok (j_MarshalHeader J HS256)"
    "DecodeSegment c = Ok (j_MarshalClaims J ''user-container'' made)" "DecodeSegment s = Ok (j_HMAC J key (h @ ''.'' @ c))"
    by (simp_all add: h_def c_def s_def DecodeSegment_Encode)
  ultimately have "ParseUnverified J (createTokenFromKey J made key) =
      Ok ((h, c, s), \<lparr>claim_exp = NoClaim, claim_nbf = NoClaim\<rparr>, HS256, HMAC_Verify J)"
    using assms by (simp add: token ParseUnverified_def malformed_def json_laws_def GetSigningMethod_def)
  moreover have "Validate now \<lparr>claim_exp = NoClaim, claim_nbf = NoClaim\<rparr> = None"
    by (simp add: Validate_def claim_errors_def parseNumericDate_def)
  ultimately show ?thesis
    by (simp add: verifyToken_def make_verifyToken_def Parse_def key_for_def malformed_def HMAC_Verify_def
        \<open>DecodeSegment s = _\<close>)
qed

text \<open>A token has no white space.\<close>

lemma token_no_space: "c \<in> set (createTokenFromKey J made key) \<Longrightarrow> \<not> is_space c"
  by (auto simp: createTokenFromKey_def SignedString_def Let_def dest!: EncodeSegment_plain) (simp_all add: is_space_def)

text \<open>A JSON and a keyed hash for the examples.\<close>

definition demo_jwt :: jwt_lib where
  "demo_jwt =
     \<lparr>j_UnmarshalHeader = (\<lambda>s. Ok (Some s)),
      j_UnmarshalClaims = (\<lambda>s. if s = [] then Err (PlainErr ''unexpected end of JSON input'')
                              else Ok \<lparr>claim_exp = NoClaim, claim_nbf = NoClaim\<rparr>),
      j_MarshalHeader = id, j_MarshalClaims = (\<lambda>sub iat. ''c'' @ sub), j_HMAC = (\<lambda>key s. key @ s),
      j_OtherMethods = [''none'' \<mapsto> (\<lambda>s sig key. None)]\<rparr>"

lemma demo_json_laws: "json_laws demo_jwt"
  by (simp add: json_laws_def demo_jwt_def)

text \<open>An unsigned token is refused, although the library knows the method \<^verbatim>\<open>none\<close>.\<close>

lemma none_token_refused:
  "verifyToken demo_jwt 20 ''k'' (EncodeSegment ''none'' @ ''.'' @ EncodeSegment ''c'' @ ''.'') =
     Err (WrapErr ''token parse failed: '' (PlainErr ''token is unverifiable: error while executing keyfunc: unexpected signing method'') [])"
  by code_simp

end
