(* ===== verification/Offload_Server.thy ===== *)
theory Offload_Server
  imports Offload_Requests Jwt_Token
begin

text \<open>
  The HTTP server of the copy-offload daemon (\<^verbatim>\<open>daemons/copy-offload/pkg/server/server.go\<close>): the checks of
  every message, the six handlers, and the routes set up by \<^verbatim>\<open>daemons/copy-offload/cmd/main.go\<close>. A request holds what \<^verbatim>\<open>net/http\<close> hands to a handler: the method, the two
  headers the server reads, the URL as it parses, and the body as it decodes. A handler that panics is
  ended by \<^verbatim>\<open>net/http\<close> without a response.
\<close>

section \<open>Requests and responses\<close>

record url =
  url_Path :: string
  url_Query :: "(string \<times> string list) list"

record http_request =
  req_Method :: string
  req_Authorization :: string
  req_AcceptsVersion :: string
  req_URL :: "url res"
  req_Body :: "DMRequest res"

datatype http_body = Text string | StatusJson DataMovementStatusResponse | Location string

record http_response =
  Code :: int
  Body :: http_body

definition http_Error :: "string \<Rightarrow> int \<Rightarrow> http_response" where
  "http_Error msg code = \<lparr>Code = code, Body = Text (msg @ nl)\<rparr>"

definition http_OK :: "string \<Rightarrow> http_response" where
  "http_OK s = \<lparr>Code = 200, Body = Text s\<rparr>"

text \<open>The query of a URL as text, as \<^verbatim>\<open>url.Values.Encode\<close> writes it.\<close>

definition hex_digit :: "nat \<Rightarrow> char" where
  "hex_digit n = ''0123456789ABCDEF'' ! n"

definition escape_char :: "char \<Rightarrow> string" where
  "escape_char c =
     (let n = of_char c :: nat
      in if is_digit c \<or> 65 \<le> n \<and> n \<le> 90 \<or> 97 \<le> n \<and> n \<le> 122 \<or> c \<in> set ''-_.~'' then [c]
         else if c = CHR '' '' then ''+''
         else [CHR ''%'', hex_digit (n div 16), hex_digit (n mod 16)])"

definition QueryEscape :: "string \<Rightarrow> string" where
  "QueryEscape s = concat (map escape_char s)"

definition Encode :: "(string \<times> string list) list \<Rightarrow> string" where
  "Encode params =
     Join (concat (map (\<lambda>(k, vs). map (\<lambda>v. QueryEscape k @ ''='' @ QueryEscape v) vs) (sort_key fst params))) ''&''"

definition Values_Get :: "(string \<times> string list) list \<Rightarrow> string \<Rightarrow> string" where
  "Values_Get params k = (case map_of params k of Some (v # _) \<Rightarrow> v | _ \<Rightarrow> [])"

section \<open>The checks of a message\<close>

record 'w UserHttp =
  Drvr :: "'w driver"
  user_Mock :: bool
  KeyBytes :: string
  ShuttingDown :: bool

text \<open>The error that was written, or the version of the API.\<close>

definition validateMessage ::
  "jwt_lib \<Rightarrow> ('w, 'z) env_scheme \<Rightarrow> http_request \<Rightarrow> 'w UserHttp \<Rightarrow> (http_response + string) res" where
  "validateMessage J E req user =
     (let version = (if req_AcceptsVersion req \<noteq> ''1.0'' then Inl (http_Error ''Valid versions: 1.0'' 406)
                     else Inr (req_AcceptsVersion req))
      in if KeyBytes user = [] then Ok version
         else if req_Authorization req = [] then Ok (Inl (http_Error ''unauthorized'' 401))
         else
           (case verifyToken J (e_Now E (drv_world (Drvr user))) (KeyBytes user)
                   (TrimSpace (ReplaceFirst (req_Authorization req) ''Bearer'' [])) of
              Panic \<Rightarrow> Panic
            | Err err \<Rightarrow> Ok (Inl (http_Error (Error err) 401))
            | Ok _ \<Rightarrow> Ok version))"

text \<open>The beginning of every handler: its method, then \<open>validateMessage\<close>.\<close>

definition checked ::
  "jwt_lib \<Rightarrow> ('w, 'z) env_scheme \<Rightarrow> string \<Rightarrow> http_request \<Rightarrow> 'w UserHttp \<Rightarrow>
   (http_response res \<times> 'w UserHttp) \<Rightarrow> http_response res \<times> 'w UserHttp" where
  "checked J E method req user body =
     (if req_Method req \<noteq> method then (Ok (http_Error ''method not supported'' 501), user)
      else case validateMessage J E req user of
        Panic \<Rightarrow> (Panic, user)
      | Err err \<Rightarrow> (Err err, user)
      | Ok (Inl resp) \<Rightarrow> (Ok resp, user)
      | Ok (Inr _) \<Rightarrow> body)"

section \<open>The handlers\<close>

definition Hello :: "jwt_lib \<Rightarrow> ('w, 'z) env_scheme \<Rightarrow> http_request \<Rightarrow> 'w UserHttp \<Rightarrow> http_response res \<times> 'w UserHttp" where
  "Hello J E req user = checked J E ''GET'' req user (Ok (http_OK (''hello back at ya'' @ nl)), user)"

definition UserHttp_GetRequest ::
  "jwt_lib \<Rightarrow> ('w, 'z) env_scheme \<Rightarrow> (int \<times> 'w driver) list \<Rightarrow> http_request \<Rightarrow> 'w UserHttp \<Rightarrow> http_response res \<times> 'w UserHttp" where
  "UserHttp_GetRequest J E obs req user =
     checked J E ''GET'' req user
       (case req_URL req of
          Panic \<Rightarrow> (Panic, user)
        | Err err \<Rightarrow> (Ok (http_Error (''unable to parse URL query parameters: '' @ Error err) 400), user)
        | Ok urlParts \<Rightarrow>
            (let params = url_Query urlParts; raw = Values_Get params ''maxWaitSecs''
             in case Atoi raw of
                  Inl ne \<Rightarrow> (Ok (http_Error (''unable to parse maxWaitSecs: '' @ num_error_text raw ne) 400), user)
                | Inr secs \<Rightarrow>
                    (let rest = filter (\<lambda>(k, vs). k \<noteq> ''maxWaitSecs'') params;
                         statreq = \<lparr>RequestName = Base (url_Path urlParts), MaxWaitSecs = word_of_int secs\<rparr>
                     in if Encode rest \<noteq> []
                        then (Ok (http_Error (''unexpected query parameters: '' @ Encode rest) 400), user)
                        else
                          (case StatusRequest_Validator statreq of
                             Some err \<Rightarrow> (Ok (http_Error (Error err) 400), user)
                           | None \<Rightarrow>
                               (case (if user_Mock user then GetRequestMock statreq (Drvr user)
                                      else GetRequest E statreq obs (Drvr user)) of
                                  (Panic, d) \<Rightarrow> (Panic, user\<lparr>Drvr := d\<rparr>)
                                | (Err err, d) \<Rightarrow> (Err err, user\<lparr>Drvr := d\<rparr>)
                                | (Ok (Inl resp), d) \<Rightarrow> (Ok \<lparr>Code = 200, Body = StatusJson resp\<rparr>, user\<lparr>Drvr := d\<rparr>)
                                | (Ok (Inr (http_code, err)), d) \<Rightarrow>
                                    (Ok (if http_code > 0 then http_Error (Error err) http_code
                                         else http_Error (''unable to get request: '' @ Error err @ nl) 500),
                                     user\<lparr>Drvr := d\<rparr>))))))"

definition GetActiveRequests :: "'w UserHttp \<Rightarrow> string list" where
  "GetActiveRequests user = ListRequests (Drvr user)"

definition UserHttp_ListRequests ::
  "jwt_lib \<Rightarrow> ('w, 'z) env_scheme \<Rightarrow> http_request \<Rightarrow> 'w UserHttp \<Rightarrow> http_response res \<times> 'w UserHttp" where
  "UserHttp_ListRequests J E req user =
     checked J E ''GET'' req user
       (let items = GetActiveRequests user
        in (Ok (http_OK (if items \<noteq> [] then Join items '','' @ nl else [])), user))"

definition UserHttp_CancelRequest ::
  "jwt_lib \<Rightarrow> ('w, 'z) env_scheme \<Rightarrow> http_request \<Rightarrow> 'w UserHttp \<Rightarrow> http_response res \<times> 'w UserHttp" where
  "UserHttp_CancelRequest J E req user =
     checked J E ''DELETE'' req user
       (case req_URL req of
          Panic \<Rightarrow> (Panic, user)
        | Err err \<Rightarrow> (Ok (http_Error (''unable to parse URL: '' @ Error err) 400), user)
        | Ok urlParts \<Rightarrow>
            (case CancelRequest (Base (url_Path urlParts)) (Drvr user) of
               (Panic, d) \<Rightarrow> (Panic, user\<lparr>Drvr := d\<rparr>)
             | (Err err, d) \<Rightarrow> (Ok (http_Error (''unable to cancel request: '' @ Error err) 404), user\<lparr>Drvr := d\<rparr>)
             | (Ok _, d) \<Rightarrow> (Ok (http_OK []), user\<lparr>Drvr := d\<rparr>)))"

text \<open>Creating and driving happen in one handler; other handlers and goroutines may run in between.\<close>

definition trial_Create ::
  "('w, 'z) offload_env_scheme \<Rightarrow> bool \<Rightarrow> DMRequest \<Rightarrow> 'w driver \<Rightarrow> (string \<times> DriverRequest \<times> NnfDataMovement) res \<times> 'w driver" where
  "trial_Create E mock dmreq d = (if mock then CreateMock dmreq d else Create E dmreq d)"

definition trial_Drive ::
  "('w, 'z) env_scheme \<Rightarrow> bool \<Rightarrow> DriverRequest \<Rightarrow> NnfDataMovement \<Rightarrow> 'w driver \<Rightarrow> unit res \<times> 'w driver" where
  "trial_Drive E mock r dm d = (if mock then DriveMock E r dm d else Drive E r dm d)"

definition TrialRequest ::
  "jwt_lib \<Rightarrow> ('w, 'z) offload_env_scheme \<Rightarrow> ('w driver \<Rightarrow> 'w driver) \<Rightarrow> http_request \<Rightarrow> 'w UserHttp \<Rightarrow>
   http_response res \<times> 'w UserHttp" where
  "TrialRequest J E between req user =
     checked J E ''POST'' req user
       (case req_Body req of
          Panic \<Rightarrow> (Panic, user)
        | Err err \<Rightarrow> (Ok (http_Error (''unable to decode data movement request body: '' @ Error err) 400), user)
        | Ok dmreq \<Rightarrow>
            (case DMRequest_Validator dmreq of
               Some err \<Rightarrow> (Ok (http_Error (Error err) 400), user)
             | None \<Rightarrow>
                 (case trial_Create E (user_Mock user) dmreq (Drvr user) of
                    (Panic, d) \<Rightarrow> (Panic, user\<lparr>Drvr := d\<rparr>)
                  | (Err err, d) \<Rightarrow> (Ok (http_Error (Error err @ nl) 500), user\<lparr>Drvr := d\<rparr>)
                  | (Ok (key, r, dm), d) \<Rightarrow>
                      (case trial_Drive E (user_Mock user) r dm (between d) of
                         (Panic, d') \<Rightarrow> (Panic, user\<lparr>Drvr := d'\<rparr>)
                       | (Err err, d') \<Rightarrow> (Ok (http_Error (Error err @ nl) 500), user\<lparr>Drvr := d'\<rparr>)
                       | (Ok _, d') \<Rightarrow> (Ok (http_OK (''name='' @ key @ nl)), user\<lparr>Drvr := d'\<rparr>)))))"

text \<open>The goroutine that stops the server a second later is the flag \<open>ShuttingDown\<close>.\<close>

definition ShutdownRequest ::
  "jwt_lib \<Rightarrow> ('w, 'z) env_scheme \<Rightarrow> http_request \<Rightarrow> 'w UserHttp \<Rightarrow> http_response res \<times> 'w UserHttp" where
  "ShutdownRequest J E req user =
     checked J E ''POST'' req user
       (if GetActiveRequests user \<noteq> []
        then (Ok (http_Error ''unable to shutdown server: requests in progress'' 409), user)
        else (Ok (http_OK (''Server shutting down'' @ nl)), user\<lparr>ShuttingDown := True\<rparr>))"

section \<open>Routes\<close>

text \<open>
  The routes of \<^verbatim>\<open>main\<close>: a pattern that ends in a slash matches every path below it, and \<^verbatim>\<open>http.ServeMux\<close> redirects
  the path without the slash to it, before any handler. Paths that are not clean are redirected before.
\<close>

definition redirected :: "string \<Rightarrow> bool" where
  "redirected path \<longleftrightarrow> path = ''/cancel'' \<or> path = ''/status''"

definition serve ::
  "jwt_lib \<Rightarrow> ('w, 'z) offload_env_scheme \<Rightarrow> (int \<times> 'w driver) list \<Rightarrow> ('w driver \<Rightarrow> 'w driver) \<Rightarrow> string \<Rightarrow>
   http_request \<Rightarrow> 'w UserHttp \<Rightarrow> http_response res \<times> 'w UserHttp" where
  "serve J E obs between path req user =
     (if path = ''/hello'' then Hello J E req user
      else if path = ''/trial'' then TrialRequest J E between req user
      else if HasPrefix path ''/cancel/'' then UserHttp_CancelRequest J E req user
      else if path = ''/list'' then UserHttp_ListRequests J E req user
      else if HasPrefix path ''/status/'' then UserHttp_GetRequest J E obs req user
      else if path = ''/shutdown'' then ShutdownRequest J E req user
      else if redirected path then (Ok \<lparr>Code = 301, Body = Location (path @ ''/'')\<rparr>, user)
      else (Ok (http_Error ''404 page not found'' 404), user))"

section \<open>Who may change the daemon\<close>

text \<open>The token of a request, as the server takes it from the header.\<close>

definition bearer :: "http_request \<Rightarrow> string" where
  "bearer req = TrimSpace (ReplaceFirst (req_Authorization req) ''Bearer'' [])"

lemma checked_cases:
  assumes "checked J E method req user body = (r, user')"
  obtains (refused) resp where "r = Ok resp" "user' = user" "Code resp \<in> {401, 406, 501}"
  | (no_answer) "user' = user" "\<And>resp. r \<noteq> Ok resp"
  | (passed) "body = (r, user')" "req_Method req = method" "req_AcceptsVersion req = ''1.0''"
      "KeyBytes user = [] \<or> verifyToken J (e_Now E (drv_world (Drvr user))) (KeyBytes user) (bearer req) = Ok ()"
  using assms
  by (auto simp: checked_def validateMessage_def bearer_def http_Error_def Let_def split: if_splits result.splits sum.splits)

lemma unauthorized:
  assumes "KeyBytes user \<noteq> []"
    and "req_Authorization req = [] \<or> verifyToken J (e_Now E (drv_world (Drvr user))) (KeyBytes user) (bearer req) = Err e"
  shows "\<exists>resp. checked J E method req user body = (Ok resp, user) \<and> Code resp \<in> {401, 501}"
  using assms by (auto simp: checked_def validateMessage_def bearer_def http_Error_def Let_def)

text \<open>Every route begins with the checks.\<close>

definition guarded ::
  "jwt_lib \<Rightarrow> ('w, 'z) env_scheme \<Rightarrow> http_request \<Rightarrow> 'w UserHttp \<Rightarrow> http_response res \<times> 'w UserHttp \<Rightarrow> bool" where
  "guarded J E req user x \<longleftrightarrow> (\<exists>m b. x = checked J E m req user b)"

lemma handler_guarded:
  "guarded J E req user (Hello J E req user)"
  "guarded J E' req user (TrialRequest J E' between req user)"
  "guarded J E req user (UserHttp_CancelRequest J E req user)"
  "guarded J E req user (UserHttp_ListRequests J E req user)"
  "guarded J E req user (UserHttp_GetRequest J E obs req user)"
  "guarded J E req user (ShutdownRequest J E req user)"
  unfolding guarded_def Hello_def TrialRequest_def UserHttp_CancelRequest_def UserHttp_ListRequests_def
    UserHttp_GetRequest_def ShutdownRequest_def
  by (rule exI, rule exI, rule refl)+

lemma serve_guarded:
  "guarded J E req user (serve J E obs between path req user) \<or>
   (\<exists>resp. serve J E obs between path req user = (Ok resp, user) \<and> (Code resp = 404 \<or> redirected path \<and> Code resp = 301))"
  by (simp add: serve_def handler_guarded http_Error_def)

text \<open>
  C26. With a token key, a message that has no authorization, or one that the token library rejects, is refused
  on every route and changes nothing. Only the two paths that lack the slash of their route are answered without the
  token being looked at, by the redirect of \<^verbatim>\<open>http.ServeMux\<close>.
\<close>

theorem unauthorized_has_no_effect:
  assumes "KeyBytes user \<noteq> []"
    and "req_Authorization req = [] \<or> verifyToken J (e_Now E (drv_world (Drvr user))) (KeyBytes user) (bearer req) = Err e"
  shows "\<exists>resp. serve J E obs between path req user = (Ok resp, user) \<and>
    (Code resp \<in> {401, 404, 501} \<or> path \<in> {''/cancel'', ''/status''} \<and> Code resp = 301)"
proof (cases "guarded J E req user (serve J E obs between path req user)")
  case True
  then obtain m b where "serve J E obs between path req user = checked J E m req user b" unfolding guarded_def by blast
  then show ?thesis using unauthorized[OF assms, of m b] by auto
next
  case False
  then show ?thesis using serve_guarded[of J E req user obs between path] by (auto simp: redirected_def)
qed

definition demo_http :: http_request where
  "demo_http = \<lparr>req_Method = ''POST'', req_Authorization = [], req_AcceptsVersion = ''1.0'',
     req_URL = Ok \<lparr>url_Path = ''/trial'', url_Query = []\<rparr>, req_Body = Ok demo_request\<rparr>"

definition demo_user :: "offload_world UserHttp" where
  "demo_user = \<lparr>Drvr = demo_driver, user_Mock = False, KeyBytes = ''k'', ShuttingDown = False\<rparr>"

theorem unauthorized_has_no_effect_witness:
  "\<exists>resp. serve demo_jwt offload_env0 [] id ''/trial'' demo_http demo_user = (Ok resp, demo_user) \<and> Code resp \<in> {401, 404, 501}"
  using unauthorized_has_no_effect[of demo_user demo_http demo_jwt offload_env0 "PlainErr []" "[]" id "''/trial''"]
  by (simp add: demo_user_def demo_http_def)

lemma serve_changes:
  assumes "serve J E obs between path req user = (r, user')" and "user' \<noteq> user"
  shows "req_AcceptsVersion req = ''1.0'' \<and>
    (KeyBytes user = [] \<or> verifyToken J (e_Now E (drv_world (Drvr user))) (KeyBytes user) (bearer req) = Ok ())"
proof -
  obtain m b where "checked J E m req user b = (r, user')"
    using serve_guarded[of J E req user obs between path] assms unfolding guarded_def by auto
  then show ?thesis using assms(2) by (cases rule: checked_cases) auto
qed

text \<open>
  C6. With a token key, every message that changes the state of the daemon (starts, cancels or reaps a request,
  or shuts it down) has the version \<^verbatim>\<open>1.0\<close> and a bearer token of three segments whose header names HS256,
  whose signature is the HMAC of the other two under the daemon's key, and which is not expired.
\<close>

theorem state_changes_are_signed:
  assumes "serve J E obs between path req user = (r, user')" and "user' \<noteq> user" and "KeyBytes user \<noteq> []"
  shows "req_AcceptsVersion req = ''1.0'' \<and>
    (\<exists>h c s hb cb claims. bearer req = h @ ''.'' @ c @ ''.'' @ s \<and>
       DecodeSegment h = Ok hb \<and> j_UnmarshalHeader J hb = Ok (Some HS256) \<and>
       DecodeSegment s = Ok (j_HMAC J (KeyBytes user) (h @ ''.'' @ c)) \<and>
       DecodeSegment c = Ok cb \<and> j_UnmarshalClaims J cb = Ok claims \<and>
       (\<forall>t. claim_exp claims = NumberClaim t \<longrightarrow> t = 0 \<or> e_Now E (drv_world (Drvr user)) < t))"
  using serve_changes[OF assms(1,2)] assms(3) accepted_token_is_signed by blast

definition demo_signed :: http_request where
  "demo_signed = demo_http\<lparr>req_Authorization := ''Bearer '' @ createTokenFromKey demo_jwt 10 ''k''\<rparr>"

lemma demo_trial:
  "(case TrialRequest demo_jwt offload_env0 id demo_signed demo_user of
      (r, user) \<Rightarrow> r = Ok (http_OK (''name='' @ demo_name @ nl)) \<and> drv_contexts (Drvr user) = [(demo_name, 0)])"
  by code_simp

theorem state_changes_are_signed_witness:
  "\<exists>h c s. bearer demo_signed = h @ ''.'' @ c @ ''.'' @ s \<and>
     DecodeSegment s = Ok (j_HMAC demo_jwt ''k'' (h @ ''.'' @ c)) \<and>
     drv_contexts (Drvr (snd (serve demo_jwt offload_env0 [] id ''/trial'' demo_signed demo_user))) = [(demo_name, 0)]"
proof -
  let ?x = "serve demo_jwt offload_env0 [] id ''/trial'' demo_signed demo_user"
  have c: "drv_contexts (Drvr (snd ?x)) = [(demo_name, 0)]" using demo_trial by (simp add: serve_def case_prod_beta)
  then have "snd ?x \<noteq> demo_user" by (auto simp: demo_user_def demo_driver_def)
  from state_changes_are_signed[of demo_jwt offload_env0 "[]" id "''/trial''" demo_signed demo_user "fst ?x" "snd ?x"] this c
  show ?thesis by (auto simp: demo_user_def)
qed

section \<open>What the handlers do\<close>

lemma ShutdownRequest_effect:
  assumes "ShutdownRequest J E req user = (r, user')" and "\<not> ShuttingDown user" and "ShuttingDown user'"
  shows "GetActiveRequests user = [] \<and> user' = user\<lparr>ShuttingDown := True\<rparr>"
  using assms(1) unfolding ShutdownRequest_def
proof (cases rule: checked_cases)
  case passed
  then show ?thesis using assms(2,3) by (simp split: if_splits)
qed (use assms(2,3) in simp_all)

text \<open>
  C29. The daemon agrees to shut down only when it runs no command and no request waits to be driven: while
  there is one, the answer is a conflict and nothing changes.
\<close>

theorem shutdown_only_when_idle:
  assumes "reach (offload_init E) (offload_step E) (Drvr user, p)"
    and "ShutdownRequest J E req user = (r, user')" and "\<not> ShuttingDown user" and "ShuttingDown user'"
  shows "drv_running (Drvr user) = Map.empty \<and> p = [] \<and> Drvr user' = Drvr user"
proof -
  let ?s = "Drvr user"
  have t: "tracked (map_of (drv_contexts ?s), drv_next ?s, run_dms ?s, set (drv_completions ?s)) (map snd p)"
    using offload.inv_reachable[OF assms(1)] by (simp add: offload_inv_def tracking_def)
  have idle: "set (ListRequests ?s) = {}" and same: "Drvr user' = ?s"
    using ShutdownRequest_effect[OF assms(2-4)] by (simp_all add: GetActiveRequests_def)
  have none: "map_of (drv_contexts ?s) k = None" for k using idle ListRequests_iff[of k ?s] by auto
  have "run_dms ?s i = None" for i
    using trackedD(3)[OF t, of i] none by (cases "run_dms ?s i") auto
  then have "drv_running ?s = Map.empty" by (auto simp: run_dms_def fun_eq_iff)
  moreover have "map snd p = []" using trackedD(4)[OF t] none by (cases "map snd p") fastforce+
  ultimately show ?thesis using same by simp
qed

theorem shutdown_only_when_idle_witness:
  "ShuttingDown (snd (ShutdownRequest demo_jwt offload_env0 demo_http (demo_user\<lparr>KeyBytes := []\<rparr>))) \<and>
   drv_running (Drvr demo_user) = Map.empty \<and>
   fst (ShutdownRequest demo_jwt offload_env0 demo_http (demo_user\<lparr>Drvr := demo_s2, KeyBytes := []\<rparr>)) =
     Ok (http_Error ''unable to shutdown server: requests in progress'' 409)"
proof -
  let ?u = "demo_user\<lparr>KeyBytes := []\<rparr>"
  let ?x = "ShutdownRequest demo_jwt offload_env0 demo_http ?u"
  have r: "reach (offload_init offload_env0) (offload_step offload_env0) (Drvr ?u, [])"
    using offload_demo_reach(1) by (simp add: demo_user_def)
  have down: "ShuttingDown (snd ?x)" by code_simp
  have "fst (ShutdownRequest demo_jwt offload_env0 demo_http (demo_user\<lparr>Drvr := demo_s2, KeyBytes := []\<rparr>)) =
     Ok (http_Error ''unable to shutdown server: requests in progress'' 409)"
    by (simp add: ShutdownRequest_def checked_def validateMessage_def GetActiveRequests_def ListRequests_def demo_listed
        demo_http_def demo_user_def)
  then show ?thesis
    using shutdown_only_when_idle[OF r, of demo_jwt demo_http "fst ?x" "snd ?x"] down by (simp add: demo_user_def)
qed

text \<open>
  C27. A trial request that is accepted is valid, and its command runs: the response names it, and it is tracked
  under this name with the goroutine that runs it, whatever happened between its creation and its start.
\<close>

theorem accepted_trial_runs:
  assumes "TrialRequest J E between req user = (Ok resp, user')" and "Code resp = 200"
  shows "\<exists>dmreq dm i run. req_Body req = Ok dmreq \<and> DMRequest_Validator dmreq = None \<and>
    Body resp = Text (''name='' @ dmKey dm @ nl) \<and> map_of (drv_contexts (Drvr user')) (dmKey dm) = Some i \<and>
    drv_running (Drvr user') i = Some run \<and> or_dm run = dm"
  using assms(1) unfolding TrialRequest_def
proof (cases rule: checked_cases)
  case passed
  obtain dmreq where q: "req_Body req = Ok dmreq"
    using passed(1) assms(2) by (cases "req_Body req") (simp_all add: http_Error_def, auto)
  have val: "DMRequest_Validator dmreq = None"
    using passed(1) assms(2) by (cases "DMRequest_Validator dmreq") (simp_all add: q http_Error_def, auto)
  obtain x d where cr: "trial_Create E (user_Mock user) dmreq (Drvr user) = (x, d)" by fastforce
  obtain key r dm where x: "x = Ok (key, r, dm)"
    using passed(1) assms(2) by (cases x) (simp_all add: q val cr http_Error_def, auto)
  note c = cr[unfolded x]
  obtain y d' where dr: "trial_Drive E (user_Mock user) r dm (between d) = (y, d')" by fastforce
  have y: "y = Ok ()"
    using passed(1) assms(2) by (cases y) (simp_all add: q val c dr http_Error_def, auto)
  note v = dr[unfolded y]
  have u: "resp = http_OK (''name='' @ key @ nl)" "user' = user\<lparr>Drvr := d'\<rparr>"
    using passed(1) by (simp_all add: q val c v)
  have k: "key = dmKey dm" using c unfolding trial_Create_def by (metis Create_tracking CreateMock_tracking)
  have v': "Drive E r dm (between d) = (Ok (), d') \<or> DriveMock E r dm (between d) = (Ok (), d')"
    using v by (simp add: trial_Drive_def split: if_splits)
  obtain i where i: "map_of (drv_contexts (between d)) (dmKey dm) = Some i"
    using v' by (auto simp: Drive_def DriveMock_def loadRequestByName_def split: result.splits option.splits)
  have "tracking d' = (map_of (drv_contexts (between d)), drv_next (between d), (run_dms (between d))(i \<mapsto> dm),
      set (drv_completions (between d)))"
    using Drive_tracking[OF v' i] by simp
  then have "map_of (drv_contexts d') (dmKey dm) = Some i" "run_dms d' i = Some dm" using i by (simp_all add: tracking_def)
  then show ?thesis using q val u k by (auto simp: http_OK_def run_dms_Some)
next
  case no_answer
  then show ?thesis by blast
qed (use assms(2) in auto)

theorem accepted_trial_runs_witness:
  "\<exists>i run. map_of (drv_contexts (Drvr (snd (TrialRequest demo_jwt offload_env0 id demo_signed demo_user)))) demo_name = Some i \<and>
     drv_running (Drvr (snd (TrialRequest demo_jwt offload_env0 id demo_signed demo_user))) i = Some run"
proof -
  let ?x = "TrialRequest demo_jwt offload_env0 id demo_signed demo_user"
  have e: "fst ?x = Ok (http_OK (''name='' @ demo_name @ nl))" using demo_trial by (simp add: case_prod_beta)
  then have x: "?x = (Ok (http_OK (''name='' @ demo_name @ nl)), snd ?x)" by (metis prod.collapse)
  have "Code (http_OK (''name='' @ demo_name @ nl)) = 200" by (simp add: http_OK_def)
  from accepted_trial_runs[OF x this] obtain dm i run where
      "Body (http_OK (''name='' @ demo_name @ nl)) = Text (''name='' @ dmKey dm @ nl)"
      "map_of (drv_contexts (Drvr (snd ?x))) (dmKey dm) = Some i" "drv_running (Drvr (snd ?x)) i = Some run"
    by blast
  moreover from this(1) have k: "dmKey dm = demo_name" by (simp add: http_OK_def nl_def)
  ultimately show ?thesis unfolding k by auto
qed

text \<open>
  A status request for a name without two dashes in a row makes the handler panic, instead of being answered
  as not found: the name is split and its second part is used unchecked.
\<close>

lemma status_of_bad_name_panics:
  assumes "\<not> user_Mock user" and "KeyBytes user = []" and "req_Method req = ''GET''" and "req_AcceptsVersion req = ''1.0''"
    and "req_URL req = Ok \<lparr>url_Path = path, url_Query = [(''maxWaitSecs'', [v])]\<rparr>" and "Atoi v = Inr secs"
    and "Base path \<noteq> []" and "\<not> Contains (Base path) ''--''"
  shows "UserHttp_GetRequest J E obs req user = (Panic, user)"
proof -
  have "Split (Base path) ''--'' = [Base path]"
    using assms(8) by (subst Split.simps) (simp add: Contains_def split: option.split)
  then have "GetRequest E \<lparr>RequestName = Base path, MaxWaitSecs = word_of_int secs\<rparr> obs (Drvr user) = (Panic, Drvr user)"
    by (simp add: GetRequest_def dmKeySplit_def)
  then show ?thesis
    using assms(1-7)
    by (simp add: UserHttp_GetRequest_def checked_def validateMessage_def Values_Get_def StatusRequest_Validator_def Encode_def)
qed

lemma status_of_bad_name_panics_witness:
  "UserHttp_GetRequest demo_jwt offload_env0 []
     (demo_http\<lparr>req_Method := ''GET'', req_URL := Ok \<lparr>url_Path = ''/status/foo'', url_Query = [(''maxWaitSecs'', [''0''])]\<rparr>\<rparr>)
     (demo_user\<lparr>KeyBytes := []\<rparr>) = (Panic, demo_user\<lparr>KeyBytes := []\<rparr>)"
proof -
  have b: "Base ''/status/foo'' = ''foo''" "Atoi ''0'' = Inr 0" "\<not> Contains ''foo'' ''--''" by code_simp+
  then show ?thesis
    by (intro status_of_bad_name_panics[where path = "''/status/foo''" and v = "''0''" and secs = 0])
       (simp_all add: demo_http_def demo_user_def)
qed

end
