(* ===== verification/Go_Flags.thy ===== *)
theory Go_Flags
  imports Dm_Types
begin

text \<open>
  Parsing the command line, as Go's package \<^verbatim>\<open>flag\<close> does it for all three programs: one or two dashes, a value
  after an equals sign or, for a flag that is not boolean, in the next argument; the first argument that is no
  flag, or two dashes alone, end the flags. The values that were set are kept in their order, and the last one
  counts.
\<close>

section \<open>One argument\<close>

datatype flag_arg = NoFlag | BadSyntax | Flag string "string option"

text \<open>The name goes up to the first equals sign, which is not its first character.\<close>

definition cut_value :: "string \<Rightarrow> string \<times> string option" where
  "cut_value s =
     (case s of
        [] \<Rightarrow> ([], None)
      | c # rest \<Rightarrow>
          (c # takeWhile (\<lambda>x. x \<noteq> CHR ''='') rest,
           case dropWhile (\<lambda>x. x \<noteq> CHR ''='') rest of [] \<Rightarrow> None | _ # v \<Rightarrow> Some v))"

definition flag_arg :: "string \<Rightarrow> flag_arg" where
  "flag_arg s =
     (if length s < 2 \<or> hd s \<noteq> CHR ''-'' \<or> s = ''--'' then NoFlag
      else
        (let name = (if prefix ''--'' s then drop 2 s else tl s)
         in if name = [] \<or> hd name \<in> {CHR ''-'', CHR ''=''} then BadSyntax
            else (case cut_value name of (n, v) \<Rightarrow> Flag n v)))"

definition ParseBool :: "string \<Rightarrow> bool option" where
  "ParseBool s =
     (if s \<in> set [''1'', ''t'', ''T'', ''TRUE'', ''true'', ''True''] then Some True
      else if s \<in> set [''0'', ''f'', ''F'', ''FALSE'', ''false'', ''False''] then Some False else None)"

section \<open>The command line\<close>

text \<open>
  \<open>formal\<close> are the flags that are defined: \<open>Some True\<close> for a boolean one. An error ends the program; that of an
  invalid boolean does not quote the value here.
\<close>

definition undefined_flag :: "string \<Rightarrow> goerr" where
  "undefined_flag name =
     PlainErr (if name = ''help'' \<or> name = ''h'' then ''flag: help requested'' else ''flag provided but not defined: -'' @ name)"

fun flag_Parse :: "(string \<Rightarrow> bool option) \<Rightarrow> string list \<Rightarrow> (string \<times> string) list res" where
  "flag_Parse formal [] = Ok []"
| "flag_Parse formal (s # args) =
     (case flag_arg s of
        NoFlag \<Rightarrow> Ok []
      | BadSyntax \<Rightarrow> Err (PlainErr (''bad flag syntax: '' @ s))
      | Flag name v \<Rightarrow>
          (case formal name of
             None \<Rightarrow> Err (undefined_flag name)
           | Some True \<Rightarrow>
               (let value = (case v of None \<Rightarrow> ''true'' | Some x \<Rightarrow> x)
                in if ParseBool value = None then Err (PlainErr (''invalid boolean value for -'' @ name))
                   else bind_result (flag_Parse formal args) (\<lambda>vs. Ok ((name, value) # vs)))
           | Some False \<Rightarrow>
               (case v of
                  Some value \<Rightarrow> bind_result (flag_Parse formal args) (\<lambda>vs. Ok ((name, value) # vs))
                | None \<Rightarrow>
                    (case args of
                       [] \<Rightarrow> Err (PlainErr (''flag needs an argument: -'' @ name))
                     | value # args' \<Rightarrow> bind_result (flag_Parse formal args') (\<lambda>vs. Ok ((name, value) # vs))))))"

definition string_flag :: "(string \<times> string) list \<Rightarrow> string \<Rightarrow> string \<Rightarrow> string" where
  "string_flag vs name dflt = (case map_of (rev vs) name of None \<Rightarrow> dflt | Some v \<Rightarrow> v)"

definition bool_flag :: "(string \<times> string) list \<Rightarrow> string \<Rightarrow> bool \<Rightarrow> bool" where
  "bool_flag vs name dflt = (case map_of (rev vs) name of None \<Rightarrow> dflt | Some v \<Rightarrow> ParseBool v = Some True)"

section \<open>Arguments that stand for themselves\<close>

text \<open>
  What an argument sets when it needs no other one. A command line of such arguments is parsed one by one, so a
  change of one argument changes one value.
\<close>

definition setting :: "(string \<Rightarrow> bool option) \<Rightarrow> string \<Rightarrow> (string \<times> string) option" where
  "setting formal s =
     (case flag_arg s of
        Flag name v \<Rightarrow>
          (case formal name of
             None \<Rightarrow> None
           | Some True \<Rightarrow>
               (let value = (case v of None \<Rightarrow> ''true'' | Some x \<Rightarrow> x)
                in if ParseBool value = None then None else Some (name, value))
           | Some False \<Rightarrow> map_option (Pair name) v)
      | _ \<Rightarrow> None)"

lemma flag_Parse_setting:
  "setting formal s = Some x \<Longrightarrow> flag_Parse formal (s # args) = bind_result (flag_Parse formal args) (\<lambda>vs. Ok (x # vs))"
  by (auto simp: setting_def Let_def split: flag_arg.splits option.splits bool.splits if_splits)

lemma flag_Parse_settings:
  assumes "list_all (\<lambda>s. setting formal s \<noteq> None) args"
  shows "flag_Parse formal args = Ok (map (\<lambda>s. the (setting formal s)) args)"
  using assms
proof (induction args)
  case (Cons s args)
  then obtain x where "setting formal s = Some x" by auto
  then show ?case using Cons by (simp add: flag_Parse_setting del: flag_Parse.simps)
qed simp

end
