(* ===== verification/Startup.thy ===== *)
theory Startup
  imports Offload_Server Go_Flags
begin

text \<open>
  The programs around the controllers and the daemon: \<^verbatim>\<open>cmd/main.go\<close> (which controller a process runs and for
  which namespace), \<^verbatim>\<open>daemons/copy-offload/cmd/main.go\<close> (what a daemon needs to start) and the tool
  \<^verbatim>\<open>daemons/copy-offload-testing/make-jwt\<close> that makes the token and its key. An exit with status 1 is an error; what
  the libraries do (parsing floats, PEM, TLS, making clients and managers) is a parameter.
\<close>

section \<open>The REST configuration\<close>

record 'f rest_config =
  QPS :: 'f
  Burst :: int

definition rest_config :: "(string \<Rightarrow> string option) \<Rightarrow> (string \<Rightarrow> 'f res) \<Rightarrow> 'f rest_config \<Rightarrow> 'f rest_config res" where
  "rest_config vars ParseFloat config =
     bind_result
       (case vars ''NNF_REST_CONFIG_QPS'' of
          None \<Rightarrow> Ok config
        | Some qpsString \<Rightarrow> bind_result (ParseFloat qpsString) (\<lambda>qps. Ok (config\<lparr>QPS := qps\<rparr>)))
       (\<lambda>config.
          case vars ''NNF_REST_CONFIG_BURST'' of
            None \<Rightarrow> Ok config
          | Some burstString \<Rightarrow>
              (case Atoi burstString of
                 Inl err \<Rightarrow> Err (PlainErr (num_error_text burstString err))
               | Inr burst \<Rightarrow> Ok (config\<lparr>Burst := burst\<rparr>)))"

section \<open>The controller processes\<close>

datatype controller = managerController | defaultController | nodeController

definition NamespaceDefault :: string where "NamespaceDefault = ''default''"
definition DataMovementProfileNamespace :: string where "DataMovementProfileNamespace = ''nnf-system''"

definition newDataMovementController :: "string \<Rightarrow> controller res" where
  "newDataMovementController c =
     (if c = ''manager'' then Ok managerController
      else if c = ''default'' then Ok defaultController
      else if c = ''node'' then Ok nodeController
      else Err (PlainErr ''unable to create controller''))"

text \<open>The namespaces whose objects are cached; the empty name stands for all of them.\<close>

definition manager_SetOptions :: "string list" where
  "manager_SetOptions = [NamespaceDefault, DataMovementNamespace]"

definition default_SetOptions :: "string list" where
  "default_SetOptions = [NamespaceDefault, DataMovementNamespace, DataMovementProfileNamespace]"

definition getenv :: "(string \<Rightarrow> string option) \<Rightarrow> string \<Rightarrow> string" where
  "getenv vars k = (case vars k of None \<Rightarrow> [] | Some v \<Rightarrow> v)"

definition node_SetOptions :: "(string \<Rightarrow> string option) \<Rightarrow> string list" where
  "node_SetOptions vars =
     [NamespaceDefault, DataMovementNamespace, DataMovementProfileNamespace, getenv vars ''NNF_NODE_NAME'']"

text \<open>The namespace of the data movements that a process reconciles; the manager's process has no such reconciler.\<close>

definition default_SetupReconcilers :: string where
  "default_SetupReconcilers = DataMovementNamespace"

definition node_SetupReconcilers :: "(string \<Rightarrow> string option) \<Rightarrow> string" where
  "node_SetupReconcilers vars = getenv vars ''NNF_NODE_NAME''"

definition SetOptions :: "(string \<Rightarrow> string option) \<Rightarrow> controller \<Rightarrow> string list" where
  "SetOptions vars c =
     (case c of managerController \<Rightarrow> manager_SetOptions | defaultController \<Rightarrow> default_SetOptions
      | nodeController \<Rightarrow> node_SetOptions vars)"

definition SetupReconcilers :: "(string \<Rightarrow> string option) \<Rightarrow> controller \<Rightarrow> string option" where
  "SetupReconcilers vars c =
     (case c of managerController \<Rightarrow> None | defaultController \<Rightarrow> Some default_SetupReconcilers
      | nodeController \<Rightarrow> Some (node_SetupReconcilers vars))"

record dm_flags =
  metrics_bind_address :: string
  health_probe_bind_address :: string
  leader_elect :: bool
  controller_flag :: string

text \<open>The flags of \<^verbatim>\<open>main\<close>; controller-runtime defines \<^verbatim>\<open>kubeconfig\<close> in addition.\<close>

definition dm_formal :: "string \<Rightarrow> bool option" where
  "dm_formal = map_of [(''metrics-bind-address'', False), (''health-probe-bind-address'', False), (''leader-elect'', True),
     (''controller'', False), (''kubeconfig'', False)]"

definition parse_dm_flags :: "string list \<Rightarrow> dm_flags res" where
  "parse_dm_flags args =
     bind_result (flag_Parse dm_formal args) (\<lambda>vs.
       Ok \<lparr>metrics_bind_address = string_flag vs ''metrics-bind-address'' '':8080'',
           health_probe_bind_address = string_flag vs ''health-probe-bind-address'' '':8081'',
           leader_elect = bool_flag vs ''leader-elect'' False, controller_flag = string_flag vs ''controller'' ''default''\<rparr>)"

record 'f dm_process =
  p_Controller :: controller
  p_Namespaces :: "string list"
  p_Watch :: "string option"
  p_LeaderElection :: bool
  p_Config :: "'f rest_config"

text \<open>
  \<open>newManager\<close> is \<^verbatim>\<open>ctrl.NewManager\<close> with the registration of the reconcilers and the two health checks, which may
  fail one after the other.
\<close>

definition dm_main ::
  "(string \<Rightarrow> string option) \<Rightarrow> (string \<Rightarrow> 'f res) \<Rightarrow> 'f rest_config \<Rightarrow> ('f rest_config \<Rightarrow> string list \<Rightarrow> unit res list) \<Rightarrow>
   string list \<Rightarrow> 'f dm_process res" where
  "dm_main vars ParseFloat config newManager args =
     bind_result (parse_dm_flags args) (\<lambda>flags.
     bind_result (newDataMovementController (controller_flag flags)) (\<lambda>dmCtrl.
     bind_result (rest_config vars ParseFloat config) (\<lambda>config.
     bind_result (foldr (\<lambda>r rest. bind_result r (\<lambda>_. rest)) (newManager config (SetOptions vars dmCtrl)) (Ok ())) (\<lambda>_.
       Ok \<lparr>p_Controller = dmCtrl, p_Namespaces = SetOptions vars dmCtrl, p_Watch = SetupReconcilers vars dmCtrl,
           p_LeaderElection = leader_elect flags, p_Config = config\<rparr>))))"

definition filterByNamespace :: "string \<Rightarrow> string \<Rightarrow> bool" where
  "filterByNamespace namespace ns \<longleftrightarrow> ns = namespace"

text \<open>The processes that reconcile the data movements of a namespace.\<close>

definition reconciles :: "'f dm_process \<Rightarrow> string \<Rightarrow> bool" where
  "reconciles p ns = (case p_Watch p of None \<Rightarrow> False | Some w \<Rightarrow> filterByNamespace w ns)"

lemma dm_main_Ok:
  assumes "dm_main vars ParseFloat config newManager args = Ok p"
  shows "\<exists>flags. parse_dm_flags args = Ok flags \<and> newDataMovementController (controller_flag flags) = Ok (p_Controller p) \<and>
    p_LeaderElection p = leader_elect flags \<and>
    p_Namespaces p = SetOptions vars (p_Controller p) \<and> p_Watch p = SetupReconcilers vars (p_Controller p)"
  using assms by (auto simp: dm_main_def bind_result_Ok_iff)

text \<open>
  C37. Of all processes of a cluster, those that reconcile the data movements of one namespace are all of the same
  kind and, on nodes, of the same node name, so that no resource is moved by two controllers; such a process has
  the namespace in its cache. No node has the name of the data movement namespace.
\<close>

theorem one_controller_per_movement:
  assumes "dm_main varsp PFp cfgp nmp fp = Ok p" and "dm_main varsq PFq cfgq nmq fq = Ok q"
    and "reconciles p ns" and "reconciles q ns"
    and "getenv varsp ''NNF_NODE_NAME'' \<noteq> DataMovementNamespace" and "getenv varsq ''NNF_NODE_NAME'' \<noteq> DataMovementNamespace"
  shows "p_Controller p = p_Controller q \<and> ns \<in> set (p_Namespaces p) \<and> ns \<in> set (p_Namespaces q) \<and>
    (p_Controller p = defaultController \<and> ns = DataMovementNamespace \<or>
     p_Controller p = nodeController \<and> ns = getenv varsp ''NNF_NODE_NAME'' \<and> ns = getenv varsq ''NNF_NODE_NAME'')"
  using dm_main_Ok[OF assms(1)] dm_main_Ok[OF assms(2)] assms(3-6)
  by (cases "p_Controller p"; cases "p_Controller q")
    (auto simp: reconciles_def filterByNamespace_def SetupReconcilers_def SetOptions_def default_SetupReconcilers_def
      node_SetupReconcilers_def default_SetOptions_def node_SetOptions_def)

definition demo_dm_main :: "string \<Rightarrow> string \<Rightarrow> nat dm_process res" where
  "demo_dm_main node c =
     dm_main [''NNF_NODE_NAME'' \<mapsto> node, ''NNF_REST_CONFIG_BURST'' \<mapsto> ''100''] (\<lambda>s. Ok 0) \<lparr>QPS = 5, Burst = 10\<rparr>
       (\<lambda>_ _. [Ok (), Ok (), Ok (), Ok ()])
       [''--leader-elect=false'', ''--controller='' @ c]"

definition demo_node :: "nat dm_process" where
  "demo_node = \<lparr>p_Controller = nodeController, p_Namespaces = [''default'', ''nnf-dm-system'', ''nnf-system'', ''rabbit-1''],
     p_Watch = Some ''rabbit-1'', p_LeaderElection = False, p_Config = \<lparr>QPS = 5, Burst = 100\<rparr>\<rparr>"

lemma demo_node_main: "demo_dm_main ''rabbit-1'' ''node'' = Ok demo_node"
  by code_simp

theorem one_controller_per_movement_witness:
  "demo_dm_main ''rabbit-1'' ''node'' = Ok demo_node \<and> reconciles demo_node ''rabbit-1'' \<and> ''rabbit-1'' \<in> set (p_Namespaces demo_node)"
proof -
  have r: "reconciles demo_node ''rabbit-1''" by (simp add: demo_node_def reconciles_def filterByNamespace_def)
  have n: "getenv [''NNF_NODE_NAME'' \<mapsto> ''rabbit-1'', ''NNF_REST_CONFIG_BURST'' \<mapsto> ''100''] ''NNF_NODE_NAME'' \<noteq> DataMovementNamespace"
    by (simp add: getenv_def DataMovementNamespace_def)
  from one_controller_per_movement[OF demo_node_main[unfolded demo_dm_main_def] demo_node_main[unfolded demo_dm_main_def] r r n n]
  show ?thesis using demo_node_main r by simp
qed

section \<open>The daemon\<close>

record ('f, 'w) startup_env =
  s_LoadX509KeyPair :: "string \<Rightarrow> string \<Rightarrow> unit res"
  s_ReadFile :: "string \<Rightarrow> 'w \<Rightarrow> string res"
  s_pem_Decode :: "string \<Rightarrow> string option"
  s_ParseFloat :: "string \<Rightarrow> 'f res"
  s_Config :: "'f rest_config"
  s_NewClient :: "'f rest_config \<Rightarrow> unit res"
  s_GetNnfNode :: "string \<Rightarrow> string \<Rightarrow> 'w \<Rightarrow> unit res"

record daemon_flags =
  addr :: string
  cert :: string
  cakey :: string
  tokenkey :: string
  skip_tls :: bool
  skip_token :: bool
  mock_flag :: bool

text \<open>The flags of the daemon's \<^verbatim>\<open>main\<close>, with \<^verbatim>\<open>kubeconfig\<close> as above.\<close>

definition daemon_formal :: "string \<Rightarrow> bool option" where
  "daemon_formal = map_of [(''addr'', False), (''cert'', False), (''cakey'', False), (''tokenkey'', False),
     (''skip-tls'', True), (''skip-token'', True), (''mock'', True), (''kubeconfig'', False)]"

definition parse_daemon_flags :: "string list \<Rightarrow> daemon_flags res" where
  "parse_daemon_flags args =
     bind_result (flag_Parse daemon_formal args) (\<lambda>vs.
       Ok \<lparr>addr = string_flag vs ''addr'' ''localhost:4000'', cert = string_flag vs ''cert'' ''cert.pem'',
           cakey = string_flag vs ''cakey'' ''key.pem'', tokenkey = string_flag vs ''tokenkey'' ''token_key.pem'',
           skip_tls = bool_flag vs ''skip-tls'' False, skip_token = bool_flag vs ''skip-token'' False,
           mock_flag = bool_flag vs ''mock'' False\<rparr>)"

definition setupClient :: "('w, 'z) env_scheme \<Rightarrow> ('f, 'w) startup_env \<Rightarrow> unit res" where
  "setupClient E S = bind_result (rest_config (e_LookupEnv E) (s_ParseFloat S) (s_Config S)) (s_NewClient S)"

definition clientSanity :: "('f, 'w) startup_env \<Rightarrow> string \<Rightarrow> 'w \<Rightarrow> unit res" where
  "clientSanity S rabbitName w = s_GetNnfNode S rabbitName ''nnf-nlc'' w"

text \<open>The key of the tokens: the bytes of the first PEM block of the key file, or nothing with \<^verbatim>\<open>--skip-token\<close>.\<close>

definition token_key :: "('f, 'w) startup_env \<Rightarrow> daemon_flags \<Rightarrow> 'w \<Rightarrow> string res" where
  "token_key S flags w =
     (if skip_token flags then Ok []
      else
        bind_result (s_ReadFile S (tokenkey flags) w) (\<lambda>inKey.
          case s_pem_Decode S inKey of
            None \<Rightarrow> Err (PlainErr ''unable to decode PEM key for token'')
          | Some bytes \<Rightarrow> Ok bytes))"

definition start_daemon ::
  "('w, 'z) env_scheme \<Rightarrow> ('f, 'w) startup_env \<Rightarrow> daemon_flags \<Rightarrow> 'w \<Rightarrow> 'w UserHttp res" where
  "start_daemon E S flags w =
     (if Getenv E ''NNF_NODE_NAME'' = [] then Err (PlainErr ''Did not find NNF_NODE_NAME'')
      else if Getenv E ''ENVIRONMENT'' = [] then Err (PlainErr ''Did not find ENVIRONMENT'')
      else
        bind_result (NewDriver E (mock_flag flags) w) (\<lambda>drvr.
        bind_result (if skip_tls flags then Ok () else s_LoadX509KeyPair S (cert flags) (cakey flags)) (\<lambda>_.
        bind_result (token_key S flags w) (\<lambda>keyBytes.
        bind_result (if mock_flag flags then Ok ()
                     else bind_result (setupClient E S) (\<lambda>_. clientSanity S (Getenv E ''NNF_NODE_NAME'') w)) (\<lambda>_.
          Ok \<lparr>Drvr = drvr, user_Mock = mock_flag flags, KeyBytes = keyBytes, ShuttingDown = False\<rparr>)))))"

definition daemon_main ::
  "('w, 'z) env_scheme \<Rightarrow> ('f, 'w) startup_env \<Rightarrow> string list \<Rightarrow> 'w \<Rightarrow> 'w UserHttp res" where
  "daemon_main E S args w = bind_result (parse_daemon_flags args) (\<lambda>flags. start_daemon E S flags w)"

lemma start_daemon_Ok:
  assumes "start_daemon E S flags w = Ok user"
  shows "token_key S flags w = Ok (KeyBytes user) \<and> NewDriver E (mock_flag flags) w = Ok (Drvr user) \<and>
    user_Mock user = mock_flag flags"
  using assms by (auto simp: start_daemon_def bind_result_Ok_iff split: if_splits)

section \<open>The token tool\<close>

record 'w tool_env =
  t_GenerateKey :: "'w \<Rightarrow> string res \<times> 'w"
  t_pem_Encode :: "string \<Rightarrow> string option"
  t_pem_Decode :: "string \<Rightarrow> string option"
  t_WriteFile :: "string \<Rightarrow> string \<Rightarrow> 'w \<Rightarrow> unit res \<times> 'w"
  t_ReadFile :: "string \<Rightarrow> 'w \<Rightarrow> string res"
  t_Now :: time

definition createKeyForTokens :: "'w tool_env \<Rightarrow> 'w \<Rightarrow> (string \<times> string) res \<times> 'w" where
  "createKeyForTokens T w =
     (case t_GenerateKey T w of
        (Ok privBytes, w') \<Rightarrow>
          ((case t_pem_Encode T privBytes of
              None \<Rightarrow> Err (PlainErr ''unable to PEM-encode signing key for token'')
            | Some pemKey \<Rightarrow> Ok (privBytes, pemKey)), w')
      | (Err err, w') \<Rightarrow> (Err err, w')
      | (Panic, w') \<Rightarrow> (Panic, w'))"

text \<open>What is read back must verify; a key file without a PEM block makes the tool panic.\<close>

definition check_files :: "jwt_lib \<Rightarrow> 'w tool_env \<Rightarrow> string \<Rightarrow> string \<Rightarrow> string \<Rightarrow> 'w \<Rightarrow> unit res" where
  "check_files J T keyFile tokenFile privKey w =
     bind_result (t_ReadFile T keyFile w) (\<lambda>inKey.
       case t_pem_Decode T inKey of
         None \<Rightarrow> Panic
       | Some bytes \<Rightarrow>
           if privKey \<noteq> bytes then Err (PlainErr ''key block does not match private key'')
           else bind_result (t_ReadFile T tokenFile w) (\<lambda>tokenStr2. make_verifyToken J (t_Now T) tokenStr2 bytes))"

definition make_jwt_main :: "jwt_lib \<Rightarrow> 'w tool_env \<Rightarrow> string \<Rightarrow> string \<Rightarrow> 'w \<Rightarrow> unit res \<times> 'w" where
  "make_jwt_main J T keyFile tokenFile w =
     (case createKeyForTokens T w of
        (Panic, w1) \<Rightarrow> (Panic, w1)
      | (Err err, w1) \<Rightarrow> (Err err, w1)
      | (Ok (privKey, pemKey), w1) \<Rightarrow>
          (let tokenString = createTokenFromKey J (t_Now T) privKey
           in case make_verifyToken J (t_Now T) tokenString privKey of
                Panic \<Rightarrow> (Panic, w1)
              | Err err \<Rightarrow> (Err err, w1)
              | Ok _ \<Rightarrow>
                  (case t_WriteFile T keyFile pemKey w1 of
                     (Panic, w2) \<Rightarrow> (Panic, w2)
                   | (Err err, w2) \<Rightarrow> (Err err, w2)
                   | (Ok _, w2) \<Rightarrow>
                       (case t_WriteFile T tokenFile tokenString w2 of
                          (Panic, w3) \<Rightarrow> (Panic, w3)
                        | (Err err, w3) \<Rightarrow> (Err err, w3)
                        | (Ok _, w3) \<Rightarrow> (check_files J T keyFile tokenFile privKey w3, w3)))))"

definition jwt_formal :: "string \<Rightarrow> bool option" where
  "jwt_formal = map_of [(''tokenkey'', False), (''token'', False)]"

definition parse_jwt_flags :: "string list \<Rightarrow> (string \<times> string) res" where
  "parse_jwt_flags args =
     bind_result (flag_Parse jwt_formal args) (\<lambda>vs. Ok (string_flag vs ''tokenkey'' ''token_key.pem'', string_flag vs ''token'' ''token''))"

definition make_jwt :: "jwt_lib \<Rightarrow> 'w tool_env \<Rightarrow> string list \<Rightarrow> 'w \<Rightarrow> unit res \<times> 'w" where
  "make_jwt J T args w =
     (case parse_jwt_flags args of
        Ok (tokenKeyFile, tokenFile) \<Rightarrow> make_jwt_main J T tokenKeyFile tokenFile w
      | Err err \<Rightarrow> (Err err, w)
      | Panic \<Rightarrow> (Panic, w))"

text \<open>What the tool relies on: PEM gives back what was encoded, and a written file is read back.\<close>

definition tool_laws :: "'w tool_env \<Rightarrow> bool" where
  "tool_laws T \<longleftrightarrow> (\<forall>key pem. t_pem_Encode T key = Some pem \<longrightarrow> t_pem_Decode T pem = Some key) \<and>
     (\<forall>p c w w'. t_WriteFile T p c w = (Ok (), w') \<longrightarrow> t_ReadFile T p w' = Ok c)"

lemma make_jwt_main_Ok:
  assumes "make_jwt_main J T kf tf w0 = (Ok (), w)" and "tool_laws T"
  shows "\<exists>key inKey. t_ReadFile T tf w = Ok (createTokenFromKey J (t_Now T) key) \<and>
    t_ReadFile T kf w = Ok inKey \<and> t_pem_Decode T inKey = Some key"
proof -
  obtain key pem w1 where k: "createKeyForTokens T w0 = (Ok (key, pem), w1)"
    using assms(1) by (auto simp: make_jwt_main_def split: prod.splits result.splits)
  obtain w2 where w2: "t_WriteFile T tf (createTokenFromKey J (t_Now T) key) w2 = (Ok (), w)"
      and check: "check_files J T kf tf key w = Ok ()"
    using assms(1) k by (auto simp: make_jwt_main_def Let_def split: prod.splits result.splits)
  have "t_ReadFile T tf w = Ok (createTokenFromKey J (t_Now T) key)" using w2 assms(2) by (simp add: tool_laws_def)
  then show ?thesis
    using check by (auto simp: check_files_def bind_result_Ok_iff split: option.splits if_splits)
qed

lemma bearer_token:
  assumes "req_Authorization req = ''Bearer '' @ token" and "\<And>c. c \<in> set token \<Longrightarrow> \<not> is_space c"
  shows "bearer req = token"
proof -
  have "str_index (''Bearer '' @ token) ''Bearer'' = Some 0" by (simp add: str_index.simps)
  then have "ReplaceFirst (req_Authorization req) ''Bearer'' [] = '' '' @ token"
    using assms(1) by (simp add: ReplaceFirst_def)
  moreover have "dropWhile is_space token = token" "dropWhile is_space (rev token) = rev token"
    using assms(2) by (cases "token = []"; simp add: dropWhile_eq_self_iff hd_rev)+
  ultimately show ?thesis by (simp add: bearer_def TrimSpace_def is_space_def)
qed

text \<open>
  C25. From key to request: when the token tool has finished, a daemon that is started with the same key file on its
  command line, or with the default one of both programs, lets every message pass that carries the token the tool
  wrote, at any time. The two command lines, the tool, the token library, the start of the daemon and the check of
  a message work together here.
\<close>

theorem minted_token_is_accepted:
  assumes "json_laws J" and "tool_laws T"
    and "parse_jwt_flags targs = Ok (kf, tf)" and "make_jwt J T targs w0 = (Ok (), w)"
    and "s_ReadFile S = t_ReadFile T" and "s_pem_Decode S = t_pem_Decode T"
    and "parse_daemon_flags dargs = Ok flags" and "tokenkey flags = kf" and "daemon_main E S dargs w = Ok user"
    and "t_ReadFile T tf w = Ok token" and "req_Authorization req = ''Bearer '' @ token" and "req_AcceptsVersion req = ''1.0''"
  shows "validateMessage J E req user = Ok (Inr ''1.0'')"
proof -
  obtain key inKey where token: "token = createTokenFromKey J (t_Now T) key"
      and kf: "t_ReadFile T kf w = Ok inKey" "t_pem_Decode T inKey = Some key"
    using make_jwt_main_Ok[of J T kf tf w0 w] assms(2-4,10) by (auto simp: make_jwt_def)
  have "KeyBytes user = key \<or> KeyBytes user = []"
    using start_daemon_Ok[of E S flags w user] assms(7,9) kf assms(5,6,8)
    by (auto simp: token_key_def daemon_main_def split: if_splits)
  moreover have "bearer req = token" by (rule bearer_token[OF assms(11)]) (auto simp: token dest: token_no_space)
  moreover have "verifyToken J now key token = Ok ()" for now using token_roundtrip[OF assms(1)] by (simp add: token)
  ultimately show ?thesis using assms(11,12) by (auto simp: validateMessage_def bearer_def Let_def)
qed

text \<open>
  A key file whose PEM block is empty turns the check of tokens off: the daemon starts without an error and
  without \<^verbatim>\<open>--skip-token\<close>, and the authorization of a message no longer matters.
\<close>

lemma empty_key_disables_authentication:
  assumes "start_daemon E S flags w = Ok user" and "\<not> skip_token flags"
    and "s_ReadFile S (tokenkey flags) w = Ok inKey" and "s_pem_Decode S inKey = Some []"
  shows "serve J E obs between path (req\<lparr>req_Authorization := a\<rparr>) user = serve J E obs between path (req\<lparr>req_Authorization := b\<rparr>) user"
proof -
  have "KeyBytes user = []" using start_daemon_Ok[OF assms(1)] assms(2-4) by (simp add: token_key_def)
  then show ?thesis
    by (simp add: serve_def Hello_def TrialRequest_def UserHttp_CancelRequest_def UserHttp_ListRequests_def
        UserHttp_GetRequest_def ShutdownRequest_def checked_def validateMessage_def)
qed

section \<open>An example\<close>

definition demo_tool :: "offload_world tool_env" where
  "demo_tool =
     \<lparr>t_GenerateKey = (\<lambda>w. (Ok ''k'', w)), t_pem_Encode = (\<lambda>key. Some (CHR ''-'' # key)),
      t_pem_Decode = (\<lambda>s. case s of [] \<Rightarrow> None | c # key \<Rightarrow> if c = CHR ''-'' then Some key else None),
      t_WriteFile = (\<lambda>p c w. (Ok (), w\<lparr>ow_cluster := (ow_cluster w)\<lparr>c_files := (c_files (ow_cluster w))(p \<mapsto> c)\<rparr>\<rparr>)),
      t_ReadFile = (\<lambda>p w. lookup_res (c_files (ow_cluster w)) p), t_Now = 10\<rparr>"

definition demo_startup :: "(nat, offload_world) startup_env" where
  "demo_startup =
     \<lparr>s_LoadX509KeyPair = (\<lambda>_ _. Ok ()), s_ReadFile = t_ReadFile demo_tool, s_pem_Decode = t_pem_Decode demo_tool,
      s_ParseFloat = (\<lambda>_. Ok 0), s_Config = \<lparr>QPS = 5, Burst = 10\<rparr>, s_NewClient = (\<lambda>_. Ok ()), s_GetNnfNode = (\<lambda>_ _ _. Ok ())\<rparr>"

definition demo_daemon_env :: "offload_world offload_env" where
  "demo_daemon_env = offload_cluster_env [''NNF_NODE_NAME'' \<mapsto> ''rabbit-0'', ''ENVIRONMENT'' \<mapsto> ''kind'',
     ''DW_WORKFLOW_NAME'' \<mapsto> ''wf'', ''DW_WORKFLOW_NAMESPACE'' \<mapsto> ''default''] 0"

definition demo_flags :: daemon_flags where
  "demo_flags = \<lparr>addr = ''localhost:4000'', cert = ''cert.pem'', cakey = ''key.pem'', tokenkey = ''token_key.pem'', skip_tls = False, skip_token = False, mock_flag = False\<rparr>"

definition demo_minted :: offload_world where
  "demo_minted = demo_world\<lparr>ow_cluster := (ow_cluster demo_world)\<lparr>c_files := (c_files (ow_cluster demo_world))
     (''token_key.pem'' \<mapsto> ''-k'', ''token'' \<mapsto> createTokenFromKey demo_jwt 10 ''k'')\<rparr>\<rparr>"

definition demo_started :: "offload_world \<Rightarrow> string \<Rightarrow> offload_world UserHttp" where
  "demo_started w key = \<lparr>Drvr = demo_driver\<lparr>drv_world := w\<rparr>, user_Mock = False, KeyBytes = key, ShuttingDown = False\<rparr>"

lemma demo_tool_laws: "tool_laws demo_tool"
  by (auto simp: tool_laws_def demo_tool_def lookup_res_def)

lemma demo_start_daemon:
  "s_ReadFile demo_startup ''token_key.pem'' w = Ok (CHR ''-'' # key) \<Longrightarrow>
   start_daemon demo_daemon_env demo_startup demo_flags w = Ok (demo_started w key)"
  by (simp add: start_daemon_def token_key_def setupClient_def clientSanity_def NewDriver_def Getenv_def rest_config_def
      demo_daemon_env_def demo_startup_def demo_flags_def demo_started_def demo_driver_def demo_tool_def)

theorem minted_token_is_accepted_witness:
  "make_jwt demo_jwt demo_tool [] demo_world = (Ok (), demo_minted) \<and>
   daemon_main demo_daemon_env demo_startup [''--tokenkey'', ''token_key.pem''] demo_minted = Ok (demo_started demo_minted ''k'') \<and>
   validateMessage demo_jwt demo_daemon_env demo_signed (demo_started demo_minted ''k'') = Ok (Inr ''1.0'')"
proof -
  have tf: "parse_jwt_flags [] = Ok (''token_key.pem'', ''token'')" by code_simp
  have df: "parse_daemon_flags [''--tokenkey'', ''token_key.pem''] = Ok demo_flags" by code_simp
  have run: "make_jwt demo_jwt demo_tool [] demo_world = (Ok (), demo_minted)"
    using token_roundtrip[OF demo_json_laws]
    by (simp add: make_jwt_def tf make_jwt_main_def createKeyForTokens_def check_files_def demo_tool_def demo_minted_def lookup_res_def Let_def)
  have "s_ReadFile demo_startup ''token_key.pem'' demo_minted = Ok ''-k''"
    by (simp add: demo_startup_def demo_tool_def demo_minted_def lookup_res_def)
  then have start: "daemon_main demo_daemon_env demo_startup [''--tokenkey'', ''token_key.pem''] demo_minted = Ok (demo_started demo_minted ''k'')"
    unfolding daemon_main_def df by (simp add: demo_start_daemon)
  have tok: "t_ReadFile demo_tool ''token'' demo_minted = Ok (createTokenFromKey demo_jwt 10 ''k'')"
    by (simp add: demo_tool_def demo_minted_def lookup_res_def)
  have "validateMessage demo_jwt demo_daemon_env demo_signed (demo_started demo_minted ''k'') = Ok (Inr ''1.0'')"
    by (rule minted_token_is_accepted[OF demo_json_laws demo_tool_laws tf run _ _ df _ start tok])
      (simp_all add: demo_startup_def demo_flags_def demo_signed_def demo_http_def)
  then show ?thesis using run start by blast
qed

lemma empty_key_disables_authentication_witness:
  "start_daemon demo_daemon_env demo_startup demo_flags (demo_world\<lparr>ow_cluster := empty_cluster\<lparr>c_files := [''token_key.pem'' \<mapsto> ''-'']\<rparr>\<rparr>) =
     Ok (demo_started (demo_world\<lparr>ow_cluster := empty_cluster\<lparr>c_files := [''token_key.pem'' \<mapsto> ''-'']\<rparr>\<rparr>) []) \<and>
   serve demo_jwt demo_daemon_env [] id ''/shutdown'' (demo_http\<lparr>req_Authorization := ''forged''\<rparr>)
       (demo_started (demo_world\<lparr>ow_cluster := empty_cluster\<lparr>c_files := [''token_key.pem'' \<mapsto> ''-'']\<rparr>\<rparr>) []) =
     serve demo_jwt demo_daemon_env [] id ''/shutdown'' (demo_http\<lparr>req_Authorization := []\<rparr>)
       (demo_started (demo_world\<lparr>ow_cluster := empty_cluster\<lparr>c_files := [''token_key.pem'' \<mapsto> ''-'']\<rparr>\<rparr>) [])"
proof -
  let ?w = "demo_world\<lparr>ow_cluster := empty_cluster\<lparr>c_files := [''token_key.pem'' \<mapsto> ''-'']\<rparr>\<rparr>"
  have key: "s_ReadFile demo_startup (tokenkey demo_flags) ?w = Ok ''-''" "s_pem_Decode demo_startup ''-'' = Some []"
    "\<not> skip_token demo_flags"
    by (simp_all add: demo_startup_def demo_tool_def demo_flags_def lookup_res_def)
  have start: "start_daemon demo_daemon_env demo_startup demo_flags ?w = Ok (demo_started ?w [])"
    by (rule demo_start_daemon) (simp add: demo_startup_def demo_tool_def lookup_res_def)
  from empty_key_disables_authentication[OF start key(3,1,2)] start show ?thesis by blast
qed

end
