(* ===== verification/Deployed.thy ===== *)
theory Deployed
  imports Dm_Manager_Converges Startup
begin

text \<open>
  From the manager to the processes it deploys: the manager turns its own deployment into the one of the default
  controller by rewriting the command line of its container, and that command line is then parsed by \<^verbatim>\<open>main\<close> of
  \<^verbatim>\<open>cmd/main.go\<close>. The property here is about both ends.
\<close>

section \<open>Rewriting a command line\<close>

definition sets :: "string \<Rightarrow> string \<Rightarrow> bool" where
  "sets name arg \<longleftrightarrow> map_option fst (setting dm_formal arg) = Some name"

definition self_contained :: "string list \<Rightarrow> bool" where
  "self_contained args = list_all (\<lambda>a. setting dm_formal a \<noteq> None) args"

lemma settings_eval:
  "setting dm_formal ''--controller=manager'' = Some (''controller'', ''manager'')"
  "setting dm_formal ''--controller=default'' = Some (''controller'', ''default'')"
  "setting dm_formal ''--leader-elect=false'' = Some (''leader-elect'', ''false'')"
  by code_simp+

lemma sets_eval:
  "sets ''controller'' ''--controller=manager''" "sets ''controller'' ''--controller=default''"
  "\<not> sets ''controller'' ''--leader-elect=false''"
  by (simp_all add: sets_def settings_eval)

lemma replace_self_contained: "self_contained args \<Longrightarrow> self_contained (replace_first_arg args)"
  by (induction args rule: replace_first_arg.induct) (auto simp: self_contained_def settings_eval)

lemma replace_none: "''--controller=manager'' \<notin> set args \<Longrightarrow> replace_first_arg args = args"
  by (induction args rule: replace_first_arg.induct) auto

lemma replace_controller:
  "filter (sets ''controller'') args = [''--controller=manager''] \<Longrightarrow>
   filter (sets ''controller'') (replace_first_arg args) = [''--controller=default'']"
proof (induction args rule: replace_first_arg.induct)
  case (2 a as)
  show ?case
  proof (cases "a = ''--controller=manager''")
    case True
    then show ?thesis using 2(2) by (auto simp: sets_eval)
  next
    case False
    then show ?thesis using 2 by (auto split: if_splits)
  qed
qed simp

text \<open>When only one argument sets a flag, it is its value that counts.\<close>

lemma map_of_only:
  assumes "filter (\<lambda>x. fst x = k) vs = [(k, v)]"
  shows "map_of (rev vs) k = Some v"
proof -
  have key: "map_of (filter (\<lambda>x. fst x = k) xs) k = map_of xs k" for xs
    by (induction xs) auto
  show ?thesis using key[of "rev vs"] assms by (simp flip: rev_filter)
qed

lemma only_setting:
  assumes "filter (sets name) args = [a]" and "setting dm_formal a = Some (name, v)" and "self_contained args"
  shows "map_of (rev (map (\<lambda>s. the (setting dm_formal s)) args)) name = Some v"
proof (rule map_of_only)
  have "filter (\<lambda>x. fst x = name) (map (\<lambda>s. the (setting dm_formal s)) args) =
        map (\<lambda>s. the (setting dm_formal s)) (filter (sets name) args)"
    using assms(3) by (induction args) (auto simp: self_contained_def sets_def)
  then show "filter (\<lambda>x. fst x = name) (map (\<lambda>s. the (setting dm_formal s)) args) = [(name, v)]"
    using assms(1,2) by simp
qed

lemma manager_container_flags:
  assumes "self_contained (Args c)" and "filter (sets ''controller'') (Args c) = [''--controller=manager'']"
  shows "\<exists>flags. parse_dm_flags (Args (manager_container c)) = Ok flags \<and> controller_flag flags = ''default'' \<and> \<not> leader_elect flags"
proof -
  let ?args = "replace_first_arg (Args c) @ [''--leader-elect=false'']"
  let ?vs = "map (\<lambda>s. the (setting dm_formal s)) ?args"
  have self: "self_contained ?args"
    using replace_self_contained[OF assms(1)] by (simp add: self_contained_def settings_eval)
  have "map_of (rev ?vs) ''controller'' = Some ''default''"
    by (rule only_setting[OF _ settings_eval(2) self]) (simp add: replace_controller[OF assms(2)] sets_eval)
  moreover have "map_of (rev ?vs) ''leader-elect'' = Some ''false''" by (simp add: settings_eval)
  moreover have "flag_Parse dm_formal ?args = Ok ?vs"
    by (rule flag_Parse_settings) (use self in \<open>simp add: self_contained_def\<close>)
  moreover have "ParseBool ''false'' \<noteq> Some True" by code_simp
  ultimately show ?thesis by (simp add: parse_dm_flags_def manager_container_def string_flag_def bool_flag_def)
qed

section \<open>The deployment after a reconcile\<close>

text \<open>The first container of a name, as \<open>findContainer\<close> finds it.\<close>

definition container :: "string \<Rightarrow> PodSpec \<Rightarrow> Container option" where
  "container name spec = find (\<lambda>c. cont_Name c = name) (Containers spec)"

lemma change_container_find:
  assumes "change_container name f cs = Some cs'" and "\<And>c. cont_Name (f c) = cont_Name c"
  shows "find (\<lambda>c. cont_Name c = name) cs' = map_option f (find (\<lambda>c. cont_Name c = name) cs)"
  using assms by (induction name f cs arbitrary: cs' rule: change_container.induct) (auto split: if_splits)

lemma mutate_deployment_container:
  assumes "mutate_deployment manager base old = Ok d" and "container ''manager'' (dep_PodSpec base) = Some c"
  shows "\<exists>c'. container ''manager'' (dep_PodSpec d) = Some c' \<and> Args c' = Args (manager_container c)"
proof -
  have low: "ToLower ''manager'' = ''manager''" by code_simp
  obtain cs where cs: "change_container ''manager'' manager_container (Containers (dep_PodSpec base)) = Some cs"
      and d: "dep_PodSpec d = setupSSHAuthVolumes manager ((dep_PodSpec base)\<lparr>Containers := cs\<rparr>)"
    using assms(1) by (auto simp: mutate_deployment_def findContainer_def bind_result_Ok_iff low split: option.splits)
  have "find (\<lambda>c. cont_Name c = ''manager'') cs = Some (manager_container c)"
    using change_container_find[OF cs] assms(2) by (simp add: container_def manager_container_def)
  then have "find (\<lambda>c. cont_Name c = ''manager'') (map (\<lambda>c. c\<lparr>VolumeMounts := VolumeMounts c @ ms\<rparr>) cs) =
      Some ((manager_container c)\<lparr>VolumeMounts := VolumeMounts (manager_container c) @ ms\<rparr>)" for ms
    by (induction cs) (auto split: if_splits)
  then show ?thesis by (simp add: d container_def setupSSHAuthVolumes_def add_mounts_def)
qed

text \<open>What a successful reconcile has stored as the deployment of the controller.\<close>

lemma reconcile_deployment:
  assumes run: "Manager_Reconcile (manager_cluster_env vars keys) req w = (Ok False, w')" and m: "stored_manager w req = Some m"
    and base: "stored dep_key (mw_Deployments w) req = Some base"
  shows "\<exists>old d. mutate_deployment m base old = Ok d \<and> stored dep_key (mw_Deployments w') (fst req, deploymentName) = Some d"
proof -
  let ?E = "manager_cluster_env vars keys"
  let ?new = "\<lparr>dep_Name = deploymentName, dep_Namespace = mgr_Namespace m, dep_Owner = None, dep_Labels = [],
    dep_Other = [], dep_PodSpec = empty_podSpec\<rparr>"
  have get: "g_GetManager ?E (fst req) (snd req) w = Ok m" using m by (simp add: lookup_res_def)
  have key: "(mgr_Namespace m, mgr_Name m) = req" using m by (auto simp: stored_manager_def dest: stored_key)
  obtain w6 where w6: "run_steps (manager_steps ?E m) w = (Ok (), w6)" by (rule reconcile_success[OF run, unfolded sync_current, OF get])
  obtain w1 w2 where s1: "createSecretIfNecessary ?E m w = (Ok (), w1)"
      and s2: "createOrUpdateDeploymentIfNecessary ?E m w1 = (Ok (), w2)"
      and rest: "run_steps (drop 2 (manager_steps ?E m)) w2 = (Ok (), w6)"
    using w6 by (auto simp: manager_steps_def split: prod.splits result.splits)
  have "mw_Deployments w6 = mw_Deployments w2"
    by (rule run_steps_keep[where P = "\<lambda>w. mw_Deployments w = mw_Deployments w2", OF rest])
      (auto simp: manager_steps_def step_views)
  moreover have managers: "mw_Deployments v' = mw_Deployments v" if "update_call cur old (mw_Managers_update g) v = (r, v')" for cur old g v r v'
    using update_call_keeps[of mw_Deployments "mw_Managers_update g" cur old v] that by simp
  have "mw_Deployments w' = mw_Deployments w6"
    using run get w6
    by (auto simp: Manager_Reconcile_def close_status_def simp del: manager_env_sel(3) dest!: managers
        split: result.splits if_splits prod.splits)
  ultimately have w': "mw_Deployments w' = mw_Deployments w2" by simp
  have "mw_Deployments (snd (createSecretIfNecessary ?E m w)) = mw_Deployments w"
    by (simp add: createSecretIfNecessary_def table_client_keeps[of mw_Deployments] split: result.split prod.split)
  then have "stored dep_key (mw_Deployments w1) req = Some base" using s1 base by simp
  then have step: "CreateOrUpdate (table_client mw_Deployments mw_Deployments_update dep_key id) (mgr_Namespace m) deploymentName ?new
      (mutate_deployment m base) w1 = (Ok (), w2)"
    using s2 key by (auto simp: createOrUpdateDeploymentIfNecessary_def table_client_def lookup_res_def)
  have "fst req = mgr_Namespace m" using key by auto
  then show ?thesis using CreateOrUpdate_stored[OF step] w' by (auto dest: mutate_keys)
qed

text \<open>
  C14. After a successful reconcile of the manager, the controller's deployment runs the default controller without
  leader election: its command line parses, and a process that is started with it reconciles the data movements of
  the data movement namespace and of no other. The base deployment's arguments must each carry their own value, and
  exactly one of them set the controller, to the manager. The manager's reads are current.
\<close>

theorem deployed_controller_is_default:
  assumes "Manager_Reconcile (manager_cluster_env vars keys) req w = (Ok False, w')" and "stored_manager w req = Some m"
    and "stored dep_key (mw_Deployments w) req = Some base" and "container ''manager'' (dep_PodSpec base) = Some c"
    and "self_contained (Args c)" and "filter (sets ''controller'') (Args c) = [''--controller=manager'']"
  shows "\<exists>d c' flags. stored dep_key (mw_Deployments w') (fst req, deploymentName) = Some d \<and>
    container ''manager'' (dep_PodSpec d) = Some c' \<and> parse_dm_flags (Args c') = Ok flags \<and>
    controller_flag flags = ''default'' \<and> \<not> leader_elect flags \<and>
    (\<forall>env ParseFloat config newManager p. dm_main env ParseFloat config newManager (Args c') = Ok p \<longrightarrow>
       p_Controller p = defaultController \<and> \<not> p_LeaderElection p \<and> (\<forall>ns. reconciles p ns \<longleftrightarrow> ns = DataMovementNamespace))"
proof -
  obtain old d where d: "mutate_deployment m base old = Ok d"
      "stored dep_key (mw_Deployments w') (fst req, deploymentName) = Some d"
    using reconcile_deployment[OF assms(1-3)] by blast
  obtain c' where c': "container ''manager'' (dep_PodSpec d) = Some c'" "Args c' = Args (manager_container c)"
    using mutate_deployment_container[OF d(1) assms(4)] by blast
  obtain flags where flags: "parse_dm_flags (Args c') = Ok flags" "controller_flag flags = ''default''" "\<not> leader_elect flags"
    using manager_container_flags[OF assms(5,6)] c'(2) by auto
  have "p_Controller p = defaultController \<and> \<not> p_LeaderElection p \<and> (\<forall>ns. reconciles p ns \<longleftrightarrow> ns = DataMovementNamespace)"
    if "dm_main env ParseFloat config newManager (Args c') = Ok p" for env ParseFloat config newManager p
    using dm_main_Ok[OF that] flags
    by (auto simp: newDataMovementController_def reconciles_def filterByNamespace_def SetupReconcilers_def default_SetupReconcilers_def)
  then show ?thesis using d(2) c'(1) flags by blast
qed

theorem deployed_controller_is_default_witness:
  "\<exists>d c' flags. stored dep_key (mw_Deployments mdemo_done) (''dm-system'', deploymentName) = Some d \<and>
     container ''manager'' (dep_PodSpec d) = Some c' \<and> Args c' = [''--controller=default'', ''--leader-elect=false''] \<and>
     parse_dm_flags (Args c') = Ok flags \<and> controller_flag flags = ''default''"
proof -
  have m: "stored_manager (mdemo_rolled ''beta'') mdemo_req = Some mdemo_manager" by (rule mdemo_facts(3))
  have base: "stored dep_key (mw_Deployments (mdemo_rolled ''beta'')) mdemo_req = Some mdemo_base" by code_simp
  have c: "container ''manager'' (dep_PodSpec mdemo_base) = Some (mdemo_container ''manager'' [''--controller=manager''])" by code_simp
  have self: "self_contained (Args (mdemo_container ''manager'' [''--controller=manager'']))"
    "filter (sets ''controller'') (Args (mdemo_container ''manager'' [''--controller=manager''])) = [''--controller=manager'']"
    by code_simp+
  from deployed_controller_is_default[OF mdemo_reconcile[unfolded mdemo_env_def] m base c self]
  obtain d c' flags where d: "stored dep_key (mw_Deployments mdemo_done) (''dm-system'', deploymentName) = Some d"
      "container ''manager'' (dep_PodSpec d) = Some c'" "parse_dm_flags (Args c') = Ok flags" "controller_flag flags = ''default''"
    by auto
  have "map_option Args (Option.bind (stored dep_key (mw_Deployments mdemo_done) (''dm-system'', deploymentName))
          (\<lambda>d. container ''manager'' (dep_PodSpec d))) = Some [''--controller=default'', ''--leader-elect=false'']"
    by code_simp
  then show ?thesis using d by auto
qed

end
