(* ===== verification/Offload_Store.thy ===== *)
theory Offload_Store
  imports Offload_Results
begin

text \<open>
  What the copy-offload daemon as a whole does to the data movements on the API server, whatever it is asked
  and however its copies go: the store stays well-formed, an object that is there keeps its identity and its
  specification, and a new object starts without a status. The lemmas are proved for every server that keeps
  the contract \<open>creating_server\<close>.
\<close>

section \<open>One step\<close>

definition store_change :: "store \<Rightarrow> store \<Rightarrow> bool" where
  "store_change S S' \<longleftrightarrow>
     (\<exists>k. only_status k S S') \<or> (\<exists>base dm new. created base dm new S S' \<and> dm_Status new = empty_status)"

lemma store_change_status: "only_status k S S' \<Longrightarrow> store_change S S'"
  unfolding store_change_def by blast

lemma store_change_refl [simp]: "store_change S S"
  by (rule store_change_status[OF only_status_refl])

lemma store_change_keys: "store_change S S' \<Longrightarrow> stored_keys S \<Longrightarrow> stored_keys S'"
  by (auto simp: store_change_def intro: only_status_keys created_keys)

text \<open>The same object, but for its status and version.\<close>

definition same_but_status :: "NnfDataMovement \<Rightarrow> NnfDataMovement \<Rightarrow> bool" where
  "same_but_status dm dm' \<longleftrightarrow> dm'\<lparr>dm_Status := dm_Status dm, dm_ResourceVersion := dm_ResourceVersion dm\<rparr> = dm"

definition object_change :: "NnfDataMovement option \<Rightarrow> NnfDataMovement \<Rightarrow> bool" where
  "object_change old dm' = (case old of Some dm \<Rightarrow> same_but_status dm dm' | None \<Rightarrow> dm_Status dm' = empty_status)"

lemma object_change_refl [simp]: "object_change (Some dm) dm"
  by (simp add: object_change_def same_but_status_def)

lemma store_change_object:
  assumes "store_change S S'" and "S' k = Some dm'"
  shows "object_change (S k) dm'"
  using assms(1) unfolding store_change_def
proof
  assume "\<exists>k. only_status k S S'"
  then obtain k0 where o: "only_status k0 S S'" by blast
  show ?thesis
  proof (cases "k = k0")
    case True
    then show ?thesis using only_statusD(2)[OF o, of dm'] assms(2) by (auto simp: object_change_def same_but_status_def)
  next
    case False
    then have "S k = Some dm'" using only_statusD(1)[OF o False] assms(2) by simp
    then show ?thesis by simp
  qed
next
  assume "\<exists>base dm new. created base dm new S S' \<and> dm_Status new = empty_status"
  then obtain new where c: "S (dm_key new) = None" "S' = S(dm_key new \<mapsto> new)" "dm_Status new = empty_status"
    by (auto simp: created_def)
  then show ?thesis using assms(2) by (cases "k = dm_key new") (auto simp: object_change_def[of None])
qed

lemma DriveMock_world: "Mock s \<Longrightarrow> DriveMock E r dm s = (res, s') \<Longrightarrow> drv_world s' = drv_world s"
  by (auto simp: DriveMock_def driveWithContext_def Let_def split: result.splits)

lemma CreateMock_world: "CreateMock dmreq s = (res, s') \<Longrightarrow> drv_world s' = drv_world s"
  by (auto simp: CreateMock_def recordRequest_def Let_def split: result.splits)

lemma status_world:
  "GetRequest E statreq [] s = (res, s') \<or> GetRequestMock statreq s = (res, s') \<Longrightarrow> drv_world s' = drv_world s"
  using status_driver status_mock_driver by (fastforce simp: deleteCompletionByName_def)

context creating_server
begin

lemma Create_stores:
  assumes "Create E dmreq s = (res, s')"
  shows "store_change (store (drv_world s)) (store (drv_world s'))"
proof -
  obtain x w' where p: "prepare_request E (WorkflowName s) (WorkflowNamespace s) dmreq (drv_world s) = (x, w')" by fastforce
  have "drv_world s' = w'" using assms p by (auto simp: Create_def recordRequest_def split: result.splits)
  then show ?thesis
    using prepare_request_stores[OF p] by (auto simp: store_change_def[of _ "store w'"] dest: sym)
qed

lemma own_step_store:
  assumes "daemon_step E \<sigma> \<sigma>'" and "stored_keys (store (drv_world (fst \<sigma>)))"
  shows "store_change (store (drv_world (fst \<sigma>))) (store (drv_world (fst \<sigma>')))"
  using assms
proof (induction rule: daemon_step.induct)
  case (drive s r dm p res s')
  then show ?case using drive_only[of s r dm res s'] by (auto intro: store_change_status)
next
  case (progress s p i)
  then show ?case
  proof (cases "drv_running s i")
    case (Some run)
    then show ?thesis using progress_only[OF Some] progress by (auto intro: store_change_status)
  qed (simp add: offload_progress_def)
next
  case (finish i werr s s' p)
  then show ?case
  proof (cases "drv_running s i")
    case (Some run)
    then show ?thesis using finish_only[OF Some _ finish(1)] finish(2) by (auto intro: store_change_status)
  qed (simp add: finish_offload_def)
next
  case (cancel name s res s' p)
  then show ?case by (auto simp: CancelRequest_def split: result.splits if_splits)
next
  case (prints s p i out)
  then show ?case by (simp add: offload_output_def split: option.split)
next
  case (status s statreq res s' p)
  then show ?case using status_world[OF disjI1, OF status(2)] by simp
next
  case (status_mock s statreq res s' p)
  then show ?case using status_world[OF disjI2, OF status_mock(2)] by simp
qed (auto dest: Create_stores CreateMock_world DriveMock_world)

end

text \<open>
  C13. The data movements on the API server stay well-formed under every step of the daemon: each is stored under
  its own namespace and name; one that was there keeps its labels, finalizers and specification, and only its
  status may differ; one that was not there has an empty status. This holds with any failing, conflicting or
  lost writes.
\<close>

theorem daemon_store_well_formed:
  assumes "daemon_step (offload_cluster_env vars uid) (s, p) (s', p')" and "stored_keys (offload_store (drv_world s))"
  shows "stored_keys (offload_store (drv_world s')) \<and>
    (\<forall>k dm'. offload_store (drv_world s') k = Some dm' \<longrightarrow> object_change (offload_store (drv_world s) k) dm')"
proof -
  have c: "store_change (offload_store (drv_world s)) (offload_store (drv_world s'))"
    using offload_server.own_step_store[OF assms(1)] assms(2) by simp
  show ?thesis using store_change_keys[OF c assms(2)] store_change_object[OF c] by blast
qed

text \<open>The answer to the creation of a data movement is lost: the request fails, and the object is there.\<close>

definition demo_lost_create :: "offload_world driver" where
  "demo_lost_create = demo_driver\<lparr>drv_world := demo_world\<lparr>ow_cluster := (ow_cluster demo_world)\<lparr>c_faults := [Some (OtherReason, True)]\<rparr>\<rparr>\<rparr>"

theorem daemon_store_well_formed_witness:
  "\<exists>dm. offload_store (drv_world (snd (Create offload_env0 demo_request demo_lost_create))) demo_key = Some dm \<and>
     dm_key dm = demo_key \<and> dm_Status dm = empty_status"
proof -
  let ?s' = "snd (Create offload_env0 demo_request demo_lost_create)"
  have r: "(case fst (Create offload_env0 demo_request demo_lost_create) of Ok _ \<Rightarrow> False | _ \<Rightarrow> True)" by code_simp
  have "offload_store (drv_world ?s') demo_key \<noteq> None" by code_simp
  then obtain dm where dm: "offload_store (drv_world ?s') demo_key = Some dm" by blast
  have none: "offload_store (drv_world demo_lost_create) = Map.empty"
    by (simp add: offload_store_def demo_lost_create_def demo_world_def empty_cluster_def)
  have step: "daemon_step offload_env0 (demo_lost_create, []) (?s', [])"
    by (rule daemon_step.create_fails[OF _ prod.collapse[symmetric]])
      (use r in \<open>auto simp: demo_lost_create_def demo_driver_def split: result.splits\<close>)
  have keys: "stored_keys (offload_store (drv_world demo_lost_create))" by (simp add: none stored_keys_def)
  from daemon_store_well_formed[OF step keys] dm none show ?thesis by (fastforce simp: object_change_def dest: stored_keysD)
qed

end
