(* ===== verification/Offload_Mock.thy ===== *)
theory Offload_Mock
  imports Offload_Store
begin

text \<open>
  The mock mode of the copy-offload daemon, which its tests use: a daemon in mock mode leaves the cluster alone,
  loses no request, and answers every status request. The invariant of the mode says where the pointers of the
  tracked requests lead.
\<close>

section \<open>The invariant of mock mode\<close>

text \<open>The data movement of a tracked request, that has a goroutine or not.\<close>

definition mock_dm :: "bool \<Rightarrow> NnfDataMovement \<Rightarrow> bool" where
  "mock_dm runs dm \<longleftrightarrow> \<not> Cancel (dm_Spec dm) \<and>
     (if runs then State (dm_Status dm) = TypeRunning \<and> Status (dm_Status dm) = [] \<and> StartTime (dm_Status dm) \<noteq> None
      else dm_Status dm = empty_status)"

definition mock_pointer :: "'w driver \<Rightarrow> nat \<Rightarrow> bool" where
  "mock_pointer s i \<longleftrightarrow> drv_mockDM s i \<noteq> None \<and> mock_dm (drv_running s i \<noteq> None) (the (drv_mockDM s i))"

definition mock_pointers :: "'w driver \<Rightarrow> bool" where
  "mock_pointers s \<longleftrightarrow> (\<forall>k i. map_of (drv_contexts s) k = Some i \<longrightarrow> mock_pointer s i)"

lemma mock_pointersD: "mock_pointers s \<Longrightarrow> map_of (drv_contexts s) k = Some i \<Longrightarrow> mock_pointer s i"
  unfolding mock_pointers_def by blast

definition mock_hosts :: "'w daemon \<Rightarrow> bool" where
  "mock_hosts = (\<lambda>(s, p).
     (\<forall>x\<in>set p. mpiHostfile (fst x) = []) \<and> (\<forall>i run. drv_running s i = Some run \<longrightarrow> or_hostfile run = []))"

definition mock_inv :: "'w daemon \<Rightarrow> bool" where
  "mock_inv \<sigma> \<longleftrightarrow> offload_inv \<sigma> \<and> (Mock (fst \<sigma>) \<longrightarrow> mock_pointers (fst \<sigma>) \<and> mock_hosts \<sigma>)"

lemma own_mode: "daemon_step E \<sigma> \<sigma>' \<Longrightarrow> Mock (fst \<sigma>') = Mock (fst \<sigma>)"
proof (induction rule: daemon_step.induct)
  case (create_mock s dmreq k r dm s' p)
  then show ?case using CreateMock_tracking[of dmreq s k r dm s'] by simp
next
  case (status s statreq res s' p)
  then show ?case using status_driver[of E statreq s res s'] by (auto simp: deleteCompletionByName_def)
next
  case (status_mock s statreq res s' p)
  then show ?case using status_mock_driver[of statreq s res s'] by (auto simp: deleteCompletionByName_def)
next
  case (create_mock_fails s dmreq res s' p)
  then show ?case using CreateMock_fails_tracking[of dmreq s res s'] by simp
next
  case (drive_mock s r dm p res s')
  then show ?case using drive_mode[of E r dm s res s'] by simp
next
  case (drive s r dm p res s')
  then show ?case using drive_mode[of E r dm s res s'] by simp
qed (auto simp: CancelRequest_def offload_output_def split: option.split result.splits if_splits dest: Create_mode finish_mode)

text \<open>The steps of mock mode, on what the invariant speaks about.\<close>

lemma mock_progress:
  assumes "Mock s"
  shows "drv_world (offload_progress E i s) = drv_world s \<and>
    (mock_pointer s j \<longrightarrow> mock_pointer (offload_progress E i s) j) \<and> (mock_hosts (s, p) \<longrightarrow> mock_hosts (offload_progress E i s, p))"
  using assms
  by (auto simp: offload_progress_def mock_pointer_def mock_hosts_def mock_dm_def set_mockDM_def Let_def
      split: option.splits prod.splits)

lemmas mock_progress_world = mock_progress [THEN conjunct1]

lemma mock_finish:
  assumes "Mock s" and "drv_running s i = Some run" and "finish_offload E i werr s = (Ok (), s')"
  shows "\<exists>s1. (s1 = offload_progress E i (s\<lparr>drv_running := (drv_running s)(i \<mapsto> run\<lparr>or_err := werr\<rparr>)\<rparr>) \<or>
               s1 = s\<lparr>drv_running := (drv_running s)(i \<mapsto> run\<lparr>or_err := werr\<rparr>)\<rparr>) \<and>
    s' = notifyCompletion (or_dm run) (deleteRequest (or_dm run)
           (s1\<lparr>drv_running := (drv_running s1)(i := None), drv_world := e_RemoveAll E (Dir (or_hostfile run)) (drv_world s1)\<rparr>))"
proof -
  define s1 where "s1 = last_report E i werr run s"
  have m: "Mock s1" using assms(1) by (simp add: s1_def)
  have "\<exists>run1. drv_running s1 i = Some run1 \<and> or_dm run1 = or_dm run \<and> or_hostfile run1 = or_hostfile run"
    by (auto simp: s1_def last_report_def offload_progress_def Let_def split: prod.splits)
  then obtain run1 where run1: "drv_running s1 i = Some run1" "or_dm run1 = or_dm run" "or_hostfile run1 = or_hostfile run"
    by blast
  have "s' = notifyCompletion (or_dm run) (deleteRequest (or_dm run)
           (s1\<lparr>drv_running := (drv_running s1)(i := None), drv_world := e_RemoveAll E (Dir (or_hostfile run)) (drv_world s1)\<rparr>))"
    using assms(3) m unfolding finish_offload_def assms(2) option.case Let_def s1_def[symmetric] run1 by simp
  then show ?thesis unfolding s1_def by (intro exI[of _ s1] conjI) (auto simp: s1_def last_report_def Let_def)
qed

text \<open>A finished goroutine takes its request out of the tracked ones, and leaves the other pointers.\<close>

lemma mock_finish_keeps:
  assumes "Mock s" and "offload_inv (s, p)" and "mock_pointers s" and "mock_hosts (s, p)"
    and "finish_offload E i werr s = (Ok (), s')"
  shows "mock_pointers s' \<and> mock_hosts (s', p)"
proof (cases "drv_running s i")
  case (Some run)
  let ?s0 = "s\<lparr>drv_running := (drv_running s)(i \<mapsto> run\<lparr>or_err := werr\<rparr>)\<rparr>"
  obtain s1 where s1: "s1 = offload_progress E i ?s0 \<or> s1 = ?s0"
    and s': "s' = notifyCompletion (or_dm run) (deleteRequest (or_dm run)
       (s1\<lparr>drv_running := (drv_running s1)(i := None), drv_world := e_RemoveAll E (Dir (or_hostfile run)) (drv_world s1)\<rparr>))"
    using mock_finish[OF assms(1) Some assms(5)] by blast
  have t: "tracked (map_of (drv_contexts s), drv_next s, run_dms s, set (drv_completions s)) (map snd p)"
    using assms(2) by (simp add: offload_inv_def tracking_def)
  have own: "map_of (drv_contexts s) (dmKey (or_dm run)) = Some i"
    using trackedD(3)[OF t, of i "or_dm run"] Some by (simp add: run_dms_def)
  have c1: "drv_contexts s1 = drv_contexts s" using s1 by auto
  have h0: "mock_hosts (?s0, p)" using assms(4) Some by (auto simp: mock_hosts_def)
  have h1: "mock_hosts (s1, p)" using s1 h0 mock_progress[of ?s0 E i _ p] assms(1) by auto
  have p0: "mock_pointer ?s0 j" if "map_of (drv_contexts s) k = Some j" for j k
    using mock_pointersD[OF assms(3) that] Some by (auto simp: mock_pointer_def)
  have p1: "mock_pointer s1 j" if "map_of (drv_contexts s) k = Some j" for j k
    using p0[OF that] s1 mock_progress[of ?s0 E i j] assms(1) by auto
  have "mock_pointer s' j" if "map_of (drv_contexts s') k = Some j" for j k
  proof -
    have k: "k \<noteq> dmKey (or_dm run)" "map_of (drv_contexts s) k = Some j"
      using that c1 by (auto simp: s' deleteRequest_def notifyCompletion_def map_of_delete split: if_splits)
    then have "j \<noteq> i" using trackedD(2)[OF t own] by blast
    then show ?thesis using p1[OF k(2)] by (simp add: s' mock_pointer_def deleteRequest_def notifyCompletion_def)
  qed
  then show ?thesis
    using h1 by (auto simp: mock_pointers_def mock_hosts_def s' deleteRequest_def notifyCompletion_def split: if_splits)
qed (use assms in \<open>simp add: finish_offload_def\<close>)

lemma mock_create_keeps:
  assumes "Mock s" and "offload_inv (s, p)" and "mock_pointers s" and "mock_hosts (s, p)"
    and "CreateMock dmreq s = (Ok (k, r, dm), s')"
  shows "mock_pointers s' \<and> mock_hosts (s', (r, dm) # p)"
proof -
  have t: "tracked (map_of (drv_contexts s), drv_next s, run_dms s, set (drv_completions s)) (map snd p)"
    using assms(2) by (simp add: offload_inv_def tracking_def)
  have no: "map_of (drv_contexts s) k' \<noteq> Some (drv_next s)" for k' using trackedD(1)[OF t] by blast
  have idle: "drv_running s (drv_next s) = None"
    using trackedD(3)[OF t, of "drv_next s"] no by (cases "drv_running s (drv_next s)") (auto simp: run_dms_def)
  have s': "s' = recordRequest dm (s\<lparr>MockCount := Suc (MockCount s)\<rparr>)" and r: "mpiHostfile r = []"
    and dm: "\<not> Cancel (dm_Spec dm)" "dm_Status dm = empty_status"
    using assms(5) by (auto simp: CreateMock_def Let_def setUserConfig_def new_dm_def split: result.splits)
  have "mock_pointer s' i" if "map_of (drv_contexts s') k' = Some i" for i k'
    using that assms(1) no idle dm mock_pointersD[OF assms(3), of k' i]
    by (auto simp: s' recordRequest_def mock_pointer_def mock_dm_def update_conv' split: if_splits)
  then show ?thesis
    using assms(4) r by (auto simp: mock_pointers_def mock_hosts_def s' recordRequest_def)
qed

lemma mock_drive_keeps:
  assumes "Mock s" and "offload_inv (s, p)" and "mock_pointers s" and "mock_hosts (s, p)"
    and "(r, dm) \<in> set p" and "DriveMock E r dm s = (res, s')"
  shows "mock_pointers s' \<and> mock_hosts (s', remove1 (r, dm) p)"
proof -
  have t: "tracked (tracking s) (map snd p)" using assms(2) by (simp add: offload_inv_def)
  obtain i where i: "map_of (drv_contexts s) (dmKey dm) = Some i"
    by (rule drive_request[OF t assms(5)])
  have r: "mpiHostfile r = []" using assms(4,5) by (auto simp: mock_hosts_def)
  have ptr: "mock_pointer s i" using assms(3) i by (auto simp: mock_pointers_def)
  have idle: "drv_running s i = None"
    using trackedD(4)[of "map_of (drv_contexts s)" "drv_next s" "run_dms s" "set (drv_completions s)" "map snd p" dm] t i assms(5)
    by (force simp: tracking_def run_dms_def)
  obtain run where s': "s' = (set_mockDM i (start_status (e_Now E (drv_world s))
         (empty_CommandStatus\<lparr>Command := ''/bin/bash -c '' @ Join (cmdArgs r) '' ''\<rparr>)) s)
         \<lparr>drv_world := drv_world s, drv_running := (drv_running s)(i \<mapsto> run)\<rparr>" "or_hostfile run = []"
    using assms(1,6) i r by (auto simp: DriveMock_def driveWithContext_def loadRequestByName_def Let_def)
  have "mock_pointer s' j" if "mock_pointer s j" for j
    using that ptr idle
    by (auto simp: s' mock_pointer_def mock_dm_def set_mockDM_def start_status_def empty_status_def split: option.splits)
  then have "mock_pointers s'" using assms(3) by (auto simp: mock_pointers_def s')
  moreover have "mock_hosts (s', remove1 (r, dm) p)"
    using assms(4) s'(2) by (auto simp: mock_hosts_def s'(1) dest: set_remove1_subset[THEN subsetD] split: if_splits)
  ultimately show ?thesis by blast
qed

lemma mock_own_keeps:
  assumes "daemon_step E \<sigma> \<sigma>'" and "Mock (fst \<sigma>)" and "offload_inv \<sigma>" and "mock_pointers (fst \<sigma>)" and "mock_hosts \<sigma>"
  shows "mock_pointers (fst \<sigma>') \<and> mock_hosts \<sigma>'"
  using assms
proof (induction rule: daemon_step.induct)
  case (create_mock s dmreq k r dm s' p)
  then show ?case using mock_create_keeps[of s p dmreq k r dm s'] by simp
next
  case (create_mock_fails s dmreq res s' p)
  then show ?case
    by (auto simp: CreateMock_def mock_pointers_def mock_pointer_def mock_hosts_def Let_def split: result.splits)
next
  case (drive_mock s r dm p res s')
  then show ?case using mock_drive_keeps[of s p r dm E res s'] by simp
next
  case (finish i werr s s' p)
  then show ?case using mock_finish_keeps[of s p E i werr s'] by simp
next
  case (progress s p i)
  then show ?case using mock_progress[of s E i _ p] by (auto simp: mock_pointers_def)
next
  case (status_mock s statreq res s' p)
  then show ?case
    using status_mock_driver[of statreq s res s']
    by (auto simp: deleteCompletionByName_def mock_pointers_def mock_pointer_def mock_hosts_def)
next
  case (cancel name s res s' p)
  then show ?case
    by (auto simp: CancelRequest_def mock_pointers_def mock_pointer_def mock_hosts_def split: result.splits if_splits)
next
  case (prints s p i out)
  have "mock_pointer (offload_output i out s) j = mock_pointer s j" for j
    by (auto simp: offload_output_def mock_pointer_def split: option.split)
  moreover have "drv_contexts (offload_output i out s) = drv_contexts s"
    by (simp add: offload_output_def split: option.split)
  ultimately show ?case
    using prints by (auto simp: mock_pointers_def mock_hosts_def offload_output_def split: option.splits if_splits)
qed simp_all

lemma mock_inv_step: "offload_step E \<sigma> \<sigma>' \<Longrightarrow> mock_inv \<sigma> \<Longrightarrow> mock_inv \<sigma>'"
proof (induction rule: offload_step.induct)
  case (own \<sigma> \<sigma>')
  then have "offload_inv \<sigma>'" using offload_inv_step[OF offload_step.own[OF own(1)]] by (simp add: mock_inv_def)
  then show ?case using own mock_own_keeps[of E \<sigma> \<sigma>'] own_mode[of E \<sigma> \<sigma>'] by (simp add: mock_inv_def)
next
  case (world s p w)
  then show ?case using offload_inv_step[OF offload_step.world[of E s p w]]
    by (auto simp: mock_inv_def mock_pointers_def mock_pointer_def mock_hosts_def)
qed

interpretation mock: invariant_machine "offload_init E" "offload_step E" mock_inv
proof
  fix \<sigma> assume "offload_init E \<sigma>"
  then show "mock_inv \<sigma>"
    using offload_inv_init[of E \<sigma>]
    by (auto simp: mock_inv_def offload_init_def NewDriver_def Let_def mock_pointers_def mock_hosts_def split: if_splits)
qed (rule mock_inv_step)

section \<open>What mock mode does\<close>

lemma mock_no_hostfile: "e_RemoveAll (offload_cluster_env vars uid) (Dir []) w = w"
proof -
  have "Dir [] = ''.''" by code_simp
  then show ?thesis by (simp add: cluster_env_def)
qed

text \<open>
  C28. A daemon in mock mode does not touch the cluster: none of its steps changes an object, a file, or anything
  else outside the daemon.
\<close>

theorem mock_leaves_cluster_alone:
  assumes "reach (offload_init (offload_cluster_env vars uid)) (offload_step (offload_cluster_env vars uid)) (s, p)"
    and "Mock s" and "daemon_step (offload_cluster_env vars uid) (s, p) (s', p')"
  shows "drv_world s' = drv_world s"
proof -
  have inv: "mock_hosts (s, p)" using mock.inv_reachable[OF assms(1)] assms(2) by (simp add: mock_inv_def)
  show ?thesis
    using assms(3,2) inv
  proof (cases rule: daemon_step.cases)
    case (finish i werr)
    then show ?thesis
    proof (cases "drv_running s i")
      case (Some run)
      have "or_hostfile run = []" using inv Some by (auto simp: mock_hosts_def)
      then show ?thesis
        using mock_finish[OF assms(2) Some finish(2)] assms(2)
        by (auto simp: notifyCompletion_def deleteRequest_def mock_no_hostfile mock_progress_world simp del: offload_env_sel)
    qed (simp add: finish_offload_def)
  next
    case (progress i)
    then show ?thesis using mock_progress_world[OF assms(2)] by simp
  next
    case (cancel name res)
    then show ?thesis by (auto simp: CancelRequest_def split: result.splits if_splits)
  next
    case (prints i out)
    then show ?thesis by (simp add: offload_output_def split: option.split)
  next
    case (status_mock statreq res)
    then show ?thesis using status_world[OF disjI2] by blast
  qed (auto dest: CreateMock_world DriveMock_world)
qed

text \<open>
  In mock mode every status request is answered at once, and changes nothing: a tracked request is pending before
  it is driven and running afterwards, with the static start time, and any other name is not found.
\<close>

lemma mock_status_answers:
  assumes "reach (offload_init E) (offload_step E) (s, p)" and "Mock s"
  shows "case map_of (drv_contexts s) (RequestName statreq) of
           None \<Rightarrow> GetRequestMock statreq s = (Ok (Inr (404, PlainErr ''request not found'')), s)
         | Some i \<Rightarrow> \<exists>resp. GetRequestMock statreq s = (Ok (Inl resp), s) \<and>
             resp_State resp = (if drv_running s i = None then PENDING else RUNNING) \<and> resp_Status resp = UNKNOWN_STATUS \<and>
             resp_StartTime resp = Some 1743525996535519000"
proof (cases "map_of (drv_contexts s) (RequestName statreq)")
  case None
  then show ?thesis by (simp add: GetRequestMock_def loadRequestByName_def)
next
  case (Some i)
  have "mock_pointers s" using mock.inv_reachable[OF assms(1)] assms(2) by (simp add: mock_inv_def)
  from mock_pointersD[OF this Some] obtain dm where dm: "drv_mockDM s i = Some dm" "mock_dm (drv_running s i \<noteq> None) dm"
    by (auto simp: mock_pointer_def)
  then show ?thesis
    using Some
    by (auto simp: GetRequestMock_def loadRequestByName_def buildStatusResponse_def mock_dm_def empty_status_def condition_defs Let_def
        split: if_splits)
qed

section \<open>A run in mock mode\<close>

definition demo_mock :: "offload_world driver" where
  "demo_mock = demo_driver\<lparr>Mock := True\<rparr>"

definition mock_pair :: "DriverRequest \<times> NnfDataMovement" where
  "mock_pair = (case fst (CreateMock demo_request demo_mock) of Ok (k, r, dm) \<Rightarrow> (r, dm) | _ \<Rightarrow> demo_pair)"

definition mock_s1 :: "offload_world driver" where
  "mock_s1 = snd (CreateMock demo_request demo_mock)"

definition mock_s2 :: "offload_world driver" where
  "mock_s2 = snd (DriveMock offload_env0 (fst mock_pair) (snd mock_pair) mock_s1)"

lemma mock_demo_reach:
  "reach (offload_init offload_env0) (offload_step offload_env0) (mock_s1, [mock_pair])"
  "reach (offload_init offload_env0) (offload_step offload_env0) (mock_s2, [])"
proof -
  have "NewDriver offload_env0 True demo_world = Ok demo_mock"
    by (simp add: NewDriver_def Getenv_def offload_vars_def demo_driver_def demo_mock_def)
  then have r0: "reach (offload_init offload_env0) (offload_step offload_env0) (demo_mock, [])"
    by (intro reach_init) (auto simp: offload_init_def)
  have c: "fst (CreateMock demo_request demo_mock) = Ok (mock_key 0, fst mock_pair, snd mock_pair)" by code_simp
  have "offload_step offload_env0 (demo_mock, []) (mock_s1, [mock_pair])"
    using daemon_step.create_mock[OF _ pair_of_fst[OF c], of offload_env0 "[]", THEN offload_step.own]
    by (simp add: mock_s1_def demo_mock_def)
  with r0 show r1: "reach (offload_init offload_env0) (offload_step offload_env0) (mock_s1, [mock_pair])" by (rule reach_step)
  have d: "fst (DriveMock offload_env0 (fst mock_pair) (snd mock_pair) mock_s1) = Ok ()" and m: "Mock mock_s1" by code_simp+
  have "offload_step offload_env0 (mock_s1, [mock_pair]) (mock_s2, [])"
    using daemon_step.drive_mock[OF m _ pair_of_fst[OF d], of "[mock_pair]", THEN offload_step.own] by (simp add: mock_s2_def)
  with r1 show "reach (offload_init offload_env0) (offload_step offload_env0) (mock_s2, [])" by (rule reach_step)
qed

theorem mock_leaves_cluster_alone_witness:
  "\<exists>s'. finish_offload offload_env0 0 None mock_s2 = (Ok (), s') \<and> drv_world s' = drv_world mock_s2 \<and>
     mock_key 0 \<in> set (drv_completions s')"
proof -
  have f: "fst (finish_offload offload_env0 0 None mock_s2) = Ok ()" and m: "Mock mock_s2" by code_simp+
  have "mock_key 0 \<in> set (drv_completions (snd (finish_offload offload_env0 0 None mock_s2)))" by code_simp
  with mock_leaves_cluster_alone[OF mock_demo_reach(2) m daemon_step.finish[OF pair_of_fst[OF f]]] pair_of_fst[OF f]
  show ?thesis by blast
qed

end
