(* ===== verification/Dm_Machine.thy ===== *)
theory Dm_Machine
  imports Dm_Controller
begin

text \<open>
  The controller in its surroundings as a state machine: a step is a call of \<open>Reconcile\<close>, a piece of
  command output, a progress update or the end of a command, a change made by somebody else (a request
  is created, changed, cancelled or deleted; the cache catches up with one object; files, clock and
  shell change), or a restart of the controller's pod, which loses the map of contexts and kills the
  commands. Failing and conflicting writes are part of every step that writes.

  \<open>dm_inv\<close> is the invariant the controller lives by: every running command is tracked by the entry of its
  resource, and a resource with an entry is stored as started and holds the finalizer. It is proved once,
  for every environment that keeps the contract \<open>dm_server\<close>, and interpreted for the cluster.
\<close>

section \<open>The steps\<close>

text \<open>
  What others do to the data movements: the cache of one object catches up, an object is created, or it is changed in
  anything but its status and the controller's finalizer. So nobody else writes the status: the copy-offload daemon,
  which does write the status of the data movements it creates, is not one of the others here. \<open>Composition\<close> has both on one
  cluster and shows what then happens.
\<close>

inductive api_env :: "api_state \<Rightarrow> api_state \<Rightarrow> bool" where
  sync: "api_env a (a\<lparr>a_cache := (a_cache a)(k := a_stored a k)\<rparr>)"
| create:
    "a_stored a k = None \<Longrightarrow> dm_key d = k \<Longrightarrow> dm_DeletionTimestamp d = None \<Longrightarrow> dm_Status d = empty_status \<Longrightarrow>
     a_rev a < dm_ResourceVersion d \<Longrightarrow>
     api_env a (a\<lparr>a_rev := dm_ResourceVersion d, a_stored := (a_stored a)(k \<mapsto> d)\<rparr>)"
| modify:
    "a_stored a k = Some cur \<Longrightarrow> dm_key d = k \<Longrightarrow> dm_Status d = dm_Status cur \<Longrightarrow>
     ContainsFinalizer (dm_Finalizers d) finalizer = ContainsFinalizer (dm_Finalizers cur) finalizer \<Longrightarrow>
     (dm_DeletionTimestamp cur \<noteq> None \<longrightarrow> dm_DeletionTimestamp d \<noteq> None) \<Longrightarrow>
     a_rev a < dm_ResourceVersion d \<Longrightarrow>
     api_env a (a\<lparr>a_rev := dm_ResourceVersion d,
                  a_stored := (a_stored a)(k :=
                    if dm_DeletionTimestamp d \<noteq> None \<and> dm_Finalizers d = [] then None else Some d)\<rparr>)"

definition pod_restart :: "'w \<Rightarrow> 'w reconciler \<Rightarrow> 'w reconciler" where
  "pod_restart w s = s\<lparr>world := w, contexts := Map.empty, running := Map.empty, completions := []\<rparr>"

inductive dm_step ::
  "('w, 'z) env_scheme \<Rightarrow> ('w \<Rightarrow> api_state) \<Rightarrow> string \<Rightarrow> 'w reconciler \<Rightarrow> 'w reconciler \<Rightarrow> bool"
  for E api ns where
  reconcile: "Reconcile E (ns, n) s = (r, t) \<Longrightarrow> r \<noteq> Panic \<Longrightarrow> dm_step E api ns s t"
| writes: "dm_step E api ns s (command_output i txt s)"
| progress: "dm_step E api ns s (parseAndUpdateProgress E i s)"
| finish: "dm_step E api ns s (finish_command E i werr s)"
| others: "api_env (api (world s)) (api w) \<Longrightarrow> dm_step E api ns s (s\<lparr>world := w\<rparr>)"
| outside: "api w = api (world s) \<Longrightarrow> dm_step E api ns s (s\<lparr>world := w\<rparr>)"
| restart: "api w = (api (world s))\<lparr>a_cache := a_stored (api (world s))\<rparr> \<Longrightarrow> dm_step E api ns s (pod_restart w s)"
| crash: "Reconcile E (ns, n) s = (Panic, t) \<Longrightarrow>
          api w = (api (world t))\<lparr>a_cache := a_stored (api (world t))\<rparr> \<Longrightarrow> dm_step E api ns s (pod_restart w t)"

inductive_cases dm_stepE: "dm_step E api ns s t"

section \<open>The invariant\<close>

text \<open>
  \<open>knows a k d\<close>: a write based on \<open>d\<close> can be accepted only as long as the stored object is \<open>d\<close> itself,
  because versions are never reused.
\<close>

definition knows :: "api_state \<Rightarrow> string \<times> string \<Rightarrow> NnfDataMovement \<Rightarrow> bool" where
  "knows a k d \<longleftrightarrow> dm_key d = k \<and> dm_ResourceVersion d \<le> a_rev a \<and>
     (\<forall>cur. a_stored a k = Some cur \<longrightarrow> dm_ResourceVersion cur = dm_ResourceVersion d \<longrightarrow> cur = d)"

definition api_ok :: "api_state \<Rightarrow> bool" where
  "api_ok a \<longleftrightarrow>
     (\<forall>k d. a_stored a k = Some d \<longrightarrow> dm_key d = k \<and> dm_ResourceVersion d \<le> a_rev a \<and>
            (dm_DeletionTimestamp d \<noteq> None \<longrightarrow> dm_Finalizers d \<noteq> [])) \<and>
     (\<forall>k d. a_cache a k = Some d \<longrightarrow> knows a k d)"

definition entry_ok ::
  "string \<Rightarrow> api_state \<Rightarrow> (nat \<Rightarrow> DmRun option) \<Rightarrow> string \<Rightarrow> DataMovementContext \<Rightarrow> bool" where
  "entry_ok ns a runs n e \<longleftrightarrow>
     (\<exists>cur. a_stored a (ns, n) = Some cur \<and> StartTime (dm_Status cur) \<noteq> None \<and>
        ContainsFinalizer (dm_Finalizers cur) finalizer \<and>
        (\<forall>d. a_cache a (ns, n) = Some d \<longrightarrow> dm_DeletionTimestamp d \<noteq> None \<longrightarrow> dm_DeletionTimestamp cur \<noteq> None) \<and>
        (case Result e of
           None \<Rightarrow> State (dm_Status cur) = TypeRunning \<and> (\<exists>g. runs (Ctx e) = Some g \<and> dm_key (run_dm g) = (ns, n))
         | Some st \<Rightarrow> State st = TypeFinished \<and> StartTime st \<noteq> None \<and>
                      State (dm_Status cur) \<in> {TypeRunning, TypeFinished}))"

definition run_ok :: "string \<Rightarrow> (string \<Rightarrow> DataMovementContext option) \<Rightarrow> nat \<Rightarrow> DmRun \<Rightarrow> bool" where
  "run_ok ns ctxs i g \<longleftrightarrow>
     dm_Namespace (run_dm g) = ns \<and> StartTime (dm_Status (run_dm g)) \<noteq> None \<and>
     (\<exists>e. ctxs (dm_Name (run_dm g)) = Some e \<and> Ctx e = i \<and> Result e = None)"

definition inv_of :: "string \<Rightarrow> api_state \<Rightarrow> 'w reconciler \<Rightarrow> bool" where
  "inv_of ns a s \<longleftrightarrow>
     api_ok a \<and>
     (\<forall>n e. contexts s n = Some e \<longrightarrow> entry_ok ns a (running s) n e) \<and>
     (\<forall>i g. running s i = Some g \<longrightarrow> i < next_ctx s \<and> run_ok ns (contexts s) i g)"

definition dm_inv :: "('w \<Rightarrow> api_state) \<Rightarrow> string \<Rightarrow> 'w reconciler \<Rightarrow> bool" where
  "dm_inv api ns s = inv_of ns (api (world s)) s"

definition dm_init :: "('w \<Rightarrow> api_state) \<Rightarrow> 'w reconciler \<Rightarrow> bool" where
  "dm_init api s \<longleftrightarrow> api_ok (api (world s)) \<and> contexts s = Map.empty \<and> running s = Map.empty"

lemma inv_of_world [simp]: "inv_of ns a (s\<lparr>world := w\<rparr>) = inv_of ns a s"
  by (simp add: inv_of_def)

lemma inv_of_cancelled [simp]: "inv_of ns a (s\<lparr>cancelled := c\<rparr>) = inv_of ns a s"
  by (simp add: inv_of_def)

lemma inv_of_next: "inv_of ns a s \<Longrightarrow> next_ctx s \<le> n \<Longrightarrow> inv_of ns a (s\<lparr>next_ctx := n\<rparr>)"
  unfolding inv_of_def by fastforce

subsection \<open>What a step of the controller does to the stored objects\<close>

definition advance :: "api_state \<Rightarrow> api_state \<Rightarrow> bool" where
  "advance a a' \<longleftrightarrow>
     a_cache a' = a_cache a \<and> (\<forall>k d. knows a k d \<longrightarrow> knows a' k d) \<and>
     (\<forall>k cur'. a_stored a' k = Some cur' \<longrightarrow>
        (\<exists>cur. a_stored a k = Some cur \<and>
           (State (dm_Status cur) = TypeFinished \<longrightarrow> State (dm_Status cur') = TypeFinished) \<and>
           (dm_DeletionTimestamp cur \<noteq> None \<longrightarrow> dm_DeletionTimestamp cur' \<noteq> None)))"

lemma advance_refl [simp]: "advance a a"
  by (auto simp: advance_def)

lemma advance_trans: "advance a b \<Longrightarrow> advance b c \<Longrightarrow> advance a c"
  unfolding advance_def by (metis (no_types, lifting))

lemma advance_cache: "advance a b \<Longrightarrow> a_cache b = a_cache a"
  by (simp add: advance_def)

lemma advance_knows: "advance a b \<Longrightarrow> knows a k d \<Longrightarrow> knows b k d"
  unfolding advance_def by blast

text \<open>Which status may be written over the stored one, given the entry of the resource.\<close>

definition status_allowed ::
  "DataMovementContext option \<Rightarrow> NnfDataMovement \<Rightarrow> NnfDataMovementStatus \<Rightarrow> bool" where
  "status_allowed entry cur st \<longleftrightarrow>
     (State (dm_Status cur) = TypeFinished \<longrightarrow> State st = TypeFinished) \<and>
     (case entry of
        None \<Rightarrow> True
      | Some e \<Rightarrow> StartTime st \<noteq> None \<and>
          (case Result e of
             None \<Rightarrow> State st = State (dm_Status cur)
           | Some r \<Rightarrow> State st \<in> {TypeRunning, TypeFinished}))"

lemma api_ok_accept:
  assumes "api_ok a" and "api_accept change dm new a a'"
    and "\<And>cur. dm_key (change cur) = dm_key cur"
    and "\<And>cur. dm_DeletionTimestamp (change cur) = dm_DeletionTimestamp cur"
  shows "api_ok a' \<and> (\<forall>k d. knows a k d \<longrightarrow> knows a' k d) \<and> dm_key new = dm_key dm \<and>
         (a_stored a' (dm_key dm) = None \<or> a_stored a' (dm_key dm) = Some new) \<and> knows a' (dm_key dm) new"
proof -
  obtain cur v where c: "a_stored a (dm_key dm) = Some cur" "a_rev a < v"
      "new = (change cur)\<lparr>dm_ResourceVersion := v\<rparr>"
      "a' = a\<lparr>a_rev := v, a_stored := (a_stored a)(dm_key dm :=
         if dm_DeletionTimestamp cur \<noteq> None \<and> dm_Finalizers new = [] then None else Some new)\<rparr>"
    using assms(2) by (auto simp: api_accept_def)
  have k: "dm_key cur = dm_key dm" using assms(1) c(1) unfolding api_ok_def by blast
  have key: "dm_key new = dm_key dm" using assms(3)[of cur] k c(3) by (simp add: dm_key_def)
  have del: "dm_DeletionTimestamp new = dm_DeletionTimestamp cur" using assms(4)[of cur] c(3) by simp
  have kn: "knows a' k d" if "knows a k d" for k d
    using that c key unfolding knows_def by (auto split: if_splits)
  have "knows a' (dm_key dm) new" using c key unfolding knows_def by auto
  moreover have "api_ok a'"
    using assms(1) c key kn del unfolding api_ok_def by (fastforce split: if_splits)
  ultimately show ?thesis using key kn c(4) by auto
qed

lemma api_accept_cur:
  assumes "api_accept change dm new a a'"
  obtains cur v where "a_stored a (dm_key dm) = Some cur" "dm_ResourceVersion cur = dm_ResourceVersion dm"
    "\<And>k. k \<noteq> dm_key dm \<Longrightarrow> a_stored a' k = a_stored a k" "a_cache a' = a_cache a"
    "a_stored a' (dm_key dm) =
       (if dm_DeletionTimestamp cur \<noteq> None \<and> dm_Finalizers new = [] then None else Some new)"
    "new = (change cur)\<lparr>dm_ResourceVersion := v\<rparr>"
  using assms by (auto simp: api_accept_def)

text \<open>An entry stays good when the object it belongs to is replaced by one that fits it.\<close>

lemma entry_ok_replace:
  assumes "entry_ok ns a runs n e" and "a_cache a' = a_cache a"
    and "a_stored a' (ns, n) = a_stored a (ns, n) \<or>
         (\<exists>cur new. a_stored a (ns, n) = Some cur \<and> a_stored a' (ns, n) = Some new \<and>
            StartTime (dm_Status new) \<noteq> None \<and> ContainsFinalizer (dm_Finalizers new) finalizer \<and>
            (dm_DeletionTimestamp cur \<noteq> None \<longrightarrow> dm_DeletionTimestamp new \<noteq> None) \<and>
            (case Result e of None \<Rightarrow> State (dm_Status new) = State (dm_Status cur)
             | Some r \<Rightarrow> State (dm_Status new) \<in> {TypeRunning, TypeFinished}))"
  shows "entry_ok ns a' runs n e"
  using assms unfolding entry_ok_def by (cases "Result e") auto

lemma inv_of_accept:
  assumes inv: "inv_of ns a s" and acc: "api_accept change dm new a a'"
    and key: "\<And>cur. dm_key (change cur) = dm_key cur"
    and del: "\<And>cur. dm_DeletionTimestamp (change cur) = dm_DeletionTimestamp cur"
    and fits: "\<And>cur e. a_stored a (dm_key dm) = Some cur \<Longrightarrow> dm_ResourceVersion cur = dm_ResourceVersion dm \<Longrightarrow>
      contexts s (dm_Name dm) = Some e \<Longrightarrow> dm_Namespace dm = ns \<Longrightarrow>
      StartTime (dm_Status (change cur)) \<noteq> None \<and> ContainsFinalizer (dm_Finalizers (change cur)) finalizer \<and>
      (case Result e of None \<Rightarrow> State (dm_Status (change cur)) = State (dm_Status cur)
       | Some r \<Rightarrow> State (dm_Status (change cur)) \<in> {TypeRunning, TypeFinished})"
  shows "inv_of ns a' s"
proof -
  obtain cur v where c: "a_stored a (dm_key dm) = Some cur" "dm_ResourceVersion cur = dm_ResourceVersion dm"
    "\<And>k. k \<noteq> dm_key dm \<Longrightarrow> a_stored a' k = a_stored a k" "a_cache a' = a_cache a"
    "a_stored a' (dm_key dm) =
       (if dm_DeletionTimestamp cur \<noteq> None \<and> dm_Finalizers new = [] then None else Some new)"
    "new = (change cur)\<lparr>dm_ResourceVersion := v\<rparr>"
    by (rule api_accept_cur[OF acc]) (rule that)
  have ok: "api_ok a" and entries: "\<And>n e. contexts s n = Some e \<Longrightarrow> entry_ok ns a (running s) n e"
    using inv by (auto simp: inv_of_def)
  have "entry_ok ns a' (running s) n e" if e: "contexts s n = Some e" for n e
  proof (cases "(ns, n) = dm_key dm")
    case False
    then show ?thesis using entry_ok_replace[OF entries[OF e] c(4)] c(3)[OF False] by blast
  next
    case True
    then have n: "dm_Namespace dm = ns" "dm_Name dm = n" by (auto simp: dm_key_def)
    note f = fits[OF c(1,2) e[folded n(2)] n(1)]
    then have "dm_Finalizers new \<noteq> []" using c(6) by (auto simp: ContainsFinalizer_def)
    then have "a_stored a' (ns, n) = Some new" using c(5) True by simp
    then show ?thesis
      using f c(1,4,6) del[of cur] True 
      by (intro entry_ok_replace[OF entries[OF e] c(4)] disjI2) (auto split: option.splits)
  qed
  then show ?thesis
    using api_ok_accept[OF ok acc key del] inv unfolding inv_of_def by blast
qed

lemma advance_accept:
  assumes "api_ok a" and "api_accept change dm new a a'"
    and "\<And>cur. dm_key (change cur) = dm_key cur"
    and "\<And>cur. dm_DeletionTimestamp (change cur) = dm_DeletionTimestamp cur"
    and "\<And>cur. a_stored a (dm_key dm) = Some cur \<Longrightarrow> dm_ResourceVersion cur = dm_ResourceVersion dm \<Longrightarrow>
       State (dm_Status cur) = TypeFinished \<Longrightarrow> State (dm_Status (change cur)) = TypeFinished"
  shows "advance a a'"
proof -
  obtain cur v where c: "a_stored a (dm_key dm) = Some cur" "dm_ResourceVersion cur = dm_ResourceVersion dm"
    "\<And>k. k \<noteq> dm_key dm \<Longrightarrow> a_stored a' k = a_stored a k" "a_cache a' = a_cache a"
    "a_stored a' (dm_key dm) =
       (if dm_DeletionTimestamp cur \<noteq> None \<and> dm_Finalizers new = [] then None else Some new)"
    "new = (change cur)\<lparr>dm_ResourceVersion := v\<rparr>"
    by (rule api_accept_cur[OF assms(2)]) (rule that)
  have "\<exists>cur. a_stored a k = Some cur \<and>
           (State (dm_Status cur) = TypeFinished \<longrightarrow> State (dm_Status cur') = TypeFinished) \<and>
           (dm_DeletionTimestamp cur \<noteq> None \<longrightarrow> dm_DeletionTimestamp cur' \<noteq> None)"
    if "a_stored a' k = Some cur'" for k cur'
  proof (cases "k = dm_key dm")
    case True
    then have "cur' = new" using that c(5) by (auto split: if_splits)
    then show ?thesis using c(1,2,6) assms(4)[of cur] assms(5)[of cur] True by auto
  next
    case False
    then show ?thesis using that c(3) by auto
  qed
  then show ?thesis using api_ok_accept[OF assms(1,2,3,4)] c(4) unfolding advance_def by blast
qed

lemma error_status_StartTime [simp]: "StartTime (error_status err st) = StartTime st"
  by (cases err) (auto simp: error_status_def Let_def)

lemma error_status_State: "State (error_status err st) = State st \<or> State (error_status err st) = TypeFinished"
  by (cases err) (auto simp: error_status_def Let_def)

lemma status_allowed_error:
  assumes "status_allowed entry cur st" and "\<And>e. entry = Some e \<Longrightarrow> Result e \<noteq> None"
  shows "status_allowed entry cur (error_status err st)"
  using assms error_status_State[of err st]
  by (auto simp: status_allowed_def split: option.splits)

lemma status_allowed_None: "(State (dm_Status cur) = TypeFinished \<longrightarrow> State st = TypeFinished) \<Longrightarrow> status_allowed None cur st"
  by (simp add: status_allowed_def)

lemma status_allowed_error_None [simp]: "status_allowed None cur (error_status err (dm_Status cur))"
  using error_status_State[of err "dm_Status cur"] by (auto simp: status_allowed_def)

lemma inv_of_drop:
  assumes "inv_of ns a s" and "\<And>e. contexts s n = Some e \<Longrightarrow> Result e \<noteq> None"
  shows "inv_of ns a (drop_context n s)"
proof -
  have "run_ok ns (contexts (drop_context n s)) i g" if g: "running s i = Some g" for i g
  proof -
    have r: "run_ok ns (contexts s) i g" using assms(1) g by (auto simp: inv_of_def)
    then obtain e where "contexts s (dm_Name (run_dm g)) = Some e" "Result e = None" by (auto simp: run_ok_def)
    then have "dm_Name (run_dm g) \<noteq> n" using assms(2) by auto
    then show ?thesis using r by (simp add: run_ok_def drop_context_def)
  qed
  then show ?thesis using assms(1) by (auto simp: inv_of_def drop_context_def)
qed

text \<open>Without an entry of its own, or with one whose command runs, an object looks as the invariant says.\<close>

lemma inv_entry:
  assumes "inv_of ns a s" and "a_stored a (ns, n) = Some cur" and "contexts s n = Some e"
  shows "StartTime (dm_Status cur) \<noteq> None" and "ContainsFinalizer (dm_Finalizers cur) finalizer"
    and "Result e = None \<Longrightarrow> State (dm_Status cur) = TypeRunning"
    and "Result e = Some st \<Longrightarrow> State st = TypeFinished \<and> StartTime st \<noteq> None"
  using assms by (auto simp: inv_of_def entry_ok_def dest!: spec)

text \<open>The invariant sees of a goroutine only the object it captured.\<close>

lemma entry_ok_runs:
  assumes "entry_ok ns a runs n e"
    and "\<And>g. Result e = None \<Longrightarrow> runs (Ctx e) = Some g \<Longrightarrow> \<exists>g'. runs' (Ctx e) = Some g' \<and> run_dm g' = run_dm g"
  shows "entry_ok ns a runs' n e"
  using assms unfolding entry_ok_def by (cases "Result e") fastforce+

lemma inv_of_run_update:
  assumes inv: "inv_of ns a s" and g: "running s i = Some g" and same: "run_dm g' = run_dm g"
  shows "inv_of ns a (s\<lparr>running := (running s)(i \<mapsto> g')\<rparr>)"
proof -
  have "entry_ok ns a ((running s)(i \<mapsto> g')) n e" if "contexts s n = Some e" for n e
    by (rule entry_ok_runs[where runs = "running s"]) (use inv that g same in \<open>auto simp: inv_of_def\<close>)
  moreover have "j < next_ctx s \<and> run_ok ns (contexts s) j h" if "((running s)(i \<mapsto> g')) j = Some h" for j h
    using inv that g same unfolding inv_of_def by (cases "j = i") (auto simp: run_ok_def)
  ultimately show ?thesis using inv by (simp add: inv_of_def)
qed

lemma api_ok_replace:
  assumes ok: "api_ok a" and d: "a_rev a < dm_ResourceVersion d" "dm_key d = k"
    and x: "x = None \<or> x = Some d \<and> (dm_DeletionTimestamp d \<noteq> None \<longrightarrow> dm_Finalizers d \<noteq> [])"
  shows "api_ok (a\<lparr>a_rev := dm_ResourceVersion d, a_stored := (a_stored a)(k := x)\<rparr>)"
proof -
  let ?a = "a\<lparr>a_rev := dm_ResourceVersion d, a_stored := (a_stored a)(k := x)\<rparr>"
  have kn: "knows ?a j y" if "knows a j y" for j y
    using that d x unfolding knows_def by (cases "j = k") auto
  have st: "dm_key y = j \<and> dm_ResourceVersion y \<le> dm_ResourceVersion d \<and>
            (dm_DeletionTimestamp y \<noteq> None \<longrightarrow> dm_Finalizers y \<noteq> [])" if "a_stored ?a j = Some y" for j y
  proof (cases "j = k")
    case True
    then show ?thesis using that d x by auto
  next
    case False
    then have "a_stored a j = Some y" using that by simp
    then have "dm_key y = j \<and> dm_ResourceVersion y \<le> a_rev a \<and>
        (dm_DeletionTimestamp y \<noteq> None \<longrightarrow> dm_Finalizers y \<noteq> [])" using ok unfolding api_ok_def by blast
    then show ?thesis using d(1) by auto
  qed
  have "knows ?a j y" if "a_cache a j = Some y" for j y
    using kn ok that unfolding api_ok_def by blast
  then show ?thesis using st unfolding api_ok_def by simp
qed

text \<open>
  The outcome of a part of \<^verbatim>\<open>Reconcile\<close>: the invariant holds again, the stored objects only advanced, and
  the object in memory is a version that is still safe to write the error status over.
\<close>

definition reconciled ::
  "('w \<Rightarrow> api_state) \<Rightarrow> string \<Rightarrow> string \<Rightarrow> 'w reconciler \<Rightarrow> unit res \<times> NnfDataMovement \<times> 'w reconciler \<Rightarrow> bool" where
  "reconciled api ns n s = (\<lambda>(r, dm', s').
     dm_inv api ns s' \<and> advance (api (world s)) (api (world s')) \<and>
     (\<exists>d. knows (api (world s')) (ns, n) d \<and> dm_key dm' = (ns, n) \<and>
          dm_ResourceVersion dm' = dm_ResourceVersion d \<and>
          (\<forall>err. r = Err err \<longrightarrow> a_stored (api (world s')) (ns, n) = Some d \<longrightarrow>
                 status_allowed (contexts s' n) d (error_status err (dm_Status dm')))))"

lemma reconciledI:
  assumes "dm_inv api ns s'" and "advance (api (world s)) (api (world s'))"
    and "knows (api (world s')) (ns, n) d" and "dm_key dm' = (ns, n)"
    and "dm_ResourceVersion dm' = dm_ResourceVersion d"
    and "\<And>err. r = Err err \<Longrightarrow> a_stored (api (world s')) (ns, n) = Some d \<Longrightarrow>
            status_allowed (contexts s' n) d (error_status err (dm_Status dm'))"
  shows "reconciled api ns n s (r, dm', s')"
  using assms unfolding reconciled_def by auto

lemma reconciled_Ok:
  "dm_inv api ns s' \<Longrightarrow> advance (api (world s)) (api (world s')) \<Longrightarrow> knows (api (world s')) (ns, n) dm' \<Longrightarrow>
   reconciled api ns n s (Ok (), dm', s')"
  by (rule reconciledI) (auto simp: knows_def)

lemma reconciled_trans:
  "advance (api (world s)) (api (world s1)) \<Longrightarrow> reconciled api ns n s1 x \<Longrightarrow> reconciled api ns n s x"
  unfolding reconciled_def by (cases x) (auto dest: advance_trans)

lemma reconciled_D:
  "reconciled api ns n s (r, dm', s') \<Longrightarrow> dm_inv api ns s' \<and> advance (api (world s)) (api (world s'))"
  by (simp add: reconciled_def)

lemma drop_context_sel [simp]:
  "world (drop_context n s) = world s" "contexts (drop_context n s) = (contexts s)(n := None)"
  "running (drop_context n s) = running s"
  by (simp_all add: drop_context_def)

context dm_server
begin

lemma status_written:
  assumes inv: "dm_inv api ns s" and upd: "e_UpdateDmStatus E dm (world s) = (r, w')"
    and kn: "knows (api (world s)) (ns, n) d" and key: "dm_key dm = (ns, n)"
    and ver: "dm_ResourceVersion dm = dm_ResourceVersion d"
    and allowed: "a_stored (api (world s)) (ns, n) = Some d \<Longrightarrow> status_allowed (contexts s n) d (dm_Status dm)"
  shows "dm_inv api ns (s\<lparr>world := w'\<rparr>) \<and> advance (api (world s)) (api w') \<and> r \<noteq> Panic \<and>
    (a_stored (api w') (ns, n) = Some d \<longrightarrow> a_stored (api (world s)) (ns, n) = Some d) \<and>
    (\<forall>d'. r = Ok d' \<longrightarrow>
       a_stored (api (world s)) (ns, n) = Some d \<and> a_stored (api w') (ns, n) = Some d' \<and> knows (api w') (ns, n) d' \<and>
       (\<exists>v. d' = d\<lparr>dm_Status := dm_Status dm, dm_ResourceVersion := v\<rparr>))"
proof -
  let ?a = "api (world s)"
  have wr: "api_write (put_status dm) dm r ?a (api w')" by (rule update_status[OF upd])
  have ok: "api_ok ?a" and inv': "inv_of ns ?a s" using inv by (auto simp: dm_inv_def inv_of_def)
  have cur: "cur = d" if "a_stored ?a (dm_key dm) = Some cur" "dm_ResourceVersion cur = dm_ResourceVersion dm" for cur
    using that kn key ver by (auto simp: knows_def)
  have nk: "dm_Name dm = n" "dm_Namespace dm = ns" using key by (auto simp: dm_key_def)
  have acc: "inv_of ns a' s \<and> advance ?a a' \<and> a_stored ?a (ns, n) = Some d \<and> a_stored a' (ns, n) = Some new \<and>
      knows a' (ns, n) new \<and> (\<exists>v. new = d\<lparr>dm_Status := dm_Status dm, dm_ResourceVersion := v\<rparr>)"
    if A: "api_accept (put_status dm) dm new ?a a'" for new a'
  proof -
    obtain c v where c: "a_stored ?a (dm_key dm) = Some c" "dm_ResourceVersion c = dm_ResourceVersion dm"
        "a_stored a' (dm_key dm) =
           (if dm_DeletionTimestamp c \<noteq> None \<and> dm_Finalizers new = [] then None else Some new)"
        "new = (put_status dm c)\<lparr>dm_ResourceVersion := v\<rparr>"
      by (rule api_accept_cur[OF A]) (rule that)
    have "c = d" by (rule cur[OF c(1,2)])
    note c = c[unfolded this key]
    note st = c(1)
    have al: "status_allowed (contexts s n) d (dm_Status dm)" using allowed st by simp
    have fits: "StartTime (dm_Status dm) \<noteq> None \<and> ContainsFinalizer (dm_Finalizers d) finalizer \<and>
        (case Result e of None \<Rightarrow> State (dm_Status dm) = State (dm_Status d)
         | Some r \<Rightarrow> State (dm_Status dm) \<in> {TypeRunning, TypeFinished})" if "contexts s n = Some e" for e
      using al that inv_entry(2)[OF inv' st that] by (simp add: status_allowed_def)
    have "inv_of ns a' s"
      by (rule inv_of_accept[OF inv' A]) (use fits nk st key in \<open>auto simp: dm_key_def split: option.splits\<close>)
    moreover have "advance ?a a'"
      by (rule advance_accept[OF ok A]) (use al st key in \<open>simp_all add: dm_key_def status_allowed_def\<close>)
    moreover have "dm_DeletionTimestamp d \<noteq> None \<longrightarrow> dm_Finalizers d \<noteq> []"
      using ok st unfolding api_ok_def by blast
    then have "a_stored a' (ns, n) = Some new" using c(3,4) by auto
    moreover have "knows a' (ns, n) new"
      using api_ok_accept[OF ok A] key by (simp add: dm_key_def)
    ultimately show ?thesis using st c(4) by auto
  qed
  show ?thesis
    using wr acc inv' unfolding api_write_def dm_inv_def by (cases r) auto
qed

lemma object_written:
  assumes inv: "dm_inv api ns s" and upd: "update_finalizers E fs dm s = (r, dm', s')"
    and kn: "knows (api (world s)) (ns, n) dm"
    and fin: "a_stored (api (world s)) (ns, n) = Some dm \<Longrightarrow> contexts s n = None"
  shows "reconciled api ns n s (r, dm', s') \<and> contexts s' = contexts s \<and> r \<noteq> Panic"
proof -
  let ?a = "api (world s)" and ?dm = "dm\<lparr>dm_Finalizers := fs\<rparr>"
  obtain r0 w' where u: "e_UpdateDm E ?dm (world s) = (r0, w')" by fastforce
  have wr: "api_write (put_object ?dm) ?dm r0 ?a (api w')" by (rule update[OF u])
  have ok: "api_ok ?a" and inv': "inv_of ns ?a s" using inv by (auto simp: dm_inv_def inv_of_def)
  have key: "dm_key dm = (ns, n)" "dm_key ?dm = (ns, n)" "dm_Name dm = n" "dm_Namespace dm = ns"
    using kn by (auto simp: knows_def dm_key_def)
  have cur: "cur = dm" if "a_stored ?a (dm_key ?dm) = Some cur" "dm_ResourceVersion cur = dm_ResourceVersion ?dm" for cur
    using that kn key by (auto simp: knows_def)
  have acc: "inv_of ns a' s \<and> advance ?a a' \<and> knows a' (ns, n) new \<and> dm_key new = (ns, n) \<and>
             a_stored ?a (ns, n) = Some dm"
    if A: "api_accept (put_object ?dm) ?dm new ?a a'" for new a'
  proof -
    have st: "a_stored ?a (ns, n) = Some dm"
      by (rule api_accept_cur[OF A]) (use cur key in metis)
    have "inv_of ns a' s"
      by (rule inv_of_accept[OF inv' A]) (use fin[OF st] key in \<open>auto simp: dm_key_def\<close>)
    moreover have "advance ?a a'"
      by (rule advance_accept[OF ok A]) (auto simp: dm_key_def)
    moreover have "knows a' (ns, n) new \<and> dm_key new = (ns, n)"
      using api_ok_accept[OF ok A] key by (simp add: dm_key_def)
    ultimately show ?thesis using st by simp
  qed
  have res: "dm_inv api ns (s\<lparr>world := w'\<rparr>) \<and> advance ?a (api w') \<and> r0 \<noteq> Panic \<and>
      (\<forall>new. r0 = Ok new \<longrightarrow> knows (api w') (ns, n) new \<and> dm_key new = (ns, n))"
    using wr acc inv' unfolding api_write_def dm_inv_def by (cases r0) auto
  have kn': "knows (api w') (ns, n) dm" using res kn advance_knows by blast
  have al: "status_allowed (contexts s n) dm (error_status err (dm_Status dm))"
    if "a_stored (api w') (ns, n) = Some dm" for err
  proof -
    have "a_stored ?a (ns, n) = Some dm"
    proof (rule ccontr)
      assume n: "a_stored ?a (ns, n) \<noteq> Some dm"
      then have "api w' = ?a"
        using wr acc unfolding api_write_def by (cases r0) auto
      then show False using n that by simp
    qed
    then show ?thesis using fin by simp
  qed
  show ?thesis
    using upd u res kn' al key unfolding update_finalizers_def reconciled_def Let_def
    by (auto split: result.splits simp: dm_key_def)
qed

text \<open>The parts of \<^verbatim>\<open>Reconcile\<close>, in the order of the code.\<close>

lemma cancel_reconciled:
  assumes inv: "dm_inv api ns s" and kn: "knows (api (world s)) (ns, n) dm" and c: "cancel E dm s = (r, dm', s')"
  shows "reconciled api ns n s (r, dm', s') \<and> contexts s' = contexts s \<and> r \<noteq> Panic \<and>
    (r = Ok () \<longrightarrow> knows (api (world s')) (ns, n) dm' \<and> dm_DeletionTimestamp dm' = dm_DeletionTimestamp dm)"
proof (cases "StartTime (dm_Status dm) = None \<and> dm_DeletionTimestamp dm \<noteq> None")
  case True
  let ?dm = "dm\<lparr>dm_Status := (dm_Status dm)\<lparr>State := TypeFinished, Status := ReasonCancelled,
               StartTime := Some (e_Now E (world s)), EndTime := Some (e_Now E (world s))\<rparr>\<rparr>"
  have key: "dm_key ?dm = (ns, n)" using kn by (simp add: knows_def dm_key_def)
  obtain r0 w' where u: "e_UpdateDmStatus E ?dm (world s) = (r0, w')" by fastforce
  have free: "contexts t n = None" if "dm_inv api ns t" "a_stored (api (world t)) (ns, n) = Some dm" for t
    using inv_entry(1)[of ns "api (world t)" t n dm] that True by (cases "contexts t n") (auto simp: dm_inv_def)
  have al: "status_allowed (contexts s n) dm (dm_Status ?dm)" if "a_stored (api (world s)) (ns, n) = Some dm"
    using free[OF inv that] by (simp add: status_allowed_def)
  note w = status_written[OF inv u kn key _ al]
  have kn': "knows (api w') (ns, n) dm" using w kn advance_knows by auto
  have al': "status_allowed (contexts s n) dm (error_status err (dm_Status ?dm))"
    if "a_stored (api w') (ns, n) = Some dm" for err
  proof -
    have "contexts s n = None" using free[of "s\<lparr>world := w'\<rparr>"] w that by simp
    then show ?thesis using error_status_State[of err "dm_Status ?dm"] by (auto simp: status_allowed_def)
  qed
  show ?thesis
  proof (cases r0)
    case (Ok d')
    then have "(r, dm', s') = (Ok (), d', s\<lparr>world := w'\<rparr>)" using c u True by (simp add: cancel_def Let_def)
    moreover have "knows (api w') (ns, n) d' \<and> dm_DeletionTimestamp d' = dm_DeletionTimestamp dm"
      using w Ok by auto
    ultimately show ?thesis using w reconciled_Ok[of api ns "s\<lparr>world := w'\<rparr>" s n d'] by simp
  next
    case (Err err)
    then have "(r, dm', s') = (Err err, ?dm, s\<lparr>world := w'\<rparr>)" using c u True by (simp add: cancel_def Let_def)
    moreover have "reconciled api ns n s (Err err, ?dm, s\<lparr>world := w'\<rparr>)"
      by (rule reconciledI[where d = dm]) (use w kn' key al' in simp_all)
    ultimately show ?thesis by simp
  next
    case Panic
    then show ?thesis using w by simp
  qed
next
  case False
  have "knows (api (world s)) (ns, n) dm \<and> dm_key dm = (ns, n)" using kn by (simp add: knows_def)
  then show ?thesis
    using c inv False unfolding cancel_def reconciled_def by (auto simp: dm_inv_def split: option.splits if_splits)
qed

lemma deleted_reconciled:
  assumes inv: "dm_inv api ns s" and kn: "knows (api (world s)) (ns, n) dm"
    and run: "reconcile_deleted E dm s = (r, dm', s')"
  shows "reconciled api ns n s (r, dm', s') \<and> r \<noteq> Panic"
proof -
  obtain r1 dm1 s1 where c: "cancel E dm s = (r1, dm1, s1)" by (cases "cancel E dm s") auto
  note k = cancel_reconciled[OF inv kn c]
  have inv1: "dm_inv api ns s1" and adv: "advance (api (world s)) (api (world s1))" using k reconciled_D by blast+
  show ?thesis
  proof (cases r1)
    case (Err err)
    then show ?thesis using run c k by (simp add: reconcile_deleted_def)
  next
    case Panic
    then show ?thesis using k by simp
  next
    case (Ok u)
    then have kn1: "knows (api (world s1)) (ns, n) dm1" using k by simp
    then have name: "dm_Name dm1 = n" by (simp add: knows_def dm_key_def)
    have remove: "reconciled api ns n s (r, dm', s') \<and> r \<noteq> Panic"
      if t: "dm_inv api ns t" "world t = world s1" "contexts t n = None"
        and x: "(if ContainsFinalizer (dm_Finalizers dm1) finalizer
             then update_finalizers E (RemoveFinalizer (dm_Finalizers dm1) finalizer) dm1 t else (Ok (), dm1, t)) =
            (r, dm', s')" for t
    proof (cases "ContainsFinalizer (dm_Finalizers dm1) finalizer")
      case False
      then show ?thesis using x t kn1 adv reconciled_Ok[of api ns t s n dm1] by auto
    next
      case True
      then have u: "update_finalizers E (RemoveFinalizer (dm_Finalizers dm1) finalizer) dm1 t = (r, dm', s')"
        using x by simp
      have "reconciled api ns n t (r, dm', s') \<and> r \<noteq> Panic"
        using object_written[OF t(1) u] kn1 t(2,3) by simp
      then show ?thesis using adv t(2) reconciled_trans[of api s t ns n] by simp
    qed
    show ?thesis
    proof (cases "contexts s1 n")
      case None
      then show ?thesis using remove[OF inv1 refl None] run c Ok name by (simp add: reconcile_deleted_def Let_def)
    next
      case (Some e)
      show ?thesis
      proof (cases "Result e")
        case None
        then show ?thesis
          using run c Ok name Some inv1 adv kn1 reconciled_Ok[of api ns s1 s n dm1]
          by (auto simp: reconcile_deleted_def Let_def)
      next
        case (Some st)
        have "dm_inv api ns (drop_context n s1)"
          using inv_of_drop[of ns "api (world s1)" s1 n] inv1 Some \<open>contexts s1 n = Some e\<close> by (simp add: dm_inv_def)
        moreover have "(if ContainsFinalizer (dm_Finalizers dm1) finalizer
             then update_finalizers E (RemoveFinalizer (dm_Finalizers dm1) finalizer) dm1 (drop_context n s1)
             else (Ok (), dm1, drop_context n s1)) = (r, dm', s')"
          using run c Ok name Some \<open>contexts s1 n = Some e\<close>
          by (auto simp: reconcile_deleted_def Let_def split: if_splits)
        ultimately show ?thesis by (intro remove) simp_all
      qed
    qed
  qed
qed

lemma write_result_reconciled:
  assumes inv: "dm_inv api ns s" and kn: "knows (api (world s)) (ns, n) dm"
    and e: "contexts s n = Some e" "Result e = Some st"
    and run: "write_result E st dm s = (r, dm', s')"
  shows "reconciled api ns n s (r, dm', s') \<and> r \<noteq> Panic"
proof -
  let ?dm = "dm\<lparr>dm_Status := st\<rparr>"
  have key: "dm_key ?dm = (ns, n)" using kn by (simp add: knows_def dm_key_def)
  obtain r0 w' where u: "e_UpdateDmStatus E ?dm (world s) = (r0, w')" by fastforce
  have st: "State st = TypeFinished \<and> StartTime st \<noteq> None"
    using inv e unfolding dm_inv_def inv_of_def entry_ok_def by fastforce
  have al: "status_allowed (contexts s n) d st" for d
    using st e by (auto simp: status_allowed_def)
  have al': "status_allowed (contexts s n) d (error_status err st)" for d err
    by (rule status_allowed_error[OF al]) (use e in simp)
  note w = status_written[OF inv u kn key]
  have w: "dm_inv api ns (s\<lparr>world := w'\<rparr>) \<and> advance (api (world s)) (api w') \<and> r0 \<noteq> Panic \<and>
      (\<forall>d'. r0 = Ok d' \<longrightarrow> knows (api w') (ns, n) d')" using w al by simp
  show ?thesis
  proof (cases r0)
    case (Ok d')
    have kn': "knows (api w') (ns, n) d'" using w Ok by simp
    then have "dm_Name d' = n" by (simp add: knows_def dm_key_def)
    then have res: "(r, dm', s') = (Ok (), d', drop_context n (s\<lparr>world := w'\<rparr>))"
      using run u Ok by (simp add: write_result_def Let_def)
    have "dm_inv api ns (drop_context n (s\<lparr>world := w'\<rparr>))"
      using inv_of_drop[of ns "api w'" "s\<lparr>world := w'\<rparr>" n] w e by (simp add: dm_inv_def)
    then show ?thesis using res kn' w reconciled_Ok[of api ns "drop_context n (s\<lparr>world := w'\<rparr>)" s n d'] by simp
  next
    case (Err err)
    then have res: "(r, dm', s') = (Err err, ?dm, s\<lparr>world := w'\<rparr>)" using run u by (simp add: write_result_def Let_def)
    have "reconciled api ns n s (Err err, ?dm, s\<lparr>world := w'\<rparr>)"
      by (rule reconciledI[where d = dm]) (use w kn advance_knows key al' in auto)
    then show ?thesis using res by simp
  next
    case Panic
    then show ?thesis using w by simp
  qed
qed

lemma setup_command_keeps:
  assumes "setup_command E dm w = ((r, dm'), w')"
  shows "api w' = api w" and "dm_Status dm' = dm_Status dm" and "dm_key dm' = dm_key dm"
    and "dm_ResourceVersion dm' = dm_ResourceVersion dm"
proof -
  have p: "api v' = api v \<and> dm_Status d' = dm_Status dm \<and> dm_key d' = dm_key dm \<and> dm_ResourceVersion d' = dm_ResourceVersion dm"
    if "PrepareDestination E profile dm hostfile v = ((x, d'), v')" for profile hostfile v x d' v'
    using PrepareDestination_object[of E profile dm hostfile v] PrepareDestination_keeps[OF that] that
    by (auto simp: set_destination_def dm_key_def)
  have "api w' = api w \<and> dm_Status dm' = dm_Status dm \<and> dm_key dm' = dm_key dm \<and>
        dm_ResourceVersion dm' = dm_ResourceVersion dm"
    using assms unfolding setup_command_def
    by (auto split: result.splits prod.splits dest!: CreateMpiHostfile_keeps p)
  then show "api w' = api w" and "dm_Status dm' = dm_Status dm" and "dm_key dm' = dm_key dm"
    and "dm_ResourceVersion dm' = dm_ResourceVersion dm" by auto
qed

text \<open>
  A start: the status write goes through only on the version that was read, so the entry that is stored
  afterwards belongs to an object that had none.
\<close>

lemma start_command_reconciled:
  assumes inv: "dm_inv api ns s" and kn: "knows (api (world s)) (ns, n) d"
    and cached: "a_cache (api (world s)) (ns, n) = Some d" and alive: "dm_DeletionTimestamp d = None"
    and fin: "ContainsFinalizer (dm_Finalizers d) finalizer" and unfinished: "State (dm_Status d) \<noteq> TypeFinished"
    and key: "dm_key dm = (ns, n)" and ver: "dm_ResourceVersion dm = dm_ResourceVersion d"
    and free: "a_stored (api (world s)) (ns, n) = Some d \<Longrightarrow> contexts s n = None"
    and run: "start_command E profile hostfile args dm s = (r, dm', s')"
  shows "reconciled api ns n s (r, dm', s') \<and> r \<noteq> Panic"
proof -
  let ?cs = "empty_CommandStatus\<lparr>Command := ''/bin/bash -c '' @ Join args '' ''\<rparr>"
  let ?dm = "dm\<lparr>dm_Status := (dm_Status dm)\<lparr>StartTime := Some (e_Now E (world s)), State := TypeRunning,
               CommandStatus := Some ?cs\<rparr>\<rparr>"
  have key': "dm_key ?dm = (ns, n)" using key by (simp add: dm_key_def)
  obtain r0 w' where u: "e_UpdateDmStatus E ?dm (world s) = (r0, w')" by fastforce
  have al: "status_allowed (contexts s n) d (dm_Status ?dm)" if "a_stored (api (world s)) (ns, n) = Some d"
    using free[OF that] unfinished by (simp add: status_allowed_def)
  note w = status_written[OF inv u kn key' _ al]
  have kn': "knows (api w') (ns, n) d" using w kn ver advance_knows by auto
  show ?thesis
  proof (cases r0)
    case (Err err)
    let ?s = "s\<lparr>world := w', next_ctx := Suc (next_ctx s), cancelled := (cancelled s)(next_ctx s := True)\<rparr>"
    have res: "(r, dm', s') = (Err err, ?dm, ?s)" using run u Err by (simp add: start_command_def Let_def)
    have inv': "dm_inv api ns ?s"
      using w ver inv_of_next[of ns "api w'" "s\<lparr>world := w'\<rparr>" "Suc (next_ctx s)"] by (simp add: dm_inv_def)
    have free': "contexts s n = None" if "a_stored (api w') (ns, n) = Some d"
      using w ver that free by simp
    have "reconciled api ns n s (Err err, ?dm, ?s)"
    proof (rule reconciledI[where d = d])
      show "status_allowed (contexts ?s n) d (error_status e (dm_Status ?dm))"
        if "a_stored (api (world ?s)) (ns, n) = Some d" for e
        using free' that unfinished by (simp add: status_allowed_def)
    qed (use inv' w ver kn' key' in simp_all)
    then show ?thesis using res by simp
  next
    case Panic
    then show ?thesis using w ver by simp
  next
    case (Ok d')
    let ?i = "next_ctx s"
    let ?run = "\<lparr>run_dm = d', run_profile = profile, run_hostfile = hostfile, run_cmdStatus = ?cs,
                run_parseBuf = [], run_combinedOut = [], run_progressStart = e_Now E w'\<rparr>"
    let ?s = "s\<lparr>world := w', next_ctx := Suc ?i, cancelled := (cancelled s)(?i := False),
              contexts := (contexts s)(dm_Name d' \<mapsto> \<lparr>Ctx = ?i, Result = None\<rparr>),
              running := (running s)(?i \<mapsto> ?run)\<rparr>"
    obtain v where d': "a_stored (api (world s)) (ns, n) = Some d" "a_stored (api w') (ns, n) = Some d'"
        "knows (api w') (ns, n) d'" "d' = d\<lparr>dm_Status := dm_Status ?dm, dm_ResourceVersion := v\<rparr>"
      using w ver Ok by auto
    then have kd: "dm_Name d' = n" "dm_Namespace d' = ns" "dm_key d' = (ns, n)" by (auto simp: knows_def dm_key_def)
    have res: "(r, dm', s') = (Ok (), d', ?s)"
      using run[symmetric] unfolding start_command_def Let_def u Ok prod.case result.case .
    have invw: "inv_of ns (api w') s" and "advance (api (world s)) (api w')" using w ver by (simp_all add: dm_inv_def)
    then have "a_cache (api w') (ns, n) = Some d" using cached by (simp add: advance_def)
    then have new: "entry_ok ns (api w') (running ?s) n \<lparr>Ctx = ?i, Result = None\<rparr>"
      using d' fin alive kd by (simp add: entry_ok_def)
    have fresh: "running s ?i = None" using invw unfolding inv_of_def by (metis less_irrefl option.exhaust)
    have runs: "i \<noteq> ?i \<and> dm_Name (run_dm g) \<noteq> n" if "running s i = Some g" for i g
      using that invw free[OF d'(1)] fresh unfolding inv_of_def run_ok_def
      by (metis less_irrefl option.distinct(1))
    have old: "entry_ok ns (api w') (running ?s) m e" if "contexts s m = Some e" for m e
      using that invw fresh unfolding inv_of_def entry_ok_def by (fastforce split: option.splits)
    have "inv_of ns (api w') ?s"
      unfolding inv_of_def using invw new old runs kd d'
      by (auto simp: inv_of_def run_ok_def less_Suc_eq)
    then have "reconciled api ns n s (Ok (), d', ?s)"
      using w ver d'(3) by (intro reconciled_Ok) (simp_all add: dm_inv_def)
    then show ?thesis using res by simp
  qed
qed

lemma start_reconciled:
  assumes inv: "dm_inv api ns s" and kn: "knows (api (world s)) (ns, n) d"
    and cached: "a_cache (api (world s)) (ns, n) = Some d" and alive: "dm_DeletionTimestamp d = None"
    and fin: "ContainsFinalizer (dm_Finalizers d) finalizer" and unfinished: "State (dm_Status d) \<noteq> TypeFinished"
    and same: "dm_key dm = (ns, n)" "dm_ResourceVersion dm = dm_ResourceVersion d"
    and free: "a_stored (api (world s)) (ns, n) = Some d \<Longrightarrow> contexts s n = None"
    and run: "reconcile_start E dm s = (r, dm', s')"
  shows "reconciled api ns n s (r, dm', s')"
proof -
  obtain r1 dm1 w' where c: "setup_command E dm (world s) = ((r1, dm1), w')" by (metis surj_pair)
  note k = setup_command_keeps[OF c]
  let ?s = "s\<lparr>world := w'\<rparr>"
  have inv1: "dm_inv api ns ?s" using inv k(1) by (simp add: dm_inv_def)
  have failed: "reconciled api ns n s (x, dm1, ?s)" for x
  proof (rule reconciledI[where d = d])
    show "status_allowed (contexts ?s n) d (error_status e (dm_Status dm1))"
      if "a_stored (api (world ?s)) (ns, n) = Some d" for e
      using free that k(1) unfinished by (simp add: status_allowed_def)
  qed (use inv1 kn same k in simp_all)
  show ?thesis
  proof (cases r1)
    case (Ok p)
    obtain profile hostfile args where p: "p = (profile, hostfile, args)" by (rule prod_cases3)
    have st: "start_command E profile hostfile args dm1 ?s = (r, dm', s')"
      using run c Ok p by (simp add: reconcile_start_def)
    have "reconciled api ns n ?s (r, dm', s')"
      by (rule conjunct1[OF start_command_reconciled[where d = d and s = ?s, OF inv1 _ _ alive fin unfinished _ _ _ st]])
         (use kn cached free same k in simp_all)
    then show ?thesis using k(1) reconciled_trans[of api s ?s ns n] by simp
  next
    case (Err err)
    then show ?thesis using run c failed by (simp add: reconcile_start_def)
  next
    case Panic
    then show ?thesis using run c failed by (simp add: reconcile_start_def)
  qed
qed

lemma active_reconciled:
  assumes inv: "dm_inv api ns s" and kn: "knows (api (world s)) (ns, n) d"
    and cached: "a_cache (api (world s)) (ns, n) = Some d" and alive: "dm_DeletionTimestamp d = None"
    and fin: "ContainsFinalizer (dm_Finalizers d) finalizer"
    and run: "reconcile_active E d s = (r, dm', s')"
  shows "reconciled api ns n s (r, dm', s')"
proof -
  have key: "dm_key d = (ns, n)" "dm_Name d = n" using kn by (auto simp: knows_def dm_key_def)
  have idle: "reconciled api ns n s (Ok (), d, s)" using inv kn by (intro reconciled_Ok) simp_all
  consider (result) e st where "contexts s n = Some e" "Result e = Some st"
    | (finished) "Option.bind (contexts s n) Result = None" "State (dm_Status d) = TypeFinished"
    | (cancel) "Option.bind (contexts s n) Result = None" "State (dm_Status d) \<noteq> TypeFinished" "Cancel (dm_Spec d)"
    | (start) "Option.bind (contexts s n) Result = None" "State (dm_Status d) \<noteq> TypeFinished" "\<not> Cancel (dm_Spec d)"
    by (cases "contexts s n"; cases "Result (the (contexts s n))") auto
  then show ?thesis
  proof cases
    case result
    then have "write_result E st d s = (r, dm', s')" using run key by (simp add: reconcile_active_def)
    then show ?thesis using write_result_reconciled[OF inv kn result] by blast
  next
    case finished
    then have "(r, dm', s') = (Ok (), d, s)" using run key by (simp add: reconcile_active_def)
    then show ?thesis using idle by simp
  next
    case cancel
    obtain r1 dm1 s1 where c: "Dm_Controller.cancel E d s = (r1, dm1, s1)" by (rule prod_cases3)
    have "r1 = Ok ()" using c alive by (auto simp: cancel_def split: option.splits if_splits)
    then show ?thesis
      using run c key cancel cancel_reconciled[OF inv kn c] by (simp add: reconcile_active_def)
  next
    case start
    have free: "contexts s n = None" if "a_stored (api (world s)) (ns, n) = Some d" "State (dm_Status d) \<noteq> TypeRunning"
    proof (rule ccontr)
      assume "contexts s n \<noteq> None"
      then obtain e where "contexts s n = Some e" "Result e = None" using start(1) by (cases "contexts s n") auto
      then show False using inv_entry(3)[OF inv[unfolded dm_inv_def] that(1)] that(2) by blast
    qed
    show ?thesis
    proof (cases "State (dm_Status d) = TypeRunning")
      case True
      show ?thesis
      proof (cases "contexts s n")
        case None
        then have "reconcile_start E (count_restart d) s = (r, dm', s')"
          using run key start True by (simp add: reconcile_active_def)
        then show ?thesis
          by (rule start_reconciled[OF inv kn cached alive fin start(2), rotated -1])
             (use None key in \<open>simp_all add: count_restart_def dm_key_def\<close>)
      next
        case (Some e)
        then have "(r, dm', s') = (Ok (), d, s)" using run key start True by (simp add: reconcile_active_def)
        then show ?thesis using idle by simp
      qed
    next
      case False
      then have "reconcile_start E d s = (r, dm', s')" using run key start by (simp add: reconcile_active_def)
      then show ?thesis
        by (rule start_reconciled[OF inv kn cached alive fin start(2), rotated -1]) (use key free False in simp_all)
    qed
  qed
qed

text \<open>One call of \<^verbatim>\<open>Reconcile\<close> keeps the invariant, whatever the cache held and whichever writes failed.\<close>

lemma Reconcile_keeps:
  assumes inv: "dm_inv api ns s" and run: "Reconcile E (ns, n) s = (r, t)"
  shows "dm_inv api ns t \<and> advance (api (world s)) (api (world t))"
proof (cases "e_GetDm E ns n (world s)")
  case (Ok d)
  have cached: "a_cache (api (world s)) (ns, n) = Some d" by (rule get_cached[OF Ok])
  then have kn: "knows (api (world s)) (ns, n) d"
    using inv unfolding dm_inv_def inv_of_def api_ok_def by blast
  obtain r1 dm1 s1 where o: "reconcile_object E d s = (r1, dm1, s1)" by (rule prod_cases3)
  have rec: "reconciled api ns n s (r1, dm1, s1)"
  proof (cases "dm_DeletionTimestamp d = None")
    case False
    then show ?thesis using o deleted_reconciled[OF inv kn] by (simp add: reconcile_object_def)
  next
    case True
    show ?thesis
    proof (cases "ContainsFinalizer (dm_Finalizers d) finalizer")
      case fin: True
      then show ?thesis using o True active_reconciled[OF inv kn cached True fin] by (simp add: reconcile_object_def)
    next
      case False
      then have "contexts s n = None" if "a_stored (api (world s)) (ns, n) = Some d"
        using inv_entry(2)[OF inv[unfolded dm_inv_def] that] by (cases "contexts s n") auto
      then show ?thesis
        using o True False object_written[OF inv _ kn] by (simp add: reconcile_object_def)
    qed
  qed
  then have inv1: "dm_inv api ns s1" and adv1: "advance (api (world s)) (api (world s1))" using reconciled_D by blast+
  have t: "(r, t) = deferred_status E (r1, dm1, s1)" using run Ok o by (simp add: Reconcile_def)
  show ?thesis
  proof (cases r1)
    case (Err err)
    let ?dm = "dm1\<lparr>dm_Status := error_status err (dm_Status dm1)\<rparr>"
    obtain d2 where d2: "knows (api (world s1)) (ns, n) d2" "dm_key ?dm = (ns, n)"
        "dm_ResourceVersion ?dm = dm_ResourceVersion d2"
        "a_stored (api (world s1)) (ns, n) = Some d2 \<Longrightarrow> status_allowed (contexts s1 n) d2 (dm_Status ?dm)"
      using rec Err by (auto simp: reconciled_def dm_key_def)
    obtain r2 w' where u: "e_UpdateDmStatus E ?dm (world s1) = (r2, w')" by fastforce
    note w = status_written[OF inv1 u d2]
    have "t = s1\<lparr>world := w'\<rparr>" using t u Err by (simp add: deferred_status_def split: result.splits)
    then show ?thesis using w adv1 advance_trans by auto
  qed (use t inv1 adv1 in \<open>simp_all add: deferred_status_def\<close>)
next
  case (Err err)
  then show ?thesis using run inv by (auto simp: Reconcile_def split: option.splits)
next
  case Panic
  then show ?thesis using get_no_panic by simp
qed

text \<open>The goroutine: its progress updates, and the status it leaves for the reconciler.\<close>

lemma progress_keeps:
  assumes inv: "dm_inv api ns s" and g: "running s i = Some g"
  shows "dm_inv api ns (parseAndUpdateProgress E i s) \<and>
    advance (api (world s)) (api (world (parseAndUpdateProgress E i s))) \<and>
    contexts (parseAndUpdateProgress E i s) = contexts s \<and> cancelled (parseAndUpdateProgress E i s) = cancelled s \<and>
    (\<exists>g'. running (parseAndUpdateProgress E i s) i = Some g' \<and> run_dm g' = run_dm g \<and>
          run_profile g' = run_profile g \<and> run_combinedOut g' = run_combinedOut g \<and> run_hostfile g' = run_hostfile g)"
proof -
  obtain complete rest cs where rp:
      "read_progress (run_progressStart g) (e_Now E (world s)) (run_parseBuf g) (run_cmdStatus g) = (complete, rest, cs)"
    by (rule prod_cases3)
  let ?g = "g\<lparr>run_parseBuf := rest, run_cmdStatus := cs\<rparr>"
  let ?s = "s\<lparr>running := (running s)(i \<mapsto> ?g)\<rparr>"
  have inv1: "dm_inv api ns ?s"
    using inv_of_run_update[OF inv[unfolded dm_inv_def] g, of ?g] by (simp add: dm_inv_def)
  have run: "dm_Namespace (run_dm g) = ns" using inv g by (auto simp: dm_inv_def inv_of_def run_ok_def)
  let ?n = "dm_Name (run_dm g)"
  show ?thesis
  proof (cases "complete \<and> (\<exists>d. e_GetDm E ns ?n (world s) = Ok d)")
    case False
    then have "parseAndUpdateProgress E i s = ?s"
      using g rp run by (auto simp: parseAndUpdateProgress_def Let_def split: result.splits)
    then show ?thesis using inv1 by simp
  next
    case True
    then obtain d where complete: "complete" and d: "e_GetDm E ns ?n (world s) = Ok d" by blast
    have kn: "knows (api (world ?s)) (ns, ?n) d"
      using get_cached[OF d] inv unfolding dm_inv_def inv_of_def api_ok_def by simp
    let ?dm = "d\<lparr>dm_Status := (dm_Status d)\<lparr>CommandStatus := Some cs\<rparr>\<rparr>"
    obtain r w' where u: "e_UpdateDmStatus E ?dm (world ?s) = (r, w')" by fastforce
    have p: "parseAndUpdateProgress E i s = ?s\<lparr>world := w'\<rparr>"
      using g rp run complete d u by (simp add: parseAndUpdateProgress_def Let_def)
    have "status_allowed (contexts ?s ?n) d (dm_Status ?dm)" if "a_stored (api (world ?s)) (ns, ?n) = Some d"
      using inv1 that unfolding dm_inv_def inv_of_def entry_ok_def
      by (fastforce simp: status_allowed_def split: option.splits)
    moreover have "dm_key ?dm = (ns, ?n)" using kn by (simp add: knows_def dm_key_def)
    ultimately show ?thesis using status_written[OF inv1 u kn] p by simp
  qed
qed

lemma finish_keeps:
  assumes inv: "dm_inv api ns s" and g: "running s i = Some g"
  shows "dm_inv api ns (finish_command E i werr s) \<and>
    advance (api (world s)) (api (world (finish_command E i werr s))) \<and>
    (\<exists>e g' now. contexts (finish_command E i werr s) (dm_Name (run_dm g)) = Some e \<and> Ctx e = i \<and>
       Result e = Some (final_status now (cancelled s i) werr g') \<and> run_dm g' = run_dm g \<and>
       run_profile g' = run_profile g \<and> run_combinedOut g' = run_combinedOut g)"
proof -
  let ?n = "dm_Name (run_dm g)"
  define s1 where "s1 = (if ProgressCollectionEnabled (progressCollectInterval (run_profile g))
                         then parseAndUpdateProgress E i s else s)"
  obtain g' where s1: "dm_inv api ns s1" "advance (api (world s)) (api (world s1))" "contexts s1 = contexts s"
      "cancelled s1 = cancelled s" "running s1 i = Some g'" "run_dm g' = run_dm g" "run_profile g' = run_profile g"
      "run_combinedOut g' = run_combinedOut g"
    using progress_keeps[OF inv g] inv g by (cases "ProgressCollectionEnabled (progressCollectInterval (run_profile g))")
      (auto simp: s1_def)
  define st where "st = final_status (e_Now E (world s1)) (cancelled s i) werr g'"
  have inv1: "inv_of ns (api (world s1)) s1" using s1(1) by (simp add: dm_inv_def)
  obtain e where e: "contexts s1 ?n = Some e" "Ctx e = i" "Result e = None" "dm_Namespace (run_dm g) = ns"
      "StartTime (dm_Status (run_dm g)) \<noteq> None"
    using inv1 s1(5,6) unfolding inv_of_def run_ok_def by metis
  define t where "t = finish_command E i werr s"
  have t: "t = s1\<lparr>world := e_RemoveAll E (Dir (run_hostfile g')) (world s1),
              contexts := (contexts s1)(?n \<mapsto> e\<lparr>Result := Some st\<rparr>), running := (running s1)(i := None),
              completions := completions s1 @ [(dm_Namespace (run_dm g), ?n)]\<rparr>"
    using g s1 e unfolding t_def finish_command_def by (simp add: s1_def[symmetric] st_def Let_def)
  have fin: "State st = TypeFinished" "StartTime st = StartTime (dm_Status (run_dm g))"
    using s1(6) by (auto simp: st_def final_status_def Let_def split: option.splits)
  have entry: "entry_ok ns (api (world s1)) (running t) m x" if m: "contexts t m = Some x" for m x
  proof (cases "m = ?n")
    case True
    then show ?thesis
      using inv1 e fin m unfolding inv_of_def entry_ok_def t by (fastforce split: option.splits)
  next
    case False
    then have x: "contexts s1 m = Some x" using m by (simp add: t)
    then have "Result x = None \<longrightarrow> Ctx x \<noteq> i"
      using inv1 s1(5,6) False unfolding inv_of_def entry_ok_def by (fastforce simp: dm_key_def)
    then show ?thesis
      using inv1 x unfolding inv_of_def entry_ok_def t by (fastforce split: option.splits)
  qed
  have runs: "run_ok ns (contexts t) j h \<and> j < next_ctx t" if j: "running t j = Some h" for j h
  proof -
    have h: "j \<noteq> i" "running s1 j = Some h" using j by (auto simp: t split: if_splits)
    then have "run_ok ns (contexts s1) j h" "j < next_ctx s1" using inv1 by (auto simp: inv_of_def)
    moreover from this have "dm_Name (run_dm h) \<noteq> ?n" using e h(1) by (auto simp: run_ok_def)
    ultimately show ?thesis by (simp add: run_ok_def t)
  qed
  have "api (world t) = api (world s1)" by (simp add: t removeAll_keeps)
  then have "dm_inv api ns t \<and> advance (api (world s)) (api (world t))"
    using entry runs inv1 s1(2) by (auto simp: dm_inv_def inv_of_def)
  moreover have "contexts t ?n = Some (e\<lparr>Result := Some st\<rparr>)" by (simp add: t)
  ultimately show ?thesis using e(2) s1(6-8) unfolding t_def st_def by fastforce
qed

lemma output_keeps:
  assumes "dm_inv api ns s"
  shows "dm_inv api ns (command_output i txt s) \<and> world (command_output i txt s) = world s \<and>
         contexts (command_output i txt s) = contexts s"
proof (cases "running s i")
  case (Some g)
  then show ?thesis
    using inv_of_run_update[OF assms[unfolded dm_inv_def] Some] by (simp add: command_output_def dm_inv_def)
qed (use assms in \<open>simp add: command_output_def\<close>)

end

text \<open>What others do to the objects.\<close>

lemma api_env_keeps:
  assumes "api_env a a'" and inv: "inv_of ns a s"
  shows "inv_of ns a' s"
  using assms(1)
proof cases
  case (sync k)
  have "api_ok a'"
    using inv unfolding inv_of_def api_ok_def knows_def sync by auto
  moreover have "entry_ok ns a' (running s) n e" if "contexts s n = Some e" for n e
    using inv that unfolding inv_of_def entry_ok_def sync by fastforce
  ultimately show ?thesis using inv by (simp add: inv_of_def)
next
  case (create k d)
  have "api_ok a'"
    using api_ok_replace[of a d k "Some d"] inv create by (simp add: inv_of_def)
  moreover have "entry_ok ns a' (running s) n e" if "contexts s n = Some e" for n e
    using inv that create unfolding inv_of_def entry_ok_def by fastforce
  ultimately show ?thesis using inv by (simp add: inv_of_def)
next
  case (modify k cur d)
  have "api_ok a'"
    unfolding modify by (rule api_ok_replace) (use inv modify in \<open>auto simp: inv_of_def\<close>)
  moreover have "entry_ok ns a' (running s) n e" if e: "contexts s n = Some e" for n e
  proof -
    have ok: "entry_ok ns a (running s) n e" using inv e by (simp add: inv_of_def)
    show ?thesis
    proof (rule entry_ok_replace[OF ok])
      show "a_stored a' (ns, n) = a_stored a (ns, n) \<or>
         (\<exists>cur new. a_stored a (ns, n) = Some cur \<and> a_stored a' (ns, n) = Some new \<and>
            StartTime (dm_Status new) \<noteq> None \<and> ContainsFinalizer (dm_Finalizers new) finalizer \<and>
            (dm_DeletionTimestamp cur \<noteq> None \<longrightarrow> dm_DeletionTimestamp new \<noteq> None) \<and>
            (case Result e of None \<Rightarrow> State (dm_Status new) = State (dm_Status cur)
             | Some r \<Rightarrow> State (dm_Status new) \<in> {TypeRunning, TypeFinished}))"
      proof (cases "(ns, n) = k")
        case True
        then have "StartTime (dm_Status cur) \<noteq> None" "ContainsFinalizer (dm_Finalizers d) finalizer"
            "Result e \<noteq> None \<longrightarrow> State (dm_Status cur) \<in> {TypeRunning, TypeFinished}"
          using ok modify by (auto simp: entry_ok_def)
        moreover from this have "dm_Finalizers d \<noteq> []" by (auto simp: ContainsFinalizer_def)
        ultimately show ?thesis using True modify by (intro disjI2) (auto split: option.splits)
      qed (use modify in simp)
    qed (use modify in simp)
  qed
  ultimately show ?thesis using inv by (simp add: inv_of_def)
qed

context dm_server
begin

lemma dm_inv_init: "dm_init api s \<Longrightarrow> dm_inv api ns s"
  by (simp add: dm_init_def dm_inv_def inv_of_def)

lemma restart_keeps:
  assumes "dm_inv api ns s" and "api w = (api (world s))\<lparr>a_cache := a_stored (api (world s))\<rparr>"
  shows "dm_inv api ns (pod_restart w s)"
proof -
  have "api_ok (api (world s))" using assms(1) by (simp add: dm_inv_def inv_of_def)
  then have "api_ok (api w)" unfolding assms(2) api_ok_def knows_def by auto
  then show ?thesis by (simp add: dm_inv_def inv_of_def pod_restart_def)
qed

lemma dm_inv_step:
  assumes inv: "dm_inv api ns s" and "dm_step E api ns s t"
  shows "dm_inv api ns t"
  using assms(2)
proof cases
  case (reconcile n r)
  then show ?thesis using Reconcile_keeps[OF inv] by blast
next
  case (writes i out)
  then show ?thesis using output_keeps[OF inv] by simp
next
  case (progress i)
  then show ?thesis
    using progress_keeps[OF inv, of i] inv by (cases "running s i") (auto simp: parseAndUpdateProgress_def)
next
  case (finish i werr)
  then show ?thesis
    using finish_keeps[OF inv, of i] inv by (cases "running s i") (auto simp: finish_command_def)
next
  case (others w)
  then show ?thesis using api_env_keeps[OF others(2)] inv by (simp add: dm_inv_def)
next
  case (outside w)
  then show ?thesis using inv by (simp add: dm_inv_def)
next
  case (restart w)
  then show ?thesis using restart_keeps[OF inv] by simp
next
  case (crash n t w)
  then show ?thesis using Reconcile_keeps[OF inv] restart_keeps by blast
qed

end

interpretation dm_machine: invariant_machine
  "dm_init cluster_api" "dm_step (cluster_env vars uid) cluster_api ns" "dm_inv cluster_api ns"
  by unfold_locales (rule cluster_server.dm_inv_init cluster_server.dm_inv_step; assumption)+

end
