(* ===== verification/Dm_Safety.thy ===== *)
theory Dm_Safety
  imports Dm_Machine
begin

text \<open>
  What the invariant of the controller means for its users, for every reachable state of the cluster
  and every interleaving of reconciles, command output, failing writes, stale caches, requests of
  others and pod restarts; and what single calls of \<open>Reconcile\<close> and the end of a command record.
\<close>

section \<open>A run of the controller on a concrete cluster\<close>

text \<open>A request that holds the finalizer and is in the cache, and a profile for it.\<close>

definition demo_env :: "cluster env" where
  "demo_env = cluster_env [''NNF_TEST_ENVIRONMENT'' \<mapsto> ''true''] 0"

definition demo_dm :: NnfDataMovement where
  "demo_dm = sample_dm\<lparr>dm_Finalizers := [finalizer],
     dm_Spec := sample_spec\<lparr>UserConfig := Some (sample_config\<lparr>Dryrun := True\<rparr>)\<rparr>\<rparr>"

definition demo_cluster :: cluster where
  "demo_cluster = empty_cluster\<lparr>c_revision := 1, c_profiles := (\<lambda>k. Some (sample_profile [])),
     c_dms := [(DataMovementNamespace, ''dm0'') \<mapsto> demo_dm], c_cache := [(DataMovementNamespace, ''dm0'') \<mapsto> demo_dm]\<rparr>"

definition demo_state :: "cluster \<Rightarrow> cluster reconciler" where
  "demo_state c = \<lparr>world = c, contexts = Map.empty, cancelled = (\<lambda>_. False), next_ctx = 0, running = Map.empty,
                   completions = []\<rparr>"

lemmas demo_defs = demo_dm_def demo_cluster_def demo_state_def empty_cluster_def

lemma demo_init: "dm_init cluster_api (demo_state demo_cluster)"
  by (auto simp: dm_init_def api_ok_def knows_def cluster_api_def demo_defs dm_key_def sample_defs finalizer_def)

lemma demo_setup:
  assumes "c_profiles c = (\<lambda>k. Some (sample_profile []))"
  shows "\<exists>h f d. setup_command demo_env demo_dm c =
           ((Ok (sample_profile [], h, [''true'']), demo_dm), c\<lparr>c_dirs := d, c_files := f\<rparr>)"
proof -
  obtain d f where h: "CreateMpiHostfile demo_env (sample_profile []) [''localhost''] demo_dm c =
      (Ok (PathJoin [PathJoin [''/tmp'', ''dm0''], ''hostfile'']), c\<lparr>c_dirs := d, c_files := f\<rparr>)"
    using cluster_hostfile_Ok[of "''dm0''"]
    by (fastforce simp: CreateMpiHostfile_def demo_dm_def sample_defs Let_def demo_env_def)
  have "GetDMProfile demo_env demo_dm c = Ok (sample_profile [])"
    using assms by (simp add: GetDMProfile_def demo_dm_def sample_defs demo_env_def lookup_res_def Let_def)
  moreover have "GetStorageNodeNames demo_env demo_dm c = Ok [''localhost'']"
    by (simp add: GetStorageNodeNames_def isTestEnv_def demo_env_def Let_def)
  moreover have "GetWorkerHostnames demo_env [''localhost''] c = Ok [''localhost'']"
    by (simp add: GetWorkerHostnames_def)
  moreover have "PrepareDestination demo_env (sample_profile []) demo_dm h w = ((Ok (), demo_dm), w)" for h w
    by (simp add: PrepareDestination_def isTestEnv_def demo_env_def)
  moreover have "BuildDMCommand (sample_profile []) h True demo_dm = Ok [''true'']" for h
    by (simp add: BuildDMCommand_def demo_dm_def sample_defs)
  ultimately show ?thesis using h by (simp add: setup_command_def) blast
qed

lemma demo_start:
  "\<exists>t g. Reconcile demo_env (DataMovementNamespace, ''dm0'') (demo_state demo_cluster) = (Ok (), t) \<and>
     running t 0 = Some g \<and> dm_Name (run_dm g) = ''dm0'' \<and> contexts t = [''dm0'' \<mapsto> \<lparr>Ctx = 0, Result = None\<rparr>] \<and>
     \<not> cancelled t 0"
proof -
  obtain h f d where su: "setup_command demo_env demo_dm demo_cluster =
      ((Ok (sample_profile [], h, [''true'']), demo_dm), demo_cluster\<lparr>c_dirs := d, c_files := f\<rparr>)"
    using demo_setup[of demo_cluster] by (auto simp: demo_cluster_def)
  have "e_GetDm demo_env DataMovementNamespace ''dm0'' demo_cluster = Ok demo_dm"
    by (simp add: demo_env_def lookup_res_def demo_cluster_def)
  moreover have "dm_DeletionTimestamp demo_dm = None" "ContainsFinalizer (dm_Finalizers demo_dm) finalizer"
    "State (dm_Status demo_dm) = []" "\<not> Cancel (dm_Spec demo_dm)" "dm_Name demo_dm = ''dm0''"
    "dm_key demo_dm = (DataMovementNamespace, ''dm0'')" "dm_ResourceVersion demo_dm = 1"
    by (simp_all add: demo_dm_def sample_defs ContainsFinalizer_def dm_key_def)
  ultimately show ?thesis
    using su unfolding Reconcile_def reconcile_object_def reconcile_active_def reconcile_start_def
      start_command_def deferred_status_def demo_state_def
    by (simp add: TypeFinished_def TypeRunning_def Let_def demo_env_def srv_write_def srv_apply_def dm_key_def
        demo_cluster_def empty_cluster_def)
qed

lemma demo_reach:
  "\<exists>t g. reach (dm_init cluster_api) (dm_step demo_env cluster_api DataMovementNamespace) t \<and>
     running t 0 = Some g \<and> dm_Name (run_dm g) = ''dm0'' \<and> contexts t ''dm0'' = Some \<lparr>Ctx = 0, Result = None\<rparr> \<and>
     \<not> cancelled t 0"
proof -
  obtain t g where t: "Reconcile demo_env (DataMovementNamespace, ''dm0'') (demo_state demo_cluster) = (Ok (), t)"
      "running t 0 = Some g" "dm_Name (run_dm g) = ''dm0''" "contexts t = [''dm0'' \<mapsto> \<lparr>Ctx = 0, Result = None\<rparr>]"
      "\<not> cancelled t 0"
    using demo_start by blast
  have "dm_step demo_env cluster_api DataMovementNamespace (demo_state demo_cluster) t"
    by (rule dm_step.reconcile[OF t(1)]) simp
  moreover have "reach (dm_init cluster_api) (dm_step demo_env cluster_api DataMovementNamespace) (demo_state demo_cluster)"
    by (rule reach_init) (rule demo_init)
  ultimately show ?thesis using reach_step t by fastforce
qed

section \<open>More about single steps\<close>

lemma severe_error: "Severity i \<noteq> SeverityMinor \<Longrightarrow> State (error_status (ResErr i) st) = TypeFinished"
  by (simp add: error_status_def Let_def)

text \<open>Only \<^verbatim>\<open>drop_context\<close> and \<^verbatim>\<open>start_command\<close> touch the map, and only at the name of the request.\<close>

lemma cancel_maps: "cancel E dm s = (r, dm', s') \<Longrightarrow> contexts s' = contexts s \<and> running s' = running s"
  by (auto simp: cancel_def Let_def split: result.splits prod.splits option.splits if_splits)

lemma update_finalizers_maps:
  "update_finalizers E fs dm s = (r, dm', s') \<Longrightarrow> contexts s' = contexts s \<and> running s' = running s"
  by (auto simp: update_finalizers_def Let_def split: result.splits prod.splits)

lemma deferred_maps: "deferred_status E (r, dm, s) = (r', t) \<Longrightarrow> contexts t = contexts s \<and> running t = running s"
  by (auto simp: deferred_status_def split: result.splits prod.splits)

lemma deleted_maps:
  assumes "reconcile_deleted E dm s = (r, dm', s')"
  shows "running s' = running s \<and> (\<forall>m. contexts s' m = contexts s m \<or> contexts s' m = None)"
proof -
  obtain r1 dm1 s1 where c: "cancel E dm s = (r1, dm1, s1)" by (rule prod_cases3)
  have m: "contexts s1 = contexts s \<and> running s1 = running s" by (rule cancel_maps[OF c])
  have u: "contexts s' = contexts t \<and> running s' = running t"
    if "(if ContainsFinalizer (dm_Finalizers dm1) finalizer
         then update_finalizers E (RemoveFinalizer (dm_Finalizers dm1) finalizer) dm1 t else (Ok (), dm1, t)) = (r, dm', s')" for t
    using that update_finalizers_maps[of E _ dm1 t] by (auto split: if_splits)
  show ?thesis
    using assms m unfolding reconcile_deleted_def c
    by (auto simp: Let_def split: result.splits option.splits if_splits dest!: u update_finalizers_maps)
qed

context dm_server
begin

lemma setup_errors_severe:
  assumes "setup_command E dm w = ((Err err, dm'), w')"
  shows "\<exists>i. err = ResErr i \<and> Severity i \<noteq> SeverityMinor"
proof -
  have p: "\<exists>i. err = ResErr i \<and> Severity i \<noteq> SeverityMinor"
    if "PrepareDestination E profile dm hostfile v = ((Err err, d'), v')" for profile hostfile v d' v'
    using that unfolding PrepareDestination_def Let_def fatal_error_def
    by (auto split: result.splits prod.splits option.splits if_splits)
  show ?thesis
    using assms unfolding setup_command_def major_error_def
    by (auto split: result.splits prod.splits dest: p)
qed

text \<open>A call that starts a command: it was based on the stored object, which was neither finished,
  cancelled nor deleted, and no command of that resource was tracked.\<close>

lemma start_command_new:
  assumes inv: "dm_inv api ns s" and kn: "knows (api (world s)) (ns, n) d"
    and key: "dm_key dm = (ns, n)" "dm_ResourceVersion dm = dm_ResourceVersion d"
    and ok: "a_stored (api (world s)) (ns, n) = Some d \<Longrightarrow> contexts s n = None \<and> State (dm_Status d) \<noteq> TypeFinished"
    and run: "start_command E profile hostfile args dm s = (r, dm', s')" and new: "running s' \<noteq> running s"
  shows "a_stored (api (world s)) (ns, n) = Some d \<and> running s (next_ctx s) = None \<and>
     contexts s' = (contexts s)(n \<mapsto> \<lparr>Ctx = next_ctx s, Result = None\<rparr>) \<and>
     (\<exists>g. running s' = (running s)(next_ctx s \<mapsto> g) \<and> dm_key (run_dm g) = (ns, n))"
proof -
  let ?cs = "empty_CommandStatus\<lparr>Command := ''/bin/bash -c '' @ Join args '' ''\<rparr>"
  let ?dm = "dm\<lparr>dm_Status := (dm_Status dm)\<lparr>StartTime := Some (e_Now E (world s)), State := TypeRunning,
               CommandStatus := Some ?cs\<rparr>\<rparr>"
  obtain r0 w' where u: "e_UpdateDmStatus E ?dm (world s) = (r0, w')" by fastforce
  have al: "status_allowed (contexts s n) d (dm_Status ?dm)" if "a_stored (api (world s)) (ns, n) = Some d"
    using ok[OF that] by (simp add: status_allowed_def)
  have key': "dm_key ?dm = (ns, n)" "dm_ResourceVersion ?dm = dm_ResourceVersion d" using key by (simp_all add: dm_key_def)
  note w = status_written[OF inv u kn key' al]
  obtain d' where d': "r0 = Ok d'" using run new u by (cases r0) (auto simp: start_command_def Let_def)
  then have "a_stored (api (world s)) (ns, n) = Some d \<and> knows (api w') (ns, n) d'" using w by auto
  moreover have "running s (next_ctx s) = None"
    using inv unfolding dm_inv_def inv_of_def by (metis less_irrefl option.exhaust)
  ultimately show ?thesis using run u d' by (auto simp: start_command_def Let_def knows_def dm_key_def)
qed

lemma Reconcile_starts:
  assumes inv: "dm_inv api ns s" and run: "Reconcile E (ns, n) s = (r, t)" and new: "running t \<noteq> running s"
  shows "\<exists>cur g. a_stored (api (world s)) (ns, n) = Some cur \<and> State (dm_Status cur) \<noteq> TypeFinished \<and>
     dm_DeletionTimestamp cur = None \<and> \<not> Cancel (dm_Spec cur) \<and> contexts s n = None \<and>
     contexts t = (contexts s)(n \<mapsto> \<lparr>Ctx = next_ctx s, Result = None\<rparr>) \<and>
     running s (next_ctx s) = None \<and> running t = (running s)(next_ctx s \<mapsto> g) \<and> dm_key (run_dm g) = (ns, n)"
proof (cases "e_GetDm E ns n (world s)")
  case (Ok d)
  have "a_cache (api (world s)) (ns, n) = Some d" by (rule get_cached[OF Ok])
  then have kn: "knows (api (world s)) (ns, n) d" using inv unfolding dm_inv_def inv_of_def api_ok_def by blast
  then have key: "dm_key d = (ns, n)" "dm_Name d = n" by (auto simp: knows_def dm_key_def)
  obtain r1 dm1 s1 where o: "reconcile_object E d s = (r1, dm1, s1)" by (rule prod_cases3)
  have "deferred_status E (r1, dm1, s1) = (r, t)" using run Ok o by (simp add: Reconcile_def)
  then have t: "running t = running s1" "contexts t = contexts s1" using deferred_maps by blast+
  with new have new1: "running s1 \<noteq> running s" by simp
  have alive: "dm_DeletionTimestamp d = None"
    using o new1 deleted_maps[of E d s r1 dm1 s1] by (auto simp: reconcile_object_def split: if_splits)
  have "ContainsFinalizer (dm_Finalizers d) finalizer"
    using o new1 alive update_finalizers_maps[of E _ d s r1 dm1 s1] by (auto simp: reconcile_object_def split: if_splits)
  then have act: "reconcile_active E d s = (r1, dm1, s1)" using o alive by (simp add: reconcile_object_def)
  have nores: "Option.bind (contexts s n) Result = None"
    using act new1 key by (auto simp: reconcile_active_def write_result_def Let_def split: option.splits result.splits prod.splits)
  have unf: "State (dm_Status d) \<noteq> TypeFinished" and nc: "\<not> Cancel (dm_Spec d)"
    using act new1 key nores cancel_maps[of E d s] by (auto simp: reconcile_active_def split: if_splits prod.splits result.splits)
  obtain dm0 where st: "reconcile_start E dm0 s = (r1, dm1, s1)" "dm0 = d \<or> dm0 = count_restart d"
      "State (dm_Status d) = TypeRunning \<longrightarrow> contexts s n = None"
    using act new1 key nores unf nc by (auto simp: reconcile_active_def split: if_splits)
  have key0: "dm_key dm0 = (ns, n)" "dm_ResourceVersion dm0 = dm_ResourceVersion d"
    using st(2) key by (auto simp: count_restart_def dm_key_def)
  have free: "contexts s n = None" if "a_stored (api (world s)) (ns, n) = Some d"
  proof (rule ccontr)
    assume "contexts s n \<noteq> None"
    then obtain e where "contexts s n = Some e" "Result e = None" using nores by (cases "contexts s n") auto
    then show False using inv_entry(3)[OF inv[unfolded dm_inv_def] that] st(3) by auto
  qed
  obtain r2 dm2 w' where c: "setup_command E dm0 (world s) = ((r2, dm2), w')" by (metis surj_pair)
  note k = setup_command_keeps[OF c]
  obtain profile hostfile args where ok: "r2 = Ok (profile, hostfile, args)"
    using st(1) c new1 by (cases r2) (auto simp: reconcile_start_def)
  have go: "start_command E profile hostfile args dm2 (s\<lparr>world := w'\<rparr>) = (r1, dm1, s1)"
    using st(1) c ok by (simp add: reconcile_start_def)
  have "a_stored (api w') (ns, n) = Some d \<and> running s (next_ctx s) = None \<and>
     contexts s1 = (contexts s)(n \<mapsto> \<lparr>Ctx = next_ctx s, Result = None\<rparr>) \<and>
     (\<exists>g. running s1 = (running s)(next_ctx s \<mapsto> g) \<and> dm_key (run_dm g) = (ns, n))"
    using start_command_new[of ns "s\<lparr>world := w'\<rparr>" n d dm2, OF _ _ _ _ _ go] inv kn k key0 free unf new1
    by (simp add: dm_inv_def)
  then show ?thesis using t k(1) free alive unf nc by auto
next
  case (Err err)
  then show ?thesis using run new by (auto simp: Reconcile_def split: option.splits)
next
  case Panic
  then show ?thesis using run new by (auto simp: Reconcile_def)
qed

text \<open>The status a goroutine left is dropped only after it was written, or with the object.\<close>

lemma write_result_kept:
  assumes inv: "dm_inv api ns s" and kn: "knows (api (world s)) (ns, n) dm"
    and e: "contexts s n = Some e" "Result e = Some st"
    and run: "write_result E st dm s = (r, dm', s')"
  shows "contexts s' n = Some e \<or>
     r = Ok () \<and> contexts s' n = None \<and> (\<exists>cur. a_stored (api (world s')) (ns, n) = Some cur \<and> dm_Status cur = st)"
proof -
  let ?dm = "dm\<lparr>dm_Status := st\<rparr>"
  have key: "dm_key ?dm = (ns, n)" using kn by (simp add: knows_def dm_key_def)
  obtain r0 w' where u: "e_UpdateDmStatus E ?dm (world s) = (r0, w')" by fastforce
  have "State st = TypeFinished \<and> StartTime st \<noteq> None"
    using inv e unfolding dm_inv_def inv_of_def entry_ok_def by fastforce
  then have al: "status_allowed (contexts s n) dm (dm_Status ?dm)" using e by (auto simp: status_allowed_def)
  note w = status_written[OF inv u kn key _ al]
  show ?thesis
  proof (cases r0)
    case (Ok d')
    then have "a_stored (api w') (ns, n) = Some d'" "dm_Status d' = st" "dm_Name d' = n"
      using w by (auto simp: knows_def dm_key_def)
    then show ?thesis using run u Ok by (auto simp: write_result_def Let_def)
  qed (use run u e w in \<open>auto simp: write_result_def Let_def\<close>)
qed

lemma deleted_context:
  assumes inv: "dm_inv api ns s" and kn: "knows (api (world s)) (ns, n) dm"
    and run: "reconcile_deleted E dm s = (r, dm', s')"
  shows "contexts s' = contexts s \<or> contexts s' = (contexts s)(n := None)"
proof -
  obtain r1 dm1 s1 where c: "cancel E dm s = (r1, dm1, s1)" by (rule prod_cases3)
  note m = cancel_maps[OF c] and k = cancel_reconciled[OF inv kn c]
  have name: "dm_Name dm1 = n" using k by (auto simp: reconciled_def dm_key_def)
  show ?thesis
    using run m unfolding reconcile_deleted_def c
    by (auto simp: Let_def name split: result.splits option.splits if_splits dest!: update_finalizers_maps)
qed

lemma start_same:
  assumes "reconcile_start E dm s = (r, dm', s')" and "running s' = running s" and "running s (next_ctx s) = None"
  shows "contexts s' = contexts s"
proof -
  have "running s' (next_ctx s) = None" using assms(2,3) by simp
  then show ?thesis
    using assms(1)
    by (auto simp: reconcile_start_def start_command_def Let_def split: result.splits prod.splits)
qed

lemma Reconcile_context:
  assumes inv: "dm_inv api ns s" and run: "Reconcile E (ns, n) s = (r, t)" and same: "running t = running s"
  shows "contexts t = contexts s \<or> contexts t = (contexts s)(n := None) \<and>
    (\<exists>d. a_cache (api (world s)) (ns, n) = Some d \<and> dm_DeletionTimestamp d \<noteq> None) \<or>
    contexts t = (contexts s)(n := None) \<and>
    (\<exists>st cur. Option.bind (contexts s n) Result = Some st \<and> a_stored (api (world t)) (ns, n) = Some cur \<and> dm_Status cur = st)"
proof (cases "e_GetDm E ns n (world s)")
  case (Ok d)
  have cached: "a_cache (api (world s)) (ns, n) = Some d" by (rule get_cached[OF Ok])
  then have kn: "knows (api (world s)) (ns, n) d" using inv unfolding dm_inv_def inv_of_def api_ok_def by blast
  then have key: "dm_Name d = n" by (auto simp: knows_def dm_key_def)
  obtain r1 dm1 s1 where o: "reconcile_object E d s = (r1, dm1, s1)" by (rule prod_cases3)
  have df: "deferred_status E (r1, dm1, s1) = (r, t)" using run Ok o by (simp add: Reconcile_def)
  then have t: "running t = running s1" "contexts t = contexts s1" using deferred_maps by blast+
  have free: "running s (next_ctx s) = None"
    using inv unfolding dm_inv_def inv_of_def by (metis less_irrefl option.exhaust)
  show ?thesis
  proof (cases "dm_DeletionTimestamp d = None")
    case False
    then show ?thesis using o t cached deleted_context[OF inv kn] by (auto simp: reconcile_object_def)
  next
    case alive: True
    show ?thesis
    proof (cases "ContainsFinalizer (dm_Finalizers d) finalizer")
      case False
      then have "contexts s1 = contexts s"
        using o alive update_finalizers_maps[of E _ d s r1 dm1 s1] by (simp add: reconcile_object_def)
      then show ?thesis using t by simp
    next
      case True
      then have act: "reconcile_active E d s = (r1, dm1, s1)" using o alive by (simp add: reconcile_object_def)
      show ?thesis
      proof (cases "Option.bind (contexts s n) Result")
        case None
        then have "contexts s1 = contexts s"
          using act key same t(1) start_same[of _ s r1 dm1 s1, OF _ _ free]
          by (auto simp: reconcile_active_def split: if_splits prod.splits result.splits dest: cancel_maps)
        then show ?thesis using t by simp
      next
        case (Some st)
        then obtain e where e: "contexts s n = Some e" "Result e = Some st" by (cases "contexts s n") auto
        have wr: "write_result E st d s = (r1, dm1, s1)" using act Some key by (simp add: reconcile_active_def)
        have "contexts s1 = contexts s \<or> contexts s1 = (contexts s)(n := None)"
          using wr write_result_reconciled[OF inv kn e wr]
          by (auto simp: write_result_def Let_def reconciled_def dm_key_def split: result.splits prod.splits)
        then show ?thesis
          using write_result_kept[OF inv kn e wr] t df e Some by (auto simp: deferred_status_def)
      qed
    qed
  qed
next
  case (Err err)
  then show ?thesis using run by (auto simp: Reconcile_def split: option.splits)
next
  case Panic
  then show ?thesis using run by (auto simp: Reconcile_def)
qed

lemma Reconcile_result:
  assumes inv: "dm_inv api ns s" and run: "Reconcile E (ns, n) s = (r, t)"
    and e: "contexts s m = Some e" "Result e = Some st"
  shows "contexts t m = Some e \<or>
     contexts t m = None \<and> (\<forall>cur. a_stored (api (world t)) (ns, m) = Some cur \<longrightarrow>
                               dm_Status cur = st \<or> dm_DeletionTimestamp cur \<noteq> None)"
proof (cases "running t = running s")
  case False
  then show ?thesis using Reconcile_starts[OF inv run False] e by (cases "m = n") auto
next
  case True
  have del: "dm_DeletionTimestamp cur \<noteq> None"
    if d: "a_cache (api (world s)) (ns, m) = Some d" "dm_DeletionTimestamp d \<noteq> None"
       and cur: "a_stored (api (world t)) (ns, m) = Some cur" for d cur
  proof -
    have "entry_ok ns (api (world s)) (running s) m e" using inv e(1) by (simp add: dm_inv_def inv_of_def)
    then obtain c where c: "a_stored (api (world s)) (ns, m) = Some c" "dm_DeletionTimestamp c \<noteq> None"
      using d by (auto simp: entry_ok_def)
    moreover have "advance (api (world s)) (api (world t))" using Reconcile_keeps[OF inv run] by simp
    ultimately show ?thesis using cur unfolding advance_def by (metis option.inject)
  qed
  show ?thesis using Reconcile_context[OF inv run True] del e by (cases "m = n") auto
qed

end

section \<open>Safety in every reachable state\<close>

abbreviation dm_reach :: "(string \<Rightarrow> string option) \<Rightarrow> nat \<Rightarrow> string \<Rightarrow> cluster reconciler \<Rightarrow> bool" where
  "dm_reach vars uid ns \<equiv> reach (dm_init cluster_api) (dm_step (cluster_env vars uid) cluster_api ns)"

text \<open>
  C1. At most one command runs for a resource, in every reachable state: although \<open>Reconcile\<close> may be
  called again while its own status write is not yet in the cache, the write that precedes a second
  start is based on an old version and is refused. The commands counted are those of the controller, on data movements
  whose status nobody else writes (see \<open>api_env\<close>; with the copy-offload daemon on the same object there may be two, see \<open>Composition\<close>).
\<close>

theorem one_command_per_resource:
  assumes "dm_reach vars uid ns s" and "running s i = Some g" and "running s j = Some h"
    and "dm_Name (run_dm g) = dm_Name (run_dm h)"
  shows "i = j"
proof -
  have "dm_inv cluster_api ns s" by (rule dm_machine.inv_reachable[OF assms(1)])
  then have "run_ok ns (contexts s) i g" "run_ok ns (contexts s) j h"
    using assms(2,3) by (auto simp: dm_inv_def inv_of_def)
  then show ?thesis using assms(4) by (auto simp: run_ok_def)
qed

theorem one_command_per_resource_witness:
  "\<exists>s g. dm_reach [''NNF_TEST_ENVIRONMENT'' \<mapsto> ''true''] 0 DataMovementNamespace s \<and> running s 0 = Some g \<and>
     (\<forall>j. running s j = Some g \<longrightarrow> j = 0)"
  using demo_reach one_command_per_resource[where i = 0 and vars = "[''NNF_TEST_ENVIRONMENT'' \<mapsto> ''true'']"]
  unfolding demo_env_def by metis

text \<open>
  C2. As long as a command runs, its resource exists, is recorded as running, and holds the
  finalizer: deleting the request does not remove the object under a running command, and the
  entry that lets a later call cancel the command is there. Nobody else writes the status or takes the finalizer away
  (see \<open>api_env\<close>).
\<close>

theorem running_command_protected:
  assumes "dm_reach vars uid ns s" and "running s i = Some g"
  shows "\<exists>cur e. c_dms (world s) (ns, dm_Name (run_dm g)) = Some cur \<and>
     State (dm_Status cur) = TypeRunning \<and> finalizer \<in> set (dm_Finalizers cur) \<and>
     contexts s (dm_Name (run_dm g)) = Some e \<and> Ctx e = i \<and> Result e = None"
proof -
  have inv: "dm_inv cluster_api ns s" by (rule dm_machine.inv_reachable[OF assms(1)])
  then have "run_ok ns (contexts s) i g" using assms(2) by (simp add: dm_inv_def inv_of_def)
  then obtain e where e: "contexts s (dm_Name (run_dm g)) = Some e" "Ctx e = i" "Result e = None"
    by (auto simp: run_ok_def)
  then have "entry_ok ns (cluster_api (world s)) (running s) (dm_Name (run_dm g)) e"
    using inv by (simp add: dm_inv_def inv_of_def)
  then show ?thesis using e by (auto simp: entry_ok_def cluster_api_def ContainsFinalizer_def)
qed

theorem running_command_protected_witness:
  "\<exists>s cur. dm_reach [''NNF_TEST_ENVIRONMENT'' \<mapsto> ''true''] 0 DataMovementNamespace s \<and>
     c_dms (world s) (DataMovementNamespace, ''dm0'') = Some cur \<and> State (dm_Status cur) = TypeRunning"
  using demo_reach running_command_protected[where vars = "[''NNF_TEST_ENVIRONMENT'' \<mapsto> ''true'']"]
  unfolding demo_env_def by metis

lemma step_advances:
  assumes inv: "dm_inv cluster_api ns s" and "dm_step (cluster_env vars uid) cluster_api ns s t"
    and "a_stored (cluster_api (world s)) k = Some cur" and "State (dm_Status cur) = TypeFinished"
    and "a_stored (cluster_api (world t)) k = Some cur'"
  shows "State (dm_Status cur') = TypeFinished"
proof -
  have adv: "State (dm_Status cur') = TypeFinished" if "advance (cluster_api (world s)) (cluster_api w)"
      "a_stored (cluster_api w) k = Some cur'" for w
    using that assms(3,4) unfolding advance_def by (metis option.inject)
  show ?thesis using assms(2)
  proof cases
    case (reconcile n r)
    then show ?thesis using cluster_server.Reconcile_keeps[OF inv] adv assms(5) by blast
  next
    case (writes i out)
    then show ?thesis using cluster_server.output_keeps[OF inv] assms(3,4,5) by simp
  next
    case (progress i)
    show ?thesis
    proof (cases "running s i")
      case None
      then show ?thesis using progress assms(3,4,5) by (simp add: parseAndUpdateProgress_def)
    next
      case (Some g)
      then show ?thesis using cluster_server.progress_keeps[OF inv Some] adv assms(5) progress by blast
    qed
  next
    case (finish i werr)
    show ?thesis
    proof (cases "running s i")
      case None
      then show ?thesis using finish assms(3,4,5) by (simp add: finish_command_def)
    next
      case (Some g)
      then show ?thesis using cluster_server.finish_keeps[OF inv Some] adv assms(5) finish by blast
    qed
  next
    case (others w)
    from others(2) show ?thesis using assms(3,4,5) others(1) by cases (auto split: if_splits)
  next
    case (outside w)
    then show ?thesis using assms(3,4,5) by simp
  next
    case (restart w)
    then show ?thesis using assms(3,4,5) by (simp add: pod_restart_def)
  next
    case (crash n t' w)
    then have "a_stored (cluster_api (world t')) k = Some cur'" using assms(5) by (simp add: pod_restart_def)
    then show ?thesis using cluster_server.Reconcile_keeps[OF inv crash(2)] adv by blast
  qed
qed

text \<open>
  C3. Finished is final: no step of the controller, of its goroutines or of a restart takes a resource
  out of the state \<^verbatim>\<open>Finished\<close>, however late a goroutine reports or however old the cache is; the resource
  stays finished until it is deleted. The other parties of \<open>dm_step\<close> do not write the status (see \<open>api_env\<close>).
\<close>

theorem finished_is_final:
  assumes "dm_reach vars uid ns s" and "dm_step (cluster_env vars uid) cluster_api ns s t"
    and "c_dms (world s) k = Some cur" and "State (dm_Status cur) = TypeFinished"
    and "c_dms (world t) k = Some cur'"
  shows "State (dm_Status cur') = TypeFinished"
  using step_advances[OF dm_machine.inv_reachable[OF assms(1)] assms(2)] assms(3-5)
  by (simp add: cluster_api_def)

definition finished_cluster :: cluster where
  "finished_cluster = demo_cluster\<lparr>c_dms := [(DataMovementNamespace, ''dm0'') \<mapsto>
     demo_dm\<lparr>dm_ResourceVersion := 2, dm_Status := empty_status\<lparr>State := TypeFinished\<rparr>\<rparr>], c_revision := 2\<rparr>"

theorem finished_is_final_witness:
  "\<exists>t. dm_step demo_env cluster_api DataMovementNamespace (demo_state finished_cluster) t \<and>
     (\<forall>cur. c_dms (world t) (DataMovementNamespace, ''dm0'') = Some cur \<longrightarrow> State (dm_Status cur) = TypeFinished)"
proof -
  let ?s = "demo_state finished_cluster"
  obtain r t where t: "Reconcile demo_env (DataMovementNamespace, ''dm0'') ?s = (r, t)" by fastforce
  have init: "dm_init cluster_api ?s"
    by (auto simp: dm_init_def api_ok_def knows_def cluster_api_def finished_cluster_def demo_defs dm_key_def
        sample_defs finalizer_def)
  have re: "dm_reach [''NNF_TEST_ENVIRONMENT'' \<mapsto> ''true''] 0 DataMovementNamespace ?s"
    by (rule reach_init) (rule init)
  have st: "dm_step demo_env cluster_api DataMovementNamespace ?s ?s"
    using dm_step.outside[of cluster_api "world ?s" ?s demo_env DataMovementNamespace] by simp
  have "c_dms (world ?s) (DataMovementNamespace, ''dm0'') =
      Some (demo_dm\<lparr>dm_ResourceVersion := 2, dm_Status := empty_status\<lparr>State := TypeFinished\<rparr>\<rparr>)"
    by (simp add: finished_cluster_def demo_state_def)
  from finished_is_final[OF re st[unfolded demo_env_def] this] show ?thesis using st by auto
qed

lemma demo_finished:
  "\<exists>t st. dm_reach [''NNF_TEST_ENVIRONMENT'' \<mapsto> ''true''] 0 DataMovementNamespace t \<and>
     contexts t ''dm0'' = Some \<lparr>Ctx = 0, Result = Some st\<rparr>"
proof -
  obtain t g where t: "dm_reach [''NNF_TEST_ENVIRONMENT'' \<mapsto> ''true''] 0 DataMovementNamespace t"
      "running t 0 = Some g" "dm_Name (run_dm g) = ''dm0''"
    using demo_reach unfolding demo_env_def by blast
  let ?t = "finish_command (cluster_env [''NNF_TEST_ENVIRONMENT'' \<mapsto> ''true''] 0) 0 None t"
  obtain e st where e: "contexts ?t ''dm0'' = Some e" "Ctx e = 0" "Result e = Some st"
    using cluster_server.finish_keeps[OF dm_machine.inv_reachable[OF t(1)] t(2)] t(3) by metis
  then have "e = \<lparr>Ctx = 0, Result = Some st\<rparr>" by simp
  then show ?thesis using reach_step[OF t(1) dm_step.finish] e(1) by blast
qed

text \<open>
  C7. No result is lost. The final status a goroutine left in the map stays there through every call
  of \<open>Reconcile\<close>, for this resource or another, whichever of its writes fail, until the stored object
  carries exactly that status, unless the object is being deleted or gone.
\<close>

theorem result_not_lost:
  assumes "dm_reach vars uid ns s" and "Reconcile (cluster_env vars uid) (ns, m) s = (r, t)"
    and "contexts s n = Some e" and "Result e = Some st"
  shows "contexts t n = Some e \<or>
     contexts t n = None \<and> (\<forall>cur. c_dms (world t) (ns, n) = Some cur \<longrightarrow>
                               dm_Status cur = st \<or> dm_DeletionTimestamp cur \<noteq> None)"
  using cluster_server.Reconcile_result[OF dm_machine.inv_reachable[OF assms(1)] assms(2-4)]
  by (simp add: cluster_api_def)

theorem result_not_lost_witness:
  "\<exists>s t r e st. dm_reach [''NNF_TEST_ENVIRONMENT'' \<mapsto> ''true''] 0 DataMovementNamespace s \<and>
     contexts s ''dm0'' = Some e \<and> Result e = Some st \<and>
     Reconcile demo_env (DataMovementNamespace, ''dm0'') s = (r, t) \<and>
     (contexts t ''dm0'' = Some e \<or> contexts t ''dm0'' = None)"
proof -
  obtain s st where s: "dm_reach [''NNF_TEST_ENVIRONMENT'' \<mapsto> ''true''] 0 DataMovementNamespace s"
      "contexts s ''dm0'' = Some \<lparr>Ctx = 0, Result = Some st\<rparr>" using demo_finished by blast
  obtain r t where t: "Reconcile demo_env (DataMovementNamespace, ''dm0'') s = (r, t)" by fastforce
  have "contexts t ''dm0'' = Some \<lparr>Ctx = 0, Result = Some st\<rparr> \<or> contexts t ''dm0'' = None"
    using result_not_lost[OF s(1) t[unfolded demo_env_def] s(2)] by auto
  moreover have "Result \<lparr>Ctx = 0, Result = Some st\<rparr> = Some st" by simp
  ultimately show ?thesis using s t by blast
qed

text \<open>
  C10. A command is started only for a request that, as it is stored and not only as it is cached, is
  neither finished nor cancelled nor being deleted, and for which no command is tracked.
\<close>

theorem start_only_when_due:
  assumes "dm_reach vars uid ns s" and "Reconcile (cluster_env vars uid) (ns, n) s = (r, t)"
    and "running t i = Some g" and "running s i = None"
  shows "\<exists>cur. c_dms (world s) (ns, n) = Some cur \<and> State (dm_Status cur) \<noteq> TypeFinished \<and>
     \<not> Cancel (dm_Spec cur) \<and> dm_DeletionTimestamp cur = None \<and> contexts s n = None \<and>
     dm_key (run_dm g) = (ns, n) \<and> running t = (running s)(i \<mapsto> g)"
proof -
  have "running t \<noteq> running s" using assms(3,4) by auto
  from cluster_server.Reconcile_starts[OF dm_machine.inv_reachable[OF assms(1)] assms(2) this] assms(3,4)
  show ?thesis by (auto simp: cluster_api_def split: if_splits)
qed

theorem start_only_when_due_witness:
  "\<exists>t g. Reconcile demo_env (DataMovementNamespace, ''dm0'') (demo_state demo_cluster) = (Ok (), t) \<and>
     running t 0 = Some g \<and> dm_key (run_dm g) = (DataMovementNamespace, ''dm0'')"
proof -
  obtain t g where t: "Reconcile demo_env (DataMovementNamespace, ''dm0'') (demo_state demo_cluster) = (Ok (), t)"
      "running t 0 = Some g" using demo_start by blast
  have "dm_reach [''NNF_TEST_ENVIRONMENT'' \<mapsto> ''true''] 0 DataMovementNamespace (demo_state demo_cluster)"
    by (rule reach_init) (rule demo_init)
  from start_only_when_due[OF this t(1)[unfolded demo_env_def] t(2)] t
  show ?thesis by (auto simp: demo_state_def)
qed

section \<open>How a command ends\<close>

lemma final_status_outcome:
  "State (final_status now c werr g) = TypeFinished"
  "EndTime (final_status now c werr g) = Some now"
  "StartTime (final_status now c werr g) = StartTime (dm_Status (run_dm g))"
  "Status (final_status now c werr g) =
     (if c then ReasonCancelled else if werr \<noteq> None then ReasonFailed else ReasonSuccess)"
  by (auto simp: final_status_def Let_def split: option.splits)

text \<open>
  C16. When a command ends, its final status is handed over to the reconciler under the resource's name,
  never dropped: it is finished, with the reason \<^verbatim>\<open>Cancelled\<close> if the operation was cancelled whatever the
  command returned, \<^verbatim>\<open>Failed\<close> if the command failed, and \<^verbatim>\<open>Success\<close> otherwise, and it keeps the start time.
\<close>

theorem finish_hands_over:
  assumes "dm_reach vars uid ns s" and "running s i = Some g"
  shows "\<exists>e st. contexts (finish_command (cluster_env vars uid) i werr s) (dm_Name (run_dm g)) = Some e \<and>
     Result e = Some st \<and> State st = TypeFinished \<and> StartTime st = StartTime (dm_Status (run_dm g)) \<and> EndTime st \<noteq> None \<and>
     Status st = (if cancelled s i then ReasonCancelled else if werr \<noteq> None then ReasonFailed else ReasonSuccess)"
  using cluster_server.finish_keeps[OF dm_machine.inv_reachable[OF assms(1)] assms(2), of vars uid werr]
  by (auto simp: final_status_outcome)

theorem finish_hands_over_witness:
  "\<exists>s g e st. running s 0 = Some g \<and> \<not> cancelled s 0 \<and>
     contexts (finish_command demo_env 0 None s) (dm_Name (run_dm g)) = Some e \<and> Result e = Some st \<and> Status st = ReasonSuccess"
proof -
  obtain t g where t: "dm_reach [''NNF_TEST_ENVIRONMENT'' \<mapsto> ''true''] 0 DataMovementNamespace t"
      "running t 0 = Some g" "\<not> cancelled t 0"
    using demo_reach unfolding demo_env_def by blast
  from finish_hands_over[OF t(1,2), of None] t(2,3) show ?thesis unfolding demo_env_def by auto
qed

text \<open>
  C18. Cancelling a running data movement takes effect: once the cache shows that the request is
  cancelled or deleted, one call of \<open>Reconcile\<close> cancels the command's context without an error, and
  whatever the command then returns, the status handed over is \<^verbatim>\<open>Cancelled\<close>.
\<close>

theorem cancel_takes_effect:
  assumes re: "dm_reach vars uid ns s" and g: "running s i = Some g" "dm_Name (run_dm g) = n"
    and d: "c_dms (world s) (ns, n) = Some d" "c_cache (world s) (ns, n) = Some d"
    and req: "Cancel (dm_Spec d) \<or> dm_DeletionTimestamp d \<noteq> None"
  shows "\<exists>t e st. Reconcile (cluster_env vars uid) (ns, n) s = (Ok (), t) \<and> cancelled t i \<and>
     contexts (finish_command (cluster_env vars uid) i werr t) n = Some e \<and> Result e = Some st \<and>
     Status st = ReasonCancelled"
proof -
  let ?E = "cluster_env vars uid"
  have inv: "dm_inv cluster_api ns s" by (rule dm_machine.inv_reachable[OF re])
  then have "run_ok ns (contexts s) i g" using g by (simp add: dm_inv_def inv_of_def)
  then obtain e where e: "contexts s n = Some e" "Ctx e = i" "Result e = None" using g(2) by (auto simp: run_ok_def)
  have d': "a_stored (cluster_api (world s)) (ns, n) = Some d" using d by (simp add: cluster_api_def)
  note en = inv_entry[OF inv[unfolded dm_inv_def] d' e(1)]
  have key: "dm_Name d = n" using inv d' unfolding dm_inv_def inv_of_def api_ok_def dm_key_def by blast
  let ?t = "s\<lparr>cancelled := (cancelled s)(i := True)\<rparr>"
  have c: "cancel ?E d s = (Ok (), d, ?t)" using e en key by (auto simp: cancel_def)
  have "State (dm_Status d) = TypeRunning" using en(3) e(3) by simp
  then have "reconcile_object ?E d s = (Ok (), d, ?t)"
    using c e key req en(2)
    by (auto simp: reconcile_object_def reconcile_deleted_def reconcile_active_def Let_def TypeFinished_def TypeRunning_def)
  then have R: "Reconcile ?E (ns, n) s = (Ok (), ?t)"
    using d(2) by (simp add: Reconcile_def deferred_status_def lookup_res_def)
  have inv': "dm_inv cluster_api ns ?t" using inv by (simp add: dm_inv_def)
  from cluster_server.finish_keeps[OF inv', of i g vars uid werr] g
  show ?thesis by (intro exI[of _ ?t]) (auto simp: R final_status_outcome)
qed

text \<open>The demo request is cancelled by its user while its command runs, and the cache learns of it.\<close>

lemma demo_cancel:
  "\<exists>t g d. dm_reach [''NNF_TEST_ENVIRONMENT'' \<mapsto> ''true''] 0 DataMovementNamespace t \<and> running t 0 = Some g \<and>
     dm_Name (run_dm g) = ''dm0'' \<and> c_dms (world t) (DataMovementNamespace, ''dm0'') = Some d \<and>
     c_cache (world t) (DataMovementNamespace, ''dm0'') = Some d \<and> Cancel (dm_Spec d)"
proof -
  let ?k = "(DataMovementNamespace, ''dm0'')" and ?E = "cluster_env [''NNF_TEST_ENVIRONMENT'' \<mapsto> ''true''] 0"
  obtain s g where s: "dm_reach [''NNF_TEST_ENVIRONMENT'' \<mapsto> ''true''] 0 DataMovementNamespace s"
      "running s 0 = Some g" "dm_Name (run_dm g) = ''dm0''" "contexts s ''dm0'' = Some \<lparr>Ctx = 0, Result = None\<rparr>"
    using demo_reach unfolding demo_env_def by blast
  have inv: "inv_of DataMovementNamespace (cluster_api (world s)) s"
    using dm_machine.inv_reachable[OF s(1)] by (simp add: dm_inv_def)
  then obtain cur where cur: "c_dms (world s) ?k = Some cur"
    using s(4) unfolding inv_of_def entry_ok_def cluster_api_def by fastforce
  have key: "dm_key cur = ?k" and fin: "ContainsFinalizer (dm_Finalizers cur) finalizer"
    using inv inv_entry(2)[OF inv _ s(4)] cur unfolding inv_of_def api_ok_def cluster_api_def by auto
  define d where "d = cur\<lparr>dm_Spec := (dm_Spec cur)\<lparr>Cancel := True\<rparr>, dm_ResourceVersion := Suc (c_revision (world s))\<rparr>"
  define w where "w = (world s)\<lparr>c_revision := Suc (c_revision (world s)), c_dms := (c_dms (world s))(?k \<mapsto> d)\<rparr>"
  define v where "v = w\<lparr>c_cache := (c_cache w)(?k \<mapsto> d)\<rparr>"
  have "dm_Finalizers d \<noteq> []" using fin by (auto simp: d_def ContainsFinalizer_def)
  then have "api_env (cluster_api (world s)) (cluster_api w)"
    using api_env.modify[of "cluster_api (world s)" ?k cur d] cur key
    by (simp add: cluster_api_def w_def d_def dm_key_def)
  from reach_step[OF s(1) dm_step.others[OF this]]
  have 1: "dm_reach [''NNF_TEST_ENVIRONMENT'' \<mapsto> ''true''] 0 DataMovementNamespace (s\<lparr>world := w\<rparr>)" .
  have "api_env (cluster_api (world (s\<lparr>world := w\<rparr>))) (cluster_api v)"
    using api_env.sync[of "cluster_api w" ?k] by (simp add: cluster_api_def v_def w_def)
  from reach_step[OF 1 dm_step.others[OF this]]
  have "dm_reach [''NNF_TEST_ENVIRONMENT'' \<mapsto> ''true''] 0 DataMovementNamespace (s\<lparr>world := v\<rparr>)" by simp
  then show ?thesis
    using s(2,3) by (intro exI[of _ "s\<lparr>world := v\<rparr>"]) (auto simp: v_def w_def d_def)
qed

theorem cancel_takes_effect_witness:
  "\<exists>s t e st. Reconcile demo_env (DataMovementNamespace, ''dm0'') s = (Ok (), t) \<and> cancelled t 0 \<and>
     contexts (finish_command demo_env 0 (Some (PlainErr ''signal: killed'')) t) ''dm0'' = Some e \<and>
     Result e = Some st \<and> Status st = ReasonCancelled"
  using demo_cancel cancel_takes_effect[where vars = "[''NNF_TEST_ENVIRONMENT'' \<mapsto> ''true'']" and i = 0
      and werr = "Some (PlainErr ''signal: killed'')"]
  unfolding demo_env_def by (metis (no_types, lifting))

text \<open>
  A request that is cancelled before its command has started is never ended: as long as nobody
  deletes it, \<open>Reconcile\<close> returns without an error and without any effect, and the resource keeps a
  state that is not \<^verbatim>\<open>Finished\<close>. The branch of \<open>cancel\<close> that records such a request as cancelled runs
  only for requests that are being deleted.
\<close>

lemma cancel_before_start_pending:
  assumes "e_GetDm E ns n (world s) = Ok d" and "Cancel (dm_Spec d)" and "dm_DeletionTimestamp d = None"
    and "finalizer \<in> set (dm_Finalizers d)" and "StartTime (dm_Status d) = None"
    and "contexts s (dm_Name d) = None" and "State (dm_Status d) \<noteq> TypeFinished"
  shows "Reconcile E (ns, n) s = (Ok (), s)"
  using assms
  by (simp add: Reconcile_def reconcile_object_def reconcile_active_def cancel_def ContainsFinalizer_def deferred_status_def)

lemma cancel_before_start_pending_witness:
  "\<exists>d. Cancel (dm_Spec d) \<and> State (dm_Status d) \<noteq> TypeFinished \<and>
     Reconcile demo_env (DataMovementNamespace, ''dm0'')
       (demo_state (demo_cluster\<lparr>c_cache := [(DataMovementNamespace, ''dm0'') \<mapsto> d]\<rparr>)) =
     (Ok (), demo_state (demo_cluster\<lparr>c_cache := [(DataMovementNamespace, ''dm0'') \<mapsto> d]\<rparr>))"
proof -
  let ?d = "demo_dm\<lparr>dm_Spec := (dm_Spec demo_dm)\<lparr>Cancel := True\<rparr>\<rparr>"
  let ?s = "demo_state (demo_cluster\<lparr>c_cache := [(DataMovementNamespace, ''dm0'') \<mapsto> ?d]\<rparr>)"
  have "e_GetDm demo_env DataMovementNamespace ''dm0'' (world ?s) = Ok ?d"
    by (simp add: demo_env_def demo_state_def lookup_res_def)
  moreover have "State (dm_Status ?d) \<noteq> TypeFinished" by (simp add: demo_dm_def sample_defs TypeFinished_def)
  ultimately show ?thesis
    by (intro exI[of _ ?d] conjI)
       (rule cancel_before_start_pending | simp add: demo_dm_def sample_defs demo_state_def TypeFinished_def)+
qed

section \<open>What gets recorded when the API server answers\<close>

text \<open>A cluster whose next writes succeed, with an up to date cache for one object.\<close>

definition answering :: "cluster \<Rightarrow> string \<times> string \<Rightarrow> NnfDataMovement \<Rightarrow> bool" where
  "answering c k d \<longleftrightarrow> c_faults c = [] \<and> c_dms c k = Some d \<and> c_cache c k = Some d \<and> dm_key d = k"

lemma srv_write_answered:
  assumes "c_faults c = []" and "c_dms c (dm_key dm) = Some cur" and "dm_ResourceVersion cur = dm_ResourceVersion dm"
  shows "srv_write change dm c =
     (Ok ((change cur)\<lparr>dm_ResourceVersion := Suc (c_revision c)\<rparr>),
      c\<lparr>c_revision := Suc (c_revision c), c_dms := (c_dms c)(dm_key dm :=
         if dm_DeletionTimestamp cur \<noteq> None \<and> dm_Finalizers (change cur) = [] then None
         else Some ((change cur)\<lparr>dm_ResourceVersion := Suc (c_revision c)\<rparr>))\<rparr>)"
proof -
  have "c\<lparr>c_faults := []\<rparr> = c" using assms(1) by (cases c) simp
  then show ?thesis using assms by (simp add: srv_write_def srv_apply_def Let_def)
qed

text \<open>
  C17. Once a command has ended, one call of \<open>Reconcile\<close> with an up to date cache and an answering API
  server stores exactly the status the goroutine left, and only then forgets the operation.
\<close>

theorem result_gets_written:
  assumes ans: "answering (world s) (ns, n) d" and live: "dm_DeletionTimestamp d = None"
    and fin: "finalizer \<in> set (dm_Finalizers d)" and e: "contexts s n = Some e" "Result e = Some st"
  shows "\<exists>t cur. Reconcile (cluster_env vars uid) (ns, n) s = (Ok (), t) \<and>
     c_dms (world t) (ns, n) = Some cur \<and> dm_Status cur = st \<and> contexts t = (contexts s)(n := None)"
proof -
  have k: "dm_Name d = n" "dm_key d = (ns, n)" "dm_Namespace d = ns" using ans by (auto simp: answering_def dm_key_def)
  have "dm_key (d\<lparr>dm_Status := st\<rparr>) = (ns, n)" using k by (simp add: dm_key_def)
  then show ?thesis
    using ans live fin e k srv_write_answered[of "world s" "d\<lparr>dm_Status := st\<rparr>" d "put_status (d\<lparr>dm_Status := st\<rparr>)"]
    by (simp add: Reconcile_def reconcile_object_def reconcile_active_def write_result_def deferred_status_def
        ContainsFinalizer_def answering_def lookup_res_def Let_def)
qed

theorem result_gets_written_witness:
  "\<exists>s t cur. Reconcile demo_env (DataMovementNamespace, ''dm0'') s = (Ok (), t) \<and>
     c_dms (world t) (DataMovementNamespace, ''dm0'') = Some cur \<and> Status (dm_Status cur) = ReasonSuccess"
proof -
  let ?st = "empty_status\<lparr>State := TypeFinished, Status := ReasonSuccess\<rparr>"
  let ?s = "(demo_state demo_cluster)\<lparr>contexts := [''dm0'' \<mapsto> \<lparr>Ctx = 0, Result = Some ?st\<rparr>]\<rparr>"
  have "answering (world ?s) (DataMovementNamespace, ''dm0'') demo_dm"
    by (simp add: answering_def demo_defs dm_key_def sample_defs)
  from result_gets_written[OF this, of "\<lparr>Ctx = 0, Result = Some ?st\<rparr>" ?st] show ?thesis
    unfolding demo_env_def by (fastforce simp: demo_dm_def sample_defs)
qed

text \<open>
  C19. Deletion completes: with an up to date cache and an answering server, a request that is being
  deleted and has no running command loses the finalizer in one call of \<open>Reconcile\<close> (two writes if it
  was never started, the first recording it as cancelled), so that it disappears when no one else holds
  it, and its entry is dropped.
\<close>

theorem deletion_completes:
  assumes ans: "answering (world s) (ns, n) d" and del: "dm_DeletionTimestamp d \<noteq> None"
    and fin: "finalizer \<in> set (dm_Finalizers d)" and idle: "contexts s n = None \<or> Result (the (contexts s n)) \<noteq> None"
  shows "\<exists>t. Reconcile (cluster_env vars uid) (ns, n) s = (Ok (), t) \<and> contexts t = (contexts s)(n := None) \<and>
     (if set (dm_Finalizers d) = {finalizer} then c_dms (world t) (ns, n) = None
      else \<exists>cur. c_dms (world t) (ns, n) = Some cur \<and> dm_Finalizers cur = filter (\<lambda>f. f \<noteq> finalizer) (dm_Finalizers d))"
proof -
  let ?E = "cluster_env vars uid"
  let ?fs = "RemoveFinalizer (dm_Finalizers d) finalizer"
  have k: "dm_Name d = n" "dm_key d = (ns, n)" "dm_Namespace d = ns" using ans by (auto simp: answering_def dm_key_def)
  have fs: "?fs = [] \<longleftrightarrow> set (dm_Finalizers d) = {finalizer}"
    using fin by (auto simp: RemoveFinalizer_def filter_empty_conv)
  obtain d1 c1 where c: "cancel ?E d s = (Ok (), d1, s\<lparr>world := c1\<rparr>)" "c_faults c1 = []"
      "c_dms c1 (ns, n) = Some d1" "dm_Finalizers d1 = dm_Finalizers d" "dm_DeletionTimestamp d1 \<noteq> None"
      "dm_Name d1 = n" "dm_Namespace d1 = ns"
  proof (cases "StartTime (dm_Status d) = None")
    case False
    then have "cancel ?E d s = (Ok (), d, s\<lparr>world := world s\<rparr>)"
      using idle k by (auto simp: cancel_def split: option.splits)
    then show ?thesis using that[of d "world s"] ans del k by (simp add: answering_def)
  next
    case True
    let ?dm = "d\<lparr>dm_Status := (dm_Status d)\<lparr>State := TypeFinished, Status := ReasonCancelled,
                 StartTime := Some (c_clock (world s)), EndTime := Some (c_clock (world s))\<rparr>\<rparr>"
    have key: "dm_key ?dm = (ns, n)" using k by (simp add: dm_key_def)
    have "dm_Finalizers d \<noteq> []" using fin by auto
    then have "srv_write (put_status ?dm) ?dm (world s) =
        (Ok (?dm\<lparr>dm_ResourceVersion := Suc (c_revision (world s))\<rparr>),
         (world s)\<lparr>c_revision := Suc (c_revision (world s)),
           c_dms := (c_dms (world s))((ns, n) \<mapsto> ?dm\<lparr>dm_ResourceVersion := Suc (c_revision (world s))\<rparr>)\<rparr>)"
      using ans k key srv_write_answered[of "world s" ?dm d "put_status ?dm"] by (simp add: answering_def)
    then show ?thesis
      using True del ans k
      by (intro that[of "?dm\<lparr>dm_ResourceVersion := Suc (c_revision (world s))\<rparr>"
            "(world s)\<lparr>c_revision := Suc (c_revision (world s)),
             c_dms := (c_dms (world s))((ns, n) \<mapsto> ?dm\<lparr>dm_ResourceVersion := Suc (c_revision (world s))\<rparr>)\<rparr>"])
         (simp_all add: cancel_def answering_def Let_def)
  qed
  have key1: "dm_key (d1\<lparr>dm_Finalizers := ?fs\<rparr>) = (ns, n)" using c by (simp add: dm_key_def)
  let ?t = "drop_context n (s\<lparr>world := c1\<rparr>)"
  have same: "(s\<lparr>world := c1\<rparr>) = ?t" if "contexts s n = None"
    using that by (simp add: drop_context_def fun_upd_idem)
  have "reconcile_deleted ?E d s = update_finalizers ?E ?fs d1 ?t"
    using c idle fin same by (cases "contexts s n") (auto simp: reconcile_deleted_def ContainsFinalizer_def Let_def)
  moreover have "\<exists>d2 c2. update_finalizers ?E ?fs d1 ?t = (Ok (), d2, ?t\<lparr>world := c2\<rparr>) \<and>
      (if ?fs = [] then c_dms c2 (ns, n) = None else \<exists>cur. c_dms c2 (ns, n) = Some cur \<and> dm_Finalizers cur = ?fs)"
    using c key1 srv_write_answered[of c1 "d1\<lparr>dm_Finalizers := ?fs\<rparr>" d1 "put_object (d1\<lparr>dm_Finalizers := ?fs\<rparr>)"]
    by (auto simp: update_finalizers_def Let_def)
  ultimately show ?thesis
    using ans del fs by (fastforce simp: Reconcile_def reconcile_object_def deferred_status_def lookup_res_def
        answering_def RemoveFinalizer_def)
qed

theorem deletion_completes_witness:
  "\<exists>c t. Reconcile demo_env (DataMovementNamespace, ''dm0'') (demo_state c) = (Ok (), t) \<and>
     c_dms c (DataMovementNamespace, ''dm0'') \<noteq> None \<and> c_dms (world t) (DataMovementNamespace, ''dm0'') = None"
proof -
  let ?d = "demo_dm\<lparr>dm_DeletionTimestamp := Some 7\<rparr>" and ?k = "(DataMovementNamespace, ''dm0'')"
  let ?c = "demo_cluster\<lparr>c_dms := [?k \<mapsto> ?d], c_cache := [?k \<mapsto> ?d]\<rparr>"
  have "answering (world (demo_state ?c)) ?k ?d"
    by (simp add: answering_def demo_defs dm_key_def sample_defs)
  moreover have "set (dm_Finalizers ?d) = {finalizer}" by (simp add: demo_dm_def)
  ultimately obtain t where "Reconcile demo_env ?k (demo_state ?c) = (Ok (), t)" "c_dms (world t) ?k = None"
    using deletion_completes[of "demo_state ?c" DataMovementNamespace "''dm0''" ?d "[''NNF_TEST_ENVIRONMENT'' \<mapsto> ''true'']" 0]
    unfolding demo_env_def by (auto simp: demo_state_def)
  then show ?thesis by (intro exI[of _ ?c] exI[of _ t]) (simp add: demo_state_def)
qed

text \<open>A request that is to be started: it holds the finalizer and nothing of it is tracked.\<close>

definition startable :: "'w reconciler \<Rightarrow> string \<Rightarrow> NnfDataMovement \<Rightarrow> bool" where
  "startable s n d \<longleftrightarrow> dm_DeletionTimestamp d = None \<and> finalizer \<in> set (dm_Finalizers d) \<and>
     \<not> Cancel (dm_Spec d) \<and> State (dm_Status d) \<noteq> TypeFinished \<and> contexts s n = None"

definition started_from :: "NnfDataMovement \<Rightarrow> NnfDataMovement" where
  "started_from d = (if State (dm_Status d) = TypeRunning then count_restart d else d)"

lemma reconcile_object_startable:
  assumes "startable s (dm_Name d) d"
  shows "reconcile_object E d s = reconcile_start E (started_from d) s"
  using assms by (simp add: reconcile_object_def reconcile_active_def startable_def started_from_def ContainsFinalizer_def)

lemma started_from_sel [simp]:
  "dm_key (started_from d) = dm_key d" "dm_ResourceVersion (started_from d) = dm_ResourceVersion d"
  "dm_Name (started_from d) = dm_Name d" "dm_Namespace (started_from d) = dm_Namespace d"
  by (simp_all add: started_from_def count_restart_def dm_key_def)

text \<open>
  C15. Whatever goes wrong while a command is prepared (no profile, no storage, no worker, no hostfile,
  no destination), the request ends: it is stored as \<^verbatim>\<open>Finished\<close> and \<^verbatim>\<open>Invalid\<close> with the error and its
  text, the error is returned, and no command is started or tracked. The API server answers, and the cache has the object
  as it is stored.
\<close>

theorem setup_error_recorded:
  assumes ans: "answering (world s) (ns, n) d" and ready: "startable s n d"
    and err: "setup_command (cluster_env vars uid) (started_from d) (world s) = ((Err err, dm1), c1)"
    and up: "c_faults c1 = []"
  shows "\<exists>t cur. Reconcile (cluster_env vars uid) (ns, n) s = (Err err, t) \<and> c_dms (world t) (ns, n) = Some cur \<and>
     State (dm_Status cur) = TypeFinished \<and> Status (dm_Status cur) = ReasonInvalid \<and>
     Message (dm_Status cur) = Error err \<and> ErrorInfo (dm_Status cur) = SetResourceError err \<and>
     contexts t = contexts s \<and> running t = running s"
proof -
  let ?E = "cluster_env vars uid"
  have k: "dm_Name d = n" "dm_key d = (ns, n)" using ans by (auto simp: answering_def dm_key_def)
  note kp = cluster_server.setup_command_keeps[OF err]
  obtain i where i: "err = ResErr i" "Severity i \<noteq> SeverityMinor" using cluster_server.setup_errors_severe[OF err] by blast
  let ?dm = "dm1\<lparr>dm_Status := error_status err (dm_Status dm1)\<rparr>"
  have key: "dm_key ?dm = (ns, n)" "dm_ResourceVersion ?dm = dm_ResourceVersion d" using kp k by (simp_all add: dm_key_def)
  have "c_dms c1 (ns, n) = Some d" using kp(1) ans by (simp add: cluster_api_def answering_def)
  then have w: "srv_write (put_status ?dm) ?dm c1 =
     (Ok (d\<lparr>dm_Status := dm_Status ?dm, dm_ResourceVersion := Suc (c_revision c1)\<rparr>),
      c1\<lparr>c_revision := Suc (c_revision c1),
        c_dms := (c_dms c1)((ns, n) \<mapsto> d\<lparr>dm_Status := dm_Status ?dm, dm_ResourceVersion := Suc (c_revision c1)\<rparr>)\<rparr>)"
    using srv_write_answered[of c1 ?dm d "put_status ?dm"] up key ready by (simp add: startable_def)
  have "reconcile_object ?E d s = (Err err, dm1, s\<lparr>world := c1\<rparr>)"
    using reconcile_object_startable[of s d ?E] ready k err by (simp add: reconcile_start_def)
  then have "Reconcile ?E (ns, n) s = (Err err, s\<lparr>world := c1\<lparr>c_revision := Suc (c_revision c1),
        c_dms := (c_dms c1)((ns, n) \<mapsto> d\<lparr>dm_Status := dm_Status ?dm, dm_ResourceVersion := Suc (c_revision c1)\<rparr>)\<rparr>\<rparr>)"
    using ans w by (simp add: Reconcile_def deferred_status_def lookup_res_def answering_def)
  then show ?thesis using i by (auto simp: error_status_def Let_def)
qed

theorem setup_error_recorded_witness:
  "\<exists>t cur err. Reconcile demo_env (DataMovementNamespace, ''dm0'')
       (demo_state (demo_cluster\<lparr>c_profiles := Map.empty\<rparr>)) = (Err err, t) \<and>
     c_dms (world t) (DataMovementNamespace, ''dm0'') = Some cur \<and> Status (dm_Status cur) = ReasonInvalid"
proof -
  let ?s = "demo_state (demo_cluster\<lparr>c_profiles := Map.empty\<rparr>)" and ?n = "''dm0''"
  have a: "answering (world ?s) (DataMovementNamespace, ?n) demo_dm"
    by (simp add: answering_def demo_defs dm_key_def sample_defs)
  have r: "startable ?s ?n demo_dm"
    by (simp add: startable_def demo_dm_def demo_state_def sample_defs TypeFinished_def)
  have f: "started_from demo_dm = demo_dm" by (simp add: started_from_def demo_dm_def sample_defs TypeRunning_def)
  have "setup_command (cluster_env [''NNF_TEST_ENVIRONMENT'' \<mapsto> ''true''] 0) demo_dm (world ?s) =
      ((Err (major_error ''could not get profile for data movement'' (ApiErr NotFound ''not found'')), demo_dm), world ?s)"
    by (simp add: setup_command_def GetDMProfile_def demo_defs sample_defs lookup_res_def Let_def)
  from setup_error_recorded[OF a r, unfolded f, OF this] show ?thesis
    unfolding demo_env_def by (auto simp: demo_defs)
qed

text \<open>
  A request that is to be started and can be prepared gets started by one call of \<open>Reconcile\<close> with an
  answering server: it is stored as running with the current time as its start time, its command runs
  under a fresh context that is tracked and not cancelled, and a request that the previous pod had
  left running counts one restart more.
\<close>

lemma start_recorded:
  assumes ans: "answering (world s) (ns, n) d" and ready: "startable s n d"
    and set: "setup_command (cluster_env vars uid) (started_from d) (world s) = ((Ok (profile, hostfile, args), dm1), c1)"
    and up: "c_faults c1 = []"
  shows "\<exists>t cur g. Reconcile (cluster_env vars uid) (ns, n) s = (Ok (), t) \<and> c_dms (world t) (ns, n) = Some cur \<and>
     State (dm_Status cur) = TypeRunning \<and> StartTime (dm_Status cur) = Some (c_clock c1) \<and>
     Restarts (dm_Status cur) = Restarts (dm_Status d) + (if State (dm_Status d) = TypeRunning then 1 else 0) \<and>
     contexts t n = Some \<lparr>Ctx = next_ctx s, Result = None\<rparr> \<and> \<not> cancelled t (next_ctx s) \<and>
     running t (next_ctx s) = Some g \<and> run_dm g = cur \<and> dm_key cur = (ns, n) \<and>
     Command (run_cmdStatus g) = ''/bin/bash -c '' @ Join args '' ''"
proof -
  let ?E = "cluster_env vars uid"
  let ?cs = "empty_CommandStatus\<lparr>Command := ''/bin/bash -c '' @ Join args '' ''\<rparr>"
  have k: "dm_Name d = n" "dm_key d = (ns, n)" using ans by (auto simp: answering_def dm_key_def)
  note kp = cluster_server.setup_command_keeps[OF set]
  let ?dm = "dm1\<lparr>dm_Status := (dm_Status dm1)\<lparr>StartTime := Some (c_clock c1), State := TypeRunning,
               CommandStatus := Some ?cs\<rparr>\<rparr>"
  let ?new = "d\<lparr>dm_Status := dm_Status ?dm, dm_ResourceVersion := Suc (c_revision c1)\<rparr>"
  have key: "dm_key ?dm = (ns, n)" "dm_ResourceVersion ?dm = dm_ResourceVersion d" using kp k by (simp_all add: dm_key_def)
  have "c_dms c1 (ns, n) = Some d" using kp(1) ans by (simp add: cluster_api_def answering_def)
  then have w: "srv_write (put_status ?dm) ?dm c1 =
     (Ok ?new, c1\<lparr>c_revision := Suc (c_revision c1), c_dms := (c_dms c1)((ns, n) \<mapsto> ?new)\<rparr>)"
    using srv_write_answered[of c1 ?dm d "put_status ?dm"] up key ready by (simp add: startable_def)
  have "Restarts (dm_Status dm1) = Restarts (dm_Status d) + (if State (dm_Status d) = TypeRunning then 1 else 0)"
    using kp(2) by (simp add: started_from_def count_restart_def)
  moreover have "reconcile_object ?E d s = start_command ?E profile hostfile args dm1 (s\<lparr>world := c1\<rparr>)"
    using reconcile_object_startable[of s d ?E] ready k set by (simp add: reconcile_start_def)
  ultimately show ?thesis
    using ans w k
    by (simp add: Reconcile_def deferred_status_def lookup_res_def answering_def start_command_def Let_def) (simp add: dm_key_def)
qed

lemma start_recorded_witness:
  "\<exists>t cur. Reconcile demo_env (DataMovementNamespace, ''dm0'') (demo_state demo_cluster) = (Ok (), t) \<and>
     c_dms (world t) (DataMovementNamespace, ''dm0'') = Some cur \<and> State (dm_Status cur) = TypeRunning"
proof -
  let ?s = "demo_state demo_cluster" and ?n = "''dm0''"
  have a: "answering (world ?s) (DataMovementNamespace, ?n) demo_dm"
    by (simp add: answering_def demo_defs dm_key_def sample_defs)
  have r: "startable ?s ?n demo_dm"
    by (simp add: startable_def demo_dm_def demo_state_def sample_defs TypeFinished_def)
  have f: "started_from demo_dm = demo_dm" by (simp add: started_from_def demo_dm_def sample_defs TypeRunning_def)
  obtain h fs dirs where "setup_command demo_env demo_dm (world ?s) =
      ((Ok (sample_profile [], h, [''true'']), demo_dm), (world ?s)\<lparr>c_dirs := dirs, c_files := fs\<rparr>)"
    using demo_setup[of "world ?s"] by (auto simp: demo_state_def demo_cluster_def)
  from start_recorded[OF a r, unfolded f, OF this[unfolded demo_env_def]] show ?thesis
    unfolding demo_env_def by (auto simp: demo_defs)
qed

end
