(* ===== verification/Composition.thy ===== *)
theory Composition
  imports Deployed Offload_Mock Dm_Safety
begin

text \<open>
  The copy-offload daemon and the controllers work on the same data movements: the daemon creates its own in the
  data movement namespace or in the namespace of a rabbit, which are the ones that the default and the node
  controller watch, and it sets a movement to running itself. Here the two state machines are put on one cluster.
\<close>

section \<open>Where the daemon's data movements live\<close>

lemma planned_namespace:
  assumes "plan_request E wfName wfNamespace dmreq w = Ok (rabbit, base, profile, dm)"
  shows "dm_Namespace dm = DataMovementNamespace \<or> dm_Namespace dm = rabbit"
  using assms
  by (auto simp: plan_request_def createNnfDataMovement_def createNnfNodeDataMovement_def new_dm_def setUserConfig_def
      AddWorkflowLabels_def AddOwnerLabels_def AddDataMovementTeardownStateLabel_def set_labels_def bind_result_Ok_iff Let_def
      split: if_splits prod.splits)

text \<open>Every data movement that the daemon plans is reconciled by the default controller or by the controller of its rabbit.\<close>

lemma planned_movement_is_watched:
  assumes "plan_request E wfName wfNamespace dmreq w = Ok (rabbit, base, profile, dm)"
    and "dm_main varsp PFp cfgp nmp argsp = Ok p" and "p_Controller p = defaultController"
    and "dm_main varsq PFq cfgq nmq argsq = Ok q" and "p_Controller q = nodeController"
    and "getenv varsq ''NNF_NODE_NAME'' = rabbit"
  shows "reconciles p (dm_Namespace dm) \<or> reconciles q (dm_Namespace dm)"
  using planned_namespace[OF assms(1)] dm_main_Ok[OF assms(2)] dm_main_Ok[OF assms(4)] assms(3,5,6)
  by (auto simp: reconciles_def filterByNamespace_def SetupReconcilers_def default_SetupReconcilers_def node_SetupReconcilers_def)

section \<open>The controller sees the daemon's data movement\<close>

text \<open>The controller's cache has caught up with the API server.\<close>

definition caught_up :: "cluster reconciler \<Rightarrow> cluster reconciler" where
  "caught_up t = t\<lparr>world := (world t)\<lparr>c_cache := c_dms (world t)\<rparr>\<rparr>"

lemma caught_up_sel [simp]:
  "contexts (caught_up t) = contexts t" "running (caught_up t) = running t" "next_ctx (caught_up t) = next_ctx t"
  "c_dms (world (caught_up t)) = c_dms (world t)" "c_cache (world (caught_up t)) = c_dms (world t)"
  "c_faults (world (caught_up t)) = c_faults (world t)" "c_revision (world (caught_up t)) = c_revision (world t)"
  by (simp_all add: caught_up_def)

text \<open>The first reconcile of an object without the finalizer adds it and does nothing else.\<close>

lemma first_reconcile:
  assumes "c_faults (world t) = []" and "c_dms (world t) k = Some d" and "dm_key d = k"
    and "dm_DeletionTimestamp d = None" and "finalizer \<notin> set (dm_Finalizers d)"
  shows "\<exists>v c. Reconcile (cluster_env vars uid) k (caught_up t) =
           (Ok (), (caught_up t)\<lparr>world := c\<rparr>) \<and> c_faults c = [] \<and>
           c_dms c k = Some (d\<lparr>dm_Finalizers := AddFinalizer (dm_Finalizers d) finalizer, dm_ResourceVersion := v\<rparr>)"
proof -
  let ?t = "caught_up t"
  let ?d = "d\<lparr>dm_Finalizers := AddFinalizer (dm_Finalizers d) finalizer\<rparr>"
  have key: "dm_key ?d = k" using assms(3) by (simp add: dm_key_def)
  have "c_dms (world ?t) (dm_key ?d) = Some d" "c_faults (world ?t) = []" using assms(1,2) by (simp_all add: key)
  note answer = srv_write_answered[OF this(2,1), of "put_object ?d"]
  have w: "srv_write (put_object ?d) ?d (world ?t) =
      (Ok ((put_object ?d d)\<lparr>dm_ResourceVersion := Suc (c_revision (world ?t))\<rparr>),
       (world ?t)\<lparr>c_revision := Suc (c_revision (world ?t)), c_dms := (c_dms (world ?t))(k \<mapsto>
          (put_object ?d d)\<lparr>dm_ResourceVersion := Suc (c_revision (world ?t))\<rparr>)\<rparr>)"
    using answer unfolding key by (simp add: assms(4))
  have "\<not> ContainsFinalizer (dm_Finalizers d) finalizer" using assms(5) by (simp add: ContainsFinalizer_def)
  then have "Reconcile (cluster_env vars uid) k ?t = (Ok (), ?t\<lparr>world := snd (srv_write (put_object ?d) ?d (world ?t))\<rparr>)"
    using assms(2,4) w
    by (simp add: Reconcile_def lookup_res_def reconcile_object_def update_finalizers_def deferred_status_def Let_def)
  then show ?thesis
    using w assms(1)
    by (intro exI[of _ "Suc (c_revision (world t))"] exI[of _ "snd (srv_write (put_object ?d) ?d (world ?t))"]) simp
qed

text \<open>The controller after it has reconciled the object once, with its cache caught up before and after.\<close>

definition look_again :: "(string \<Rightarrow> string option) \<Rightarrow> nat \<Rightarrow> string \<times> string \<Rightarrow> cluster reconciler \<Rightarrow> cluster reconciler" where
  "look_again vars uid k t = caught_up (snd (Reconcile (cluster_env vars uid) k (caught_up t)))"

text \<open>
  C12. A copy of the daemon is started a second time by the controller that watches its namespace: the daemon stores
  the data movement as running when it starts the command, and the controller takes a running data movement that it
  does not track for one whose command ended with the previous pod. On an answering server, the controller first
  adds its finalizer and then, if it can prepare a command, starts it and counts a restart, while the command of
  the daemon is running.
\<close>

theorem offload_copy_started_again:
  assumes "\<not> Mock s" and "Drive (offload_cluster_env ovars ouid) r dm s = (Ok (), s')"
    and "stored_keys (offload_store (drv_world s))" and "offload_store (drv_world s') (dm_key dm) = Some d"
    and "dm_DeletionTimestamp d = None" and "\<not> Cancel (dm_Spec d)" and "finalizer \<notin> set (dm_Finalizers d)"
    and "world t = ow_cluster (drv_world s')" and "c_faults (world t) = []" and "contexts t (dm_Name dm) = None"
    and "c_dms (world (look_again vars uid (dm_key dm) t)) (dm_key dm) = Some d1"
    and "setup_command (cluster_env vars uid) (count_restart d1) (world (look_again vars uid (dm_key dm) t)) =
           ((Ok (profile, hostfile, args), dm1), c1)" and "c_faults c1 = []"
  shows "\<exists>t2 g cur i run. Reconcile (cluster_env vars uid) (dm_key dm) (look_again vars uid (dm_key dm) t) = (Ok (), t2) \<and>
    running t2 (next_ctx t) = Some g \<and> dm_key (run_dm g) = dm_key dm \<and>
    Command (run_cmdStatus g) = ''/bin/bash -c '' @ Join args '' '' \<and>
    c_dms (world t2) (dm_key dm) = Some cur \<and> Restarts (dm_Status cur) = Restarts (dm_Status d) + 1 \<and>
    drv_running s' i = Some run \<and> dm_key (or_dm run) = dm_key dm"
proof -
  let ?E = "cluster_env vars uid" and ?k = "dm_key dm"
  obtain ns n where kn: "?k = (ns, n)" "n = dm_Name dm" by (simp add: dm_key_def)
  have dk: "dm_key d = ?k" "State (dm_Status d) = TypeRunning"
    using Drive_stored(1)[OF assms(1-4)] by (auto simp: start_status_def dm_key_def)
  obtain i run where run: "drv_running s' i = Some run" "or_dm run = dm" using Drive_stored(2)[OF assms(1-4)] by blast
  have "c_dms (world t) ?k = Some d" using assms(4,8) by (simp add: offload_store_def)
  from first_reconcile[OF assms(9) this dk(1) assms(5,7), of vars uid] obtain v c where
    c: "Reconcile ?E ?k (caught_up t) = (Ok (), (caught_up t)\<lparr>world := c\<rparr>)" "c_faults c = []"
      "c_dms c ?k = Some (d\<lparr>dm_Finalizers := AddFinalizer (dm_Finalizers d) finalizer, dm_ResourceVersion := v\<rparr>)"
    by blast
  let ?t1 = "look_again vars uid ?k t"
  have t1: "?t1 = caught_up ((caught_up t)\<lparr>world := c\<rparr>)" by (simp add: look_again_def c(1))
  have d1: "d1 = d\<lparr>dm_Finalizers := AddFinalizer (dm_Finalizers d) finalizer, dm_ResourceVersion := v\<rparr>"
    using assms(11) c(3) by (simp add: t1)
  have ans: "answering (world ?t1) (ns, n) d1"
    using c(2,3) dk(1) unfolding kn(1) t1[unfolded kn(1)] by (simp add: answering_def d1) (simp add: dm_key_def)
  have ready: "startable ?t1 n d1"
    using assms(5,6,10) dk(2) unfolding kn(2) t1 by (auto simp: startable_def d1 AddFinalizer_def condition_defs)
  have restart: "started_from d1 = count_restart d1" using dk(2) by (simp add: started_from_def d1)
  from start_recorded[OF ans ready, unfolded restart, OF assms(12,13)] obtain t2 cur g where
    t2: "Reconcile ?E (ns, n) ?t1 = (Ok (), t2)" "c_dms (world t2) (ns, n) = Some cur"
      "Restarts (dm_Status cur) = Restarts (dm_Status d1) + 1" "running t2 (next_ctx ?t1) = Some g" "run_dm g = cur" "dm_key cur = (ns, n)"
      "Command (run_cmdStatus g) = ''/bin/bash -c '' @ Join args '' ''"
    using dk(2) by (auto simp: d1)
  have "next_ctx ?t1 = next_ctx t" "Restarts (dm_Status d1) = Restarts (dm_Status d)" by (simp_all add: t1 d1)
  moreover have "dm_key (or_dm run) = ?k" using run(2) by simp
  ultimately show ?thesis using t2 run(1) unfolding kn(1) by auto
qed

text \<open>The request of the example on a cluster with a profile, and the controller of the rabbit.\<close>

definition shared_driver :: "offload_world driver" where
  "shared_driver = demo_driver\<lparr>drv_world := demo_world\<lparr>ow_cluster := (ow_cluster demo_world)\<lparr>
     c_profiles := [(''nnf-system'', ''obj'') \<mapsto> sample_profile []]\<rparr>\<rparr>\<rparr>"

definition shared_s1 :: "offload_world driver" where
  "shared_s1 = snd (Create offload_env0 demo_request shared_driver)"

definition shared_s2 :: "offload_world driver" where
  "shared_s2 = snd (Drive offload_env0 (fst demo_pair) (snd demo_pair) shared_s1)"

definition node_vars :: "string \<Rightarrow> string option" where
  "node_vars = [''NNF_NODE_NAME'' \<mapsto> ''rabbit-0'']"

definition node_state :: "cluster reconciler" where
  "node_state = demo_state (ow_cluster (drv_world shared_s2))"

theorem offload_copy_started_again_witness:
  "\<exists>t2 g. Reconcile (cluster_env node_vars 0) demo_key (look_again node_vars 0 demo_key node_state) = (Ok (), t2) \<and>
     running t2 0 = Some g \<and> dm_key (run_dm g) = demo_key \<and> drv_running shared_s2 0 \<noteq> None"
proof -
  let ?E = "cluster_env node_vars 0" and ?dm = "snd demo_pair"
  have key: "dm_key ?dm = demo_key" "dm_Name ?dm = ''nnf-copy-offload-node-0''" by code_simp+
  have mode: "\<not> Mock shared_s1" by code_simp
  have ok: "fst (Drive offload_env0 (fst demo_pair) ?dm shared_s1) = Ok ()" by code_simp
  have "stored_keys (offload_store (drv_world shared_driver))"
    by (simp add: shared_driver_def demo_world_def empty_cluster_def stored_keys_def offload_store_def)
  then have keys: "stored_keys (offload_store (drv_world shared_s1))"
    unfolding shared_s1_def by (rule store_change_keys[OF offload_server.Create_stores[OF prod.collapse[symmetric]]])
  have "(case c_dms (ow_cluster (drv_world shared_s2)) demo_key of None \<Rightarrow> False
         | Some d \<Rightarrow> dm_DeletionTimestamp d = None \<and> \<not> Cancel (dm_Spec d) \<and> finalizer \<notin> set (dm_Finalizers d))" by code_simp
  then obtain d where d: "offload_store (drv_world shared_s2) demo_key = Some d" "dm_DeletionTimestamp d = None"
      "\<not> Cancel (dm_Spec d)" "finalizer \<notin> set (dm_Finalizers d)"
    by (auto simp: offload_store_def split: option.splits)
  have t: "world node_state = ow_cluster (drv_world shared_s2)" "contexts node_state (dm_Name ?dm) = None" "next_ctx node_state = 0"
    by (simp_all add: node_state_def demo_state_def)
  have faults: "c_faults (world node_state) = []" by code_simp
  let ?t1 = "look_again node_vars 0 demo_key node_state"
  have "(case c_dms (world ?t1) demo_key of None \<Rightarrow> False
         | Some d1 \<Rightarrow> (case setup_command ?E (count_restart d1) (world ?t1) of
              ((Ok _, _), c1) \<Rightarrow> c_faults c1 = [] | _ \<Rightarrow> False))" by code_simp
  then obtain d1 profile hostfile args dm1 c1 where
      set: "c_dms (world ?t1) demo_key = Some d1"
      "setup_command ?E (count_restart d1) (world ?t1) = ((Ok (profile, hostfile, args), dm1), c1)" "c_faults c1 = []"
    by (auto split: option.splits result.splits prod.splits)
  have "drv_running shared_s2 0 \<noteq> None" by code_simp
  with offload_copy_started_again[OF mode pair_of_fst[OF ok] keys _ d(2-4) _ faults t(2), of node_vars 0, unfolded key,
      OF d(1)[unfolded shared_s2_def] t(1)[unfolded shared_s2_def] set] t(3)
  show ?thesis by auto
qed

end
