(* ===== verification/Dm_Manager_Cached.thy ===== *)
theory Dm_Manager_Cached
  imports Dm_Manager_Results
begin

text \<open>
  The client of the manager reads from the caches of its informers, which may be behind the server and need not show
  the manager's own writes (\<^verbatim>\<open>mgr.GetClient()\<close> in \<^verbatim>\<open>cmd/main.go\<close>). What the manager guarantees with any caches is stated
  here. When the informers keep up, a reconcile is one with current reads, so that \<open>Dm_Manager_Results\<close> and
  \<open>Dm_Manager_Converges\<close> apply; when they do not, a file system can be released that the workers still mount.
\<close>

section \<open>Reading from caches\<close>

text \<open>
  The client as the manager has it: reads come from the caches of its informers (\<open>cw_Cache\<close>), writes go to the server.
  \<open>cw_Events\<close> is what the informers will hold before each of the next reads. These states are arbitrary; in
  particular each kind of object may be as old as it likes, and the manager's own writes need not be in them. When
  there are none left, the informers have caught up.
\<close>

record cached_world =
  cw_Server :: manager_world
  cw_Cache :: manager_world
  cw_Events :: "manager_world list"

definition catch_up :: "cached_world \<Rightarrow> cached_world" where
  "catch_up w =
     (case cw_Events w of
        [] \<Rightarrow> w\<lparr>cw_Cache := cw_Server w\<rparr>
      | c # es \<Rightarrow> w\<lparr>cw_Cache := c, cw_Events := es\<rparr>)"

definition on_server :: "(manager_world \<Rightarrow> 'r \<times> manager_world) \<Rightarrow> cached_world \<Rightarrow> 'r \<times> cached_world" where
  "on_server f w = (case f (cw_Server w) of (r, s) \<Rightarrow> (r, w\<lparr>cw_Server := s\<rparr>))"

definition cached_client :: "('o, manager_world) client \<Rightarrow> ('o, cached_world) client" where
  "cached_client c =
     \<lparr>cl_Get = (\<lambda>ns n w. cl_Get c ns n (cw_Cache w)), cl_Create = (\<lambda>obj. on_server (cl_Create c obj)),
      cl_Update = (\<lambda>old obj. on_server (cl_Update c old obj))\<rparr>"

definition manager_cached_env :: "(string \<Rightarrow> string) \<Rightarrow> string \<times> string \<Rightarrow> cached_world manager_env" where
  "manager_cached_env vars keys =
     (let E = manager_cluster_env vars keys
      in \<lparr>g_Getenv = vars,
          g_Sync = catch_up,
          g_GetManager = (\<lambda>ns n w. g_GetManager E ns n (cw_Cache w)),
          g_UpdateManagerStatus = (\<lambda>old m. on_server (g_UpdateManagerStatus E old m)),
          g_NewKeys = on_server (g_NewKeys E),
          g_Secrets = cached_client (g_Secrets E),
          g_Deployments = cached_client (g_Deployments E),
          g_Services = cached_client (g_Services E),
          g_DaemonSets = cached_client (g_DaemonSets E),
          g_ListLustre = (\<lambda>w. g_ListLustre E (cw_Cache w)),
          g_UpdateLustre = (\<lambda>old fs. on_server (g_UpdateLustre E old fs))\<rparr>)"

lemma cached_env_sel [simp]:
  "g_Getenv (manager_cached_env vars keys) = vars"
  "g_Sync (manager_cached_env vars keys) = catch_up"
  "g_GetManager (manager_cached_env vars keys) ns n cw = lookup_res (stored_manager (cw_Cache cw)) (ns, n)"
  "g_UpdateManagerStatus (manager_cached_env vars keys) m0 m = on_server (g_UpdateManagerStatus (manager_cluster_env vars keys) m0 m)"
  "g_NewKeys (manager_cached_env vars keys) = on_server (g_NewKeys (manager_cluster_env vars keys))"
  "g_Secrets (manager_cached_env vars keys) = cached_client (g_Secrets (manager_cluster_env vars keys))"
  "g_Deployments (manager_cached_env vars keys) = cached_client (g_Deployments (manager_cluster_env vars keys))"
  "g_Services (manager_cached_env vars keys) = cached_client (g_Services (manager_cluster_env vars keys))"
  "g_DaemonSets (manager_cached_env vars keys) = cached_client (g_DaemonSets (manager_cluster_env vars keys))"
  "g_ListLustre (manager_cached_env vars keys) cw = g_ListLustre (manager_cluster_env vars keys) (cw_Cache cw)"
  "g_UpdateLustre (manager_cached_env vars keys) old fs = on_server (g_UpdateLustre (manager_cluster_env vars keys) old fs)"
  by (simp_all add: manager_cached_env_def Let_def)

lemma catch_up_server [simp]: "cw_Server (catch_up w) = cw_Server w"
  by (simp add: catch_up_def split: list.split)

lemma on_server_server: "cw_Server (snd (on_server f w)) = snd (f (cw_Server w))"
  by (simp add: on_server_def split: prod.split)

lemma on_server_cases: "on_server f w = (r, w') \<Longrightarrow> f (cw_Server w) = (r, cw_Server w')"
  by (auto simp: on_server_def split: prod.splits)

lemma cached_client_writes:
  "cw_Server (snd (cl_Create (cached_client c) obj w)) = snd (cl_Create c obj (cw_Server w))"
  "cw_Server (snd (cl_Update (cached_client c) old obj w)) = snd (cl_Update c old obj (cw_Server w))"
  by (simp_all add: cached_client_def on_server_server)

lemma cached_client_Get [simp]: "cl_Get (cached_client c) ns n w = cl_Get c ns n (cw_Cache w)"
  by (simp add: cached_client_def)

text \<open>What holds of every write to the server holds of the writes of the cached client.\<close>

interpretation cached_lustre: lustre_server "manager_cached_env vars keys" "\<lambda>w. stored_lustre (cw_Server w)"
proof
  fix old fs w r w'
  assume "g_UpdateLustre (manager_cached_env vars keys) old fs w = (r, w')"
  then have "g_UpdateLustre (manager_cluster_env vars keys) old fs (cw_Server w) = (r, cw_Server w')"
    unfolding cached_env_sel by (rule on_server_cases)
  then show "stored_lustre (cw_Server w) (lus_key fs) = Some old \<and>
        stored_lustre (cw_Server w') = put_lustre fs (stored_lustre (cw_Server w)) \<or>
      (\<exists>e. r = Err e) \<and> stored_lustre (cw_Server w') = stored_lustre (cw_Server w)"
    by (rule mgr_lustre.update_lustre)
qed (simp_all add: cached_client_writes on_server_server table_client_keeps update_call_keeps)

interpretation cached_status: status_server "manager_cached_env vars keys" "\<lambda>w. stored_manager (cw_Server w)"
proof
  fix m0 m w r w'
  assume "g_UpdateManagerStatus (manager_cached_env vars keys) m0 m w = (r, w')"
  then have "g_UpdateManagerStatus (manager_cluster_env vars keys) m0 m (cw_Server w) = (r, cw_Server w')"
    unfolding cached_env_sel by (rule on_server_cases)
  then show "stored_manager (cw_Server w) (mgr_Namespace m, mgr_Name m) = Some m0 \<and>
        stored_manager (cw_Server w') = put_ready m (stored_manager (cw_Server w)) \<or>
      (\<exists>e. r = Err e) \<and> stored_manager (cw_Server w') = stored_manager (cw_Server w)"
    by (rule mgr_status.update_status)
qed (auto simp: cached_client_writes on_server_server table_client_keeps update_call_keeps lookup_res_def
     stored_manager_def stored_def split: option.splits if_splits)

section \<open>Informers that keep up\<close>

text \<open>
  A part of the reconcile in the two readings: when no events are waiting, the cached one does to the server what the
  current one does.
\<close>

definition agrees :: "(cached_world \<Rightarrow> 'r \<times> cached_world) \<Rightarrow> (manager_world \<Rightarrow> 'r \<times> manager_world) \<Rightarrow> bool" where
  "agrees f g \<longleftrightarrow> (\<forall>w. cw_Events w = [] \<longrightarrow> cw_Events (snd (f w)) = [] \<and> map_prod id cw_Server (f w) = g (cw_Server w))"

lemma agreesI:
  assumes "\<And>w. cw_Events w = [] \<Longrightarrow> cw_Events (snd (f w)) = [] \<and> map_prod id cw_Server (f w) = g (cw_Server w)"
  shows "agrees f g"
  using assms by (simp add: agrees_def)

lemma agreesD:
  assumes "agrees f g" and "cw_Events w = []" and "f w = (r, w')"
  shows "g (cw_Server w) = (r, cw_Server w')" "cw_Events w' = []"
  using assms unfolding agrees_def by (metis map_prod_simp id_apply snd_conv)+

lemma agrees_return: "agrees (\<lambda>w. (r, w)) (\<lambda>w. (r, w))"
  by (simp add: agrees_def)

lemma agrees_server: "agrees (on_server f) f"
  by (simp add: agrees_def on_server_def split: prod.split)

lemma agrees_bind:
  assumes "agrees f g" and "\<And>r. agrees (F r) (G r)"
  shows "agrees (\<lambda>w. case f w of (r, w') \<Rightarrow> F r w') (\<lambda>w. case g w of (r, w') \<Rightarrow> G r w')"
proof (rule agreesI)
  fix w :: cached_world assume e: "cw_Events w = []"
  obtain r w' where f: "f w = (r, w')" by fastforce
  show "cw_Events (snd (case f w of (r, w') \<Rightarrow> F r w')) = [] \<and>
      map_prod id cw_Server (case f w of (r, w') \<Rightarrow> F r w') = (case g (cw_Server w) of (r, w') \<Rightarrow> G r w')"
    using agreesD[OF assms(1) e f] assms(2)[of r] f by (simp add: agrees_def)
qed

text \<open>A read after the informers have caught up.\<close>

lemma catch_up_now: "cw_Events w = [] \<Longrightarrow> catch_up w = w\<lparr>cw_Cache := cw_Server w\<rparr>"
  by (simp add: catch_up_def)

lemma agrees_read:
  assumes "\<And>c. agrees (F c) (G c)"
  shows "agrees (\<lambda>w. F (cw_Cache (catch_up w)) (catch_up w)) (\<lambda>w. G w w)"
  using assms by (simp add: agrees_def catch_up_now)

lemma agrees_update_lustres: "agrees (update_lustres (manager_cached_env vars keys) fss) (update_lustres (manager_cluster_env vars keys) fss)"
proof (induction fss)
  case Nil
  then show ?case by (simp add: agrees_def)
next
  case (Cons p fss)
  obtain old fs where p: "p = (old, fs)" by (cases p)
  have "agrees (\<lambda>w. case g_UpdateLustre (manager_cached_env vars keys) old fs w of (r, w') \<Rightarrow>
      (case r of Ok _ \<Rightarrow> update_lustres (manager_cached_env vars keys) fss w' | Err err \<Rightarrow> (Err err, w') | Panic \<Rightarrow> (Panic, w')))
    (\<lambda>w. case g_UpdateLustre (manager_cluster_env vars keys) old fs w of (r, w') \<Rightarrow>
      (case r of Ok _ \<Rightarrow> update_lustres (manager_cluster_env vars keys) fss w' | Err err \<Rightarrow> (Err err, w') | Panic \<Rightarrow> (Panic, w')))"
  proof (rule agrees_bind)
    show "agrees (g_UpdateLustre (manager_cached_env vars keys) old fs) (g_UpdateLustre (manager_cluster_env vars keys) old fs)"
      unfolding cached_env_sel by (rule agrees_server)
    fix r :: "unit res"
    show "agrees (\<lambda>w'. case r of Ok _ \<Rightarrow> update_lustres (manager_cached_env vars keys) fss w' | Err err \<Rightarrow> (Err err, w') | Panic \<Rightarrow> (Panic, w'))
      (\<lambda>w'. case r of Ok _ \<Rightarrow> update_lustres (manager_cluster_env vars keys) fss w' | Err err \<Rightarrow> (Err err, w') | Panic \<Rightarrow> (Panic, w'))"
      using Cons.IH by (cases r) (simp_all add: agrees_return)
  qed
  then show ?case unfolding p agrees_def update_lustres.simps .
qed

lemma CreateOrUpdate_current:
  assumes "cw_Events w = []" and "cw_Cache w = cw_Server w"
  shows "cw_Events (snd (CreateOrUpdate (cached_client c) ns n new f w)) = [] \<and>
    map_prod id cw_Server (CreateOrUpdate (cached_client c) ns n new f w) = CreateOrUpdate c ns n new f (cw_Server w)"
  using assms by (simp add: CreateOrUpdate_def cached_client_def on_server_def split: result.split prod.split)

lemma same_podSpec: "mutate_daemonset (manager_cached_env vars keys) = mutate_daemonset (manager_cluster_env vars keys)"
  by (intro ext) (simp add: mutate_daemonset_def worker_podSpec_def)

lemma agrees_steps: "list_all2 agrees (manager_steps (manager_cached_env vars keys) manager) (manager_steps (manager_cluster_env vars keys) manager)"
proof -
  let ?C = "manager_cached_env vars keys" and ?E = "manager_cluster_env vars keys"
  note current = CreateOrUpdate_current[where w = "w\<lparr>cw_Cache := cw_Server w\<rparr>" for w]
  note updates = agrees_update_lustres[unfolded agrees_def, rule_format, where w = "w\<lparr>cw_Cache := cw_Server w\<rparr>" for w]
  have "agrees (createSecretIfNecessary ?C manager) (createSecretIfNecessary ?E manager)"
    by (rule agreesI) (simp add: createSecretIfNecessary_def Let_def catch_up_now cached_client_def on_server_def split: result.split prod.split)
  moreover have "agrees (createOrUpdateDeploymentIfNecessary ?C manager) (createOrUpdateDeploymentIfNecessary ?E manager)"
    by (rule agreesI) (simp add: createOrUpdateDeploymentIfNecessary_def Let_def catch_up_now current split: result.split)
  moreover have "agrees (createOrUpdateServiceIfNecessary ?C manager) (createOrUpdateServiceIfNecessary ?E manager)"
    by (rule agreesI) (simp add: createOrUpdateServiceIfNecessary_def catch_up_now current)
  moreover have "agrees (createOrUpdateDaemonSetIfNecessary ?C manager) (createOrUpdateDaemonSetIfNecessary ?E manager)"
    by (rule agreesI) (simp add: createOrUpdateDaemonSetIfNecessary_def list_lustre_def Let_def catch_up_now current same_podSpec split: result.split)
  moreover have "agrees (updateLustreFileSystemsIfNecessary ?C manager) (updateLustreFileSystemsIfNecessary ?E manager)"
    by (rule agreesI) (simp add: updateLustreFileSystemsIfNecessary_def list_lustre_def Let_def catch_up_now updates)
  moreover have "agrees (removeLustreFileSystemsFinalizersIfNecessary ?C manager) (removeLustreFileSystemsFinalizersIfNecessary ?E manager)"
    by (rule agreesI) (simp add: removeLustreFileSystemsFinalizersIfNecessary_def isDaemonSetReady_def list_lustre_def Let_def catch_up_now updates
        split: result.split bool.split)
  ultimately show ?thesis by (simp add: manager_steps_def)
qed

lemma run_steps_bind:
  "run_steps (f # fs) = (\<lambda>w. case f w of (r, w') \<Rightarrow> (case r of Ok _ \<Rightarrow> run_steps fs w' | _ \<Rightarrow> (r, w')))"
  by (intro ext) (simp split: prod.split result.split)

lemma agrees_run: "list_all2 agrees fs gs \<Longrightarrow> agrees (run_steps fs) (run_steps gs)"
proof (induction fs gs rule: list_all2_induct)
  case (Cons f fs g gs)
  have "agrees (\<lambda>w. case f w of (r, w') \<Rightarrow> (case r of Ok _ \<Rightarrow> run_steps fs w' | _ \<Rightarrow> (r, w')))
      (\<lambda>w. case g w of (r, w') \<Rightarrow> (case r of Ok _ \<Rightarrow> run_steps gs w' | _ \<Rightarrow> (r, w')))"
  proof (rule agrees_bind)
    show "agrees (\<lambda>w'. case r of Ok _ \<Rightarrow> run_steps fs w' | _ \<Rightarrow> (r, w')) (\<lambda>w'. case r of Ok _ \<Rightarrow> run_steps gs w' | _ \<Rightarrow> (r, w'))"
      for r :: "unit res"
      using Cons.IH by (cases r) (simp_all add: agrees_return)
  qed (rule Cons.hyps)
  then show ?case by (simp only: run_steps_bind)
qed (simp add: agrees_def)

text \<open>With informers that keep up, a reconcile does to the server what the reconcile with current reads does.\<close>

lemma caught_up_reconcile:
  assumes "cw_Events w = []" and "Manager_Reconcile (manager_cached_env vars keys) req w = (r, w')"
  shows "Manager_Reconcile (manager_cluster_env vars keys) req (cw_Server w) = (r, cw_Server w')"
proof -
  let ?C = "manager_cached_env vars keys" and ?E = "manager_cluster_env vars keys"
  have close: "agrees (close_status ?C old m rr) (close_status ?E old m rr)" for old m rr
    by (rule agreesI) (simp add: close_status_def on_server_def split: prod.split result.split)
  have ready: "agrees (\<lambda>w. case isDaemonSetReady ?C m (catch_up w) of
        Panic \<Rightarrow> (Panic, catch_up w)
      | Err err \<Rightarrow> (case errorHandler m err of (r, m') \<Rightarrow> close_status ?C m m' r (catch_up w))
      | Ok ready \<Rightarrow> close_status ?C m (m\<lparr>Ready := ready\<rparr>) (Ok False) (catch_up w))
    (\<lambda>w. case isDaemonSetReady ?E m w of
        Panic \<Rightarrow> (Panic, w)
      | Err err \<Rightarrow> (case errorHandler m err of (r, m') \<Rightarrow> close_status ?E m m' r w)
      | Ok ready \<Rightarrow> close_status ?E m (m\<lparr>Ready := ready\<rparr>) (Ok False) w)" for m
    using close unfolding agrees_def
    by (simp add: isDaemonSetReady_def catch_up_now del: manager_env_sel(9) split: result.split prod.split)
  have e0: "cw_Events (catch_up w) = []" "cw_Cache (catch_up w) = cw_Server w" using assms(1) by (simp_all add: catch_up_now)
  show ?thesis
  proof (cases "stored_manager (cw_Server w) req")
    case None
    then show ?thesis using assms(2) e0 by (auto simp: Manager_Reconcile_def Let_def lookup_res_def IgnoreNotFound_def)
  next
    case (Some m)
    obtain rs w1 where rs: "run_steps (manager_steps ?C m) (catch_up w) = (rs, w1)" by fastforce
    have run: "run_steps (manager_steps ?E m) (cw_Server w) = (rs, cw_Server w1)" "cw_Events w1 = []"
      using agreesD[OF agrees_run[OF agrees_steps] e0(1) rs] by simp_all
    have m: "g_GetManager ?C (fst req) (snd req) (catch_up w) = Ok m" "g_GetManager ?E (fst req) (snd req) (cw_Server w) = Ok m"
      using Some e0(2) by (simp_all add: lookup_res_def)
    show ?thesis
    proof (cases rs)
      case (Ok u)
      then show ?thesis
        using assms(2) rs run(1) m agreesD(1)[OF ready run(2)] unfolding Manager_Reconcile_def Let_def sync_current cached_env_sel(2)
        by (simp del: manager_env_sel cached_env_sel)
    next
      case (Err err)
      obtain er m' where h: "errorHandler m err = (er, m')" by fastforce
      then show ?thesis
        using Err assms(2) rs run(1) m agreesD(1)[OF close run(2)] unfolding Manager_Reconcile_def Let_def sync_current cached_env_sel(2)
        by (simp del: manager_env_sel cached_env_sel)
    next
      case Panic
      then show ?thesis
        using assms(2) rs run(1) m unfolding Manager_Reconcile_def Let_def sync_current cached_env_sel(2)
        by (simp del: manager_env_sel cached_env_sel)
    qed
  qed
qed

section \<open>What the manager guarantees\<close>

text \<open>The worker daemon set as it is stored, and as a read of the cached client shows it.\<close>

definition stored_workers :: "NnfDataMovementManager \<Rightarrow> cached_world \<Rightarrow> DaemonSet option" where
  "stored_workers manager w = stored ds_key (mw_DaemonSets (cw_Server w)) (mgr_Namespace manager, daemonsetName)"

definition shown_workers :: "NnfDataMovementManager \<Rightarrow> cached_world \<Rightarrow> DaemonSet option" where
  "shown_workers manager w = stored ds_key (mw_DaemonSets (cw_Cache w)) (mgr_Namespace manager, daemonsetName)"

lemma lookup_res_Ok [simp]: "lookup_res m k = Ok v \<longleftrightarrow> m k = Some v"
  by (simp add: lookup_res_def split: option.split)

lemma cached_workers [simp]:
  "cl_Get (g_DaemonSets (manager_cluster_env vars keys)) (mgr_Namespace manager) daemonsetName (cw_Cache w) =
     lookup_res (\<lambda>_. shown_workers manager w) ()"
  by (simp add: table_client_def shown_workers_def lookup_res_def)

text \<open>
  C4. A reconcile of the manager takes its finalizer from a Lustre file system only if the file system is being
  deleted on the server, the worker daemon set it has read has no volume of its name, and the daemon set it has read
  after that is fully rolled out. All five steps before the release had succeeded. This holds for every order of
  failing writes and whatever the caches held at each read. When the caches were current for the daemon set at these
  two reads, it is the stored daemon set that is rolled out without the file system.
\<close>

theorem lustre_released_after_rollout:
  assumes "Manager_Reconcile (manager_cached_env vars keys) req w = (r, w')"
    and "held (stored_lustre (cw_Server w)) k" and "\<not> held (stored_lustre (cw_Server w')) k"
  shows "\<exists>manager w5 w6 w7 fs ds ds'. stored_manager (cw_Cache (catch_up w)) req = Some manager \<and>
    run_steps (take 5 (manager_steps (manager_cached_env vars keys) manager)) (catch_up w) = (Ok (), w5) \<and>
    stored_lustre (cw_Server w5) k = Some fs \<and> lus_DeletionTimestamp fs \<noteq> None \<and>
    w6 = catch_up (catch_up w5) \<and> shown_workers manager w6 = Some ds \<and>
    lus_Name fs \<notin> set (map vol_Name (Volumes (ds_PodSpec ds))) \<and>
    w7 = catch_up w6 \<and> shown_workers manager w7 = Some ds' \<and> ds_ready ds' \<and>
    (shown_workers manager w6 = stored_workers manager w6 \<and> shown_workers manager w7 = stored_workers manager w7 \<longrightarrow>
       stored_workers manager w5 = Some ds \<and> ds_ready ds)"
proof -
  obtain manager w5 fs ds ds' where *: "stored_manager (cw_Cache (catch_up w)) req = Some manager"
      "run_steps (take 5 (manager_steps (manager_cached_env vars keys) manager)) (catch_up w) = (Ok (), w5)"
      "stored_lustre (cw_Server w5) k = Some fs" "lus_DeletionTimestamp fs \<noteq> None"
      "shown_workers manager (catch_up (catch_up w5)) = Some ds" "lus_Name fs \<notin> set (map vol_Name (Volumes (ds_PodSpec ds)))"
      "shown_workers manager (catch_up (catch_up (catch_up w5))) = Some ds'" "ds_ready ds'"
    using cached_lustre.reconcile_release[OF assms] unfolding cached_env_sel cached_client_Get cached_workers by auto
  have "stored_workers manager (catch_up v) = stored_workers manager v" for v by (simp add: stored_workers_def)
  then have "stored_workers manager w5 = Some ds \<and> ds_ready ds"
    if "shown_workers manager (catch_up (catch_up w5)) = stored_workers manager (catch_up (catch_up w5))"
      "shown_workers manager (catch_up (catch_up (catch_up w5))) = stored_workers manager (catch_up (catch_up (catch_up w5)))"
    using that *(5,7,8) by (metis option.inject)
  then show ?thesis using * by blast
qed

text \<open>
  C23. The manager becomes ready only when every step of the reconcile succeeded, the manager it had read is the
  stored one, and the worker daemon set it has read at the end is rolled out: its generation is observed, at least
  one pod is scheduled, and all are updated and ready. This holds whatever the caches held at each read; when they
  were current for the daemon set at the last one, the stored daemon set is rolled out.
\<close>

theorem manager_ready_sound:
  assumes "Manager_Reconcile (manager_cached_env vars keys) req w = (r, w')"
    and "stored_manager (cw_Server w) req = Some old" "\<not> Ready old"
    and "stored_manager (cw_Server w') req = Some new" "Ready new"
  shows "\<exists>w1 ds. stored_manager (cw_Cache (catch_up w)) req = Some old \<and>
    run_steps (manager_steps (manager_cached_env vars keys) old) (catch_up w) = (Ok (), w1) \<and>
    shown_workers old (catch_up w1) = Some ds \<and>
    ObservedGeneration ds = Generation ds \<and> 1 \<le> DesiredNumberScheduled ds \<and>
    UpdatedNumberScheduled ds = DesiredNumberScheduled ds \<and> NumberReady ds = DesiredNumberScheduled ds \<and>
    (shown_workers old (catch_up w1) = stored_workers old (catch_up w1) \<longrightarrow> stored_workers old w1 = Some ds)"
proof -
  have "stored_workers old (catch_up v) = stored_workers old v" for v by (simp add: stored_workers_def)
  then show ?thesis
    using cached_status.becomes_ready[OF assms] unfolding cached_env_sel cached_client_Get cached_workers
    by (auto simp: ds_ready_def)
qed

section \<open>A rollout with informers that keep up\<close>

definition cdemo_env :: "cached_world manager_env" where
  "cdemo_env = manager_cached_env (\<lambda>_. []) (''private'', ''public'')"

definition cdemo_world :: cached_world where
  "cdemo_world = \<lparr>cw_Server = mdemo_rolled ''beta'', cw_Cache = mdemo_rolled ''beta'', cw_Events = []\<rparr>"

lemma cdemo_reconcile:
  obtains w' where "Manager_Reconcile cdemo_env mdemo_req cdemo_world = (Ok False, w')" "cw_Server w' = mdemo_done"
proof -
  obtain r w' where run: "Manager_Reconcile cdemo_env mdemo_req cdemo_world = (r, w')" by fastforce
  have "Manager_Reconcile mdemo_env mdemo_req (mdemo_rolled ''beta'') = (r, cw_Server w')"
    using caught_up_reconcile[OF _ run[unfolded cdemo_env_def]] by (simp add: cdemo_world_def mdemo_env_def)
  then show thesis using that run mdemo_reconcile by simp
qed

text \<open>While no events are waiting, what is shown is what is stored.\<close>

lemma shown_current: "cw_Events w = [] \<Longrightarrow> shown_workers manager (catch_up w) = stored_workers manager (catch_up w)"
  by (simp add: catch_up_now shown_workers_def stored_workers_def)

lemma cdemo_current:
  assumes "run_steps fs (catch_up cdemo_world) = (r, w)" and "list_all2 agrees fs gs"
  shows "cw_Events w = []"
  using agreesD(2)[OF agrees_run[OF assms(2)] _ assms(1)] by (simp add: cdemo_world_def catch_up_now)

theorem lustre_released_after_rollout_witness:
  "\<exists>w' w5 ds. Manager_Reconcile cdemo_env mdemo_req cdemo_world = (Ok False, w') \<and>
     held (stored_lustre (cw_Server cdemo_world)) (''default'', ''beta'') \<and>
     \<not> held (stored_lustre (cw_Server w')) (''default'', ''beta'') \<and>
     stored_workers mdemo_manager w5 = Some ds \<and> ds_ready ds"
proof -
  obtain w' where run: "Manager_Reconcile cdemo_env mdemo_req cdemo_world = (Ok False, w')" "cw_Server w' = mdemo_done"
    by (rule cdemo_reconcile)
  have h: "held (stored_lustre (cw_Server cdemo_world)) (''default'', ''beta'')"
      "\<not> held (stored_lustre (cw_Server w')) (''default'', ''beta'')"
    using mdemo_facts(1,2) run(2) by (simp_all add: cdemo_world_def)
  have m: "stored_manager (cw_Cache (catch_up cdemo_world)) mdemo_req = Some mdemo_manager"
    using mdemo_facts(3) by (simp add: cdemo_world_def catch_up_now)
  obtain w5 ds where w5: "run_steps (take 5 (manager_steps cdemo_env mdemo_manager)) (catch_up cdemo_world) = (Ok (), w5)"
      and st: "shown_workers mdemo_manager (catch_up (catch_up w5)) = stored_workers mdemo_manager (catch_up (catch_up w5)) \<and>
        shown_workers mdemo_manager (catch_up (catch_up (catch_up w5))) = stored_workers mdemo_manager (catch_up (catch_up (catch_up w5))) \<longrightarrow>
        stored_workers mdemo_manager w5 = Some ds \<and> ds_ready ds"
    using lustre_released_after_rollout[OF run(1)[unfolded cdemo_env_def] h] m unfolding cdemo_env_def by fastforce
  have "cw_Events w5 = []" by (rule cdemo_current[OF w5[unfolded cdemo_env_def]]) (rule list_all2_takeI[OF agrees_steps])
  then have "cw_Events (catch_up w5) = []" "cw_Events (catch_up (catch_up w5)) = []" by (simp_all add: catch_up_now)
  then show ?thesis using st shown_current run(1) h by blast
qed

theorem manager_ready_sound_witness:
  "\<exists>w' w1 ds. Manager_Reconcile cdemo_env mdemo_req cdemo_world = (Ok False, w') \<and>
     stored_manager (cw_Server w') mdemo_req = Some (mdemo_manager\<lparr>Ready := True\<rparr>) \<and>
     stored_workers mdemo_manager w1 = Some ds \<and> NumberReady ds = DesiredNumberScheduled ds"
proof -
  obtain w' where run: "Manager_Reconcile cdemo_env mdemo_req cdemo_world = (Ok False, w')" "cw_Server w' = mdemo_done"
    by (rule cdemo_reconcile)
  have m: "stored_manager (cw_Server cdemo_world) mdemo_req = Some mdemo_manager" "\<not> Ready mdemo_manager"
      "stored_manager (cw_Server w') mdemo_req = Some (mdemo_manager\<lparr>Ready := True\<rparr>)" "Ready (mdemo_manager\<lparr>Ready := True\<rparr>)"
    using mdemo_facts(3,4) run(2) by (simp_all add: cdemo_world_def mdemo_manager_def)
  from manager_ready_sound[OF run(1)[unfolded cdemo_env_def] m] obtain w1 ds where
      w1: "run_steps (manager_steps cdemo_env mdemo_manager) (catch_up cdemo_world) = (Ok (), w1)"
        "NumberReady ds = DesiredNumberScheduled ds"
        "shown_workers mdemo_manager (catch_up w1) = stored_workers mdemo_manager (catch_up w1) \<longrightarrow> stored_workers mdemo_manager w1 = Some ds"
    unfolding cdemo_env_def by blast
  have "cw_Events w1 = []" by (rule cdemo_current[OF w1(1)[unfolded cdemo_env_def] agrees_steps])
  then show ?thesis using w1 shown_current run(1) m(3) by blast
qed

section \<open>Informers that are behind\<close>

text \<open>
  The stored daemon set has \<open>beta\<close> among its volumes, since it was updated before \<open>beta\<close> was deleted. The cache has the
  daemon set as it was before that update, rolled out without \<open>beta\<close>; it is current in everything else.
\<close>

definition mounted :: "ManagedLustre list \<Rightarrow> int \<Rightarrow> DaemonSet" where
  "mounted fss generation =
     \<lparr>ds_Name = daemonsetName, ds_Namespace = ''dm-system'',
      ds_Owner = (case owned_by ''DaemonSet'' mdemo_manager None of Ok own \<Rightarrow> own | _ \<Rightarrow> None),
      ds_Selector = Selector mdemo_manager, ds_Labels = AList.update DataMovementWorkerLabel ''true'' (Selector mdemo_manager),
      ds_PodSpec = worker_podSpec mdemo_env mdemo_manager fss, ds_UpdateStrategy = UpdateStrategy mdemo_manager,
      Generation = generation, ObservedGeneration = 1, DesiredNumberScheduled = 2, UpdatedNumberScheduled = 2, NumberReady = 2\<rparr>"

definition prepared_lustre :: "string \<Rightarrow> time option \<Rightarrow> ManagedLustre" where
  "prepared_lustre name t = (mdemo_lustre name t [finalizer])\<lparr>lus_Namespaces := Some [(''dm-system'', [ReadWriteMany])]\<rparr>"

definition mounted_world :: "DaemonSet \<Rightarrow> manager_world" where
  "mounted_world ds =
     (mdemo_world ''beta'')\<lparr>mw_DaemonSets := [(''dm-system'', daemonsetName) \<mapsto> ds],
        mw_Lustre := [(''default'', ''alpha'') \<mapsto> prepared_lustre ''alpha'' None, (''default'', ''beta'') \<mapsto> prepared_lustre ''beta'' (Some 5)]\<rparr>"

definition behind_world :: cached_world where
  "behind_world =
     (let alpha = prepared_lustre ''alpha'' None; beta = prepared_lustre ''beta'' None; old = mounted_world (mounted [alpha] 1)
      in \<lparr>cw_Server = mounted_world (mounted [alpha, beta] 2), cw_Cache = old, cw_Events = replicate 12 old\<rparr>)"

text \<open>
  With such a cache the reconcile finds nothing to update in the daemon set, releases \<open>beta\<close> while the stored daemon
  set still mounts it, and leaves it mounted.
\<close>

lemma stale_cache_releases_mounted:
  "let w = behind_world
   in held (stored_lustre (cw_Server w)) (''default'', ''beta'') \<and>
   (case Manager_Reconcile cdemo_env mdemo_req w of
      (r, w') \<Rightarrow> r = Ok False \<and> \<not> held (stored_lustre (cw_Server w')) (''default'', ''beta'') \<and>
        map_option (\<lambda>ds. map vol_Name (Volumes (ds_PodSpec ds))) (stored_workers mdemo_manager w') =
          Some [''ssh-auth'', ''alpha'', ''beta'', ''nnf''])"
  by code_simp

end
