(* ===== verification/Spec2Isabelle.thy ===== *)
theory Spec2Isabelle
  imports Composition Dm_Manager_Cached
begin

text \<open>
  A model of NNF data movement (\<^verbatim>\<open>nnf-dm\<close>) and what it guarantees. The program has three parts that move data or
  look after those that do:

  \<^item> the data movement controller (\<^verbatim>\<open>src/internal/controller/datamovement_controller.go\<close> with the helpers of
    \<^verbatim>\<open>helpers/datamovement_helpers.go\<close>) reconciles \<^verbatim>\<open>NnfDataMovement\<close> resources: it runs one \<^verbatim>\<open>mpirun dcp\<close> command per
    resource in a goroutine and records its progress and outcome in the status;
  \<^item> the copy-offload daemon (\<^verbatim>\<open>src/daemons/copy-offload\<close>) takes requests of compute nodes over HTTP, makes the
    \<^verbatim>\<open>NnfDataMovement\<close> itself and runs the command itself; tokens for it are made by
    \<^verbatim>\<open>src/daemons/copy-offload-testing/make-jwt\<close>;
  \<^item> the data movement manager (\<^verbatim>\<open>src/internal/controller/datamovementmanager_controller.go\<close>) deploys the controller
    and the workers, and holds the global Lustre file systems while the workers mount them.

  \<^verbatim>\<open>src/cmd/main.go\<close> and \<^verbatim>\<open>src/daemons/copy-offload/cmd/main.go\<close> start them. The parts meet in the API server: the daemon
  creates data movements in namespaces that a controller watches, and the manager writes the deployment, and with it
  the command line, of the controller.

  \<^bold>\<open>Theories.\<close> Every theory models the code named here, in the order of the code.

  \<^item> \<open>Prelude\<close>: outcomes of Go calls (value, error, panic), shared lemmas, invariants of machines
    (\<open>invariant_machine\<close>). \<open>Go_Strings\<close>, \<open>Go_Regexp\<close>: what the code uses of \<^verbatim>\<open>strings\<close>, \<^verbatim>\<open>path\<close>, \<^verbatim>\<open>strconv\<close> and \<^verbatim>\<open>regexp\<close>.
    \<open>Go_Flags\<close>: command lines as \<^verbatim>\<open>flag.Parse\<close> reads them.
  \<^item> \<open>Dm_Types\<close>: API types, errors, and the environment \<open>env\<close>, a record of the calls to the API server, the shell and
    the file system over an arbitrary world. \<open>Cluster\<close>: an executable world with stale caches and failing writes.
  \<^item> \<open>Dcp_Output\<close>, \<open>Dm_Command\<close>, \<open>Dm_Destination\<close>, \<open>Mpi_Hosts\<close>: the helpers, one theory per group of functions.
  \<^item> \<open>Dm_Controller\<close>: \<open>Reconcile\<close> in its parts, \<open>cancel\<close>, and the goroutine of a command. \<open>Dm_Machine\<close>: the controller as
    a step relation (reconcile, output, progress, end of a command, restart, changes by others). \<open>Dm_Safety\<close>: its
    invariant and the properties of the controller.
  \<^item> \<open>Offload_Types\<close>, \<open>Offload_Create\<close>, \<open>Offload_Driver\<close>: requests, the planning of a data movement, and the driver with
    its table of requests, its goroutines and completions (\<^verbatim>\<open>pkg/driver\<close>), in normal and in mock mode. \<open>Offload_Machine\<close>: the daemon as a step
    relation with the abstract life cycle \<open>life_step\<close> that it refines (unknown, waiting, copying, completed, and lost:
    tracked for ever with nobody to end it). \<open>Offload_Cluster\<close>: the contracts \<open>direct_server\<close> of
    an API server that is read without a cache and \<open>creating_server\<close> of one that makes the names of new objects, and
    their interpretation on a server whose calls may fail or be lost. \<open>Offload_Safety\<close>, \<open>Offload_Results\<close>,
    \<open>Offload_Requests\<close>: properties of the daemon, of its writes, and of the functions that plan and answer requests.
    \<open>Offload_Store\<close>: what the daemon may do to the objects on the server. \<open>Offload_Mock\<close>: the mock mode.
  \<^item> \<open>Jwt_Token\<close>: base64, parsing, verifying and making tokens (\<^verbatim>\<open>golang-jwt\<close> as far as it is used). \<open>Offload_Server\<close>: the
    checks of a message, the handlers and the routes (\<^verbatim>\<open>pkg/server\<close>).
  \<^item> \<open>Dm_Manager\<close>: the manager's reconcile and its steps; before each read the informers may bring something new
    (\<open>g_Sync\<close>), and each update is made from an object that was read. \<open>Dm_Manager_Safety\<close>: contracts of the API server
    (\<open>lustre_server\<close>, \<open>status_server\<close>, both on \<open>manager_view\<close>; \<open>current_server\<close> for reads that are current) and what the
    manager guarantees under them. \<open>Dm_Manager_Cluster\<close>: an executable server that meets them, read as it is.
    \<open>Dm_Manager_Cached\<close>: the same server read through caches of any age, what the manager guarantees then, and that with
    informers that keep up (\<open>caught_up_reconcile\<close>) a reconcile is one with current reads. \<open>Dm_Manager_Results\<close>,
    \<open>Dm_Manager_Converges\<close>: properties that need current reads, and that a reconcile reaches a fixed point.
  \<^item> \<open>Startup\<close>: the three \<^verbatim>\<open>main\<close> functions with their command lines, and the whole way of a token from its key to an
    accepted message. \<open>Deployed\<close>: the manager together with the process it deploys. \<open>Composition\<close>: the daemon and a
    controller on one cluster.

  \<^bold>\<open>State.\<close> The contexts map of the reconciler and of the driver (\<^verbatim>\<open>sync.Map\<close>) are maps with a counter for fresh
  contexts; a running goroutine is an entry of a map from contexts to what it has read and parsed. The data movement
  that a record of the mock mode points to is kept by context, too. Errors are values
  of \<open>goerr\<close>; nil dereferences and index errors are the outcome \<open>Panic\<close>. Integers that may overflow are words.

  \<^bold>\<open>What is shown.\<close> Controller: at most one command per resource, protected and tracked while it runs; results are not
  lost, finished is final, cancelling and deleting take effect. Helpers: the exact commands, host files that come back,
  separate directories for separate index mounts, what of the output is kept and counted. Daemon: its requests follow
  the life cycle and are lost in two ways only, what runs can be listed and cancelled, its writes touch only their own status, its state changes only
  on signed messages, and it shuts down only when idle; stored data movements stay well-formed under its steps, and in
  mock mode it touches none. Manager: file systems are released, and readiness is set, only when the
  daemon set that was read is rolled out (the stored one, if the read was current); with current reads, file systems that go away are released after the
  rollout, reconciling again changes nothing, and what it deploys is the default controller.

  \<^bold>\<open>Findings.\<close> Some lemmas show that the code does not do what it means to, for example \<open>copy_failure_masked\<close>,
  \<open>lost_request_stays_listed\<close>, \<open>ParseDcpStats_never_sets_Links\<close>, \<open>reserved_name_blocks_release\<close>,
  \<open>stale_cache_releases_mounted\<close>, \<open>empty_key_disables_authentication\<close> and \<open>status_of_bad_name_panics\<close>; \<open>offload_copy_started_again\<close> shows one in the way the
  daemon and the controller work together.

  \<^bold>\<open>Bounds.\<close> No definition needs fuel: \<open>OnError\<close> recurses on the number of steps, which \<^verbatim>\<open>retry.DefaultRetry\<close> sets to
  five; every other loop is over its data or has a measure. A wait for a completion is a walk along a list of observed
  states, which stands for what other goroutines do meanwhile.

  \<^bold>\<open>Assumed of others.\<close> In the machine of the controller (\<open>api_env\<close>) others create, change, cancel and delete data
  movements, but they do not write the status and do not touch the controller's finalizer; the copy-offload daemon, which
  writes the status of its own data movements, is brought together with a controller only in \<open>Composition\<close>. During a
  reconcile of the manager nobody else writes, and the server sets no defaults in what it stores; between two reads the caches
  may change in any way. The versions of objects are compared in updates as the objects themselves.

  \<^bold>\<open>Not modelled.\<close> The registration with controller-runtime (\<^verbatim>\<open>SetupWithManager\<close>) beyond the namespace filter, that is which
  events lead to a reconcile: the machines take a reconcile at any time; Prometheus counters and logs;
  HTTP and TLS transport; JSON, PEM, hashes and key generation (parameters with named laws); the formatting of times;
  the C client library and its test tools. A reconcile and a handler of the server are one step: other goroutines run
  between the steps, and in a trial request also between its creation and its start.
\<close>

end
